(* ===== verification/Prelude.thy ===== *)
theory Prelude
  imports Main "HOL-Library.Word" "HOL-Library.Sublist"
begin

text \<open>
  The shared vocabulary of the development: the machine types of the C++ code, the
  exceptions it throws and the result type of a function that may throw, the
  \<^verbatim>\<open>std::string\<close> operations the components use, and the lemmas and theorem
  collections that the component theories share.
\<close>

section \<open>Machine types\<close>

text \<open>
  Unsigned integers wrap, so they are words. The signed types \<^verbatim>\<open>int\<close> and
  \<^verbatim>\<open>std::int64_t\<close> are \<^typ>\<open>int\<close>: their overflow is undefined behaviour in C++, so a
  value in range is an invariant (\<open>int32_ok\<close>, \<open>int64_ok\<close>) and the absence of overflow
  is something to prove. Floats are their IEEE-754 bit patterns.
\<close>

type_synonym u8 = "8 word"
type_synonym u32 = "32 word"
type_synonym u64 = "64 word"
type_synonym f32 = "32 word"
type_synonym f64 = "64 word"

abbreviation INT_MAX :: int where "INT_MAX \<equiv> 2147483647"
abbreviation INT64_MAX :: int where "INT64_MAX \<equiv> 9223372036854775807"

definition int32_ok :: "int \<Rightarrow> bool" where
  "int32_ok i \<longleftrightarrow> -2147483648 \<le> i \<and> i \<le> INT_MAX"

definition int64_ok :: "int \<Rightarrow> bool" where
  "int64_ok i \<longleftrightarrow> -9223372036854775808 \<le> i \<and> i \<le> INT64_MAX"

lemma int32_ok_sint [simp]: "int32_ok (sint (w :: u32))"
  using sint_ge [of w] sint_lt [of w] by (simp add: int32_ok_def)

lemma int64_ok_sint [simp]: "int64_ok (sint (w :: u64))"
  using sint_ge [of w] sint_lt [of w] by (simp add: int64_ok_def)

lemma sint_word_of_int32 [simp]:
  "int32_ok i \<Longrightarrow> sint (word_of_int i :: u32) = i"
  by (simp add: int32_ok_def sint_word_ariths signed_of_int signed_take_bit_int_eq_self)

lemma sint_word_of_int64 [simp]:
  "int64_ok i \<Longrightarrow> sint (word_of_int i :: u64) = i"
  by (simp add: int64_ok_def sint_word_ariths signed_of_int signed_take_bit_int_eq_self)

lemma word_of_sint [simp]: "word_of_int (sint (w :: 'a::len word)) = w"
  by simp

section \<open>Exceptions and results\<close>

datatype cpp_exn =
    Invalid_argument string
  | Runtime_error string
  | Out_of_range string
  | System_error string
  | Recording_not_found string

type_synonym 'a result = "cpp_exn + 'a"

named_theorems result_simps \<open>equations and inversions of the result combinators\<close>
named_theorems enum_simps \<open>definitions of enum serialisations\<close>
named_theorems guard_simps \<open>definitions of validity predicates\<close>

definition bindE :: "'a result \<Rightarrow> ('a \<Rightarrow> 'b result) \<Rightarrow> 'b result" where
  "bindE m f = (case m of Inl e \<Rightarrow> Inl e | Inr a \<Rightarrow> f a)"

text \<open>\<^verbatim>\<open>if (bad) throw e;\<close>\<close>

definition throw_if :: "bool \<Rightarrow> cpp_exn \<Rightarrow> unit result" where
  "throw_if bad e = (if bad then Inl e else Inr ())"

text \<open>\<^verbatim>\<open>try { m } catch (...) { h }\<close>, the handler not seeing the exception.\<close>

definition catchE :: "'a result \<Rightarrow> 'a result \<Rightarrow> 'a result" where
  "catchE m h = (case m of Inl e \<Rightarrow> h | Inr a \<Rightarrow> Inr a)"

fun mapE :: "('a \<Rightarrow> 'b result) \<Rightarrow> 'a list \<Rightarrow> 'b list result" where
  "mapE f [] = Inr []"
| "mapE f (x # xs) = bindE (f x) (\<lambda>y. bindE (mapE f xs) (\<lambda>ys. Inr (y # ys)))"

lemma bindE_simps [simp, result_simps]:
  "bindE (Inl e) f = Inl e"
  "bindE (Inr a) f = f a"
  by (simp_all add: bindE_def)

lemma bindE_Inr_iff [result_simps]:
  "bindE m f = Inr b \<longleftrightarrow> (\<exists>a. m = Inr a \<and> f a = Inr b)"
  by (cases m) auto

lemma bindE_Inl_iff [result_simps]:
  "bindE m f = Inl e \<longleftrightarrow> m = Inl e \<or> (\<exists>a. m = Inr a \<and> f a = Inl e)"
  by (cases m) auto

lemma throw_if_Inr_iff [simp, result_simps]: "throw_if b e = Inr u \<longleftrightarrow> \<not> b"
  by (simp add: throw_if_def)

lemma throw_if_Inl_iff [simp, result_simps]: "throw_if b e = Inl e' \<longleftrightarrow> b \<and> e' = e"
  by (auto simp: throw_if_def)

lemma throw_if_simps [simp]: "throw_if True e = Inl e" "throw_if False e = Inr ()"
  by (simp_all add: throw_if_def)

lemma bindE_assoc: "bindE (bindE m f) g = bindE m (\<lambda>a. bindE (f a) g)"
  by (cases m) simp_all

lemma mapE_Inr_iff:
  "mapE f xs = Inr ys \<longleftrightarrow> list_all2 (\<lambda>x y. f x = Inr y) xs ys"
  by (induction xs arbitrary: ys)
     (auto simp: result_simps list_all2_Cons1)

lemma mapE_length: "mapE f xs = Inr ys \<Longrightarrow> length ys = length xs"
  by (auto simp: mapE_Inr_iff dest: list_all2_lengthD)

lemma mapE_all_Inr: "(\<And>x. x \<in> set xs \<Longrightarrow> f x = Inr (g x)) \<Longrightarrow> mapE f xs = Inr (map g xs)"
  by (induction xs) auto

lemma mapE_append:
  "mapE f (xs @ ys) = bindE (mapE f xs) (\<lambda>as. bindE (mapE f ys) (\<lambda>bs. Inr (as @ bs)))"
  by (induction xs) (auto simp: bindE_def split: sum.splits)

definition is_ok :: "'a result \<Rightarrow> bool" where
  "is_ok r \<longleftrightarrow> (case r of Inl _ \<Rightarrow> False | Inr _ \<Rightarrow> True)"

lemma is_ok_simps [simp]: "is_ok (Inr a)" "\<not> is_ok (Inl e)"
  by (simp_all add: is_ok_def)

lemma is_ok_iff: "is_ok r \<longleftrightarrow> (\<exists>a. r = Inr a)"
  by (cases r) auto

lemma mapE_is_ok: "(\<And>x. x \<in> set xs \<Longrightarrow> is_ok (f x)) \<Longrightarrow> is_ok (mapE f xs)"
  by (induction xs) (fastforce simp: is_ok_iff)+

section \<open>Strings\<close>

text \<open>
  A \<^verbatim>\<open>std::string\<close> is a sequence of bytes, and so is a HOL \<^typ>\<open>string\<close>. The code reads
  characters either as \<^verbatim>\<open>char\<close> in comparisons with ASCII characters or as
  \<^verbatim>\<open>unsigned char\<close>; both are comparisons of the byte \<^term>\<open>of_char c :: nat\<close> (an
  ASCII range never contains a negative \<^verbatim>\<open>char\<close>).
\<close>

abbreviation byte_of :: "char \<Rightarrow> nat" where "byte_of c \<equiv> of_char c"

lemma byte_of_less_256: "byte_of c < 256"
  by (simp add: of_char_def)

definition is_lower :: "char \<Rightarrow> bool" where
  "is_lower c \<longleftrightarrow> 97 \<le> byte_of c \<and> byte_of c \<le> 122"

definition is_upper :: "char \<Rightarrow> bool" where
  "is_upper c \<longleftrightarrow> 65 \<le> byte_of c \<and> byte_of c \<le> 90"

definition is_digit :: "char \<Rightarrow> bool" where
  "is_digit c \<longleftrightarrow> 48 \<le> byte_of c \<and> byte_of c \<le> 57"

text \<open>\<^verbatim>\<open>s.rfind(p, 0U) == 0U\<close>: a prefix test.\<close>

definition starts_with :: "string \<Rightarrow> string \<Rightarrow> bool" where
  "starts_with p s \<longleftrightarrow> prefix p s"

text \<open>\<^verbatim>\<open>s.find(c, from)\<close>: the index of the first \<open>c\<close> at or after \<open>from\<close>.\<close>

fun find_char :: "char \<Rightarrow> string \<Rightarrow> nat option" where
  "find_char c [] = None"
| "find_char c (x # xs) = (if x = c then Some 0 else map_option Suc (find_char c xs))"

definition find_from :: "char \<Rightarrow> nat \<Rightarrow> string \<Rightarrow> nat option" where
  "find_from c from s = map_option ((+) from) (find_char c (drop from s))"

text \<open>\<^verbatim>\<open>s.rfind(c)\<close>: the index of the last \<open>c\<close>.\<close>

definition rfind_char :: "char \<Rightarrow> string \<Rightarrow> nat option" where
  "rfind_char c s = map_option (\<lambda>i. length s - 1 - i) (find_char c (rev s))"

text \<open>\<^verbatim>\<open>s.find(sub) != npos\<close>.\<close>

definition contains_str :: "string \<Rightarrow> string \<Rightarrow> bool" where
  "contains_str sub s \<longleftrightarrow> sublist sub s"

lemma find_char_None: "find_char c s = None \<longleftrightarrow> c \<notin> set s"
  by (induction s) auto

lemma find_char_Some:
  "find_char c s = Some i \<longleftrightarrow> i < length s \<and> s ! i = c \<and> c \<notin> set (take i s)"
proof (induction s arbitrary: i)
  case Nil
  then show ?case by simp
next
  case (Cons x xs)
  then show ?case by (cases i) auto
qed

lemma find_char_append:
  "c \<notin> set xs \<Longrightarrow> find_char c (xs @ c # ys) = Some (length xs)"
  by (induction xs) auto

lemma find_from_None: "find_from c from s = None \<longleftrightarrow> c \<notin> set (drop from s)"
  by (simp add: find_from_def find_char_None)

lemma rfind_char_None: "rfind_char c s = None \<longleftrightarrow> c \<notin> set s"
  by (simp add: rfind_char_def find_char_None)

lemma rfind_char_split:
  "c \<notin> set ys \<Longrightarrow> rfind_char c (xs @ c # ys) = Some (length xs)"
  using find_char_append [of c "rev ys" "rev xs"] by (simp add: rfind_char_def)

text \<open>\<^verbatim>\<open>std::to_string\<close> of an unsigned value.\<close>

definition digit_char :: "nat \<Rightarrow> char" where
  "digit_char d = char_of (48 + d)"

fun nat_str :: "nat \<Rightarrow> string" where
  "nat_str n = (if n < 10 then [digit_char n] else nat_str (n div 10) @ [digit_char (n mod 10)])"

declare nat_str.simps [simp del]

definition int_str :: "int \<Rightarrow> string" where
  "int_str i = (if i < 0 then CHR ''-'' # nat_str (nat (- i)) else nat_str (nat i))"

text \<open>The value of a digit sequence, as \<^verbatim>\<open>std::stoi\<close> accumulates it.\<close>

definition digits_val :: "string \<Rightarrow> nat" where
  "digits_val s = foldl (\<lambda>v c. 10 * v + (byte_of c - 48)) 0 s"

lemma digits_val_append: "digits_val (s @ [c]) = 10 * digits_val s + (byte_of c - 48)"
  by (simp add: digits_val_def)

lemma is_digit_digit_char: "d < 10 \<Longrightarrow> is_digit (digit_char d)"
  by (simp add: is_digit_def digit_char_def)

lemma byte_of_digit_char: "d < 10 \<Longrightarrow> byte_of (digit_char d) = 48 + d"
  by (simp add: digit_char_def)

lemma nat_str_nonempty: "nat_str n \<noteq> []"
  by (subst nat_str.simps) simp

lemma nat_str_digits: "list_all is_digit (nat_str n)"
proof (induction n rule: nat_str.induct)
  case (1 n)
  then show ?case
    by (cases "n < 10") (simp_all add: nat_str.simps [of n] is_digit_digit_char)
qed

lemma digits_val_nat_str: "digits_val (nat_str n) = n"
proof (induction n rule: nat_str.induct)
  case (1 n)
  show ?case
  proof (cases "n < 10")
    case True
    then show ?thesis
      by (simp add: nat_str.simps [of n] digits_val_def byte_of_digit_char)
  next
    case False
    with 1 show ?thesis
      by (simp add: nat_str.simps [of n] digits_val_append byte_of_digit_char)
  qed
qed

lemma nat_str_inj: "nat_str m = nat_str n \<longleftrightarrow> m = n"
  by (metis digits_val_nat_str)

end
