(* ===== verification/Contracts.thy ===== *)
theory Contracts
  imports Prelude "HOL-Library.Product_Lexorder"
begin

text \<open>
  The vendor-neutral value contracts: \<^verbatim>\<open>include/nodus_vision/camera_contracts.hpp\<close>,
  \<^verbatim>\<open>include/nodus_vision/provider_health.hpp\<close> and their serialisations in \<^verbatim>\<open>src/core/\<close>,
  and the order on frame identities that five translation units implement separately.
\<close>

section \<open>Enumerations and their stable text\<close>

datatype PixelFormat = PF_UNKNOWN | PF_RGB8 | PF_BGR8 | PF_Z16

datatype DeviceTimestampDomain = TD_UNKNOWN | TD_HARDWARE_CLOCK | TD_SYSTEM_TIME | TD_GLOBAL_TIME

datatype DistortionModel =
    DM_UNKNOWN | DM_NONE | DM_MODIFIED_BROWN_CONRADY | DM_INVERSE_BROWN_CONRADY
  | DM_FTHETA | DM_BROWN_CONRADY | DM_KANNALA_BRANDT4

datatype CameraLifecycle = CL_DISCONNECTED | CL_CONNECTED | CL_STREAMING | CL_DEGRADED

datatype ProviderState = PS_STARTING | PS_READY | PS_DEGRADED | PS_STOPPING

datatype PilotIntegrationState =
    PI_DISABLED | PI_REGISTERING | PI_ONLINE | PI_RECOVERING | PI_CONTRACT_FAULT
  | PI_STOPPING | PI_STOPPED

fun toString_PixelFormat :: "PixelFormat \<Rightarrow> string" where
  "toString_PixelFormat PF_RGB8 = ''rgb8''"
| "toString_PixelFormat PF_BGR8 = ''bgr8''"
| "toString_PixelFormat PF_Z16 = ''z16''"
| "toString_PixelFormat PF_UNKNOWN = ''unknown''"

fun toString_DeviceTimestampDomain :: "DeviceTimestampDomain \<Rightarrow> string" where
  "toString_DeviceTimestampDomain TD_HARDWARE_CLOCK = ''hardware_clock''"
| "toString_DeviceTimestampDomain TD_SYSTEM_TIME = ''system_time''"
| "toString_DeviceTimestampDomain TD_GLOBAL_TIME = ''global_time''"
| "toString_DeviceTimestampDomain TD_UNKNOWN = ''unknown''"

fun toString_DistortionModel :: "DistortionModel \<Rightarrow> string" where
  "toString_DistortionModel DM_NONE = ''none''"
| "toString_DistortionModel DM_MODIFIED_BROWN_CONRADY = ''modified_brown_conrady''"
| "toString_DistortionModel DM_INVERSE_BROWN_CONRADY = ''inverse_brown_conrady''"
| "toString_DistortionModel DM_FTHETA = ''ftheta''"
| "toString_DistortionModel DM_BROWN_CONRADY = ''brown_conrady''"
| "toString_DistortionModel DM_KANNALA_BRANDT4 = ''kannala_brandt4''"
| "toString_DistortionModel DM_UNKNOWN = ''unknown''"

fun toString_CameraLifecycle :: "CameraLifecycle \<Rightarrow> string" where
  "toString_CameraLifecycle CL_CONNECTED = ''connected''"
| "toString_CameraLifecycle CL_STREAMING = ''streaming''"
| "toString_CameraLifecycle CL_DEGRADED = ''degraded''"
| "toString_CameraLifecycle CL_DISCONNECTED = ''disconnected''"

fun toString_ProviderState :: "ProviderState \<Rightarrow> string" where
  "toString_ProviderState PS_READY = ''ready''"
| "toString_ProviderState PS_DEGRADED = ''degraded''"
| "toString_ProviderState PS_STOPPING = ''stopping''"
| "toString_ProviderState PS_STARTING = ''starting''"

fun toString_PilotIntegrationState :: "PilotIntegrationState \<Rightarrow> string" where
  "toString_PilotIntegrationState PI_REGISTERING = ''registering''"
| "toString_PilotIntegrationState PI_ONLINE = ''online''"
| "toString_PilotIntegrationState PI_RECOVERING = ''recovering''"
| "toString_PilotIntegrationState PI_CONTRACT_FAULT = ''contract_fault''"
| "toString_PilotIntegrationState PI_STOPPING = ''stopping''"
| "toString_PilotIntegrationState PI_STOPPED = ''stopped''"
| "toString_PilotIntegrationState PI_DISABLED = ''disabled''"

section \<open>Value records\<close>

record StreamProfile =
  sp_width :: int
  sp_height :: int
  sp_fps :: int
  sp_format :: PixelFormat

record CameraIntrinsics =
  in_width :: int
  in_height :: int
  in_fx :: f32
  in_fy :: f32
  in_ppx :: f32
  in_ppy :: f32
  in_distortion_model :: DistortionModel
  in_distortion_coefficients :: "f32 list"

record FrameIdentity =
  capture_generation :: u64
  frame_number :: u64
  capture_timestamp_ns :: int
  capture_unix_epoch_ns :: int
  device_timestamp :: f64
  device_timestamp_domain :: DeviceTimestampDomain

record FrameSnapshot =
  fs_identity :: FrameIdentity
  fs_depth_profile :: StreamProfile
  fs_color_profile :: StreamProfile
  fs_depth_intrinsics :: CameraIntrinsics
  fs_color_intrinsics :: CameraIntrinsics
  fs_depth_scale_m :: f32
  fs_has_color :: bool
  fs_has_depth :: bool

text \<open>
  A view borrows the bytes of a frame. \<open>vf_owner\<close> tells whether the owning pointer is set
  and \<open>vf_data\<close> is \<^const>\<open>None\<close> for a null data pointer.
\<close>

record VideoFrameView =
  vf_width :: int
  vf_height :: int
  vf_stride_bytes :: int
  vf_format :: PixelFormat
  vf_owner :: bool
  vf_data :: "u8 list option"
  vf_identity :: FrameIdentity

record PixelPointResult =
  pp_identity :: FrameIdentity
  pp_pixel_x :: int
  pp_pixel_y :: int
  pp_valid :: bool
  pp_depth_m :: f32
  pp_optical_point_m :: "f32 \<times> f32 \<times> f32"
  pp_invalid_reason :: string

record PixelRoi =
  roi_x :: int
  roi_y :: int
  roi_width :: int
  roi_height :: int

record RoiDepthResult =
  rd_identity :: FrameIdentity
  rd_requested_roi :: PixelRoi
  rd_clamped_roi :: PixelRoi
  rd_pixel_count :: u64
  rd_valid_pixel_count :: u64
  rd_fill_rate :: f32
  rd_valid :: bool
  rd_min_depth_m :: f32
  rd_max_depth_m :: f32
  rd_mean_depth_m :: f32
  rd_median_depth_m :: f32
  rd_median_pixel_x :: int
  rd_median_pixel_y :: int
  rd_median_optical_point_m :: "f32 \<times> f32 \<times> f32"

record PointCloudPoint =
  pt_optical_point_m :: "f32 \<times> f32 \<times> f32"
  pt_color_rgb :: "u8 \<times> u8 \<times> u8"

record PointCloudSnapshot =
  pc_identity :: FrameIdentity
  pc_source_profile :: StreamProfile
  pc_source_intrinsics :: CameraIntrinsics
  pc_requested_stride_pixels :: int
  pc_stride_pixels :: int
  pc_matrix3x4 :: "f32 list"
  pc_points :: "PointCloudPoint list"

record CameraHealthSnapshot =
  ch_lifecycle :: CameraLifecycle
  ch_device_id :: string
  ch_device_name :: string
  ch_latest_identity :: FrameIdentity
  ch_latest_frame_age_ms :: int
  ch_timeout_count :: u64
  ch_drop_count :: u64
  ch_last_diagnostic :: string

record PilotIntegrationSnapshot =
  ps_enabled :: bool
  ps_state :: PilotIntegrationState
  ps_server_instance_id :: string
  ps_catalog_generation :: u64
  ps_descriptor_count :: int
  ps_retry_count :: int
  ps_last_success_age_ms :: int
  ps_last_error :: string

record ProviderHealthSnapshot =
  ph_state :: ProviderState
  ph_listening :: bool
  ph_active_connections :: int
  ph_max_connections :: int
  ph_active_stream_clients :: int
  ph_max_stream_clients :: int
  ph_camera :: CameraHealthSnapshot
  ph_pilot :: PilotIntegrationSnapshot
  ph_last_error :: string

section \<open>The captured frame interface\<close>

text \<open>
  \<^verbatim>\<open>class CapturedFrame\<close> (\<^verbatim>\<open>include/nodus_vision/camera_adapter.hpp\<close>) is an abstract class of
  immutable objects: a value of it is what its virtual functions return. The queries may
  throw, so they return results; an empty \<^verbatim>\<open>std::optional\<close> is \<^const>\<open>None\<close>.
\<close>

record CapturedFrame =
  getSnapshot :: FrameSnapshot
  getColorFrameView :: "VideoFrameView option"
  getDepthPreviewFrameView :: "VideoFrameView option"
  queryPixelPoint :: "int \<Rightarrow> int \<Rightarrow> PixelPointResult option result"
  queryDepthInRoi :: "int \<Rightarrow> int \<Rightarrow> int \<Rightarrow> int \<Rightarrow> RoiDepthResult result"
  buildPointCloudSnapshot :: "nat \<Rightarrow> int \<Rightarrow> PointCloudSnapshot result"

abbreviation frame_identity :: "CapturedFrame \<Rightarrow> FrameIdentity" where
  "frame_identity f \<equiv> fs_identity (getSnapshot f)"

section \<open>Default values\<close>

text \<open>The in-class member initialisers, i.e.\ the values of \<^verbatim>\<open>T{}\<close>.\<close>

definition default_StreamProfile :: StreamProfile where
  "default_StreamProfile = \<lparr>sp_width = 0, sp_height = 0, sp_fps = 0, sp_format = PF_UNKNOWN\<rparr>"

definition default_CameraIntrinsics :: CameraIntrinsics where
  "default_CameraIntrinsics = \<lparr>in_width = 0, in_height = 0, in_fx = 0, in_fy = 0, in_ppx = 0,
     in_ppy = 0, in_distortion_model = DM_UNKNOWN, in_distortion_coefficients = [0, 0, 0, 0, 0]\<rparr>"

definition default_FrameIdentity :: FrameIdentity where
  "default_FrameIdentity = \<lparr>capture_generation = 0, frame_number = 0, capture_timestamp_ns = 0,
     capture_unix_epoch_ns = 0, device_timestamp = 0, device_timestamp_domain = TD_UNKNOWN\<rparr>"

definition default_FrameSnapshot :: FrameSnapshot where
  "default_FrameSnapshot = \<lparr>fs_identity = default_FrameIdentity,
     fs_depth_profile = default_StreamProfile, fs_color_profile = default_StreamProfile,
     fs_depth_intrinsics = default_CameraIntrinsics, fs_color_intrinsics = default_CameraIntrinsics,
     fs_depth_scale_m = 0, fs_has_color = False, fs_has_depth = False\<rparr>"

definition default_PixelPointResult :: PixelPointResult where
  "default_PixelPointResult = \<lparr>pp_identity = default_FrameIdentity, pp_pixel_x = 0, pp_pixel_y = 0,
     pp_valid = False, pp_depth_m = 0, pp_optical_point_m = (0, 0, 0), pp_invalid_reason = []\<rparr>"

definition default_PixelRoi :: PixelRoi where
  "default_PixelRoi = \<lparr>roi_x = 0, roi_y = 0, roi_width = 0, roi_height = 0\<rparr>"

definition default_RoiDepthResult :: RoiDepthResult where
  "default_RoiDepthResult = \<lparr>rd_identity = default_FrameIdentity,
     rd_requested_roi = default_PixelRoi, rd_clamped_roi = default_PixelRoi, rd_pixel_count = 0,
     rd_valid_pixel_count = 0, rd_fill_rate = 0, rd_valid = False, rd_min_depth_m = 0,
     rd_max_depth_m = 0, rd_mean_depth_m = 0, rd_median_depth_m = 0, rd_median_pixel_x = 0,
     rd_median_pixel_y = 0, rd_median_optical_point_m = (0, 0, 0)\<rparr>"

text \<open>\<open>1065353216\<close> is the bit pattern of \<^verbatim>\<open>1.0F\<close>.\<close>

definition default_PointCloudSnapshot :: PointCloudSnapshot where
  "default_PointCloudSnapshot = \<lparr>pc_identity = default_FrameIdentity,
     pc_source_profile = default_StreamProfile, pc_source_intrinsics = default_CameraIntrinsics,
     pc_requested_stride_pixels = 1, pc_stride_pixels = 1,
     pc_matrix3x4 = [1065353216, 0, 0, 0, 0, 1065353216, 0, 0, 0, 0, 1065353216, 0],
     pc_points = []\<rparr>"

definition default_CameraHealthSnapshot :: CameraHealthSnapshot where
  "default_CameraHealthSnapshot = \<lparr>ch_lifecycle = CL_DISCONNECTED, ch_device_id = [],
     ch_device_name = [], ch_latest_identity = default_FrameIdentity, ch_latest_frame_age_ms = -1,
     ch_timeout_count = 0, ch_drop_count = 0, ch_last_diagnostic = []\<rparr>"

definition default_PilotIntegrationSnapshot :: PilotIntegrationSnapshot where
  "default_PilotIntegrationSnapshot = \<lparr>ps_enabled = False, ps_state = PI_DISABLED,
     ps_server_instance_id = [], ps_catalog_generation = 0, ps_descriptor_count = 0,
     ps_retry_count = 0, ps_last_success_age_ms = -1, ps_last_error = []\<rparr>"

definition default_ProviderHealthSnapshot :: ProviderHealthSnapshot where
  "default_ProviderHealthSnapshot = \<lparr>ph_state = PS_STARTING, ph_listening = False,
     ph_active_connections = 0, ph_max_connections = 0, ph_active_stream_clients = 0,
     ph_max_stream_clients = 0, ph_camera = default_CameraHealthSnapshot,
     ph_pilot = default_PilotIntegrationSnapshot, ph_last_error = []\<rparr>"

section \<open>The order on frame identities\<close>

text \<open>
  Five translation units compare identities; each version is modelled as it is written.
\<close>

text \<open>\<^verbatim>\<open>src/core/frame_store.cpp\<close>\<close>

definition frame_store_isNewerIdentity :: "FrameIdentity \<Rightarrow> FrameIdentity \<Rightarrow> bool" where
  "frame_store_isNewerIdentity candidate current =
     (if capture_generation candidate \<noteq> capture_generation current
      then capture_generation candidate > capture_generation current
      else frame_number candidate > frame_number current)"

text \<open>\<^verbatim>\<open>src/provider/http/encoded_preview_cache.cpp\<close>\<close>

definition cache_isNewer :: "FrameIdentity \<Rightarrow> FrameIdentity \<Rightarrow> bool" where
  "cache_isNewer candidate current \<longleftrightarrow>
     capture_generation candidate > capture_generation current \<or>
     (capture_generation candidate = capture_generation current \<and>
      frame_number candidate > frame_number current)"

text \<open>\<^verbatim>\<open>src/provider/http/provider_http_server.cpp\<close>\<close>

definition http_isNewerIdentity :: "FrameIdentity \<Rightarrow> FrameIdentity \<Rightarrow> bool" where
  "http_isNewerIdentity candidate current \<longleftrightarrow>
     capture_generation candidate > capture_generation current \<or>
     (capture_generation candidate = capture_generation current \<and>
      frame_number candidate > frame_number current)"

text \<open>\<^verbatim>\<open>src/recording/recording_manager.cpp\<close>\<close>

definition manager_isStrictlyAfter :: "FrameIdentity \<Rightarrow> FrameIdentity \<Rightarrow> bool" where
  "manager_isStrictlyAfter candidate previous \<longleftrightarrow>
     capture_generation candidate > capture_generation previous \<or>
     (capture_generation candidate = capture_generation previous \<and>
      frame_number candidate > frame_number previous)"

text \<open>\<^verbatim>\<open>src/recording/recording_manifest.cpp\<close>\<close>

definition manifest_isStrictlyAfter :: "FrameIdentity \<Rightarrow> FrameIdentity \<Rightarrow> bool" where
  "manifest_isStrictlyAfter candidate previous \<longleftrightarrow>
     capture_generation candidate > capture_generation previous \<or>
     (capture_generation candidate = capture_generation previous \<and>
      frame_number candidate > frame_number previous)"

text \<open>
  The specification: identities are compared by the key (generation, number) in
  lexicographic order, a linear order of its own type.
\<close>

datatype frame_key = Frame_Key (key_generation: u64) (key_number: u64)

instantiation frame_key :: linorder
begin

definition less_eq_frame_key :: "frame_key \<Rightarrow> frame_key \<Rightarrow> bool" where
  "less_eq_frame_key a b \<longleftrightarrow> (key_generation a, key_number a) \<le> (key_generation b, key_number b)"

definition less_frame_key :: "frame_key \<Rightarrow> frame_key \<Rightarrow> bool" where
  "less_frame_key a b \<longleftrightarrow> (key_generation a, key_number a) < (key_generation b, key_number b)"

instance
  by standard
     (auto simp: less_eq_frame_key_def less_frame_key_def frame_key.expand split: if_splits)

end

definition key_of :: "FrameIdentity \<Rightarrow> frame_key" where
  "key_of i = Frame_Key (capture_generation i) (frame_number i)"

lemma key_less_iff:
  "key_of a < key_of b \<longleftrightarrow>
     capture_generation a < capture_generation b \<or>
     (capture_generation a = capture_generation b \<and> frame_number a < frame_number b)"
  by (auto simp: less_frame_key_def key_of_def)

lemma frame_store_isNewerIdentity_key: "frame_store_isNewerIdentity c i \<longleftrightarrow> key_of i < key_of c"
  by (auto simp: frame_store_isNewerIdentity_def key_less_iff)

lemma cache_isNewer_key: "cache_isNewer c i \<longleftrightarrow> key_of i < key_of c"
  by (auto simp: cache_isNewer_def key_less_iff)

lemma http_isNewerIdentity_key: "http_isNewerIdentity c i \<longleftrightarrow> key_of i < key_of c"
  by (auto simp: http_isNewerIdentity_def key_less_iff)

lemma manager_isStrictlyAfter_key: "manager_isStrictlyAfter c i \<longleftrightarrow> key_of i < key_of c"
  by (auto simp: manager_isStrictlyAfter_def key_less_iff)

lemma manifest_isStrictlyAfter_key: "manifest_isStrictlyAfter c i \<longleftrightarrow> key_of i < key_of c"
  by (auto simp: manifest_isStrictlyAfter_def key_less_iff)

lemmas identity_order_keys =
  frame_store_isNewerIdentity_key cache_isNewer_key http_isNewerIdentity_key
  manager_isStrictlyAfter_key manifest_isStrictlyAfter_key

end
