(* ===== verification/FrameStore.thy ===== *)
theory FrameStore
  imports Contracts "HOL-Library.Multiset"
begin

text \<open>
  The latest-wins slots: \<^verbatim>\<open>FrameStore\<close> (\<^verbatim>\<open>src/core/frame_store.cpp\<close>) and
  \<^verbatim>\<open>EncodedPreviewCache\<close> (\<^verbatim>\<open>src/provider/http/encoded_preview_cache.cpp\<close>). Every method
  holds the object's mutex for its whole body, so each is one atomic step on the state.
  \<^verbatim>\<open>steady_clock\<close> readings are integers in nanoseconds, passed as the argument \<open>now\<close>.
  What both classes promise is the locale \<open>latest_slot\<close>, proved once and interpreted on
  the store and on both preview slots.
\<close>

section \<open>The contract of a latest-wins slot\<close>

text \<open>A history of publications, each with its clock reading, run in order.\<close>

primrec publish_all :: "(int \<Rightarrow> 'v \<Rightarrow> 's \<Rightarrow> bool \<times> 's) \<Rightarrow> (int \<times> 'v) list \<Rightarrow> 's \<Rightarrow> 's" where
  "publish_all pub [] s = s"
| "publish_all pub (p # ps) s = publish_all pub ps (snd (pub (fst p) (snd p) s))"

locale latest_slot =
  fixes publish :: "int \<Rightarrow> 'v \<Rightarrow> 's \<Rightarrow> bool \<times> 's"
    and current :: "'s \<Rightarrow> 'v option"
    and key :: "'v \<Rightarrow> 'k::linorder"
    and admissible :: "'v \<Rightarrow> bool"
  assumes publish_accepts:
      "admissible v \<Longrightarrow> (\<And>w. current s = Some w \<Longrightarrow> key w < key v) \<Longrightarrow>
         fst (publish t v s) \<and> current (snd (publish t v s)) = Some v"
    and publish_rejects_inadmissible: "\<not> admissible v \<Longrightarrow> publish t v s = (False, s)"
    and publish_rejects_stale:
      "current s = Some w \<Longrightarrow> key v \<le> key w \<Longrightarrow> publish t v s = (False, s)"
begin

lemma publish_cases:
  obtains (accepted) "admissible v" "fst (publish t v s)" "current (snd (publish t v s)) = Some v"
      "\<And>w. current s = Some w \<Longrightarrow> key w < key v"
  | (inadmissible) "\<not> admissible v" "publish t v s = (False, s)"
  | (stale) w where "current s = Some w" "key v \<le> key w" "publish t v s = (False, s)"
proof (cases "admissible v")
  case False
  then show thesis
    using inadmissible publish_rejects_inadmissible by blast
next
  case True
  show thesis
  proof (cases "\<exists>w. current s = Some w \<and> key v \<le> key w")
    case True
    then show thesis
      using stale publish_rejects_stale by blast
  next
    case False
    then have "\<And>w. current s = Some w \<Longrightarrow> key w < key v" by auto
    with \<open>admissible v\<close> show thesis
      using accepted publish_accepts by blast
  qed
qed

lemma publish_returns_true_iff:
  "fst (publish t v s) \<longleftrightarrow> admissible v \<and> (\<forall>w. current s = Some w \<longrightarrow> key w < key v)"
  by (cases rule: publish_cases [where v = v and t = t and s = s]) auto

lemma publish_false_unchanged: "\<not> fst (publish t v s) \<Longrightarrow> snd (publish t v s) = s"
  by (cases rule: publish_cases [where v = v and t = t and s = s]) auto

lemma publish_current_mono:
  assumes "current s = Some w"
  obtains w' where "current (snd (publish t v s)) = Some w'" and "key w \<le> key w'"
  by (cases rule: publish_cases [where v = v and t = t and s = s]) (use assms that in force)+

lemma publish_all_mono:
  "current s = Some w \<Longrightarrow> \<exists>w'. current (publish_all publish ps s) = Some w' \<and> key w \<le> key w'"
proof (induction ps arbitrary: s w)
  case Nil
  then show ?case by simp
next
  case (Cons p ps)
  from Cons.prems obtain w1 where
      w1: "current (snd (publish (fst p) (snd p) s)) = Some w1" "key w \<le> key w1"
    by (rule publish_current_mono)
  from Cons.IH [OF w1(1)] w1(2) show ?case by auto
qed

text \<open>
  Latest wins: whatever the order of the publications, the slot ends up with a value whose
  key is the greatest among the admissible values published and the one held before.
\<close>

lemma publish_all_upper:
  "(t, v) \<in> set ps \<Longrightarrow> admissible v \<Longrightarrow>
     \<exists>w. current (publish_all publish ps s) = Some w \<and> key v \<le> key w"
proof (induction ps arbitrary: s)
  case Nil
  then show ?case by simp
next
  case (Cons p ps)
  let ?s = "snd (publish (fst p) (snd p) s)"
  show ?case
  proof (cases "p = (t, v)")
    case True
    have "\<exists>w. current ?s = Some w \<and> key v \<le> key w"
      by (cases rule: publish_cases [where v = v and t = t and s = s])
         (use True Cons.prems in auto)
    then show ?thesis
      using publish_all_mono [of ?s] by (fastforce intro: order.trans)
  next
    case False
    with Cons.prems Cons.IH [of ?s] show ?thesis by simp
  qed
qed

lemma publish_all_member:
  "current (publish_all publish ps s) = Some w \<Longrightarrow>
     current s = Some w \<or> (w \<in> snd ` set ps \<and> admissible w)"
proof (induction ps arbitrary: s)
  case Nil
  then show ?case by simp
next
  case (Cons p ps)
  from Cons.prems have "current (publish_all publish ps (snd (publish (fst p) (snd p) s))) = Some w"
    by simp
  from Cons.IH [OF this] show ?case
    by (cases rule: publish_cases [where v = "snd p" and t = "fst p" and s = s]) auto
qed

lemma latest_wins_None:
  assumes "current s = None"
  shows "current (publish_all publish ps s) = None \<longleftrightarrow> (\<forall>v \<in> snd ` set ps. \<not> admissible v)"
proof (cases "current (publish_all publish ps s)")
  case None
  then have "\<not> admissible v" if "(t, v) \<in> set ps" for t v
    using that publish_all_upper [OF that, of s] by auto
  with None show ?thesis by auto
next
  case (Some w)
  with publish_all_member [OF Some] assms show ?thesis by auto
qed

lemma latest_wins_Some:
  assumes "current s = None" and "current (publish_all publish ps s) = Some w"
  shows "w \<in> snd ` set ps" and "admissible w"
    and "v \<in> snd ` set ps \<Longrightarrow> admissible v \<Longrightarrow> key v \<le> key w"
proof -
  show "w \<in> snd ` set ps" and "admissible w"
    using publish_all_member [OF assms(2)] assms(1) by auto
  assume "v \<in> snd ` set ps" and "admissible v"
  then obtain t where "(t, v) \<in> set ps" by auto
  from publish_all_upper [OF this \<open>admissible v\<close>, of s] assms(2) show "key v \<le> key w" by simp
qed

text \<open>The order in which producers interleave does not matter for what survives.\<close>

lemma publish_all_order_irrelevant:
  assumes "current s = None" and "snd ` set ps = snd ` set qs"
  shows "map_option key (current (publish_all publish ps s)) = map_option key (current (publish_all publish qs s))"
proof (cases "current (publish_all publish ps s)")
  case None
  then have "current (publish_all publish qs s) = None"
    by (simp only: latest_wins_None [OF assms(1)] assms(2))
  with None show ?thesis by simp
next
  case (Some v)
  then have "current (publish_all publish qs s) \<noteq> None"
    using latest_wins_None [OF assms(1), of ps] latest_wins_None [OF assms(1), of qs] assms(2)
    by simp
  then obtain w where w: "current (publish_all publish qs s) = Some w" by blast
  have "key v \<le> key w" "key w \<le> key v"
    using latest_wins_Some [OF assms(1) Some] latest_wins_Some [OF assms(1) w] assms(2) by blast+
  with Some w show ?thesis by simp
qed

end

section \<open>FrameStore\<close>

record FrameStore =
  m_latest_frame :: "CapturedFrame option"
  m_published_at :: int

definition FrameStore_new :: FrameStore where
  "FrameStore_new = \<lparr>m_latest_frame = None, m_published_at = 0\<rparr>"

text \<open>\<^verbatim>\<open>publishFrame\<close>; the argument is \<^const>\<open>None\<close> for a null pointer.\<close>

definition publishFrame :: "int \<Rightarrow> CapturedFrame option \<Rightarrow> FrameStore \<Rightarrow> bool \<times> FrameStore" where
  "publishFrame now frame s = (case frame of
     None \<Rightarrow> (False, s)
   | Some f \<Rightarrow>
      (if (case m_latest_frame s of
             None \<Rightarrow> False
           | Some g \<Rightarrow> \<not> frame_store_isNewerIdentity (frame_identity f) (frame_identity g))
       then (False, s)
       else (True, s\<lparr>m_latest_frame := Some f, m_published_at := now\<rparr>)))"

definition acquireLatestFrame :: "FrameStore \<Rightarrow> CapturedFrame option" where
  "acquireLatestFrame s = m_latest_frame s"

text \<open>\<open>max_age\<close> counts milliseconds, the clock nanoseconds.\<close>

definition acquireFreshFrame :: "int \<Rightarrow> int \<Rightarrow> FrameStore \<Rightarrow> CapturedFrame option" where
  "acquireFreshFrame now max_age s =
     (if m_latest_frame s = None \<or> max_age \<le> 0 \<or> now - m_published_at s > max_age * 1000000
      then None
      else m_latest_frame s)"

text \<open>
  \<^verbatim>\<open>waitForFrameAfter\<close> evaluates its predicate under the mutex at entry, at every wake-up and
  at the timeout: \<open>observed\<close> is the sequence of store states it sees.
\<close>

definition has_newer_frame :: "FrameIdentity \<Rightarrow> FrameStore \<Rightarrow> bool" where
  "has_newer_frame identity s = (case m_latest_frame s of
     None \<Rightarrow> False | Some f \<Rightarrow> frame_store_isNewerIdentity (frame_identity f) identity)"

fun waitForFrameAfter :: "FrameIdentity \<Rightarrow> FrameStore list \<Rightarrow> CapturedFrame option" where
  "waitForFrameAfter identity [] = None"
| "waitForFrameAfter identity (s # observed) =
     (if has_newer_frame identity s then m_latest_frame s
      else waitForFrameAfter identity observed)"

definition FrameStore_clear :: "FrameStore \<Rightarrow> FrameStore" where
  "FrameStore_clear s = s\<lparr>m_latest_frame := None, m_published_at := 0\<rparr>"

interpretation frames: latest_slot
  "\<lambda>t v. publishFrame t (Some v)" m_latest_frame "\<lambda>f. key_of (frame_identity f)" "\<lambda>_. True"
proof unfold_locales
  fix v :: CapturedFrame and s :: FrameStore and t :: int
  assume "\<And>w. m_latest_frame s = Some w \<Longrightarrow> key_of (frame_identity w) < key_of (frame_identity v)"
  then show "fst (publishFrame t (Some v) s) \<and>
      m_latest_frame (snd (publishFrame t (Some v) s)) = Some v"
    by (auto simp: publishFrame_def frame_store_isNewerIdentity_key split: option.splits)
qed (auto simp: publishFrame_def frame_store_isNewerIdentity_key split: option.splits)

lemma publishFrame_null: "publishFrame now None s = (False, s)"
  by (simp add: publishFrame_def)

lemma publishFrame_stamp:
  "fst (publishFrame now v s) \<Longrightarrow> m_published_at (snd (publishFrame now v s)) = now"
  by (auto simp: publishFrame_def split: option.splits if_splits)

lemma waitForFrameAfter_Some:
  "waitForFrameAfter i observed = Some f \<Longrightarrow>
     key_of i < key_of (frame_identity f) \<and> (\<exists>s \<in> set observed. m_latest_frame s = Some f)"
  by (induction i observed rule: waitForFrameAfter.induct)
     (auto simp: has_newer_frame_def frame_store_isNewerIdentity_key split: if_splits option.splits)

lemma waitForFrameAfter_None:
  "waitForFrameAfter i observed = None \<longleftrightarrow> (\<forall>s \<in> set observed. \<not> has_newer_frame i s)"
  by (induction i observed rule: waitForFrameAfter.induct)
     (auto simp: has_newer_frame_def split: option.splits)

section \<open>EncodedPreviewCache\<close>

datatype PreviewKind = Preview_COLOR | Preview_DEPTH

record EncodedPreview =
  ep_identity :: FrameIdentity
  ep_jpeg :: "u8 list"

record PreviewSlot =
  sl_preview :: "EncodedPreview option"
  sl_published_at :: int

record EncodedPreviewCache =
  m_color_preview :: PreviewSlot
  m_depth_preview :: PreviewSlot

definition empty_slot :: PreviewSlot where
  "empty_slot = \<lparr>sl_preview = None, sl_published_at = 0\<rparr>"

definition EncodedPreviewCache_new :: EncodedPreviewCache where
  "EncodedPreviewCache_new = \<lparr>m_color_preview = empty_slot, m_depth_preview = empty_slot\<rparr>"

fun slot_of :: "PreviewKind \<Rightarrow> EncodedPreviewCache \<Rightarrow> PreviewSlot" where
  "slot_of Preview_COLOR c = m_color_preview c"
| "slot_of Preview_DEPTH c = m_depth_preview c"

fun set_slot :: "PreviewKind \<Rightarrow> PreviewSlot \<Rightarrow> EncodedPreviewCache \<Rightarrow> EncodedPreviewCache" where
  "set_slot Preview_COLOR sl c = c\<lparr>m_color_preview := sl\<rparr>"
| "set_slot Preview_DEPTH sl c = c\<lparr>m_depth_preview := sl\<rparr>"

definition publishPreview ::
  "PreviewKind \<Rightarrow> int \<Rightarrow> EncodedPreview option \<Rightarrow> EncodedPreviewCache \<Rightarrow> bool \<times> EncodedPreviewCache"
where
  "publishPreview kind now preview c = (case preview of
     None \<Rightarrow> (False, c)
   | Some p \<Rightarrow>
      (if ep_jpeg p = [] then (False, c)
       else if (case sl_preview (slot_of kind c) of
                  None \<Rightarrow> False
                | Some q \<Rightarrow> \<not> cache_isNewer (ep_identity p) (ep_identity q))
       then (False, c)
       else (True, set_slot kind \<lparr>sl_preview = Some p, sl_published_at = now\<rparr> c)))"

definition acquirePreview :: "PreviewKind \<Rightarrow> EncodedPreviewCache \<Rightarrow> EncodedPreview option" where
  "acquirePreview kind c = sl_preview (slot_of kind c)"

definition acquireFreshPreview ::
  "PreviewKind \<Rightarrow> int \<Rightarrow> int \<Rightarrow> EncodedPreviewCache \<Rightarrow> EncodedPreview option"
where
  "acquireFreshPreview kind now max_age c =
     (let slot = slot_of kind c in
      if sl_preview slot = None \<or> max_age \<le> 0 \<or> now - sl_published_at slot > max_age * 1000000
      then None
      else sl_preview slot)"

definition stale_generation :: "u64 \<Rightarrow> PreviewSlot \<Rightarrow> bool" where
  "stale_generation generation slot = (case sl_preview slot of
     None \<Rightarrow> False | Some p \<Rightarrow> capture_generation (ep_identity p) \<noteq> generation)"

definition invalidateGeneration :: "u64 \<Rightarrow> EncodedPreviewCache \<Rightarrow> EncodedPreviewCache" where
  "invalidateGeneration generation c =
     (let c1 = (if stale_generation generation (m_color_preview c)
                then c\<lparr>m_color_preview := empty_slot\<rparr> else c)
      in (if stale_generation generation (m_depth_preview c1)
          then c1\<lparr>m_depth_preview := empty_slot\<rparr> else c1))"

definition EncodedPreviewCache_clear :: "EncodedPreviewCache \<Rightarrow> EncodedPreviewCache" where
  "EncodedPreviewCache_clear c = c\<lparr>m_color_preview := empty_slot, m_depth_preview := empty_slot\<rparr>"

lemma slot_of_set_slot [simp]:
  "slot_of k (set_slot k' sl c) = (if k = k' then sl else slot_of k c)"
  by (cases k; cases k') simp_all

interpretation previews: latest_slot
  "\<lambda>t v. publishPreview kind t (Some v)" "acquirePreview kind"
  "\<lambda>p. key_of (ep_identity p)" "\<lambda>p. ep_jpeg p \<noteq> []" for kind
proof unfold_locales
  fix v :: EncodedPreview and s :: EncodedPreviewCache and t :: int
  assume "ep_jpeg v \<noteq> []"
    and "\<And>w. acquirePreview kind s = Some w \<Longrightarrow> key_of (ep_identity w) < key_of (ep_identity v)"
  then show "fst (publishPreview kind t (Some v) s) \<and>
      acquirePreview kind (snd (publishPreview kind t (Some v) s)) = Some v"
    by (auto simp: publishPreview_def acquirePreview_def cache_isNewer_key split: option.splits)
qed (auto simp: publishPreview_def acquirePreview_def cache_isNewer_key split: option.splits)

text \<open>Publishing one kind leaves the other kind's slot alone.\<close>

lemma publishPreview_other_kind:
  "k' \<noteq> k \<Longrightarrow> slot_of k' (snd (publishPreview k now p c)) = slot_of k' c"
  by (auto simp: publishPreview_def split: option.splits)

lemma invalidateGeneration_slot:
  "slot_of k (invalidateGeneration g c) =
     (if stale_generation g (slot_of k c) then empty_slot else slot_of k c)"
  by (cases k) (simp_all add: invalidateGeneration_def Let_def)

section \<open>Properties\<close>

text \<open>A frame that only carries an identity, for the witnesses.\<close>

definition bare_frame :: "u64 \<Rightarrow> u64 \<Rightarrow> CapturedFrame" where
  "bare_frame generation number =
     \<lparr>getSnapshot = default_FrameSnapshot
        \<lparr>fs_identity := default_FrameIdentity\<lparr>capture_generation := generation, frame_number := number\<rparr>\<rparr>,
      getColorFrameView = None, getDepthPreviewFrameView = None,
      queryPixelPoint = (\<lambda>_ _. Inr None), queryDepthInRoi = (\<lambda>_ _ _ _. Inr default_RoiDepthResult),
      buildPointCloudSnapshot = (\<lambda>_ _. Inr default_PointCloudSnapshot)\<rparr>"

lemma identity_bare_frame [simp]:
  "capture_generation (frame_identity (bare_frame g n)) = g"
  "frame_number (frame_identity (bare_frame g n)) = n"
  by (simp_all add: bare_frame_def)

text \<open>
  C5: latest wins. However the capture side's publications interleave, a reader of the store gets
  one of the published frames, and none of the published frames is newer (by generation, then by
  frame number) than the one it gets; the store is empty only when nothing was published.
\<close>

lemma frame_store_latest_wins:
  "case acquireLatestFrame (publish_all (\<lambda>t f. publishFrame t (Some f)) ps FrameStore_new) of
     None \<Rightarrow> ps = []
   | Some w \<Rightarrow> w \<in> snd ` set ps \<and>
       (\<forall>v \<in> snd ` set ps. \<not> frame_store_isNewerIdentity (frame_identity v) (frame_identity w))"
proof (cases "acquireLatestFrame (publish_all (\<lambda>t f. publishFrame t (Some f)) ps FrameStore_new)")
  case None
  then show ?thesis
    using frames.latest_wins_None [of FrameStore_new ps]
    by (simp add: acquireLatestFrame_def FrameStore_new_def)
next
  case (Some w)
  then have w: "m_latest_frame (publish_all (\<lambda>t f. publishFrame t (Some f)) ps FrameStore_new) = Some w"
    by (simp add: acquireLatestFrame_def)
  have e: "m_latest_frame FrameStore_new = None" by (simp add: FrameStore_new_def)
  from frames.latest_wins_Some [OF e w] Some show ?thesis
    by (simp add: frame_store_isNewerIdentity_key not_less)
qed

lemma frame_store_latest_wins_witness:
  "acquireLatestFrame (publish_all (\<lambda>t f. publishFrame t (Some f))
     [(5, bare_frame 1 2), (6, bare_frame 1 1)] FrameStore_new) \<noteq> None"
  using frame_store_latest_wins [of "[(5, bare_frame 1 2), (6, bare_frame 1 1)]"]
  by (rule contrapos_pn) simp

text \<open>
  A consumer that waits for a frame after the last one it saw gets a strictly newer one, in
  the state the store had at one of its wake-ups, and it returns empty-handed exactly when no
  observed state held a newer frame; so a stream never repeats or reorders frames.
\<close>

lemma wait_strictly_newer:
  "case waitForFrameAfter identity observed of
     None \<Rightarrow> (\<forall>s \<in> set observed. \<not> has_newer_frame identity s)
   | Some f \<Rightarrow> frame_store_isNewerIdentity (frame_identity f) identity \<and>
       (\<exists>s \<in> set observed. acquireLatestFrame s = Some f)"
  using waitForFrameAfter_None [where i = identity and observed = observed]
  by (auto simp: acquireLatestFrame_def frame_store_isNewerIdentity_key dest: waitForFrameAfter_Some
      split: option.split)

lemma wait_strictly_newer_witness:
  "\<exists>f. waitForFrameAfter default_FrameIdentity
      [FrameStore_new, snd (publishFrame 3 (Some (bare_frame 1 1)) FrameStore_new)] = Some f \<and>
     frame_store_isNewerIdentity (frame_identity f) default_FrameIdentity"
  using wait_strictly_newer [where identity = default_FrameIdentity and observed =
      "[FrameStore_new, snd (publishFrame 3 (Some (bare_frame 1 1)) FrameStore_new)]"]
  by (simp add: has_newer_frame_def FrameStore_new_def publishFrame_def
      frame_store_isNewerIdentity_key key_of_def default_FrameIdentity_def
      less_frame_key_def split: option.splits)

text \<open>
  After a new capture generation invalidates the preview cache, every preview that a client
  can still fetch, of either kind and at any time, is of that generation; previews of that
  generation are kept with their publication time.
\<close>

lemma invalidate_generation_exact:
  "acquirePreview kind (invalidateGeneration g c) =
     (case acquirePreview kind c of
        None \<Rightarrow> None
      | Some p \<Rightarrow> if capture_generation (ep_identity p) = g then Some p else None) \<and>
   (acquireFreshPreview kind now max_age (invalidateGeneration g c) =
     (case acquireFreshPreview kind now max_age c of
        None \<Rightarrow> None
      | Some p \<Rightarrow> if capture_generation (ep_identity p) = g then Some p else None))"
  by (auto simp: acquirePreview_def acquireFreshPreview_def invalidateGeneration_slot
      stale_generation_def empty_slot_def Let_def split: option.splits)

end
