(* ===== verification/Ieee.thy ===== *)
theory Ieee
  imports Prelude
begin

text \<open>
  IEEE-754 binary32 and binary64 arithmetic, the \<^verbatim>\<open>float\<close> and \<^verbatim>\<open>double\<close> of the code
  (\<^verbatim>\<open>static_assert(std::numeric_limits<float>::is_iec559)\<close> in \<^verbatim>\<open>pcd1.cpp\<close>). A value is its
  bit pattern; an operation decodes its operands into a sign, an integer significand and a
  binary exponent, computes exactly on integers, and rounds once to nearest, ties to even,
  which is the default rounding mode. Every operation is executable. A NaN result is the
  default quiet NaN: the code never looks at a NaN payload. Expressions are evaluated operation by
  operation in the declared type (\<^verbatim>\<open>FLT_EVAL_METHOD = 0\<close>, no contraction).
\<close>

section \<open>Decoding and rounding\<close>

datatype fp = FNaN | FInf bool | FFin bool nat int

text \<open>A format has \<open>eb\<close> exponent bits and \<open>fb\<close> fraction bits; \<open>FFin s m e\<close> is \<open>\<plusminus>m * 2^e\<close>.\<close>

definition fp_bias :: "nat \<Rightarrow> int" where
  "fp_bias eb = 2 ^ (eb - 1) - 1"

definition fp_qmin :: "nat \<Rightarrow> nat \<Rightarrow> int" where
  "fp_qmin eb fb = 1 - fp_bias eb - int fb"

definition fp_decode :: "nat \<Rightarrow> nat \<Rightarrow> nat \<Rightarrow> fp" where
  "fp_decode eb fb b =
     (let frac = b mod 2 ^ fb;
          ex = (b div 2 ^ fb) mod 2 ^ eb;
          s = odd (b div 2 ^ (fb + eb))
      in if ex = 2 ^ eb - 1 then (if frac = 0 then FInf s else FNaN)
         else if ex = 0 then FFin s frac (fp_qmin eb fb)
         else FFin s (2 ^ fb + frac) (fp_qmin eb fb + int ex - 1))"

fun bitlen :: "nat \<Rightarrow> nat" where
  "bitlen m = (if m = 0 then 0 else Suc (bitlen (m div 2)))"

declare bitlen.simps [simp del]

text \<open>\<open>m / 2^k\<close> rounded to the nearest integer, ties to even.\<close>

definition round_half_even :: "nat \<Rightarrow> nat \<Rightarrow> nat" where
  "round_half_even m k =
     (let q = m div 2 ^ k; r = m mod 2 ^ k
      in if 2 * r > 2 ^ k \<or> (2 * r = 2 ^ k \<and> odd q) then Suc q else q)"

definition fp_sign_bit :: "nat \<Rightarrow> nat \<Rightarrow> bool \<Rightarrow> nat" where
  "fp_sign_bit eb fb s = (if s then 2 ^ (fb + eb) else 0)"

definition fp_inf_bits :: "nat \<Rightarrow> nat \<Rightarrow> nat" where
  "fp_inf_bits eb fb = (2 ^ eb - 1) * 2 ^ fb"

text \<open>
  The bits of \<open>\<plusminus>m * 2^e\<close>: \<open>q\<close> is the exponent of the last place of the result, the
  significand is rounded to it, and the exponent field and the significand add up (a carry
  out of the significand moves to the next exponent); a value past the largest finite one
  becomes an infinity.
\<close>

definition fp_round :: "nat \<Rightarrow> nat \<Rightarrow> bool \<Rightarrow> nat \<Rightarrow> int \<Rightarrow> nat" where
  "fp_round eb fb s m e =
     (if m = 0 then fp_sign_bit eb fb s
      else let qmin = fp_qmin eb fb;
               q = max qmin (e + int (bitlen m) - int (fb + 1));
               m' = (if q \<le> e then m * 2 ^ nat (e - q) else round_half_even m (nat (q - e)))
           in fp_sign_bit eb fb s + min (nat (q - qmin) * 2 ^ fb + m') (fp_inf_bits eb fb))"

definition fp_nan_bits :: "nat \<Rightarrow> nat \<Rightarrow> nat" where
  "fp_nan_bits eb fb = fp_inf_bits eb fb + 2 ^ (fb - 1)"

definition fp_encode :: "nat \<Rightarrow> nat \<Rightarrow> fp \<Rightarrow> nat" where
  "fp_encode eb fb x = (case x of
     FNaN \<Rightarrow> fp_nan_bits eb fb
   | FInf s \<Rightarrow> fp_sign_bit eb fb s + fp_inf_bits eb fb
   | FFin s m e \<Rightarrow> fp_round eb fb s m e)"

section \<open>Arithmetic\<close>

definition signed_mant :: "bool \<Rightarrow> nat \<Rightarrow> int" where
  "signed_mant s m = (if s then - int m else int m)"

definition fp_scaled :: "int \<Rightarrow> bool \<Rightarrow> nat \<Rightarrow> int \<Rightarrow> int" where
  "fp_scaled e0 s m e = signed_mant s m * 2 ^ nat (e - e0)"

fun fp_add :: "fp \<Rightarrow> fp \<Rightarrow> fp" where
  "fp_add FNaN y = FNaN"
| "fp_add x FNaN = FNaN"
| "fp_add (FInf s) (FInf t) = (if s = t then FInf s else FNaN)"
| "fp_add (FInf s) y = FInf s"
| "fp_add x (FInf t) = FInf t"
| "fp_add (FFin s m e) (FFin t n d) =
     (let e0 = min e d; v = fp_scaled e0 s m e + fp_scaled e0 t n d
      in if v = 0 then FFin (s \<and> t) 0 e0 else FFin (v < 0) (nat \<bar>v\<bar>) e0)"

fun fp_neg :: "fp \<Rightarrow> fp" where
  "fp_neg FNaN = FNaN"
| "fp_neg (FInf s) = FInf (\<not> s)"
| "fp_neg (FFin s m e) = FFin (\<not> s) m e"

fun fp_abs :: "fp \<Rightarrow> fp" where
  "fp_abs FNaN = FNaN"
| "fp_abs (FInf s) = FInf False"
| "fp_abs (FFin s m e) = FFin False m e"

fun fp_mul :: "fp \<Rightarrow> fp \<Rightarrow> fp" where
  "fp_mul FNaN y = FNaN"
| "fp_mul x FNaN = FNaN"
| "fp_mul (FInf s) (FInf t) = FInf (s \<noteq> t)"
| "fp_mul (FInf s) (FFin t n d) = (if n = 0 then FNaN else FInf (s \<noteq> t))"
| "fp_mul (FFin s m e) (FInf t) = (if m = 0 then FNaN else FInf (s \<noteq> t))"
| "fp_mul (FFin s m e) (FFin t n d) = FFin (s \<noteq> t) (m * n) (e + d)"

text \<open>
  Division keeps \<open>k\<close> more quotient bits than the format can hold and a sticky last bit for
  a non-zero remainder, which is all that rounding to nearest depends on.
\<close>

fun fp_div :: "nat \<Rightarrow> fp \<Rightarrow> fp \<Rightarrow> fp" where
  "fp_div fb FNaN y = FNaN"
| "fp_div fb x FNaN = FNaN"
| "fp_div fb (FInf s) (FInf t) = FNaN"
| "fp_div fb (FInf s) (FFin t n d) = FInf (s \<noteq> t)"
| "fp_div fb (FFin s m e) (FInf t) = FFin (s \<noteq> t) 0 0"
| "fp_div fb (FFin s m e) (FFin t n d) =
     (if n = 0 then (if m = 0 then FNaN else FInf (s \<noteq> t))
      else let k = fb + 3 + bitlen n;
               q = (m * 2 ^ k) div n;
               sticky = (if (m * 2 ^ k) mod n = 0 then 0 else 1)
           in FFin (s \<noteq> t) (2 * q + sticky) (e - d - int k - 1))"

fun fp_less :: "fp \<Rightarrow> fp \<Rightarrow> bool" where
  "fp_less FNaN y = False"
| "fp_less x FNaN = False"
| "fp_less (FInf s) (FInf t) = (s \<and> \<not> t)"
| "fp_less (FInf s) (FFin t n d) = s"
| "fp_less (FFin s m e) (FInf t) = (\<not> t)"
| "fp_less (FFin s m e) (FFin t n d) =
     (let e0 = min e d in fp_scaled e0 s m e < fp_scaled e0 t n d)"

fun fp_eq :: "fp \<Rightarrow> fp \<Rightarrow> bool" where
  "fp_eq FNaN y = False"
| "fp_eq x FNaN = False"
| "fp_eq (FInf s) (FInf t) = (s = t)"
| "fp_eq (FInf s) (FFin t n d) = False"
| "fp_eq (FFin s m e) (FInf t) = False"
| "fp_eq (FFin s m e) (FFin t n d) =
     (let e0 = min e d in fp_scaled e0 s m e = fp_scaled e0 t n d)"

definition fp_le :: "fp \<Rightarrow> fp \<Rightarrow> bool" where
  "fp_le x y \<longleftrightarrow> fp_less x y \<or> fp_eq x y"

fun fp_isfinite :: "fp \<Rightarrow> bool" where
  "fp_isfinite (FFin _ _ _) = True"
| "fp_isfinite _ = False"

text \<open>Conversion to an integer type truncates towards zero (undefined for a non-finite value).\<close>

fun fp_trunc :: "fp \<Rightarrow> int option" where
  "fp_trunc (FFin s m e) =
     Some (signed_mant s (if 0 \<le> e then m * 2 ^ nat e else m div 2 ^ nat (- e)))"
| "fp_trunc _ = None"

definition fp_of_int :: "int \<Rightarrow> fp" where
  "fp_of_int i = FFin (i < 0) (nat \<bar>i\<bar>) 0"

section \<open>binary32\<close>

definition f32_val :: "f32 \<Rightarrow> fp" where "f32_val x = fp_decode 8 23 (unat x)"
definition f32_of :: "fp \<Rightarrow> f32" where "f32_of v = word_of_nat (fp_encode 8 23 v)"

definition f32_add :: "f32 \<Rightarrow> f32 \<Rightarrow> f32" where
  "f32_add x y = f32_of (fp_add (f32_val x) (f32_val y))"
definition f32_neg :: "f32 \<Rightarrow> f32" where
  "f32_neg x = f32_of (fp_neg (f32_val x))"
definition f32_sub :: "f32 \<Rightarrow> f32 \<Rightarrow> f32" where
  "f32_sub x y = f32_of (fp_add (f32_val x) (fp_neg (f32_val y)))"
definition f32_mul :: "f32 \<Rightarrow> f32 \<Rightarrow> f32" where
  "f32_mul x y = f32_of (fp_mul (f32_val x) (f32_val y))"
definition f32_div :: "f32 \<Rightarrow> f32 \<Rightarrow> f32" where
  "f32_div x y = f32_of (fp_div 23 (f32_val x) (f32_val y))"
definition f32_abs :: "f32 \<Rightarrow> f32" where
  "f32_abs x = f32_of (fp_abs (f32_val x))"
definition f32_less :: "f32 \<Rightarrow> f32 \<Rightarrow> bool" where
  "f32_less x y = fp_less (f32_val x) (f32_val y)"
definition f32_le :: "f32 \<Rightarrow> f32 \<Rightarrow> bool" where
  "f32_le x y = fp_le (f32_val x) (f32_val y)"
definition f32_isfinite :: "f32 \<Rightarrow> bool" where
  "f32_isfinite x = fp_isfinite (f32_val x)"
definition f32_of_int :: "int \<Rightarrow> f32" where
  "f32_of_int i = f32_of (fp_of_int i)"

section \<open>binary64\<close>

definition f64_val :: "f64 \<Rightarrow> fp" where "f64_val x = fp_decode 11 52 (unat x)"
definition f64_of :: "fp \<Rightarrow> f64" where "f64_of v = word_of_nat (fp_encode 11 52 v)"

definition f64_add :: "f64 \<Rightarrow> f64 \<Rightarrow> f64" where
  "f64_add x y = f64_of (fp_add (f64_val x) (f64_val y))"
definition f64_neg :: "f64 \<Rightarrow> f64" where
  "f64_neg x = f64_of (fp_neg (f64_val x))"
definition f64_sub :: "f64 \<Rightarrow> f64 \<Rightarrow> f64" where
  "f64_sub x y = f64_of (fp_add (f64_val x) (fp_neg (f64_val y)))"
definition f64_mul :: "f64 \<Rightarrow> f64 \<Rightarrow> f64" where
  "f64_mul x y = f64_of (fp_mul (f64_val x) (f64_val y))"
definition f64_div :: "f64 \<Rightarrow> f64 \<Rightarrow> f64" where
  "f64_div x y = f64_of (fp_div 52 (f64_val x) (f64_val y))"
definition f64_abs :: "f64 \<Rightarrow> f64" where
  "f64_abs x = f64_of (fp_abs (f64_val x))"
definition f64_less :: "f64 \<Rightarrow> f64 \<Rightarrow> bool" where
  "f64_less x y = fp_less (f64_val x) (f64_val y)"
definition f64_le :: "f64 \<Rightarrow> f64 \<Rightarrow> bool" where
  "f64_le x y = fp_le (f64_val x) (f64_val y)"
definition f64_isfinite :: "f64 \<Rightarrow> bool" where
  "f64_isfinite x = fp_isfinite (f64_val x)"
definition f64_of_int :: "int \<Rightarrow> f64" where
  "f64_of_int i = f64_of (fp_of_int i)"

text \<open>\<^verbatim>\<open>static_cast<double>(float)\<close> and \<^verbatim>\<open>static_cast<float>(double)\<close>.\<close>

definition f32_to_f64 :: "f32 \<Rightarrow> f64" where "f32_to_f64 x = f64_of (f32_val x)"
definition f64_to_f32 :: "f64 \<Rightarrow> f32" where "f64_to_f32 x = f32_of (f64_val x)"

lemmas f32_ops = f32_add_def f32_neg_def f32_sub_def f32_mul_def f32_div_def f32_abs_def
  f32_less_def f32_le_def f32_isfinite_def f32_of_int_def
lemmas f64_ops = f64_add_def f64_neg_def f64_sub_def f64_mul_def f64_div_def f64_abs_def
  f64_less_def f64_le_def f64_isfinite_def f64_of_int_def

text \<open>Everything needed to evaluate a floating-point expression on concrete bits with \<open>simp\<close>.\<close>

lemmas fp_eval = f32_ops f64_ops f32_val_def f32_of_def f64_val_def f64_of_def f32_to_f64_def
  f64_to_f32_def fp_decode_def fp_encode_def fp_round_def fp_qmin_def fp_bias_def
  fp_sign_bit_def fp_inf_bits_def fp_nan_bits_def round_half_even_def fp_scaled_def
  signed_mant_def fp_of_int_def fp_le_def Let_def bitlen.simps

lemma f32_isfinite_fields: "f32_isfinite x \<longleftrightarrow> (unat x div 2 ^ 23) mod 2 ^ 8 \<noteq> 255"
  by (simp add: f32_isfinite_def f32_val_def fp_decode_def Let_def)

lemma f64_isfinite_fields: "f64_isfinite x \<longleftrightarrow> (unat x div 2 ^ 52) mod 2 ^ 11 \<noteq> 2047"
  by (simp add: f64_isfinite_def f64_val_def fp_decode_def Let_def)

end
