(* ===== verification/ByteCodec.thy ===== *)
theory ByteCodec
  imports Prelude
begin

unbundle bit_operations_syntax

text \<open>
  The little-endian primitives of \<^verbatim>\<open>src/provider/http/pcd1.cpp\<close>. A byte vector is a list of
  \<^typ>\<open>u8\<close>; an appender returns the extended vector; a reader takes the input and the offset
  and returns the value with the advanced offset, or the exception. \<^verbatim>\<open>std::memcpy\<close> between a
  float or a signed integer and its unsigned image is the identity on bits. The locale
  \<open>byte_codec\<close> is what a reader and an encoding of fixed width promise each other; from
  it follow the loops over arrays of items, in both directions.
\<close>

section \<open>Primitives\<close>

definition appendUint32 :: "u8 list \<Rightarrow> u32 \<Rightarrow> u8 list" where
  "appendUint32 output value =
     foldl (\<lambda>out byte_index. out @ [ucast (drop_bit (byte_index * 8) value AND 0xFF)])
       output [0..<4]"

definition appendUint64 :: "u8 list \<Rightarrow> u64 \<Rightarrow> u8 list" where
  "appendUint64 output value =
     foldl (\<lambda>out byte_index. out @ [ucast (drop_bit (byte_index * 8) value AND 0xFF)])
       output [0..<8]"

definition appendInt64 :: "u8 list \<Rightarrow> int \<Rightarrow> u8 list" where
  "appendInt64 output value = appendUint64 output (word_of_int value)"

definition appendFloat32 :: "u8 list \<Rightarrow> f32 \<Rightarrow> u8 list" where
  "appendFloat32 output value = appendUint32 output value"

definition readUint32 :: "u8 list \<Rightarrow> nat \<Rightarrow> (u32 \<times> nat) result" where
  "readUint32 input offset =
     (if offset > length input \<or> length input - offset < 4
      then Inl (Invalid_argument ''PCD1 payload is truncated.'')
      else Inr (foldl (\<lambda>value byte_index.
                  value OR push_bit (byte_index * 8) (ucast (input ! (offset + byte_index))))
                0 [0..<4], offset + 4))"

definition readUint64 :: "u8 list \<Rightarrow> nat \<Rightarrow> (u64 \<times> nat) result" where
  "readUint64 input offset =
     (if offset > length input \<or> length input - offset < 8
      then Inl (Invalid_argument ''PCD1 payload is truncated.'')
      else Inr (foldl (\<lambda>value byte_index.
                  value OR push_bit (byte_index * 8) (ucast (input ! (offset + byte_index))))
                0 [0..<8], offset + 8))"

definition readInt64 :: "u8 list \<Rightarrow> nat \<Rightarrow> (int \<times> nat) result" where
  "readInt64 input offset = bindE (readUint64 input offset) (\<lambda>(storage, o'). Inr (sint storage, o'))"

definition readFloat32 :: "u8 list \<Rightarrow> nat \<Rightarrow> (f32 \<times> nat) result" where
  "readFloat32 input offset = readUint32 input offset"

text \<open>\<^verbatim>\<open>input.at(offset++)\<close>.\<close>

definition readByte :: "u8 list \<Rightarrow> nat \<Rightarrow> (u8 \<times> nat) result" where
  "readByte input offset =
     (if offset < length input then Inr (input ! offset, offset + 1)
      else Inl (Out_of_range ''vector::at''))"

text \<open>A loop that reads \<open>n\<close> items one after the other.\<close>

fun read_times :: "nat \<Rightarrow> (u8 list \<Rightarrow> nat \<Rightarrow> ('a \<times> nat) result) \<Rightarrow> u8 list \<Rightarrow> nat \<Rightarrow> ('a list \<times> nat) result" where
  "read_times 0 rd input offset = Inr ([], offset)"
| "read_times (Suc n) rd input offset =
     bindE (rd input offset) (\<lambda>(x, o1).
     bindE (read_times n rd input o1) (\<lambda>(xs, o2). Inr (x # xs, o2)))"

definition readTriple ::
  "(u8 list \<Rightarrow> nat \<Rightarrow> ('a \<times> nat) result) \<Rightarrow> u8 list \<Rightarrow> nat \<Rightarrow> (('a \<times> 'a \<times> 'a) \<times> nat) result"
where
  "readTriple rd input offset =
     bindE (rd input offset) (\<lambda>(x, o1).
     bindE (rd input o1) (\<lambda>(y, o2).
     bindE (rd input o2) (\<lambda>(z, o3). Inr ((x, y, z), o3))))"

section \<open>Bytes and words\<close>

definition le_bytes :: "nat \<Rightarrow> 'a::len word \<Rightarrow> u8 list" where
  "le_bytes n v = map (\<lambda>i. ucast (drop_bit (i * 8) v AND 0xFF)) [0..<n]"

lemma length_le_bytes [simp]: "length (le_bytes n v) = n"
  by (simp add: le_bytes_def)

lemma foldl_snoc: "foldl (\<lambda>out i. out @ [f i]) out xs = out @ map f xs"
  by (induction xs arbitrary: out) simp_all

lemma append_le:
  "appendUint32 out v = out @ le_bytes 4 v"
  "appendUint64 out w = out @ le_bytes 8 w"
  "appendInt64 out i = out @ le_bytes 8 (word_of_int i :: u64)"
  "appendFloat32 out x = out @ le_bytes 4 x"
  by (simp_all only: appendUint32_def appendUint64_def appendInt64_def appendFloat32_def
      foldl_snoc le_bytes_def)

lemma bit_or_bytes:
  fixes b :: "nat \<Rightarrow> u8"
  shows "bit (foldl (\<lambda>value i. value OR push_bit (i * 8) (ucast (b i))) (0 :: 'a::len word) [0..<n]) m
     \<longleftrightarrow> m < LENGTH('a) \<and> m div 8 < n \<and> bit (b (m div 8)) (m mod 8)"
proof (induction n)
  case 0
  then show ?case by simp
next
  case (Suc n)
  have "bit (push_bit (n * 8) (ucast (b n)) :: 'a word) m
      \<longleftrightarrow> m < LENGTH('a) \<and> m div 8 = n \<and> bit (b (m div 8)) (m mod 8)"
  proof (cases "m div 8 = n")
    case True
    then have "n * 8 \<le> m" "m - n * 8 = m mod 8"
      using div_mult_mod_eq [of m 8] by linarith+
    with True show ?thesis by (auto simp: bit_simps)
  next
    case False
    have "8 \<le> m - n * 8" if "n * 8 \<le> m"
      using that False by presburger
    then show ?thesis
      using False by (auto simp: bit_simps dest: bit_imp_le_length)
  qed
  with Suc.IH show ?case by (auto simp: bit_simps less_Suc_eq)
qed

lemma bit_255: "bit (255 :: 'a::len word) k \<longleftrightarrow> k < 8 \<and> k < LENGTH('a)"
proof -
  have "(255 :: 'a word) = mask 8" by (simp add: mask_eq_exp_minus_1)
  then show ?thesis by (simp only: bit_mask_iff) (auto simp: exp_eq_zero_iff)
qed

lemma bit_low_byte:
  "bit (ucast (drop_bit (i * 8) (w :: 'a::len word) AND 0xFF) :: u8) k \<longleftrightarrow> k < 8 \<and> bit w (i * 8 + k)"
proof -
  have "bit (ucast (drop_bit (i * 8) w AND 0xFF) :: u8) k
      \<longleftrightarrow> k < 8 \<and> bit w (i * 8 + k) \<and> bit (255 :: 'a word) k"
    by (simp add: bit_ucast_iff bit_and_iff bit_drop_bit_eq)
  then show ?thesis
    using bit_imp_le_length [of w "i * 8 + k"] unfolding bit_255 by auto
qed

lemma or_le_bytes:
  assumes "LENGTH('a::len) = n * 8" and "\<And>i. i < n \<Longrightarrow> b i = le_bytes n (w :: 'a word) ! i"
  shows "foldl (\<lambda>value i. value OR push_bit (i * 8) (ucast (b i))) (0 :: 'a word) [0..<n] = w"
proof (rule bit_word_eqI)
  fix m assume m: "m < LENGTH('a)"
  then have d: "m div 8 < n" using assms(1) by auto
  have "bit (b (m div 8)) (m mod 8) \<longleftrightarrow> bit w (m div 8 * 8 + m mod 8)"
    using d by (simp add: assms(2) le_bytes_def bit_low_byte)
  then show "bit (foldl (\<lambda>value i. value OR push_bit (i * 8) (ucast (b i))) (0 :: 'a word) [0..<n]) m
      \<longleftrightarrow> bit w m"
    using m d by (simp only: bit_or_bytes div_mult_mod_eq simp_thms)
qed

lemma le_bytes_or:
  fixes b :: "nat \<Rightarrow> u8"
  assumes "LENGTH('a::len) = n * 8"
  shows "le_bytes n (foldl (\<lambda>value i. value OR push_bit (i * 8) (ucast (b i))) (0 :: 'a word) [0..<n])
     = map b [0..<n]"
proof (rule nth_equalityI)
  fix i assume "i < length (le_bytes n (foldl (\<lambda>value i. value OR push_bit (i * 8) (ucast (b i))) (0 :: 'a word) [0..<n]))"
  then have i: "i < n" by simp
  have "bit (le_bytes n (foldl (\<lambda>value i. value OR push_bit (i * 8) (ucast (b i))) (0 :: 'a word) [0..<n]) ! i) k
      \<longleftrightarrow> bit (b i) k" if "k < 8" for k
  proof -
    have "(i * 8 + k) div 8 = i" "(i * 8 + k) mod 8 = k" "i * 8 + k < LENGTH('a)"
      using that i assms by auto
    then show ?thesis
      using that i by (simp add: le_bytes_def bit_low_byte bit_or_bytes)
  qed
  then show "le_bytes n (foldl (\<lambda>value i. value OR push_bit (i * 8) (ucast (b i))) (0 :: 'a word) [0..<n]) ! i
      = map b [0..<n] ! i"
    using i by (auto intro!: bit_word_eqI)
qed simp


definition de32 :: "u8 list \<Rightarrow> u32" where
  "de32 bs = foldl (\<lambda>value i. value OR push_bit (i * 8) (ucast (bs ! i))) 0 [0..<4]"

definition de64 :: "u8 list \<Rightarrow> u64" where
  "de64 bs = foldl (\<lambda>value i. value OR push_bit (i * 8) (ucast (bs ! i))) 0 [0..<8]"

lemma de32_le_bytes [simp]: "de32 (le_bytes 4 v) = v"
  unfolding de32_def by (rule or_le_bytes) simp_all

lemma de64_le_bytes [simp]: "de64 (le_bytes 8 v) = v"
  unfolding de64_def by (rule or_le_bytes) simp_all

lemma le_bytes_de32: "length bs = 4 \<Longrightarrow> le_bytes 4 (de32 bs) = bs"
  using map_nth [of bs] le_bytes_or [where 'a = 32 and n = 4 and b = "(!) bs"]
  by (simp add: de32_def del: upt_rec_numeral upt_conv_Cons)

lemma le_bytes_de64: "length bs = 8 \<Longrightarrow> le_bytes 8 (de64 bs) = bs"
  using map_nth [of bs] le_bytes_or [where 'a = 64 and n = 8 and b = "(!) bs"]
  by (simp add: de64_def del: upt_rec_numeral upt_conv_Cons)

section \<open>The contract of a fixed-width codec\<close>

locale byte_codec =
  fixes rd :: "u8 list \<Rightarrow> nat \<Rightarrow> ('a \<times> nat) result"
    and enc :: "'a \<Rightarrow> u8 list"
    and dec :: "u8 list \<Rightarrow> 'a"
    and w :: nat
  assumes rd_ok: "off + w \<le> length input \<Longrightarrow> rd input off = Inr (dec (take w (drop off input)), off + w)"
    and rd_short: "off \<le> length input \<Longrightarrow> length input < off + w \<Longrightarrow> \<exists>e. rd input off = Inl e"
    and length_enc: "length (enc v) = w"
    and dec_enc: "dec (enc v) = v"
    and enc_dec: "length bs = w \<Longrightarrow> enc (dec bs) = bs"
begin

lemma drop_plus: "drop (m + n) xs = drop n (drop m xs)"
  by (simp add: add.commute)

lemma rd_enc:
  "off + w \<le> length input \<Longrightarrow> take w (drop off input) = enc v \<Longrightarrow> rd input off = Inr (v, off + w)"
  by (simp add: rd_ok dec_enc)

lemma times_ok:
  "off + n * w \<le> length input \<Longrightarrow> read_times n rd input off =
     Inr (map (\<lambda>i. dec (take w (drop (off + i * w) input))) [0..<n], off + n * w)"
proof (induction n arbitrary: off)
  case 0
  then show ?case by simp
next
  case (Suc n)
  have "read_times n rd input (off + w) =
      Inr (map (\<lambda>i. dec (take w (drop (off + w + i * w) input))) [0..<n], off + w + n * w)"
    using Suc.prems by (intro Suc.IH) simp
  moreover have "map (\<lambda>i. dec (take w (drop (off + i * w) input))) [0..<Suc n] =
      dec (take w (drop off input)) # map (\<lambda>i. dec (take w (drop (off + w + i * w) input))) [0..<n]"
    by (simp only: upt_conv_Cons zero_less_Suc map_Suc_upt [symmetric] list.map map_map)
       (simp add: o_def add.assoc)
  ultimately show ?case
    using Suc.prems by (simp add: rd_ok)
qed

lemma drop_concat_enc: "i \<le> length xs \<Longrightarrow> drop (i * w) (concat (map enc xs)) = concat (map enc (drop i xs))"
proof (induction xs arbitrary: i)
  case (Cons x xs)
  then show ?case by (cases i) (simp_all add: length_enc)
qed simp

lemma length_concat_enc: "length (concat (map enc xs)) = length xs * w"
  by (induction xs) (simp_all add: length_enc)

lemma dec_slice:
  assumes "drop off input = concat (map enc xs) @ rest" and "i < length xs"
  shows "dec (take w (drop (off + i * w) input)) = xs ! i"
proof -
  have "drop (off + i * w) input = drop (i * w) (concat (map enc xs)) @ rest"
    using assms length_concat_enc [of xs] mult_le_mono1 [of i "length xs" w]
    by (simp add: drop_plus)
  also have "drop (i * w) (concat (map enc xs)) = concat (map enc (xs ! i # drop (Suc i) xs))"
    using assms(2) by (simp only: drop_concat_enc less_imp_le Cons_nth_drop_Suc)
  finally show ?thesis by (simp add: length_enc dec_enc)
qed

lemma times_enc:
  assumes "drop off input = concat (map enc xs) @ rest" and "off \<le> length input"
  shows "read_times (length xs) rd input off = Inr (xs, off + length xs * w)"
proof -
  have "length (concat (map enc xs) @ rest) = length input - off"
    using assms(1) by (metis length_drop)
  then have "off + length xs * w \<le> length input"
    using assms(2) by (simp add: length_concat_enc)
  then show ?thesis
    by (auto simp: times_ok dec_slice [OF assms(1)] intro!: nth_equalityI)
qed

lemma enc_slices:
  "off + n * w \<le> length input \<Longrightarrow>
     concat (map enc (map (\<lambda>i. dec (take w (drop (off + i * w) input))) [0..<n])) = take (n * w) (drop off input)"
proof (induction n)
  case (Suc n)
  then show ?case
    by (simp add: enc_dec take_add drop_plus add.commute [of w "n * w"] del: drop_drop)
qed simp

lemma triple_codec:
  "byte_codec (readTriple rd) (\<lambda>(x, y, z). enc x @ enc y @ enc z)
     (\<lambda>bs. (dec (take w bs), dec (take w (drop w bs)), dec (take w (drop (2 * w) bs)))) (3 * w)"
proof
  fix off :: nat and input :: "u8 list"
  assume "off + 3 * w \<le> length input"
  then show "readTriple rd input off = Inr ((dec (take w (take (3 * w) (drop off input))),
      dec (take w (drop w (take (3 * w) (drop off input)))),
      dec (take w (drop (2 * w) (take (3 * w) (drop off input))))), off + 3 * w)"
    by (simp add: readTriple_def rd_ok drop_take min_def mult_2 numeral_3_eq_3 add.assoc drop_plus
        del: drop_drop)
next
  fix off :: nat and input :: "u8 list"
  assume o: "off \<le> length input" "length input < off + 3 * w"
  show "\<exists>e. readTriple rd input off = Inl e"
  proof (cases "off + w \<le> length input")
    case False
    then show ?thesis
      using rd_short [of off input] o by (auto simp: readTriple_def)
  next
    case True
    then show ?thesis
      using rd_short [of "off + w" input] rd_short [of "off + w + w" input] o
        rd_ok [of off input] rd_ok [of "off + w" input]
      by (cases "off + w + w \<le> length input") (auto simp: readTriple_def)
  qed
next
  fix v :: "'a \<times> 'a \<times> 'a"
  show "length (case v of (x, y, z) \<Rightarrow> enc x @ enc y @ enc z) = 3 * w"
    by (simp add: length_enc split: prod.split)
next
  fix v :: "'a \<times> 'a \<times> 'a"
  show "(dec (take w (case v of (x, y, z) \<Rightarrow> enc x @ enc y @ enc z)),
      dec (take w (drop w (case v of (x, y, z) \<Rightarrow> enc x @ enc y @ enc z))),
      dec (take w (drop (2 * w) (case v of (x, y, z) \<Rightarrow> enc x @ enc y @ enc z)))) = v"
    by (simp add: length_enc dec_enc split: prod.split)
next
  fix bs :: "u8 list"
  assume "length bs = 3 * w"
  then have "enc (dec (take w bs)) @ enc (dec (take w (drop w bs))) @ enc (dec (take w (drop (2 * w) bs)))
      = take w bs @ take w (drop w bs) @ drop (2 * w) bs"
    by (simp add: enc_dec)
  also have "\<dots> = bs"
    by (metis append_take_drop_id drop_drop mult_2)
  finally show "(case (dec (take w bs), dec (take w (drop w bs)), dec (take w (drop (2 * w) bs))) of
      (x, y, z) \<Rightarrow> enc x @ enc y @ enc z) = bs"
    by simp
qed

end

interpretation u32c: byte_codec readUint32 "le_bytes 4" de32 4
proof
  fix off :: nat and input :: "u8 list" assume "off + 4 \<le> length input"
  then show "readUint32 input off = Inr (de32 (take 4 (drop off input)), off + 4)"
    by (simp add: readUint32_def de32_def upt_rec)
qed (auto simp: readUint32_def le_bytes_de32)

interpretation u64c: byte_codec readUint64 "le_bytes 8" de64 8
proof
  fix off :: nat and input :: "u8 list" assume "off + 8 \<le> length input"
  then show "readUint64 input off = Inr (de64 (take 8 (drop off input)), off + 8)"
    by (simp add: readUint64_def de64_def upt_rec)
qed (auto simp: readUint64_def le_bytes_de64)

interpretation f32c: byte_codec readFloat32 "le_bytes 4" de32 4
  using u32c.byte_codec_axioms by (simp add: readFloat32_def [abs_def])

interpretation u8c: byte_codec readByte "\<lambda>b. [b]" hd 1
proof
  fix off :: nat and input :: "u8 list" assume "off + 1 \<le> length input"
  then show "readByte input off = Inr (hd (take 1 (drop off input)), off + 1)"
    by (simp add: readByte_def hd_drop_conv_nth)
next
  fix bs :: "u8 list" assume "length bs = 1"
  then show "[hd bs] = bs" by (cases bs) auto
qed (auto simp: readByte_def)

definition encode_coord :: "f32 \<times> f32 \<times> f32 \<Rightarrow> u8 list" where
  "encode_coord = (\<lambda>(x, y, z). le_bytes 4 x @ le_bytes 4 y @ le_bytes 4 z)"

definition decode_coord :: "u8 list \<Rightarrow> f32 \<times> f32 \<times> f32" where
  "decode_coord bs = (de32 (take 4 bs), de32 (take 4 (drop 4 bs)), de32 (take 4 (drop 8 bs)))"

definition encode_color :: "u8 \<times> u8 \<times> u8 \<Rightarrow> u8 list" where
  "encode_color = (\<lambda>(x, y, z). [x] @ [y] @ [z])"

definition decode_color :: "u8 list \<Rightarrow> u8 \<times> u8 \<times> u8" where
  "decode_color bs = (hd (take 1 bs), hd (take 1 (drop 1 bs)), hd (take 1 (drop 2 bs)))"

interpretation coordc: byte_codec "readTriple readFloat32" encode_coord decode_coord 12
  using f32c.triple_codec by (simp add: encode_coord_def decode_coord_def [abs_def])

interpretation colorc: byte_codec "readTriple readByte" encode_color decode_color 3
  using u8c.triple_codec by (simp only: encode_color_def decode_color_def [abs_def] mult_1_right)

end
