(* ===== verification/Pcd1.thy ===== *)
theory Pcd1
  imports Contracts Ieee ByteCodec
begin

text \<open>
  The PCD1 v2 binary point-cloud codec (\<^verbatim>\<open>src/provider/http/pcd1.cpp\<close>): a little-endian
  header of 112 bytes, then the coordinates of all points, then their colours. The byte
  primitives and their codec contract are in \<open>ByteCodec\<close>.
\<close>

section \<open>Constants\<close>

definition HEADER_SIZE :: nat where "HEADER_SIZE = 112"
definition POINT_SIZE :: nat where "POINT_SIZE = 15"
definition FORMAT_VERSION :: u32 where "FORMAT_VERSION = 2"

text \<open>The bits of \<^verbatim>\<open>1.0e-5F\<close>, \<^verbatim>\<open>0.0F\<close> and \<^verbatim>\<open>1.0F\<close>.\<close>

definition MATRIX_TOLERANCE :: f32 where "MATRIX_TOLERANCE = 0x3727C5AC"
definition f32_zero :: f32 where "f32_zero = 0"
definition f32_one :: f32 where "f32_one = 0x3F800000"

section \<open>Validation\<close>

definition point_finite :: "PointCloudPoint \<Rightarrow> bool" where
  "point_finite p = (case pt_optical_point_m p of (x, y, z) \<Rightarrow>
     f32_isfinite x \<and> f32_isfinite y \<and> f32_isfinite z)"

definition row_dot :: "f32 list \<Rightarrow> nat \<Rightarrow> nat \<Rightarrow> f32" where
  "row_dot m row column =
     foldl (\<lambda>dot index. f32_add dot (f32_mul (m ! (row * 4 + index)) (m ! (column * 4 + index))))
       f32_zero [0..<3]"

definition rows_orthonormal :: "f32 list \<Rightarrow> bool" where
  "rows_orthonormal m \<longleftrightarrow>
     (\<forall>row \<in> set [0..<3]. \<forall>column \<in> set [0..<3].
        \<not> f32_less MATRIX_TOLERANCE
            (f32_abs (f32_sub (row_dot m row column)
                       (if row = column then f32_one else f32_zero))))"

definition rotation_determinant :: "f32 list \<Rightarrow> f32" where
  "rotation_determinant m =
     f32_add
       (f32_sub
          (f32_mul (m ! 0) (f32_sub (f32_mul (m ! 5) (m ! 10)) (f32_mul (m ! 6) (m ! 9))))
          (f32_mul (m ! 1) (f32_sub (f32_mul (m ! 4) (m ! 10)) (f32_mul (m ! 6) (m ! 8)))))
       (f32_mul (m ! 2) (f32_sub (f32_mul (m ! 4) (m ! 9)) (f32_mul (m ! 5) (m ! 8))))"

definition validatePointCloud :: "PointCloudSnapshot \<Rightarrow> unit result" where
  "validatePointCloud snapshot =
     bindE (throw_if (sp_width (pc_source_profile snapshot) \<le> 0 \<or>
                      sp_height (pc_source_profile snapshot) \<le> 0 \<or>
                      pc_requested_stride_pixels snapshot \<le> 0 \<or> pc_stride_pixels snapshot \<le> 0)
              (Invalid_argument ''PCD1 source dimensions and strides must be positive.'')) (\<lambda>_.
     bindE (throw_if (length (pc_points snapshot) > 2 ^ 32 - 1 \<or>
                      length (pc_points snapshot) > (2 ^ 64 - 1 - HEADER_SIZE) div POINT_SIZE)
              (Invalid_argument ''PCD1 point count is too large.'')) (\<lambda>_.
     bindE (throw_if (\<not> list_all point_finite (pc_points snapshot))
              (Invalid_argument ''PCD1 point coordinate must be finite.'')) (\<lambda>_.
     bindE (throw_if (\<not> list_all f32_isfinite (pc_matrix3x4 snapshot))
              (Invalid_argument ''PCD1 mount matrix value must be finite.'')) (\<lambda>_.
     bindE (throw_if (\<not> rows_orthonormal (pc_matrix3x4 snapshot))
              (Invalid_argument ''PCD1 mount matrix rotation is not orthonormal.'')) (\<lambda>_.
     throw_if (f32_less MATRIX_TOLERANCE
                (f32_abs (f32_sub (rotation_determinant (pc_matrix3x4 snapshot)) f32_one)))
       (Invalid_argument ''PCD1 mount matrix rotation determinant is invalid.''))))))"

section \<open>Writer\<close>

definition pcd1_magic :: "u8 list" where "pcd1_magic = [0x50, 0x43, 0x44, 0x31]"

definition appendPoint :: "u8 list \<Rightarrow> PointCloudPoint \<Rightarrow> u8 list" where
  "appendPoint output point = (case pt_optical_point_m point of (x, y, z) \<Rightarrow>
     appendFloat32 (appendFloat32 (appendFloat32 output x) y) z)"

definition appendColor :: "u8 list \<Rightarrow> PointCloudPoint \<Rightarrow> u8 list" where
  "appendColor output point = (case pt_color_rgb point of (r, g, b) \<Rightarrow> output @ [r, g, b])"

definition writePcd1V2 :: "PointCloudSnapshot \<Rightarrow> u8 list result" where
  "writePcd1V2 snapshot = bindE (validatePointCloud snapshot) (\<lambda>_.
     let o1 = pcd1_magic;
         o2 = appendUint32 o1 FORMAT_VERSION;
         o3 = appendUint64 o2 (frame_number (pc_identity snapshot));
         o4 = appendInt64 o3 (capture_timestamp_ns (pc_identity snapshot));
         o5 = appendUint32 o4 (word_of_int (sp_width (pc_source_profile snapshot)));
         o6 = appendUint32 o5 (word_of_int (sp_height (pc_source_profile snapshot)));
         o7 = appendUint32 o6 (word_of_int (pc_requested_stride_pixels snapshot));
         o8 = appendUint32 o7 (word_of_int (pc_stride_pixels snapshot));
         o9 = appendUint32 o8 (word_of_nat (length (pc_points snapshot)));
         o10 = appendUint32 o9 0;
         o11 = appendFloat32 o10 (in_fx (pc_source_intrinsics snapshot));
         o12 = appendFloat32 o11 (in_fy (pc_source_intrinsics snapshot));
         o13 = appendFloat32 o12 (in_ppx (pc_source_intrinsics snapshot));
         o14 = appendFloat32 o13 (in_ppy (pc_source_intrinsics snapshot));
         o15 = foldl appendFloat32 o14 (pc_matrix3x4 snapshot);
         o16 = foldl appendPoint o15 (pc_points snapshot);
         o17 = foldl appendColor o16 (pc_points snapshot)
     in Inr o17)"

section \<open>Reader\<close>

definition readPcd1V2 :: "u8 list \<Rightarrow> PointCloudSnapshot result" where
  "readPcd1V2 input =
     bindE (throw_if (length input < HEADER_SIZE \<or> take 4 input \<noteq> pcd1_magic)
              (Invalid_argument ''PCD1 magic is invalid.'')) (\<lambda>_.
     bindE (readUint32 input 4) (\<lambda>(version, o1).
     bindE (throw_if (version \<noteq> FORMAT_VERSION)
              (Invalid_argument ''PCD1 version is invalid.'')) (\<lambda>_.
     bindE (readUint64 input o1) (\<lambda>(number, o2).
     bindE (readInt64 input o2) (\<lambda>(timestamp, o3).
     bindE (readUint32 input o3) (\<lambda>(width, o4).
     bindE (readUint32 input o4) (\<lambda>(height, o5).
     bindE (readUint32 input o5) (\<lambda>(requested_stride, o6).
     bindE (readUint32 input o6) (\<lambda>(stride, o7).
     bindE (readUint32 input o7) (\<lambda>(point_count, o8).
     bindE (readUint32 input o8) (\<lambda>(reserved, o9).
     bindE (throw_if (reserved \<noteq> 0)
              (Invalid_argument ''PCD1 reserved field is invalid.'')) (\<lambda>_.
     bindE (readFloat32 input o9) (\<lambda>(fx, o10).
     bindE (readFloat32 input o10) (\<lambda>(fy, o11).
     bindE (readFloat32 input o11) (\<lambda>(ppx, o12).
     bindE (readFloat32 input o12) (\<lambda>(ppy, o13).
     bindE (read_times 12 readFloat32 input o13) (\<lambda>(matrix, o14).
     bindE (throw_if (length input \<noteq> HEADER_SIZE + POINT_SIZE * unat point_count)
              (Invalid_argument ''PCD1 length is invalid.'')) (\<lambda>_.
     bindE (read_times (unat point_count) (readTriple readFloat32) input o14) (\<lambda>(coords, o15).
     bindE (read_times (unat point_count) (readTriple readByte) input o15) (\<lambda>(colors, o16).
     let snapshot = default_PointCloudSnapshot
           \<lparr>pc_identity := default_FrameIdentity\<lparr>frame_number := number, capture_timestamp_ns := timestamp\<rparr>,
            pc_source_profile := default_StreamProfile\<lparr>sp_width := sint width, sp_height := sint height\<rparr>,
            pc_source_intrinsics := default_CameraIntrinsics
              \<lparr>in_fx := fx, in_fy := fy, in_ppx := ppx, in_ppy := ppy\<rparr>,
            pc_requested_stride_pixels := sint requested_stride,
            pc_stride_pixels := sint stride,
            pc_matrix3x4 := matrix,
            pc_points := map2 (\<lambda>c rgb. \<lparr>pt_optical_point_m = c, pt_color_rgb = rgb\<rparr>) coords colors\<rparr>
     in bindE (validatePointCloud snapshot) (\<lambda>_. Inr snapshot)))))))))))))))))))))"

end
