(* ===== verification/PcdFormat.thy ===== *)
theory PcdFormat
  imports Pcd1
begin

text \<open>
  Correctness of the PCD1 v2 codec of \<open>Pcd1\<close>: the image of a snapshot as a concatenation of
  fixed-width fields, the reader and the writer as functions of that image, and the two round
  trips. Array loops go through the \<open>byte_codec\<close> interpretations of \<open>ByteCodec\<close>.
\<close>

section \<open>The format\<close>

text \<open>
  What the C++ types guarantee of a snapshot, and the part of a snapshot that the format carries.
\<close>

definition pcd1_wf :: "PointCloudSnapshot \<Rightarrow> bool" where
  "pcd1_wf s \<longleftrightarrow> length (pc_matrix3x4 s) = 12 \<and>
     int64_ok (capture_timestamp_ns (pc_identity s)) \<and>
     int32_ok (sp_width (pc_source_profile s)) \<and> int32_ok (sp_height (pc_source_profile s)) \<and>
     int32_ok (pc_requested_stride_pixels s) \<and> int32_ok (pc_stride_pixels s)"

definition pcd1_view :: "PointCloudSnapshot \<Rightarrow> PointCloudSnapshot" where
  "pcd1_view s = default_PointCloudSnapshot
     \<lparr>pc_identity := default_FrameIdentity
        \<lparr>frame_number := frame_number (pc_identity s),
         capture_timestamp_ns := capture_timestamp_ns (pc_identity s)\<rparr>,
      pc_source_profile := default_StreamProfile
        \<lparr>sp_width := sp_width (pc_source_profile s), sp_height := sp_height (pc_source_profile s)\<rparr>,
      pc_source_intrinsics := default_CameraIntrinsics
        \<lparr>in_fx := in_fx (pc_source_intrinsics s), in_fy := in_fy (pc_source_intrinsics s),
         in_ppx := in_ppx (pc_source_intrinsics s), in_ppy := in_ppy (pc_source_intrinsics s)\<rparr>,
      pc_requested_stride_pixels := pc_requested_stride_pixels s,
      pc_stride_pixels := pc_stride_pixels s,
      pc_matrix3x4 := pc_matrix3x4 s,
      pc_points := pc_points s\<rparr>"

text \<open>The wire image: what the writer emits for a snapshot, field by field.\<close>

definition pcd1_header :: "PointCloudSnapshot \<Rightarrow> u8 list" where
  "pcd1_header s =
     pcd1_magic @ le_bytes 4 FORMAT_VERSION @
     le_bytes 8 (frame_number (pc_identity s)) @
     le_bytes 8 (word_of_int (capture_timestamp_ns (pc_identity s)) :: u64) @
     le_bytes 4 (word_of_int (sp_width (pc_source_profile s)) :: u32) @
     le_bytes 4 (word_of_int (sp_height (pc_source_profile s)) :: u32) @
     le_bytes 4 (word_of_int (pc_requested_stride_pixels s) :: u32) @
     le_bytes 4 (word_of_int (pc_stride_pixels s) :: u32) @
     le_bytes 4 (word_of_nat (length (pc_points s)) :: u32) @ le_bytes 4 (0 :: u32) @
     le_bytes 4 (in_fx (pc_source_intrinsics s)) @ le_bytes 4 (in_fy (pc_source_intrinsics s)) @
     le_bytes 4 (in_ppx (pc_source_intrinsics s)) @ le_bytes 4 (in_ppy (pc_source_intrinsics s)) @
     concat (map (le_bytes 4) (pc_matrix3x4 s))"

definition pcd1_image :: "PointCloudSnapshot \<Rightarrow> u8 list" where
  "pcd1_image s = pcd1_header s @
     concat (map encode_coord (map pt_optical_point_m (pc_points s))) @
     concat (map encode_color (map pt_color_rgb (pc_points s)))"

lemma foldl_appenders:
  "foldl appendFloat32 out xs = out @ concat (map (le_bytes 4) xs)"
  "foldl appendPoint out ps = out @ concat (map encode_coord (map pt_optical_point_m ps))"
  "foldl appendColor out ps = out @ concat (map encode_color (map pt_color_rgb ps))"
proof -
  show "foldl appendFloat32 out xs = out @ concat (map (le_bytes 4) xs)"
    by (induction xs arbitrary: out) (simp_all add: append_le)
  show "foldl appendPoint out ps = out @ concat (map encode_coord (map pt_optical_point_m ps))"
    by (induction ps arbitrary: out)
       (simp_all add: appendPoint_def encode_coord_def append_le split: prod.split)
  show "foldl appendColor out ps = out @ concat (map encode_color (map pt_color_rgb ps))"
    by (induction ps arbitrary: out) (simp_all add: appendColor_def encode_color_def split: prod.split)
qed

lemma writePcd1V2_eq:
  "writePcd1V2 s = bindE (validatePointCloud s) (\<lambda>_. Inr (pcd1_image s))"
  by (simp add: writePcd1V2_def Let_def foldl_appenders append_le pcd1_image_def pcd1_header_def)

lemma length_header [simp]: "length (pcd1_header s) = 64 + 4 * length (pc_matrix3x4 s)"
  by (simp add: pcd1_header_def pcd1_magic_def f32c.length_concat_enc)

lemma length_image:
  "length (pc_matrix3x4 s) = 12 \<Longrightarrow> length (pcd1_image s) = HEADER_SIZE + POINT_SIZE * length (pc_points s)"
  using coordc.length_concat_enc [of "map pt_optical_point_m (pc_points s)"]
    colorc.length_concat_enc [of "map pt_color_rgb (pc_points s)"]
  by (simp add: pcd1_image_def HEADER_SIZE_def POINT_SIZE_def)

lemma validate_view: "validatePointCloud (pcd1_view s) = validatePointCloud s"
  by (simp add: validatePointCloud_def pcd1_view_def)

lemma validate_point_count:
  "validatePointCloud s = Inr () \<Longrightarrow> length (pc_points s) < 2 ^ 32"
  by (auto simp: validatePointCloud_def bindE_Inr_iff)



text \<open>Slices of fixed widths put together again.\<close>

fun slices :: "nat list \<Rightarrow> 'a list \<Rightarrow> 'a list list" where
  "slices [] xs = []"
| "slices (w # ws) xs = take w xs # slices ws (drop w xs)"

lemma concat_slices: "concat (slices ws xs) = take (sum_list ws) xs"
  by (induction ws arbitrary: xs) (simp_all add: take_add)

lemma header_drop:
  "length (pc_matrix3x4 s) = 12 \<Longrightarrow> drop 112 (pcd1_image s) =
     concat (map encode_coord (map pt_optical_point_m (pc_points s))) @
     concat (map encode_color (map pt_color_rgb (pc_points s)))"
  by (simp add: pcd1_image_def)

lemma read_image_points:
  assumes m: "length (pc_matrix3x4 s) = 12"
  shows "read_times (length (pc_points s)) (readTriple readFloat32) (pcd1_image s) 112 =
           Inr (map pt_optical_point_m (pc_points s), 112 + length (pc_points s) * 12)"
    and "read_times (length (pc_points s)) (readTriple readByte) (pcd1_image s)
             (112 + length (pc_points s) * 12) =
           Inr (map pt_color_rgb (pc_points s), 112 + length (pc_points s) * 15)"
proof -
  let ?ps = "pc_points s"
  have len: "length (pcd1_image s) = 112 + 15 * length ?ps"
    using length_image [OF m] by (simp add: HEADER_SIZE_def POINT_SIZE_def)
  show "read_times (length ?ps) (readTriple readFloat32) (pcd1_image s) 112 =
      Inr (map pt_optical_point_m ?ps, 112 + length ?ps * 12)"
    using coordc.times_enc [of 112 "pcd1_image s" "map pt_optical_point_m ?ps"]
      header_drop [OF m] len by simp
  have "drop (112 + length ?ps * 12) (pcd1_image s) = concat (map encode_color (map pt_color_rgb ?ps)) @ []"
    using header_drop [OF m] coordc.length_concat_enc [of "map pt_optical_point_m ?ps"]
    by (simp add: coordc.drop_plus del: drop_drop)
  from colorc.times_enc [OF this] len
  show "read_times (length ?ps) (readTriple readByte) (pcd1_image s) (112 + length ?ps * 12) =
      Inr (map pt_color_rgb ?ps, 112 + length ?ps * 15)" by simp
qed

lemma read_image_matrix:
  assumes m: "length (pc_matrix3x4 s) = 12"
  shows "read_times 12 readFloat32 (pcd1_image s) 64 = Inr (pc_matrix3x4 s, 112)"
proof -
  have "drop 64 (pcd1_image s) = concat (map (le_bytes 4) (pc_matrix3x4 s)) @ drop 112 (pcd1_image s)"
    using m by (simp add: pcd1_image_def pcd1_header_def pcd1_magic_def f32c.length_concat_enc)
  from f32c.times_enc [OF this] m length_image [OF m] show ?thesis
    by (simp add: HEADER_SIZE_def)
qed

lemma read_image_header:
  assumes m: "length (pc_matrix3x4 s) = 12"
  shows "readUint32 (pcd1_image s) 4 = Inr (FORMAT_VERSION, 8)"
    "readUint64 (pcd1_image s) 8 = Inr (frame_number (pc_identity s), 16)"
    "readUint64 (pcd1_image s) 16 = Inr (word_of_int (capture_timestamp_ns (pc_identity s)), 24)"
    "readUint32 (pcd1_image s) 24 = Inr (word_of_int (sp_width (pc_source_profile s)), 28)"
    "readUint32 (pcd1_image s) 28 = Inr (word_of_int (sp_height (pc_source_profile s)), 32)"
    "readUint32 (pcd1_image s) 32 = Inr (word_of_int (pc_requested_stride_pixels s), 36)"
    "readUint32 (pcd1_image s) 36 = Inr (word_of_int (pc_stride_pixels s), 40)"
    "readUint32 (pcd1_image s) 40 = Inr (word_of_nat (length (pc_points s)), 44)"
    "readUint32 (pcd1_image s) 44 = Inr (0, 48)"
    "readFloat32 (pcd1_image s) 48 = Inr (in_fx (pc_source_intrinsics s), 52)"
    "readFloat32 (pcd1_image s) 52 = Inr (in_fy (pc_source_intrinsics s), 56)"
    "readFloat32 (pcd1_image s) 56 = Inr (in_ppx (pc_source_intrinsics s), 60)"
    "readFloat32 (pcd1_image s) 60 = Inr (in_ppy (pc_source_intrinsics s), 64)"
  using length_image [OF m]
  by (simp_all add: u32c.rd_ok u64c.rd_ok f32c.rd_ok HEADER_SIZE_def,
      simp_all add: pcd1_image_def pcd1_header_def pcd1_magic_def)

text \<open>The reader on the image of a snapshot.\<close>

lemma read_image:
  assumes wf: "pcd1_wf s" and v: "validatePointCloud s = Inr ()"
  shows "readPcd1V2 (pcd1_image s) = Inr (pcd1_view s)"
proof -
  have m: "length (pc_matrix3x4 s) = 12" using wf by (simp add: pcd1_wf_def)
  have n: "unat (word_of_nat (length (pc_points s)) :: u32) = length (pc_points s)"
    using validate_point_count [OF v] by (simp add: unat_of_nat)
  have magic: "take 4 (pcd1_image s) = pcd1_magic"
    by (simp add: pcd1_image_def pcd1_header_def pcd1_magic_def)
  have points: "map2 (\<lambda>c rgb. \<lparr>pt_optical_point_m = c, pt_color_rgb = rgb\<rparr>)
      (map pt_optical_point_m (pc_points s)) (map pt_color_rgb (pc_points s)) = pc_points s"
    by (rule nth_equalityI) simp_all
  show ?thesis
    using wf length_image [OF m] validate_view [of s] v
    by (simp add: readPcd1V2_def readInt64_def read_image_header [OF m] read_image_matrix [OF m]
        read_image_points [OF m] n magic points pcd1_wf_def HEADER_SIZE_def Let_def
        flip: pcd1_view_def)
qed

text \<open>The point count of an image and the snapshot its bytes hold.\<close>

definition image_points :: "u8 list \<Rightarrow> nat" where
  "image_points input = unat (de32 (take 4 (drop 40 input)))"

definition decoded_points :: "u8 list \<Rightarrow> PointCloudPoint list" where
  "decoded_points input =
     map2 (\<lambda>c rgb. \<lparr>pt_optical_point_m = c, pt_color_rgb = rgb\<rparr>)
       (map (\<lambda>i. decode_coord (take 12 (drop (112 + i * 12) input))) [0..<image_points input])
       (map (\<lambda>i. decode_color (take 3 (drop (112 + image_points input * 12 + i * 3) input)))
         [0..<image_points input])"

definition decoded_matrix :: "u8 list \<Rightarrow> f32 list" where
  "decoded_matrix input = map (\<lambda>i. de32 (take 4 (drop (64 + i * 4) input))) [0..<12]"

definition decoded_snapshot :: "u8 list \<Rightarrow> PointCloudSnapshot" where
  "decoded_snapshot input = default_PointCloudSnapshot
      \<lparr>pc_identity := default_FrameIdentity\<lparr>frame_number := de64 (take 8 (drop 8 input)),
         capture_timestamp_ns := sint (de64 (take 8 (drop 16 input)))\<rparr>,
       pc_source_profile := default_StreamProfile\<lparr>sp_width := sint (de32 (take 4 (drop 24 input))),
         sp_height := sint (de32 (take 4 (drop 28 input)))\<rparr>,
       pc_source_intrinsics := default_CameraIntrinsics
         \<lparr>in_fx := de32 (take 4 (drop 48 input)), in_fy := de32 (take 4 (drop 52 input)),
          in_ppx := de32 (take 4 (drop 56 input)), in_ppy := de32 (take 4 (drop 60 input))\<rparr>,
       pc_requested_stride_pixels := sint (de32 (take 4 (drop 32 input))),
       pc_stride_pixels := sint (de32 (take 4 (drop 36 input))),
       pc_matrix3x4 := decoded_matrix input,
       pc_points := decoded_points input\<rparr>"

lemma read_matrix:
  "112 \<le> length input \<Longrightarrow> read_times 12 readFloat32 input 64 = Inr (decoded_matrix input, 112)"
  using f32c.times_ok [of 64 12 input]
  by (simp add: decoded_matrix_def del: upt_rec_numeral upt_conv_Cons)

lemma read_points:
  assumes "length input = 112 + 15 * image_points input"
  shows "\<exists>cs qs. read_times (image_points input) (readTriple readFloat32) input 112
        = Inr (cs, 112 + image_points input * 12)
    \<and> read_times (image_points input) (readTriple readByte) input (112 + image_points input * 12)
        = Inr (qs, 112 + image_points input * 15)
    \<and> map2 (\<lambda>c rgb. \<lparr>pt_optical_point_m = c, pt_color_rgb = rgb\<rparr>) cs qs = decoded_points input"
  using assms coordc.times_ok [of 112 "image_points input" input]
    colorc.times_ok [of "112 + image_points input * 12" "image_points input" input]
  by (simp add: decoded_points_def del: upt_rec_numeral upt_conv_Cons)

lemma read_tail:
  "length input = 112 + 15 * image_points input \<Longrightarrow>
     bindE (read_times (image_points input) (readTriple readFloat32) input 112) (\<lambda>(cs, o15).
     bindE (read_times (image_points input) (readTriple readByte) input o15) (\<lambda>(qs, o16).
       F (map2 (\<lambda>c rgb. \<lparr>pt_optical_point_m = c, pt_color_rgb = rgb\<rparr>) cs qs)))
     = F (decoded_points input)"
  using read_points [of input] by auto

lemma readPcd1V2_eq:
  "readPcd1V2 input =
     bindE (throw_if (length input < 112 \<or> take 4 input \<noteq> pcd1_magic)
              (Invalid_argument ''PCD1 magic is invalid.'')) (\<lambda>_.
     bindE (throw_if (de32 (take 4 (drop 4 input)) \<noteq> FORMAT_VERSION)
              (Invalid_argument ''PCD1 version is invalid.'')) (\<lambda>_.
     bindE (throw_if (de32 (take 4 (drop 44 input)) \<noteq> 0)
              (Invalid_argument ''PCD1 reserved field is invalid.'')) (\<lambda>_.
     bindE (throw_if (length input \<noteq> 112 + 15 * image_points input)
              (Invalid_argument ''PCD1 length is invalid.'')) (\<lambda>_.
     bindE (validatePointCloud (decoded_snapshot input)) (\<lambda>_. Inr (decoded_snapshot input))))))"
proof (cases "112 \<le> length input \<and> take 4 input = pcd1_magic
    \<and> de32 (take 4 (drop 4 input)) = FORMAT_VERSION")
  case False
  then show ?thesis
    by (cases "length input < 112 \<or> take 4 input \<noteq> pcd1_magic")
      (auto simp: readPcd1V2_def HEADER_SIZE_def u32c.rd_ok)
next
  case True
  note scalars = u32c.rd_ok u64c.rd_ok f32c.rd_ok readInt64_def read_matrix HEADER_SIZE_def POINT_SIZE_def
  show ?thesis
  proof (cases "length input = 112 + 15 * image_points input")
    case len: True
    obtain cs qs where
      r: "read_times (image_points input) (readTriple readFloat32) input 112
            = Inr (cs, 112 + image_points input * 12)"
        "read_times (image_points input) (readTriple readByte) input (112 + image_points input * 12)
            = Inr (qs, 112 + image_points input * 15)"
      and p: "map2 (\<lambda>c rgb. \<lparr>pt_optical_point_m = c, pt_color_rgb = rgb\<rparr>) cs qs = decoded_points input"
      using read_points [OF len] by blast
    have "readPcd1V2 input = bindE (throw_if (de32 (take 4 (drop 44 input)) \<noteq> 0)
              (Invalid_argument ''PCD1 reserved field is invalid.'')) (\<lambda>_.
       bindE (validatePointCloud (decoded_snapshot input)) (\<lambda>_. Inr (decoded_snapshot input)))"
      unfolding readPcd1V2_def using True len
      apply (simp add: scalars del: upt_rec_numeral upt_conv_Cons read_times.simps flip: image_points_def)
      by (simp only: r bindE_simps prod.case p Let_def decoded_snapshot_def)
    with True len show ?thesis by simp
  next
    case len: False
    then show ?thesis
      unfolding readPcd1V2_def using True
      by (simp add: scalars del: upt_rec_numeral upt_conv_Cons read_times.simps
          flip: image_points_def)
  qed
qed


lemma length_decoded [simp]:
  "length (decoded_points input) = image_points input" "length (decoded_matrix input) = 12"
  by (simp_all add: decoded_points_def decoded_matrix_def del: upt_rec_numeral upt_conv_Cons)

lemma le_de_slice:
  "k + 4 \<le> length input \<Longrightarrow> le_bytes 4 (de32 (take 4 (drop k input))) = take 4 (drop k input)"
  "k + 8 \<le> length input \<Longrightarrow> le_bytes 8 (de64 (take 8 (drop k input))) = take 8 (drop k input)"
  by (simp_all add: le_bytes_de32 le_bytes_de64)

lemma decoded_matrix_bytes:
  "112 \<le> length input \<Longrightarrow> concat (map (le_bytes 4) (decoded_matrix input)) = take 48 (drop 64 input)"
  using f32c.enc_slices [of 64 12 input]
  by (simp add: decoded_matrix_def del: upt_rec_numeral upt_conv_Cons)

lemma header_decoded:
  assumes len: "112 \<le> length input" and magic: "take 4 input = pcd1_magic"
    and version: "de32 (take 4 (drop 4 input)) = FORMAT_VERSION"
    and reserved: "de32 (take 4 (drop 44 input)) = 0"
  shows "pcd1_header (decoded_snapshot input) = take 112 input"
proof -
  have s: "take 112 input = concat (slices [4,4,8,8,4,4,4,4,4,4,4,4,4,4,48] input)"
    by (simp only: concat_slices) simp
  have v: "le_bytes 4 FORMAT_VERSION = take 4 (drop 4 input)"
    and r: "le_bytes 4 (0 :: u32) = take 4 (drop 44 input)"
    using le_de_slice(1) [of 4 input] le_de_slice(1) [of 44 input] len version reserved by simp_all
  show ?thesis
    using len unfolding s
    by (simp add: pcd1_header_def decoded_snapshot_def v r le_de_slice decoded_matrix_bytes
        image_points_def flip: magic)
qed

lemma points_decoded:
  assumes "length input = 112 + 15 * image_points input"
  shows "concat (map encode_coord (map pt_optical_point_m (decoded_points input))) @
     concat (map encode_color (map pt_color_rgb (decoded_points input))) = drop 112 input"
proof -
  let ?n = "image_points input"
  have fields: "map pt_optical_point_m (decoded_points input) =
      map (\<lambda>i. decode_coord (take 12 (drop (112 + i * 12) input))) [0..<?n]"
    "map pt_color_rgb (decoded_points input) =
      map (\<lambda>i. decode_color (take 3 (drop (112 + ?n * 12 + i * 3) input))) [0..<?n]"
    unfolding decoded_points_def
    by (rule nth_equalityI; simp del: upt_rec_numeral upt_conv_Cons)+
  have "concat (map encode_coord (map pt_optical_point_m (decoded_points input))) @
     concat (map encode_color (map pt_color_rgb (decoded_points input))) =
     take (?n * 12) (drop 112 input) @ take (?n * 3) (drop (112 + ?n * 12) input)"
    using assms unfolding fields by (simp only: coordc.enc_slices colorc.enc_slices)
  also have "\<dots> = take (?n * 12) (drop 112 input) @ drop (?n * 12) (drop 112 input)"
    using assms by (simp add: add.commute)
  finally show ?thesis by (simp only: append_take_drop_id)
qed

lemma decoded_fields [simp]:
  "pc_points (decoded_snapshot input) = decoded_points input"
  by (simp add: decoded_snapshot_def)

lemma read_errors: "readPcd1V2 input = Inl e \<Longrightarrow> \<exists>m. e = Invalid_argument m"
  by (auto simp: readPcd1V2_eq validatePointCloud_def bindE_Inl_iff)

lemma read_length:
  "readPcd1V2 input = Inr s \<Longrightarrow> length input = HEADER_SIZE + POINT_SIZE * length (pc_points s)"
  by (auto simp: readPcd1V2_eq bindE_Inr_iff HEADER_SIZE_def POINT_SIZE_def)

section \<open>Properties\<close>

text \<open>A snapshot of one point behind an identity mount, for the witnesses.\<close>

definition sample_snapshot :: PointCloudSnapshot where
  "sample_snapshot = default_PointCloudSnapshot
     \<lparr>pc_identity := default_FrameIdentity\<lparr>frame_number := 7, capture_timestamp_ns := 1000\<rparr>,
      pc_source_profile := default_StreamProfile\<lparr>sp_width := 640, sp_height := 480\<rparr>,
      pc_requested_stride_pixels := 4, pc_stride_pixels := 8,
      pc_matrix3x4 := [f32_one, 0, 0, 0, 0, f32_one, 0, 0, 0, 0, f32_one, 0],
      pc_points := [\<lparr>pt_optical_point_m = (f32_one, 0, f32_one), pt_color_rgb = (1, 2, 3)\<rparr>]\<rparr>"

lemma sample_arith:
  "f32_mul f32_one f32_one = f32_one" "f32_mul f32_one 0 = 0" "f32_mul 0 f32_one = 0"
  "f32_mul 0 0 = 0" "f32_add 0 0 = 0" "f32_add 0 f32_one = f32_one" "f32_add f32_one 0 = f32_one"
  "f32_sub f32_one f32_one = 0" "f32_sub 0 0 = 0" "f32_sub f32_one 0 = f32_one" "f32_abs 0 = 0"
  "f32_less MATRIX_TOLERANCE 0 \<longleftrightarrow> False" "f32_isfinite 0" "f32_isfinite f32_one"
  by (simp_all add: f32_one_def MATRIX_TOLERANCE_def fp_eval)

lemma sample_snapshot_valid: "validatePointCloud sample_snapshot = Inr ()"
proof -
  have "[0..<3] = [0, 1, 2::nat]" by (simp add: upt_rec)
  then have "rows_orthonormal (pc_matrix3x4 sample_snapshot)"
    by (simp add: rows_orthonormal_def row_dot_def sample_snapshot_def f32_zero_def sample_arith
        del: upt_rec_numeral upt_conv_Cons)
  moreover have "rotation_determinant (pc_matrix3x4 sample_snapshot) = f32_one"
    by (simp add: rotation_determinant_def sample_snapshot_def sample_arith)
  ultimately show ?thesis
    by (simp add: validatePointCloud_def HEADER_SIZE_def POINT_SIZE_def sample_arith)
       (simp add: sample_snapshot_def point_finite_def sample_arith)
qed

lemma sample_snapshot_wf: "pcd1_wf sample_snapshot"
  by (simp add: pcd1_wf_def sample_snapshot_def int32_ok_def int64_ok_def)

text \<open>
  C7: a point cloud that fits its C++ types and that the writer accepts is read back exactly, in
  the fields the format carries, and its payload has 112 bytes and 15 more for every point.
\<close>

lemma pcd1_write_read:
  assumes "pcd1_wf s" and "writePcd1V2 s = Inr bytes"
  shows "readPcd1V2 bytes = Inr (pcd1_view s) \<and>
    length bytes = HEADER_SIZE + POINT_SIZE * length (pc_points s)"
  using assms by (auto simp: writePcd1V2_eq bindE_Inr_iff read_image length_image pcd1_wf_def)

lemma pcd1_write_read_witness:
  "\<exists>bytes. writePcd1V2 sample_snapshot = Inr bytes \<and>
     readPcd1V2 bytes = Inr (pcd1_view sample_snapshot) \<and> length bytes = 127"
  using pcd1_write_read [OF sample_snapshot_wf, of "pcd1_image sample_snapshot"]
  by (simp add: writePcd1V2_eq sample_snapshot_valid HEADER_SIZE_def POINT_SIZE_def)
     (simp add: sample_snapshot_def)

text \<open>
  C21: the reader is strict. A payload that it accepts is, byte for byte, the payload that the
  writer emits for the snapshot it returned, so no two payloads decode to the same snapshot.
\<close>

lemma pcd1_read_write:
  assumes "readPcd1V2 input = Inr s"
  shows "writePcd1V2 s = Inr input"
proof -
  have s: "s = decoded_snapshot input" and v: "validatePointCloud s = Inr ()"
    and len: "length input = 112 + 15 * image_points input"
    and h: "pcd1_header (decoded_snapshot input) = take 112 input"
    using assms by (auto simp: readPcd1V2_eq bindE_Inr_iff intro!: header_decoded)
  have "pcd1_image s = take 112 input @ drop 112 input"
    unfolding pcd1_image_def points_decoded [OF len, symmetric] by (simp add: s h)
  with v show ?thesis by (simp add: writePcd1V2_eq)
qed

lemma pcd1_read_write_witness:
  "writePcd1V2 (pcd1_view sample_snapshot) = Inr (pcd1_image sample_snapshot)"
  by (rule pcd1_read_write) (simp add: read_image sample_snapshot_wf sample_snapshot_valid)

text \<open>
  C35: decoding never leaves the payload. Whatever the bytes are, the reader returns a snapshot or
  raises \<^verbatim>\<open>std::invalid_argument\<close>: the \<^verbatim>\<open>input.at\<close> of the colour loop never raises
  \<^verbatim>\<open>std::out_of_range\<close>, and the accepted length is exactly the one the header announces.
\<close>

lemma pcd1_read_total:
  "(\<exists>s. readPcd1V2 input = Inr s \<and> length input = HEADER_SIZE + POINT_SIZE * length (pc_points s)) \<or>
   (\<exists>m. readPcd1V2 input = Inl (Invalid_argument m))"
  using read_errors [of input] read_length [of input] by (cases "readPcd1V2 input") simp_all

end
