(* ===== verification/Json.thy ===== *)
theory Json
  imports Prelude
begin

text \<open>
  The document object model of \<^verbatim>\<open>boost::json\<close> as the sources use it: the kinds of a
  \<^verbatim>\<open>boost::json::value\<close>, and the accessors. An object keeps its members in insertion order.
  The text parser and the serializer are library code outside the repository; the
  definitions that use them take them as arguments
  (\<open>parse :: string \<Rightarrow> json option\<close>, \<^const>\<open>None\<close> being a set error code, and
  \<open>ser :: json \<Rightarrow> string\<close>).
\<close>

datatype json =
    JNull
  | JBool bool
  | JInt64 int
  | JUint64 u64
  | JDouble f64
  | JString string
  | JArray "json list"
  | JObject "(string \<times> json) list"

type_synonym jobject = "(string \<times> json) list"

section \<open>Accessors\<close>

text \<open>\<^verbatim>\<open>object.if_contains(key)\<close>.\<close>

definition if_contains :: "jobject \<Rightarrow> string \<Rightarrow> json option" where
  "if_contains obj key = map_of obj key"

text \<open>\<^verbatim>\<open>object.at(key)\<close>.\<close>

definition jat :: "jobject \<Rightarrow> string \<Rightarrow> json result" where
  "jat obj key = (case if_contains obj key of
     None \<Rightarrow> Inl (Out_of_range ''out of range'') | Some v \<Rightarrow> Inr v)"

text \<open>\<^verbatim>\<open>object[key] = value\<close>: replaces in place, or appends.\<close>

fun jput :: "string \<Rightarrow> json \<Rightarrow> jobject \<Rightarrow> jobject" where
  "jput k v [] = [(k, v)]"
| "jput k v ((k', v') # obj) = (if k = k' then (k, v) # obj else (k', v') # jput k v obj)"

definition jas_string :: "json \<Rightarrow> string result" where
  "jas_string v = (case v of JString s \<Rightarrow> Inr s | _ \<Rightarrow> Inl (System_error ''not a string''))"

definition jas_bool :: "json \<Rightarrow> bool result" where
  "jas_bool v = (case v of JBool b \<Rightarrow> Inr b | _ \<Rightarrow> Inl (System_error ''not a bool''))"

definition jas_double :: "json \<Rightarrow> f64 result" where
  "jas_double v = (case v of JDouble d \<Rightarrow> Inr d | _ \<Rightarrow> Inl (System_error ''not a double''))"

definition jas_object :: "json \<Rightarrow> jobject result" where
  "jas_object v = (case v of JObject obj \<Rightarrow> Inr obj | _ \<Rightarrow> Inl (System_error ''not an object''))"

fun is_object :: "json \<Rightarrow> bool" where
  "is_object (JObject _) = True" | "is_object _ = False"

fun is_array :: "json \<Rightarrow> bool" where
  "is_array (JArray _) = True" | "is_array _ = False"

fun is_string :: "json \<Rightarrow> bool" where
  "is_string (JString _) = True" | "is_string _ = False"

fun is_bool :: "json \<Rightarrow> bool" where
  "is_bool (JBool _) = True" | "is_bool _ = False"

fun is_null :: "json \<Rightarrow> bool" where
  "is_null JNull = True" | "is_null _ = False"

text \<open>\<^verbatim>\<open>cond ? value(nullptr) : value(s)\<close> on an empty string, a recurring output form.\<close>

definition string_or_null :: "string \<Rightarrow> json" where
  "string_or_null s = (if s = [] then JNull else JString s)"

section \<open>Lemmas\<close>

lemma jat_Inr_iff [result_simps]: "jat obj k = Inr v \<longleftrightarrow> if_contains obj k = Some v"
  by (simp add: jat_def split: option.splits)

lemma jas_string_Inr_iff [result_simps]: "jas_string v = Inr s \<longleftrightarrow> v = JString s"
  by (cases v) (simp_all add: jas_string_def)

lemma jas_bool_Inr_iff [result_simps]: "jas_bool v = Inr b \<longleftrightarrow> v = JBool b"
  by (cases v) (simp_all add: jas_bool_def)

lemma jas_double_Inr_iff [result_simps]: "jas_double v = Inr d \<longleftrightarrow> v = JDouble d"
  by (cases v) (simp_all add: jas_double_def)

lemma jas_object_Inr_iff [result_simps]: "jas_object v = Inr obj \<longleftrightarrow> v = JObject obj"
  by (cases v) (simp_all add: jas_object_def)

lemma is_object_iff [simp]: "is_object v \<longleftrightarrow> (\<exists>obj. v = JObject obj)"
  by (cases v) simp_all

lemma is_array_iff [simp]: "is_array v \<longleftrightarrow> (\<exists>xs. v = JArray xs)"
  by (cases v) simp_all

lemma is_string_iff [simp]: "is_string v \<longleftrightarrow> (\<exists>s. v = JString s)"
  by (cases v) simp_all

lemma is_bool_iff [simp]: "is_bool v \<longleftrightarrow> (\<exists>b. v = JBool b)"
  by (cases v) simp_all

lemma is_null_iff [simp]: "is_null v \<longleftrightarrow> v = JNull"
  by (cases v) simp_all

lemma if_contains_Cons [simp]:
  "if_contains ((k, v) # obj) k' = (if k' = k then Some v else if_contains obj k')"
  by (simp add: if_contains_def)

lemma if_contains_Nil [simp]: "if_contains [] k = None"
  by (simp add: if_contains_def)

lemma if_contains_jput: "if_contains (jput k v obj) k' = (if k' = k then Some v else if_contains obj k')"
  by (induction k v obj rule: jput.induct) (auto simp: if_contains_def)

lemma if_contains_in_keys: "if_contains obj k = Some v \<Longrightarrow> k \<in> set (map fst obj)"
  by (force simp: if_contains_def dest: map_of_SomeD)

lemma jput_keys: "set (map fst (jput k v obj)) = insert k (set (map fst obj))"
  by (induction k v obj rule: jput.induct) auto

lemma jput_distinct: "distinct (map fst obj) \<Longrightarrow> distinct (map fst (jput k v obj))"
proof (induction k v obj rule: jput.induct)
  case (2 k v k' v' obj)
  then show ?case using jput_keys [of k v obj] by auto
qed simp

text \<open>
  Every member of an object with \<open>n\<close> members lies among \<open>n\<close> known distinct keys once all
  of these are present: how a size check together with lookups of every field rejects
  unknown fields.
\<close>

lemma closed_object_keys:
  assumes "length obj = length ks" and "distinct ks"
    and "\<And>k. k \<in> set ks \<Longrightarrow> if_contains obj k \<noteq> None"
  shows "set (map fst obj) = set ks"
proof -
  have sub: "set ks \<subseteq> set (map fst obj)"
  proof
    fix k assume "k \<in> set ks"
    then obtain v where "if_contains obj k = Some v" using assms(3) by blast
    then show "k \<in> set (map fst obj)" by (rule if_contains_in_keys)
  qed
  have "card (set (map fst obj)) \<le> length obj"
    using card_length [of "map fst obj"] by simp
  also have "\<dots> = card (set ks)"
    using assms(1,2) by (simp add: distinct_card)
  finally show ?thesis
    using sub by (metis List.finite_set card_seteq)
qed

end
