(* ===== verification/Effects.thy ===== *)
theory Effects
  imports Prelude
begin

text \<open>
  Code that changes an object and may throw: an action takes the state and returns the outcome
  together with the state the code leaves behind, also when it throws. The combinators follow
  C++ sequencing; what a failed call already changed stays changed.
\<close>

type_synonym ('s, 'a) act = "'s \<Rightarrow> 'a result \<times> 's"

definition retS :: "'a \<Rightarrow> ('s, 'a) act" where "retS a s = (Inr a, s)"
definition throwS :: "cpp_exn \<Rightarrow> ('s, 'a) act" where "throwS e s = (Inl e, s)"
definition getS :: "('s \<Rightarrow> 'a) \<Rightarrow> ('s, 'a) act" where "getS f s = (Inr (f s), s)"
definition modS :: "('s \<Rightarrow> 's) \<Rightarrow> ('s, unit) act" where "modS f s = (Inr (), f s)"
definition liftS :: "'a result \<Rightarrow> ('s, 'a) act" where "liftS r s = (r, s)"

definition bindS :: "('s, 'a) act \<Rightarrow> ('a \<Rightarrow> ('s, 'b) act) \<Rightarrow> ('s, 'b) act" where
  "bindS m f s = (case m s of (Inl e, t) \<Rightarrow> (Inl e, t) | (Inr a, t) \<Rightarrow> f a t)"

definition throw_ifS :: "bool \<Rightarrow> cpp_exn \<Rightarrow> ('s, unit) act" where
  "throw_ifS bad e = (if bad then throwS e else retS ())"

text \<open>\<^verbatim>\<open>try { m } catch (...) { h }\<close>, where the handler sees the exception.\<close>

definition catchS :: "('s, 'a) act \<Rightarrow> (cpp_exn \<Rightarrow> ('s, 'a) act) \<Rightarrow> ('s, 'a) act" where
  "catchS m h s = (case m s of (Inl e, t) \<Rightarrow> h e t | (Inr a, t) \<Rightarrow> (Inr a, t))"

text \<open>A member object's action run on its owner.\<close>

definition zoomS :: "('o \<Rightarrow> 's) \<Rightarrow> ('s \<Rightarrow> 'o \<Rightarrow> 'o) \<Rightarrow> ('s, 'a) act \<Rightarrow> ('o, 'a) act" where
  "zoomS sel put m s = (case m (sel s) of (r, t) \<Rightarrow> (r, put t s))"

named_theorems act_simps \<open>equations of the action combinators\<close>

lemma act_basic [act_simps]:
  "retS a s = (Inr a, s)" "throwS e s = (Inl e, s)" "getS f s = (Inr (f s), s)"
  "modS g s = (Inr (), g s)" "liftS r s = (r, s)"
  by (simp_all add: retS_def throwS_def getS_def modS_def liftS_def)

lemma bindS_simps [act_simps]:
  "m s = (Inl e, t) \<Longrightarrow> bindS m f s = (Inl e, t)"
  "m s = (Inr a, t) \<Longrightarrow> bindS m f s = f a t"
  by (simp_all add: bindS_def)

lemma bindS_basic [act_simps]:
  "bindS (retS a) f s = f a s" "bindS (throwS e) f s = (Inl e, s)"
  "bindS (getS g) f s = f (g s) s" "bindS (modS h) f s = f () (h s)"
  "bindS (liftS (Inl e)) f s = (Inl e, s)" "bindS (liftS (Inr a)) f s = f a s"
  by (simp_all add: bindS_def act_basic)

lemma throw_ifS_simps [act_simps]:
  "throw_ifS True e = throwS e" "throw_ifS False e = retS ()"
  "bindS (throw_ifS b e) f s = (if b then (Inl e, s) else f () s)"
  by (simp_all add: throw_ifS_def act_simps)

lemma bindS_assoc: "bindS (bindS m f) g = bindS m (\<lambda>a. bindS (f a) g)"
  by (rule ext) (simp add: bindS_def split: prod.split sum.split)

text \<open>Inversion of a successful and of a failed run.\<close>

lemma bindS_Inr_iff:
  "bindS m f s = (Inr b, u) \<longleftrightarrow> (\<exists>a t. m s = (Inr a, t) \<and> f a t = (Inr b, u))"
  by (auto simp: bindS_def split: prod.splits sum.splits)

lemma bindS_Inl_iff:
  "bindS m f s = (Inl e, u) \<longleftrightarrow> m s = (Inl e, u) \<or> (\<exists>a t. m s = (Inr a, t) \<and> f a t = (Inl e, u))"
  by (auto simp: bindS_def split: prod.splits sum.splits)

lemma throw_ifS_Inr_iff: "throw_ifS b e s = (Inr u, t) \<longleftrightarrow> \<not> b \<and> t = s"
  by (auto simp: throw_ifS_def act_simps)

lemma throw_ifS_Inl_iff: "throw_ifS b e s = (Inl e', t) \<longleftrightarrow> b \<and> e' = e \<and> t = s"
  by (auto simp: throw_ifS_def act_simps)

text \<open>Evaluation of a run whose calls are known.\<close>

lemma throw_ifS_apply: "throw_ifS b e s = (if b then Inl e else Inr (), s)"
  by (simp add: throw_ifS_def act_simps)

lemmas run_simps = bindS_def throw_ifS_apply retS_def throwS_def getS_def modS_def liftS_def

lemmas act_iffs = bindS_Inr_iff bindS_Inl_iff throw_ifS_Inr_iff throw_ifS_Inl_iff

section \<open>Predicates preserved by actions\<close>

text \<open>
  \<open>keeps P m\<close>: from a state with \<open>P\<close> the action leaves a state with \<open>P\<close>, thrown or not.
\<close>

definition keeps :: "('s \<Rightarrow> bool) \<Rightarrow> ('s, 'a) act \<Rightarrow> bool" where
  "keeps P m \<longleftrightarrow> (\<forall>s. P s \<longrightarrow> P (snd (m s)))"

named_theorems keeps_intros \<open>preservation through the combinators\<close>

lemma keepsI: "(\<And>s. P s \<Longrightarrow> P (snd (m s))) \<Longrightarrow> keeps P m"
  by (simp add: keeps_def)

lemma keepsD: "keeps P m \<Longrightarrow> P s \<Longrightarrow> m s = (r, t) \<Longrightarrow> P t"
  by (metis keeps_def snd_conv)

lemma keeps_basic [keeps_intros]:
  "keeps P (retS a)" "keeps P (throwS e)" "keeps P (getS f)" "keeps P (liftS r)" "keeps P (throw_ifS b e)"
  by (simp_all add: keeps_def act_simps throw_ifS_def)

lemma keeps_modS [keeps_intros]: "(\<And>s. P s \<Longrightarrow> P (f s)) \<Longrightarrow> keeps P (modS f)"
  by (simp add: keeps_def act_simps)

lemma keeps_bindS [keeps_intros]: "keeps P m \<Longrightarrow> (\<And>a. keeps P (f a)) \<Longrightarrow> keeps P (bindS m f)"
  by (auto simp: keeps_def bindS_def split: prod.split sum.split)

lemma keeps_catchS [keeps_intros]: "keeps P m \<Longrightarrow> (\<And>e. keeps P (h e)) \<Longrightarrow> keeps P (catchS m h)"
  by (auto simp: keeps_def catchS_def split: prod.split sum.split)

lemma keeps_if [keeps_intros]: "keeps P m \<Longrightarrow> keeps P n \<Longrightarrow> keeps P (if b then m else n)"
  by simp

end
