(* ===== verification/FileSystem.thy ===== *)
theory FileSystem
  imports Effects "HOL-Library.Sublist"
begin

text \<open>
  The part of \<^verbatim>\<open>std::filesystem\<close>, \<^verbatim>\<open>std::fstream\<close> and the POSIX calls that the recording
  code uses. A path is the list of its components from the root directory; a disk maps the path
  of every entry to its node, with symbolic links resolved component by component as the kernel
  does. A call that can fail consults the head of \<open>outcomes\<close>, the behaviour of the environment
  (a list that is used up means success), so a statement for all states covers every failure.
\<close>

section \<open>Paths\<close>

type_synonym path = "string list"

text \<open>The components of a path string; empty components (repeated separators) do not count.\<close>

fun split_path_aux :: "string \<Rightarrow> string \<Rightarrow> path" where
  "split_path_aux acc [] = (if acc = [] then [] else [rev acc])"
| "split_path_aux acc (c # cs) =
     (if c = CHR ''/'' then (if acc = [] then [] else [rev acc]) @ split_path_aux [] cs
      else split_path_aux (c # acc) cs)"

definition split_path :: "string \<Rightarrow> path" where "split_path = split_path_aux []"

definition is_absolute :: "string \<Rightarrow> bool" where "is_absolute s \<longleftrightarrow> starts_with ''/'' s"

text \<open>\<^verbatim>\<open>directory / name\<close>: an absolute right operand replaces the left one.\<close>

definition path_join :: "path \<Rightarrow> string \<Rightarrow> path" where
  "path_join p name = (if is_absolute name then split_path name else p @ split_path name)"

definition parent_path :: "path \<Rightarrow> path" where "parent_path p = butlast p"

lemma split_path_aux_plain:
  "CHR ''/'' \<notin> set s \<Longrightarrow> split_path_aux acc s = (if rev s @ acc = [] then [] else [rev acc @ s])"
  by (induction s arbitrary: acc) auto

lemma split_path_plain: "CHR ''/'' \<notin> set s \<Longrightarrow> s \<noteq> [] \<Longrightarrow> split_path s = [s]"
  by (simp add: split_path_def split_path_aux_plain)

text \<open>A name without a separator that is neither empty nor a dot entry.\<close>

definition plain_name :: "string \<Rightarrow> bool" where
  "plain_name s \<longleftrightarrow> s \<noteq> [] \<and> CHR ''/'' \<notin> set s \<and> s \<noteq> ''.'' \<and> s \<noteq> ''..''"

lemma path_join_plain [simp]: "plain_name s \<Longrightarrow> path_join p s = p @ [s]"
  by (cases s) (auto simp: plain_name_def path_join_def is_absolute_def starts_with_def split_path_plain)

section \<open>Disks\<close>

datatype node = File string | Dir | Symlink bool path

datatype outcome = Io_ok | Io_fail | Io_partial nat | Io_interrupted

record disk =
  nodes :: "path \<Rightarrow> node option"
  outcomes :: "outcome list"
  space_available :: nat

text \<open>
  Resolution of a path below a resolved directory. \<open>follow\<close> says whether a link in the last
  component is followed; at most \<open>n\<close> links are.
\<close>

fun walk :: "nat \<Rightarrow> (path \<Rightarrow> node option) \<Rightarrow> bool \<Rightarrow> path \<Rightarrow> path \<Rightarrow> path option" where
  "walk n m follow dir [] = Some dir"
| "walk n m follow dir (c # cs) =
     (if c = ''.'' then walk n m follow dir cs
      else if c = ''..'' then walk n m follow (butlast dir) cs
      else (case m (dir @ [c]) of
          Some (Symlink absolute target) \<Rightarrow>
            (if cs = [] \<and> \<not> follow then Some (dir @ [c])
             else (case n of 0 \<Rightarrow> None
                   | Suc k \<Rightarrow> walk k m follow (if absolute then [] else dir) (target @ cs)))
        | Some Dir \<Rightarrow> walk n m follow (dir @ [c]) cs
        | _ \<Rightarrow> if cs = [] then Some (dir @ [c]) else None))"

definition MAXSYMLINKS :: nat where "MAXSYMLINKS = 40"

definition node_at :: "(path \<Rightarrow> node option) \<Rightarrow> path \<Rightarrow> node option" where
  "node_at m p = (if p = [] then Some Dir else m p)"

definition stat :: "path \<Rightarrow> disk \<Rightarrow> node option" where
  "stat p s = Option.bind (walk MAXSYMLINKS (nodes s) True [] p) (node_at (nodes s))"

definition lstat :: "path \<Rightarrow> disk \<Rightarrow> node option" where
  "lstat p s = Option.bind (walk MAXSYMLINKS (nodes s) False [] p) (node_at (nodes s))"

definition exists :: "path \<Rightarrow> disk \<Rightarrow> bool" where "exists p s \<longleftrightarrow> stat p s \<noteq> None"
definition is_directory :: "path \<Rightarrow> disk \<Rightarrow> bool" where "is_directory p s \<longleftrightarrow> stat p s = Some Dir"
definition is_symlink :: "path \<Rightarrow> disk \<Rightarrow> bool" where
  "is_symlink p s \<longleftrightarrow> (case lstat p s of Some (Symlink _ _) \<Rightarrow> True | _ \<Rightarrow> False)"
definition is_regular_file :: "path \<Rightarrow> disk \<Rightarrow> bool" where
  "is_regular_file p s \<longleftrightarrow> (case stat p s of Some (File _) \<Rightarrow> True | _ \<Rightarrow> False)"
definition lstat_is_regular_file :: "path \<Rightarrow> disk \<Rightarrow> bool" where
  "lstat_is_regular_file p s \<longleftrightarrow> (case lstat p s of Some (File _) \<Rightarrow> True | _ \<Rightarrow> False)"

text \<open>The entry that a call creating or replacing \<open>p\<close> works on, if its parent is a directory.\<close>

definition entry_of :: "path \<Rightarrow> disk \<Rightarrow> path option" where
  "entry_of p s = (if p = [] then None
     else case walk MAXSYMLINKS (nodes s) True [] (butlast p) of
       None \<Rightarrow> None
     | Some dir \<Rightarrow> (if node_at (nodes s) dir = Some Dir then Some (dir @ [last p]) else None))"

definition set_node :: "path \<Rightarrow> node option \<Rightarrow> disk \<Rightarrow> disk" where
  "set_node p v s = s\<lparr>nodes := (nodes s)(p := v)\<rparr>"

section \<open>Calls\<close>

definition next_outcome :: "disk \<Rightarrow> outcome \<times> disk" where
  "next_outcome s = (case outcomes s of [] \<Rightarrow> (Io_ok, s) | x # xs \<Rightarrow> (x, s\<lparr>outcomes := xs\<rparr>))"

text \<open>A call that only reports whether the environment let it succeed.\<close>

definition succeeds :: "disk \<Rightarrow> bool \<times> disk" where
  "succeeds s = (case next_outcome s of (x, t) \<Rightarrow> (x \<noteq> Io_fail, t))"

datatype mkdir_result = Mk_created | Mk_directory_exists | Mk_file_exists | Mk_error

text \<open>\<^verbatim>\<open>create_directory(p, error)\<close>; only an existing directory clears the error.\<close>

definition create_directory :: "path \<Rightarrow> disk \<Rightarrow> mkdir_result \<times> disk" where
  "create_directory p s = (case succeeds s of (ok, t) \<Rightarrow>
     (case entry_of p t of
        None \<Rightarrow> (if is_directory p t then (Mk_directory_exists, t) else (Mk_error, t))
      | Some q \<Rightarrow>
         (if nodes t q \<noteq> None
          then (if is_directory p t then (Mk_directory_exists, t) else (Mk_file_exists, t))
          else if ok then (Mk_created, set_node q (Some Dir) t)
          else (Mk_error, t))))"

text \<open>\<^verbatim>\<open>create_directories(p, error)\<close>: the missing directories from the outside in.\<close>

fun create_prefixes :: "path list \<Rightarrow> disk \<Rightarrow> bool \<times> disk" where
  "create_prefixes [] s = (True, s)"
| "create_prefixes (p # ps) s = (case create_directory p s of
     (r, t) \<Rightarrow> (if r = Mk_created \<or> r = Mk_directory_exists then create_prefixes ps t else (False, t)))"

definition create_directories :: "path \<Rightarrow> disk \<Rightarrow> bool \<times> disk" where
  "create_directories p s = create_prefixes (tl (prefixes p)) s"

text \<open>\<^verbatim>\<open>open(p, O_WRONLY | O_CREAT | O_EXCL)\<close>: the descriptor is the entry created.\<close>

definition open_exclusive :: "path \<Rightarrow> disk \<Rightarrow> path option \<times> disk" where
  "open_exclusive p s = (case succeeds s of (ok, t) \<Rightarrow>
     (case entry_of p t of
        None \<Rightarrow> (None, t)
      | Some q \<Rightarrow> (if ok \<and> nodes t q = None then (Some q, set_node q (Some (File [])) t) else (None, t))))"

definition append_file :: "path \<Rightarrow> string \<Rightarrow> disk \<Rightarrow> disk" where
  "append_file q bytes s = (case nodes s q of
     Some (File old) \<Rightarrow> set_node q (Some (File (old @ bytes))) s | _ \<Rightarrow> s)"

lemma outcomes_append_file [simp]: "outcomes (append_file q b s) = outcomes s"
  by (simp add: append_file_def set_node_def split: option.split node.split)

text \<open>\<^verbatim>\<open>rename(src, dst, error)\<close>: a file replaces a file; a directory takes its subtree
  along. The code renames a directory only where it has seen that nothing exists.\<close>

definition move_tree :: "path \<Rightarrow> path \<Rightarrow> (path \<Rightarrow> node option) \<Rightarrow> path \<Rightarrow> node option" where
  "move_tree src dst m p =
     (if prefix dst p then m (src @ drop (length dst) p)
      else if prefix src p then None
      else m p)"

definition rename_entry :: "path \<Rightarrow> path \<Rightarrow> disk \<Rightarrow> bool \<times> disk" where
  "rename_entry src dst s = (case succeeds s of (ok, t) \<Rightarrow>
     (case (entry_of src t, entry_of dst t) of
        (Some q, Some r) \<Rightarrow>
          (case (nodes t q, nodes t r) of
             (None, _) \<Rightarrow> (False, t)
           | (Some Dir, None) \<Rightarrow>
              (if ok \<and> \<not> prefix q r then (True, t\<lparr>nodes := move_tree q r (nodes t)\<rparr>) else (False, t))
           | (Some Dir, Some _) \<Rightarrow> (False, t)
           | (Some n, Some Dir) \<Rightarrow> (False, t)
           | (Some n, _) \<Rightarrow>
              (if ok then (True, if q = r then t else set_node q None (set_node r (Some n) t)) else (False, t)))
      | _ \<Rightarrow> (False, t)))"

section \<open>Paths without links\<close>

text \<open>
  A clean path: no dot entries, and every proper non-empty prefix is a directory. It resolves to
  itself.
\<close>

definition clean_path :: "(path \<Rightarrow> node option) \<Rightarrow> path \<Rightarrow> bool" where
  "clean_path m p \<longleftrightarrow> (\<forall>c \<in> set p. plain_name c) \<and>
     (\<forall>k. 0 < k \<longrightarrow> k < length p \<longrightarrow> m (take k p) = Some Dir)"

lemma walk_clean:
  assumes "\<forall>c \<in> set cs. plain_name c" and "\<forall>k. 0 < k \<longrightarrow> k < length cs \<longrightarrow> m (dir @ take k cs) = Some Dir"
    and "cs \<noteq> [] \<Longrightarrow> (case m (dir @ cs) of Some (Symlink _ _) \<Rightarrow> \<not> follow | _ \<Rightarrow> True)"
  shows "walk n m follow dir cs = Some (dir @ cs)"
  using assms
proof (induction cs arbitrary: dir)
  case Nil
  then show ?case by simp
next
  case (Cons c cs)
  then have c: "c \<noteq> ''.''" "c \<noteq> ''..''" by (auto simp: plain_name_def)
  show ?case
  proof (cases "cs = []")
    case True
    with Cons.prems(3) c show ?thesis by (auto split: option.splits node.splits)
  next
    case False
    then have d: "m (dir @ [c]) = Some Dir"
      using Cons.prems(2) [rule_format, of 1] by simp
    have "m ((dir @ [c]) @ take k cs) = Some Dir" if "0 < k" "k < length cs" for k
      using Cons.prems(2) [rule_format, of "Suc k"] that by simp
    with Cons.IH [of "dir @ [c]"] Cons.prems d c False show ?thesis by simp
  qed
qed

lemma walk_clean_path:
  assumes "clean_path m p" and "p \<noteq> [] \<Longrightarrow> (case m p of Some (Symlink _ _) \<Rightarrow> \<not> follow | _ \<Rightarrow> True)"
  shows "walk n m follow [] p = Some p"
  using assms walk_clean [of p m "[]" follow n] by (simp add: clean_path_def)

lemma clean_path_snoc:
  "clean_path m (p @ [c]) \<longleftrightarrow> clean_path m p \<and> plain_name c \<and> (p = [] \<or> m p = Some Dir)"
proof
  assume a: "clean_path m (p @ [c])"
  have "m (take k p) = Some Dir" if "0 < k" "k < length p" for k
    using a that by (auto simp: clean_path_def dest: spec [of _ k])
  moreover have "m p = Some Dir" if "p \<noteq> []"
    using a that by (auto simp: clean_path_def dest: spec [of _ "length p"])
  ultimately show "clean_path m p \<and> plain_name c \<and> (p = [] \<or> m p = Some Dir)"
    using a by (auto simp: clean_path_def)
next
  assume a: "clean_path m p \<and> plain_name c \<and> (p = [] \<or> m p = Some Dir)"
  have "m (take k (p @ [c])) = Some Dir" if "0 < k" "k < length (p @ [c])" for k
  proof (cases "k = length p")
    case True
    with a that show ?thesis by auto
  next
    case False
    with a that show ?thesis by (auto simp: clean_path_def)
  qed
  with a show "clean_path m (p @ [c])" by (auto simp: clean_path_def)
qed

lemma lstat_clean: "clean_path (nodes s) p \<Longrightarrow> lstat p s = node_at (nodes s) p"
  by (simp add: lstat_def walk_clean_path split: option.split node.split)

lemma stat_clean:
  "clean_path (nodes s) p \<Longrightarrow> \<not> is_symlink p s \<Longrightarrow> stat p s = node_at (nodes s) p"
  by (auto simp: stat_def is_symlink_def lstat_clean node_at_def walk_clean_path
      split: option.splits node.splits if_splits)

lemma entry_of_clean:
  assumes "clean_path (nodes s) p" and "p \<noteq> []"
  shows "entry_of p s = Some p"
proof -
  from assms(2) obtain q c where p: "p = q @ [c]" by (cases p rule: rev_cases) auto
  with assms have "clean_path (nodes s) q" "q = [] \<or> nodes s q = Some Dir"
    by (simp_all add: clean_path_snoc)
  then have "walk MAXSYMLINKS (nodes s) True [] q = Some q"
    by (intro walk_clean_path) auto
  with \<open>q = [] \<or> nodes s q = Some Dir\<close> show ?thesis
    by (auto simp: entry_of_def p node_at_def)
qed

end
