(* ===== verification/RecordingContracts.thy ===== *)
theory RecordingContracts
  imports Json FileSystem
begin

text \<open>
  Recording identities and requests (\<^verbatim>\<open>src/recording/recording_contracts.hpp\<close> and
  \<^verbatim>\<open>recording_contracts.cpp\<close>). \<^verbatim>\<open>boost::json::serialize\<close> is the parameter \<open>ser\<close>.
\<close>

datatype RecordingState =
    RS_DISABLED | RS_IDLE | RS_PREPARING | RS_RECORDING | RS_FINALIZING | RS_FINALIZED | RS_FAULTED

datatype RecordingStopReason = SR_REQUESTED | SR_MAX_DURATION | SR_APPLICATION_SHUTDOWN

record RecordingStartRequest =
  rq_request_id :: string
  rq_recording_id :: string
  rq_canonical_json :: string

text \<open>The loop body of \<^verbatim>\<open>isRecordingIdValid\<close>: the character at an index is acceptable.\<close>

definition recording_id_char_ok :: "nat \<Rightarrow> char \<Rightarrow> bool" where
  "recording_id_char_ok index character =
     (let lowercase_alphanumeric = is_lower character \<or> is_digit character;
          permitted_suffix = character = CHR ''.'' \<or> character = CHR ''_'' \<or> character = CHR ''-''
      in \<not> ((\<not> lowercase_alphanumeric \<and> \<not> permitted_suffix) \<or> (index = 0 \<and> \<not> lowercase_alphanumeric)))"

definition isRecordingIdValid :: "string \<Rightarrow> bool" where
  "isRecordingIdValid recording_id \<longleftrightarrow>
     \<not> (recording_id = [] \<or> length recording_id > 64 \<or> recording_id = ''.'' \<or> recording_id = ''..'') \<and>
     list_all (\<lambda>index. recording_id_char_ok index (recording_id ! index)) [0..<length recording_id]"

definition isRecordingRequestIdValid :: "string \<Rightarrow> bool" where
  "isRecordingRequestIdValid request_id \<longleftrightarrow>
     \<not> (request_id = [] \<or> length request_id > 128) \<and>
     list_all (\<lambda>character. \<not> (byte_of character < 0x21 \<or> byte_of character > 0x7E \<or>
        character = CHR ''/'' \<or> character = CHR 0x5C)) request_id"

definition serializeRecordingStartRequest :: "(json \<Rightarrow> string) \<Rightarrow> RecordingStartRequest \<Rightarrow> string result" where
  "serializeRecordingStartRequest ser request =
     bindE (throw_if (\<not> isRecordingRequestIdValid (rq_request_id request) \<or>
                      \<not> isRecordingIdValid (rq_recording_id request))
              (Invalid_argument ''Recording start request has an unsafe identity.'')) (\<lambda>_.
     Inr (if rq_canonical_json request \<noteq> [] then rq_canonical_json request
          else ser (JObject [(''schema_version'', JInt64 1),
                             (''request_id'', JString (rq_request_id request)),
                             (''recording_id'', JString (rq_recording_id request))])))"

fun getRecordingStopReasonName :: "RecordingStopReason \<Rightarrow> string" where
  "getRecordingStopReasonName SR_REQUESTED = ''requested''"
| "getRecordingStopReasonName SR_MAX_DURATION = ''max_duration''"
| "getRecordingStopReasonName SR_APPLICATION_SHUTDOWN = ''application_shutdown''"

section \<open>A valid recording identity is one file-system component\<close>

lemma isRecordingIdValid_char:
  "isRecordingIdValid i \<Longrightarrow> c \<in> set i \<Longrightarrow>
     is_lower c \<or> is_digit c \<or> c = CHR ''.'' \<or> c = CHR ''_'' \<or> c = CHR ''-''"
  by (auto simp: isRecordingIdValid_def list_all_iff recording_id_char_ok_def Let_def in_set_conv_nth)

lemma slash_not_valid: "isRecordingIdValid i \<Longrightarrow> CHR ''/'' \<notin> set i"
  by (auto dest!: isRecordingIdValid_char simp: is_lower_def is_digit_def)

lemma isRecordingIdValid_plain: "isRecordingIdValid i \<Longrightarrow> plain_name i"
  using slash_not_valid by (auto simp: plain_name_def isRecordingIdValid_def)

lemma isRecordingIdValid_head: "isRecordingIdValid i \<Longrightarrow> is_lower (hd i) \<or> is_digit (hd i)"
  by (auto simp: isRecordingIdValid_def list_all_iff recording_id_char_ok_def Let_def hd_conv_nth)

lemma path_join_recording_id [simp]: "isRecordingIdValid i \<Longrightarrow> path_join p i = p @ [i]"
  by (simp add: isRecordingIdValid_plain)

end
