(* ===== verification/RecordingStore.thy ===== *)
theory RecordingStore
  imports RecordingContracts
begin

text \<open>
  The owner of the artifact directories (\<^verbatim>\<open>src/recording/recording_store.cpp\<close>): one staging
  and one finalized directory per recording identity below a configured root. Every operation is
  an action on the disk; \<open>root\<close> is the member \<^verbatim>\<open>m_root\<close>.
\<close>

section \<open>Operations\<close>

record RecordingArtifactPaths =
  staging_directory :: path
  finalized_directory :: path

record PersistedRecordingArtifact =
  pa_paths :: RecordingArtifactPaths
  pa_finalized :: bool
  pa_start_request :: string
  pa_stop_request :: "string option"

definition MAX_REQUEST_FILE_BYTES :: nat where "MAX_REQUEST_FILE_BYTES = 1048576"

definition rejectSymlink :: "path \<Rightarrow> (disk, unit) act" where
  "rejectSymlink p = bindS (getS (is_symlink p)) (\<lambda>link.
     throw_ifS link (Invalid_argument ''Recording managed directory must not be a symlink.''))"

definition syncDirectory :: "path \<Rightarrow> (disk, unit) act" where
  "syncDirectory directory =
     bindS (\<lambda>s. case succeeds s of (ok, t) \<Rightarrow> (Inr (ok \<and> is_directory directory t), t)) (\<lambda>opened.
     bindS (throw_ifS (\<not> opened)
              (Runtime_error ''Recording directory cannot be opened for synchronization.'')) (\<lambda>_.
     bindS (\<lambda>s. case succeeds s of (ok, t) \<Rightarrow> (Inr ok, t)) (\<lambda>synced.
     throw_ifS (\<not> synced) (Runtime_error ''Recording directory synchronization failed.''))))"

text \<open>The write loop on the open descriptor \<open>q\<close>; the result says whether it completed.\<close>

function write_loop :: "path \<Rightarrow> string \<Rightarrow> nat \<Rightarrow> disk \<Rightarrow> bool \<times> disk" where
  "write_loop q contents total_written s =
     (if total_written < length contents
      then (case next_outcome s of (x, t) \<Rightarrow>
        (case x of
           Io_ok \<Rightarrow> write_loop q contents (length contents)
                      (append_file q (drop total_written contents) t)
         | Io_partial n \<Rightarrow>
            (if 0 < n
             then write_loop q contents (total_written + min n (length contents - total_written))
                    (append_file q (take n (drop total_written contents)) t)
             else (False, t))
         | Io_interrupted \<Rightarrow> write_loop q contents total_written t
         | Io_fail \<Rightarrow> (False, t)))
      else (True, s))"
  by pat_completeness auto

termination
  by (relation "measures [\<lambda>(q, contents, total, s). length (outcomes s),
                          \<lambda>(q, contents, total, s). length contents - total]")
     (auto simp: next_outcome_def split: list.splits)

declare write_loop.simps [simp del]

definition writeAtomically :: "path \<Rightarrow> string \<Rightarrow> string \<Rightarrow> (disk, unit) act" where
  "writeAtomically directory filename contents =
     bindS (\<lambda>s. case open_exclusive (path_join directory (filename @ ''.tmp'')) s of (d, t) \<Rightarrow> (Inr d, t)) (\<lambda>descriptor.
     case descriptor of
       None \<Rightarrow> throwS (Runtime_error ''Recording request temporary file cannot be created.'')
     | Some q \<Rightarrow>
     bindS (\<lambda>s. case write_loop q contents 0 s of (ok, t) \<Rightarrow> (Inr ok, t)) (\<lambda>written.
     bindS (throw_ifS (\<not> written) (Runtime_error ''Recording request file write failed.'')) (\<lambda>_.
     bindS (\<lambda>s. case succeeds s of (ok, t) \<Rightarrow> (Inr ok, t)) (\<lambda>synced.
     bindS (\<lambda>s. case succeeds s of (ok, t) \<Rightarrow> (Inr ok, t)) (\<lambda>closed.
     bindS (throw_ifS (\<not> synced \<or> \<not> closed) (Runtime_error ''Recording request file write failed.'')) (\<lambda>_.
     bindS (\<lambda>s. case rename_entry (path_join directory (filename @ ''.tmp'')) (path_join directory filename) s of
                  (ok, t) \<Rightarrow> (Inr ok, t)) (\<lambda>renamed.
     bindS (throw_ifS (\<not> renamed) (Runtime_error ''Recording request file activation failed.'')) (\<lambda>_.
     syncDirectory directory))))))))"

definition readBoundedRegularFile :: "path \<Rightarrow> (disk, string) act" where
  "readBoundedRegularFile p =
     bindS (getS (\<lambda>s. is_symlink p s \<or> \<not> lstat_is_regular_file p s)) (\<lambda>bad.
     bindS (throw_ifS bad (Runtime_error ''Recording request evidence must be a regular file.'')) (\<lambda>_.
     bindS (getS (\<lambda>s. case lstat p s of Some (File bytes) \<Rightarrow> bytes | _ \<Rightarrow> [])) (\<lambda>bytes.
     bindS (\<lambda>s. case succeeds s of (ok, t) \<Rightarrow> (Inr ok, t)) (\<lambda>sized.
     bindS (throw_ifS (\<not> sized \<or> length bytes > MAX_REQUEST_FILE_BYTES)
              (Runtime_error ''Recording request evidence exceeds its bounded size.'')) (\<lambda>_.
     bindS (\<lambda>s. case succeeds s of (ok, t) \<Rightarrow> (Inr ok, t)) (\<lambda>opened.
     bindS (throw_ifS (\<not> opened) (Runtime_error ''Recording request evidence cannot be opened.'')) (\<lambda>_.
     bindS (\<lambda>s. case succeeds s of (ok, t) \<Rightarrow> (Inr ok, t)) (\<lambda>complete.
     bindS (throw_ifS (\<not> complete)
              (Runtime_error ''Recording request evidence cannot be read completely.'')) (\<lambda>_.
     retS bytes)))))))))"

text \<open>The constructor and \<^verbatim>\<open>initialize\<close>.\<close>

definition RecordingStore_new :: "string \<Rightarrow> path result" where
  "RecordingStore_new root =
     bindE (throw_if (\<not> is_absolute root) (Invalid_argument ''Recording root must be absolute.'')) (\<lambda>_.
     Inr (split_path root))"

definition prepare_child :: "path \<Rightarrow> string \<Rightarrow> (disk, unit) act" where
  "prepare_child root child =
     bindS (\<lambda>s. case create_directory (path_join root child) s of (r, t) \<Rightarrow> (Inr r, t)) (\<lambda>made.
     bindS (throw_ifS (made = Mk_error)
              (Runtime_error ''Recording managed directory cannot be prepared.'')) (\<lambda>_.
     bindS (getS (is_directory (path_join root child))) (\<lambda>dir.
     bindS (throw_ifS (\<not> dir) (Runtime_error ''Recording managed path is not a directory.'')) (\<lambda>_.
     rejectSymlink (path_join root child)))))"

definition RecordingStore_initialize :: "path \<Rightarrow> (disk, unit) act" where
  "RecordingStore_initialize root =
     bindS (\<lambda>s. case create_directories root s of (ok, t) \<Rightarrow> (Inr (ok \<and> is_directory root t), t)) (\<lambda>ready.
     bindS (throw_ifS (\<not> ready) (Runtime_error ''Recording root cannot be prepared.'')) (\<lambda>_.
     bindS (rejectSymlink root) (\<lambda>_.
     bindS (prepare_child root ''.staging'') (\<lambda>_.
     prepare_child root ''finalized''))))"

definition artifact_paths :: "path \<Rightarrow> string \<Rightarrow> RecordingArtifactPaths" where
  "artifact_paths root recording_id =
     \<lparr>staging_directory = path_join (path_join root ''.staging'') recording_id,
      finalized_directory = path_join (path_join root ''finalized'') recording_id\<rparr>"

definition createStaging ::
  "(json \<Rightarrow> string) \<Rightarrow> path \<Rightarrow> RecordingStartRequest \<Rightarrow> (disk, RecordingArtifactPaths) act"
where
  "createStaging ser root request =
     bindS (throw_ifS (\<not> isRecordingIdValid (rq_recording_id request))
              (Invalid_argument ''Recording ID is unsafe.'')) (\<lambda>_.
     bindS (RecordingStore_initialize root) (\<lambda>_.
     let paths = artifact_paths root (rq_recording_id request) in
     bindS (getS (exists (finalized_directory paths))) (\<lambda>taken.
     bindS (throw_ifS taken (Runtime_error ''Finalized recording identity already exists.'')) (\<lambda>_.
     bindS (\<lambda>s. case create_directory (staging_directory paths) s of (r, t) \<Rightarrow> (Inr r, t)) (\<lambda>made.
     bindS (throw_ifS (made \<noteq> Mk_created)
              (Runtime_error ''Recording staging identity already exists or cannot be created.'')) (\<lambda>_.
     bindS (liftS (serializeRecordingStartRequest ser request)) (\<lambda>contents.
     bindS (writeAtomically (staging_directory paths) ''start_request.json'' contents) (\<lambda>_.
     retS paths))))))))"

definition activateFinalized :: "path \<Rightarrow> RecordingArtifactPaths \<Rightarrow> (disk, unit) act" where
  "activateFinalized root paths =
     (let staging_parent = path_join root ''.staging''; finalized_parent = path_join root ''finalized'' in
     bindS (getS (\<lambda>s. parent_path (staging_directory paths) \<noteq> staging_parent \<or>
              parent_path (finalized_directory paths) \<noteq> finalized_parent \<or>
              \<not> is_directory (staging_directory paths) s \<or>
              exists (finalized_directory paths) s)) (\<lambda>bad.
     bindS (throw_ifS bad (Runtime_error ''Recording artifact activation paths are invalid.'')) (\<lambda>_.
     bindS (rejectSymlink (staging_directory paths)) (\<lambda>_.
     bindS (\<lambda>s. case rename_entry (staging_directory paths) (finalized_directory paths) s of
                  (ok, t) \<Rightarrow> (Inr ok, t)) (\<lambda>renamed.
     bindS (throw_ifS (\<not> renamed) (Runtime_error ''Recording artifact activation failed.'')) (\<lambda>_.
     bindS (syncDirectory staging_parent) (\<lambda>_.
     syncDirectory finalized_parent)))))))"

definition staging_path_unsafe :: "path \<Rightarrow> RecordingArtifactPaths \<Rightarrow> disk \<Rightarrow> bool" where
  "staging_path_unsafe root paths s \<longleftrightarrow>
     parent_path (staging_directory paths) \<noteq> path_join root ''.staging'' \<or>
     is_symlink (staging_directory paths) s"

definition writeStopRequest :: "path \<Rightarrow> RecordingArtifactPaths \<Rightarrow> string \<Rightarrow> (disk, unit) act" where
  "writeStopRequest root paths contents =
     bindS (getS (staging_path_unsafe root paths)) (\<lambda>bad.
     bindS (throw_ifS bad (Invalid_argument ''Recording stop staging path is unsafe.'')) (\<lambda>_.
     writeAtomically (staging_directory paths) ''stop_request.json'' contents))"

definition writeFinalizedManifest :: "path \<Rightarrow> RecordingArtifactPaths \<Rightarrow> string \<Rightarrow> (disk, unit) act" where
  "writeFinalizedManifest root paths contents =
     bindS (getS (staging_path_unsafe root paths)) (\<lambda>bad.
     bindS (throw_ifS bad (Invalid_argument ''Recording manifest staging path is unsafe.'')) (\<lambda>_.
     writeAtomically (staging_directory paths) ''recording_manifest.json'' contents))"

text \<open>
  \<^verbatim>\<open>getStagingCount\<close>; \<open>listing\<close> holds the names the directory iterator yields for the
  staging directory.
\<close>

fun count_directories :: "path \<Rightarrow> string list \<Rightarrow> nat \<Rightarrow> (disk, nat) act" where
  "count_directories staging [] count = retS count"
| "count_directories staging (name # names) count =
     bindS (getS (is_symlink (staging @ [name]))) (\<lambda>link.
     bindS (throw_ifS link (Runtime_error ''Recording staging child must not be a symlink.'')) (\<lambda>_.
     bindS (getS (is_directory (staging @ [name]))) (\<lambda>dir.
     count_directories staging names (if dir then Suc count else count))))"

definition getStagingCount :: "path \<Rightarrow> string list \<Rightarrow> (disk, nat) act" where
  "getStagingCount root listing =
     (let staging = path_join root ''.staging'' in
     bindS (getS (exists staging)) (\<lambda>present.
     if \<not> present then retS 0
     else bindS (rejectSymlink staging) (\<lambda>_. count_directories staging listing 0)))"

definition reject_if_present :: "path \<Rightarrow> (disk, unit) act" where
  "reject_if_present p = bindS (getS (exists p)) (\<lambda>present. if present then rejectSymlink p else retS ())"

definition findPersistedArtifact :: "path \<Rightarrow> string \<Rightarrow> (disk, PersistedRecordingArtifact option) act" where
  "findPersistedArtifact root recording_id =
     bindS (throw_ifS (\<not> isRecordingIdValid recording_id) (Invalid_argument ''Recording ID is unsafe.'')) (\<lambda>_.
     let paths = artifact_paths root recording_id in
     bindS (reject_if_present root) (\<lambda>_.
     bindS (reject_if_present (path_join root ''.staging'')) (\<lambda>_.
     bindS (reject_if_present (path_join root ''finalized'')) (\<lambda>_.
     bindS (getS (exists (staging_directory paths))) (\<lambda>staging_exists.
     bindS (getS (exists (finalized_directory paths))) (\<lambda>finalized_exists.
     bindS (throw_ifS (staging_exists \<and> finalized_exists)
              (Runtime_error ''Recording identity exists in staging and finalized storage.'')) (\<lambda>_.
     if \<not> staging_exists \<and> \<not> finalized_exists then retS None
     else
       let directory = (if finalized_exists then finalized_directory paths else staging_directory paths) in
       bindS (rejectSymlink directory) (\<lambda>_.
       bindS (getS (is_directory directory)) (\<lambda>dir.
       bindS (throw_ifS (\<not> dir) (Runtime_error ''Recording artifact identity is not a directory.'')) (\<lambda>_.
       bindS (readBoundedRegularFile (path_join directory ''start_request.json'')) (\<lambda>start.
       bindS (getS (exists (path_join directory ''stop_request.json''))) (\<lambda>stopped.
       bindS (if stopped
              then bindS (readBoundedRegularFile (path_join directory ''stop_request.json'')) (\<lambda>stop. retS (Some stop))
              else retS None) (\<lambda>stop.
       retS (Some \<lparr>pa_paths = paths, pa_finalized = finalized_exists,
                   pa_start_request = start, pa_stop_request = stop\<rparr>))))))))))))))"

end
