(* ===== verification/RecordingManifest.thy ===== *)
theory RecordingManifest
  imports RecordingStore Contracts
begin

text \<open>
  Artifact digests, the finalized manifest and the per-frame sidecar
  (\<^verbatim>\<open>src/recording/recording_manifest.cpp\<close>). SHA-256 (\<^verbatim>\<open>av_sha\<close>) is the parameter
  \<open>sha256\<close>, the JSON serializer the parameter \<open>ser\<close>; \<open>clock k\<close> is the steady-clock
  reading of the \<open>k\<close>-th deadline check.
\<close>

record RecordingFrameEntry =
  en_video_frame_index :: u64
  en_video_pts :: int
  en_identity :: FrameIdentity

record RecordingArtifactDigest =
  dg_relative_path :: string
  dg_size_bytes :: nat
  dg_sha256_hex :: string

record FinalizedRecordingManifest =
  mf_recording_id :: string
  mf_component_id :: string
  mf_instance_id :: string
  mf_device_id :: string
  mf_sensor_frame :: string
  mf_calibration_id :: string
  mf_width :: int
  mf_height :: int
  mf_fps :: int
  mf_started_monotonic_ns :: int
  mf_started_unix_epoch_ns :: int
  mf_stopped_monotonic_ns :: int
  mf_stopped_unix_epoch_ns :: int
  mf_admitted_frame_count :: u64
  mf_submitted_frame_count :: u64
  mf_recording_drop_count :: u64
  mf_first_frame :: FrameIdentity
  mf_last_frame :: FrameIdentity
  mf_has_frames :: bool
  mf_start_request_id :: string
  mf_stop_request_id :: string
  mf_stop_reason :: RecordingStopReason

section \<open>Digest\<close>

definition hex_digit :: "nat \<Rightarrow> char" where
  "hex_digit d = (if d < 10 then char_of (48 + d) else char_of (87 + d))"

definition hex_byte :: "u8 \<Rightarrow> string" where
  "hex_byte b = [hex_digit (unat b div 16), hex_digit (unat b mod 16)]"

text \<open>
  The read loop: a deadline check, then up to 65536 bytes; a short read ends it. The result is
  what was fed to the hash.
\<close>

function digest_loop :: "int option \<Rightarrow> (nat \<Rightarrow> int) \<Rightarrow> nat \<Rightarrow> string \<Rightarrow> string \<Rightarrow> (disk, string) act" where
  "digest_loop deadline clock k rest hashed =
     (if (case deadline of None \<Rightarrow> False | Some d \<Rightarrow> clock k \<ge> d)
      then throwS (Runtime_error ''Recording artifact digest exceeded finalize timeout.'')
      else bindS (\<lambda>s. case succeeds s of (ok, t) \<Rightarrow> (Inr ok, t)) (\<lambda>ok.
        if \<not> ok then throwS (Runtime_error ''Recording artifact digest read failed.'')
        else if length rest < 65536 then retS (hashed @ rest)
        else digest_loop deadline clock (Suc k) (drop 65536 rest) (hashed @ take 65536 rest)))"
  by pat_completeness auto

termination
  by (relation "measure (\<lambda>(deadline, clock, k, rest, hashed). length rest)") auto

declare digest_loop.simps [simp del]

definition calculateRecordingArtifactDigest ::
  "(string \<Rightarrow> u8 list) \<Rightarrow> path \<Rightarrow> string \<Rightarrow> int option \<Rightarrow> (nat \<Rightarrow> int) \<Rightarrow> (disk, RecordingArtifactDigest) act"
where
  "calculateRecordingArtifactDigest sha256 root relative_path deadline clock =
     (let p = path_join root relative_path in
     bindS (getS (\<lambda>s. relative_path = [] \<or> is_absolute relative_path \<or> CHR ''/'' \<in> set relative_path \<or>
              is_symlink p s \<or> \<not> is_regular_file p s)) (\<lambda>unsafe.
     bindS (throw_ifS unsafe (Invalid_argument ''Recording artifact path is unsafe.'')) (\<lambda>_.
     bindS (\<lambda>s. case succeeds s of (ok, t) \<Rightarrow> (Inr ok, t)) (\<lambda>ready.
     bindS (throw_ifS (\<not> ready) (Runtime_error ''Recording artifact digest cannot initialize.'')) (\<lambda>_.
     bindS (getS (\<lambda>s. case stat p s of Some (File bytes) \<Rightarrow> bytes | _ \<Rightarrow> [])) (\<lambda>bytes.
     bindS (digest_loop deadline clock 0 bytes []) (\<lambda>hashed.
     retS \<lparr>dg_relative_path = relative_path, dg_size_bytes = length bytes,
           dg_sha256_hex = concat (map hex_byte (sha256 hashed))\<rparr>)))))))"

section \<open>Manifest\<close>

definition serializeFrameIdentity :: "FrameIdentity \<Rightarrow> json" where
  "serializeFrameIdentity identity = JObject
     [(''capture_generation'', JUint64 (capture_generation identity)),
      (''frame_number'', JUint64 (frame_number identity)),
      (''capture_timestamp_ns'', JInt64 (capture_timestamp_ns identity)),
      (''capture_unix_epoch_ns'', JInt64 (capture_unix_epoch_ns identity))]"

definition make_artifact :: "RecordingArtifactDigest \<Rightarrow> json" where
  "make_artifact digest = JObject
     [(''path'', JString (dg_relative_path digest)),
      (''size_bytes'', JUint64 (word_of_nat (dg_size_bytes digest))),
      (''sha256'', JString (dg_sha256_hex digest))]"

definition manifest_values_invalid ::
  "FinalizedRecordingManifest \<Rightarrow> RecordingArtifactDigest \<Rightarrow> RecordingArtifactDigest \<Rightarrow> bool"
where
  "manifest_values_invalid m video sidecar \<longleftrightarrow>
     \<not> isRecordingIdValid (mf_recording_id m) \<or> mf_component_id m = [] \<or> mf_instance_id m = [] \<or>
     mf_device_id m = [] \<or> mf_sensor_frame m = [] \<or> mf_calibration_id m = [] \<or> mf_width m \<le> 0 \<or>
     mf_height m \<le> 0 \<or> mf_fps m \<le> 0 \<or>
     mf_started_monotonic_ns m > mf_stopped_monotonic_ns m \<or>
     mf_started_unix_epoch_ns m > mf_stopped_unix_epoch_ns m \<or>
     mf_submitted_frame_count m > mf_admitted_frame_count m \<or>
     dg_relative_path video \<noteq> ''color.mp4'' \<or> dg_relative_path sidecar \<noteq> ''frames.jsonl''"

definition finalized_manifest_json ::
  "FinalizedRecordingManifest \<Rightarrow> RecordingArtifactDigest \<Rightarrow> RecordingArtifactDigest \<Rightarrow> json"
where
  "finalized_manifest_json m video sidecar = JObject
     [(''schema_version'', JInt64 1),
      (''state'', JString ''finalized''),
      (''recording_id'', JString (mf_recording_id m)),
      (''component_id'', JString (mf_component_id m)),
      (''instance_id'', JString (mf_instance_id m)),
      (''device_id'', JString (mf_device_id m)),
      (''capture_generation'', JUint64 (if mf_has_frames m then capture_generation (mf_first_frame m) else 0)),
      (''sensor_frame'', JString (mf_sensor_frame m)),
      (''calibration_id'', JString (mf_calibration_id m)),
      (''profile'', JObject
         [(''width'', JInt64 (mf_width m)), (''height'', JInt64 (mf_height m)),
          (''fps'', JInt64 (mf_fps m)), (''input_pixel_format'', JString ''rgb24'')]),
      (''video'', JObject
         [(''container'', JString ''mp4''), (''codec'', JString ''h264''),
          (''encoder'', JString ''libx264''), (''pixel_format'', JString ''yuv420p''),
          (''time_base_num'', JInt64 1), (''time_base_den'', JInt64 (mf_fps m))]),
      (''started_monotonic_ns'', JInt64 (mf_started_monotonic_ns m)),
      (''started_unix_epoch_ns'', JInt64 (mf_started_unix_epoch_ns m)),
      (''stopped_monotonic_ns'', JInt64 (mf_stopped_monotonic_ns m)),
      (''stopped_unix_epoch_ns'', JInt64 (mf_stopped_unix_epoch_ns m)),
      (''admitted_frame_count'', JUint64 (mf_admitted_frame_count m)),
      (''submitted_frame_count'', JUint64 (mf_submitted_frame_count m)),
      (''recording_drop_count'', JUint64 (mf_recording_drop_count m)),
      (''first_frame'', if mf_has_frames m then serializeFrameIdentity (mf_first_frame m) else JNull),
      (''last_frame'', if mf_has_frames m then serializeFrameIdentity (mf_last_frame m) else JNull),
      (''artifacts'', JArray [make_artifact video, make_artifact sidecar]),
      (''start_request_id'', JString (mf_start_request_id m)),
      (''stop_request_id'', string_or_null (mf_stop_request_id m)),
      (''stop_reason'', JString (getRecordingStopReasonName (mf_stop_reason m)))]"

definition serializeFinalizedRecordingManifest ::
  "(json \<Rightarrow> string) \<Rightarrow> FinalizedRecordingManifest \<Rightarrow> RecordingArtifactDigest \<Rightarrow> RecordingArtifactDigest \<Rightarrow> string result"
where
  "serializeFinalizedRecordingManifest ser m video sidecar =
     bindE (throw_if (manifest_values_invalid m video sidecar)
              (Invalid_argument ''Recording manifest values are invalid.'')) (\<lambda>_.
     Inr (ser (finalized_manifest_json m video sidecar)))"

section \<open>Sidecar writer\<close>

record RecordingSidecarWriter =
  sc_output :: path
  sc_recording_id :: string
  sc_sensor_frame :: string
  sc_calibration_id :: string
  sc_last_identity :: FrameIdentity
  sc_entry_count :: u64
  sc_has_identity :: bool
  sc_finalized :: bool

text \<open>\<^verbatim>\<open>std::ofstream(path, out | binary)\<close>: creates or truncates a file, through links.\<close>

definition open_truncate :: "path \<Rightarrow> disk \<Rightarrow> path option \<times> disk" where
  "open_truncate p s = (case succeeds s of (ok, t) \<Rightarrow>
     (case walk MAXSYMLINKS (nodes t) True [] p of
        None \<Rightarrow> (None, t)
      | Some q \<Rightarrow>
         (case nodes t q of
            Some (File _) \<Rightarrow> (if ok then (Some q, set_node q (Some (File [])) t) else (None, t))
          | None \<Rightarrow> (if ok \<and> entry_of q t = Some q then (Some q, set_node q (Some (File [])) t) else (None, t))
          | _ \<Rightarrow> (None, t))))"

definition RecordingSidecarWriter_new ::
  "path \<Rightarrow> string \<Rightarrow> string \<Rightarrow> string \<Rightarrow> (disk, RecordingSidecarWriter) act"
where
  "RecordingSidecarWriter_new output_path recording_id sensor_frame calibration_id =
     bindS (\<lambda>s. case open_truncate output_path s of (q, t) \<Rightarrow> (Inr q, t)) (\<lambda>output.
     bindS (throw_ifS (\<not> isRecordingIdValid recording_id \<or> sensor_frame = [] \<or> calibration_id = [] \<or>
                       output = None)
              (Invalid_argument ''Recording sidecar configuration is invalid.'')) (\<lambda>_.
     retS \<lparr>sc_output = the output, sc_recording_id = recording_id, sc_sensor_frame = sensor_frame,
           sc_calibration_id = calibration_id, sc_last_identity = default_FrameIdentity,
           sc_entry_count = 0, sc_has_identity = False, sc_finalized = False\<rparr>))"

definition sidecar_line :: "RecordingSidecarWriter \<Rightarrow> RecordingFrameEntry \<Rightarrow> json" where
  "sidecar_line w entry = JObject
     [(''schema_version'', JInt64 1),
      (''recording_id'', JString (sc_recording_id w)),
      (''video_frame_index'', JUint64 (en_video_frame_index entry)),
      (''video_pts'', JInt64 (en_video_pts entry)),
      (''capture_generation'', JUint64 (capture_generation (en_identity entry))),
      (''frame_number'', JUint64 (frame_number (en_identity entry))),
      (''capture_timestamp_ns'', JInt64 (capture_timestamp_ns (en_identity entry))),
      (''capture_unix_epoch_ns'', JInt64 (capture_unix_epoch_ns (en_identity entry))),
      (''sensor_frame'', JString (sc_sensor_frame w)),
      (''calibration_id'', JString (sc_calibration_id w))]"

text \<open>The writer and the disk change together.\<close>

definition sidecar_append ::
  "(json \<Rightarrow> string) \<Rightarrow> RecordingFrameEntry \<Rightarrow> (RecordingSidecarWriter \<times> disk, unit) act"
where
  "sidecar_append ser entry =
     bindS (getS (\<lambda>(w, d). sc_finalized w \<or> en_video_frame_index entry \<noteq> sc_entry_count w \<or>
              en_video_pts entry < 0 \<or>
              (sc_has_identity w \<and> \<not> manifest_isStrictlyAfter (en_identity entry) (sc_last_identity w)))) (\<lambda>bad.
     bindS (throw_ifS bad
              (Invalid_argument ''Recording sidecar entry violates its immutable order.'')) (\<lambda>_.
     bindS (\<lambda>(w, d). case succeeds d of (ok, t) \<Rightarrow>
              (Inr ok, (w, if ok then append_file (sc_output w) (ser (sidecar_line w entry) @ [CHR 0x0A]) t
                           else t))) (\<lambda>written.
     bindS (throw_ifS (\<not> written) (Runtime_error ''Recording sidecar append failed.'')) (\<lambda>_.
     modS (\<lambda>(w, d). (w\<lparr>sc_last_identity := en_identity entry, sc_has_identity := True,
                        sc_entry_count := sc_entry_count w + 1\<rparr>, d))))))"

definition sidecar_finalize :: "(RecordingSidecarWriter \<times> disk, unit) act" where
  "sidecar_finalize =
     bindS (getS (\<lambda>(w, d). sc_finalized w)) (\<lambda>finished.
     if finished then retS ()
     else
       bindS (\<lambda>(w, d). case succeeds d of (ok, t) \<Rightarrow> (Inr ok, (w, t))) (\<lambda>flushed.
       bindS (throw_ifS (\<not> flushed) (Runtime_error ''Recording sidecar flush failed.'')) (\<lambda>_.
       bindS (\<lambda>(w, d). case succeeds d of (ok, t) \<Rightarrow> (Inr ok, (w, t))) (\<lambda>closed.
       bindS (throw_ifS (\<not> closed) (Runtime_error ''Recording sidecar close failed.'')) (\<lambda>_.
       modS (\<lambda>(w, d). (w\<lparr>sc_finalized := True\<rparr>, d)))))))"

definition sidecar_getEntryCount :: "RecordingSidecarWriter \<Rightarrow> u64" where
  "sidecar_getEntryCount w = sc_entry_count w"

end
