(* ===== verification/ColorVideoWriter.thy ===== *)
theory ColorVideoWriter
  imports RecordingManifest
begin

text \<open>
  The H.264 writer (\<^verbatim>\<open>src/recording/color_video_writer.cpp\<close>): its profile checks, the
  order of the FFmpeg calls, the frame guard and the presentation timestamps. FFmpeg itself is
  not in the repository: each call takes its return code from the list \<open>ffmpeg\<close> (an empty
  list means success; for the calls that return a pointer a negative code is a null pointer),
  \<open>av_strerror\<close> is its error text, and \<open>mux\<close> gives the bytes of the finished file for the
  frames submitted with their timestamps.
\<close>

record ColorVideoWriterConfig =
  vc_output_path :: path
  vc_width :: int
  vc_height :: int
  vc_fps :: int
  vc_bit_rate_bps :: int
  vc_preset :: string
  vc_tune :: string

record ColorVideoWriter =
  vw_config :: ColorVideoWriterConfig
  vw_submitted_frame_count :: u64
  vw_header_written :: bool
  vw_finalized :: bool
  vw_sent :: "(int \<times> VideoFrameView) list"

record world =
  disk_of :: disk
  ffmpeg :: "int list"

definition next_code :: "int \<Rightarrow> (world, int) act" where
  "next_code ok_code w = (case ffmpeg w of [] \<Rightarrow> (Inr ok_code, w) | c # cs \<Rightarrow> (Inr c, w\<lparr>ffmpeg := cs\<rparr>))"

definition on_disk :: "(disk, 'a) act \<Rightarrow> (world, 'a) act" where
  "on_disk = zoomS disk_of (\<lambda>d w. w\<lparr>disk_of := d\<rparr>)"

definition AVERROR_EAGAIN :: int where "AVERROR_EAGAIN = -11"
definition AVERROR_EOF :: int where "AVERROR_EOF = -541478725"

definition checkFfmpegResult :: "(int \<Rightarrow> string) \<Rightarrow> int \<Rightarrow> string \<Rightarrow> (world, unit) act" where
  "checkFfmpegResult av_strerror code operation =
     throw_ifS (\<not> code \<ge> 0) (Runtime_error (operation @ '': '' @ av_strerror code))"

definition checked_call :: "(int \<Rightarrow> string) \<Rightarrow> string \<Rightarrow> (world, unit) act" where
  "checked_call av_strerror operation =
     bindS (next_code 0) (\<lambda>code. checkFfmpegResult av_strerror code operation)"

definition non_null :: "string \<Rightarrow> (world, unit) act" where
  "non_null message = bindS (next_code 0) (\<lambda>code. throw_ifS (code < 0) (Runtime_error message))"

definition writer_profile_invalid :: "ColorVideoWriterConfig \<Rightarrow> bool" where
  "writer_profile_invalid c \<longleftrightarrow>
     vc_output_path c = [] \<or> vc_width c \<le> 0 \<or> vc_height c \<le> 0 \<or> vc_width c mod 2 \<noteq> 0 \<or>
     vc_height c mod 2 \<noteq> 0 \<or> vc_fps c \<le> 0 \<or> vc_bit_rate_bps c \<le> 0 \<or>
     vc_preset c \<noteq> ''veryfast'' \<or> vc_tune c \<noteq> ''zerolatency''"

definition ColorVideoWriter_new ::
  "(int \<Rightarrow> string) \<Rightarrow> ColorVideoWriterConfig \<Rightarrow> (world, ColorVideoWriter) act"
where
  "ColorVideoWriter_new av_strerror c =
     bindS (throw_ifS (writer_profile_invalid c) (Invalid_argument ''Color writer profile is invalid.'')) (\<lambda>_.
     bindS (checked_call av_strerror ''Cannot allocate MP4 output context'') (\<lambda>_.
     bindS (non_null ''FFmpeg libx264 encoder is unavailable.'') (\<lambda>_.
     bindS (non_null ''Cannot allocate H.264 codec context.'') (\<lambda>_.
     bindS (checked_call av_strerror ''Cannot configure H.264 preset'') (\<lambda>_.
     bindS (checked_call av_strerror ''Cannot configure H.264 tune'') (\<lambda>_.
     bindS (checked_call av_strerror ''Cannot open H.264 encoder'') (\<lambda>_.
     bindS (non_null ''Cannot create MP4 video stream.'') (\<lambda>_.
     bindS (checked_call av_strerror ''Cannot copy H.264 stream parameters'') (\<lambda>_.
     bindS (on_disk (\<lambda>s. case open_truncate (vc_output_path c) s of (q, t) \<Rightarrow> (Inr q, t))) (\<lambda>opened.
     bindS (checkFfmpegResult av_strerror (if opened = None then -1 else 0) ''Cannot open MP4 output'') (\<lambda>_.
     bindS (checked_call av_strerror ''Cannot write MP4 header'') (\<lambda>_.
     bindS (non_null ''Cannot allocate FFmpeg frame or packet.'') (\<lambda>_.
     bindS (checked_call av_strerror ''Cannot allocate YUV frame buffer'') (\<lambda>_.
     bindS (non_null ''Cannot allocate RGB-to-YUV converter.'') (\<lambda>_.
     retS \<lparr>vw_config = c, vw_submitted_frame_count = 0, vw_header_written = True,
           vw_finalized = False, vw_sent = []\<rparr>)))))))))))))))"

text \<open>
  The packet loop ends on \<^verbatim>\<open>EAGAIN\<close> or end of file; a used-up list of codes stands for
  \<^verbatim>\<open>EAGAIN\<close>, so the loop consumes the list.
\<close>

fun drain_packets :: "(int \<Rightarrow> string) \<Rightarrow> int list \<Rightarrow> unit result \<times> int list" where
  "drain_packets av_strerror [] = (Inr (), [])"
| "drain_packets av_strerror (code # codes) =
     (if code = AVERROR_EAGAIN \<or> code = AVERROR_EOF then (Inr (), codes)
      else if code < 0
      then (Inl (Runtime_error (''Cannot receive H.264 packet: '' @ av_strerror code)), codes)
      else (case codes of
         [] \<Rightarrow> (Inr (), [])
       | written # codes' \<Rightarrow>
          (if written < 0
           then (Inl (Runtime_error (''Cannot write MP4 packet: '' @ av_strerror written)), codes')
           else drain_packets av_strerror codes')))"

definition writeAvailablePackets :: "(int \<Rightarrow> string) \<Rightarrow> (world, unit) act" where
  "writeAvailablePackets av_strerror w =
     (case drain_packets av_strerror (ffmpeg w) of (r, codes) \<Rightarrow> (r, w\<lparr>ffmpeg := codes\<rparr>))"

definition on_world :: "(world, 'a) act \<Rightarrow> (ColorVideoWriter \<times> world, 'a) act" where
  "on_world = zoomS snd (\<lambda>w p. (fst p, w))"

definition frame_mismatch :: "ColorVideoWriter \<Rightarrow> VideoFrameView \<Rightarrow> bool" where
  "frame_mismatch v frame \<longleftrightarrow>
     vw_finalized v \<or> vf_format frame \<noteq> PF_RGB8 \<or> vf_width frame \<noteq> vc_width (vw_config v) \<or>
     vf_height frame \<noteq> vc_height (vw_config v) \<or>
     vf_stride_bytes frame < vc_width (vw_config v) * 3 \<or> vf_data frame = None \<or> \<not> vf_owner frame"

definition writeFrame ::
  "(int \<Rightarrow> string) \<Rightarrow> VideoFrameView \<Rightarrow> (ColorVideoWriter \<times> world, u64) act"
where
  "writeFrame av_strerror frame =
     bindS (getS (\<lambda>(v, w). frame_mismatch v frame)) (\<lambda>bad.
     bindS (throw_ifS bad (Invalid_argument ''Color frame does not match the recording profile.'')) (\<lambda>_.
     bindS (on_world (checked_call av_strerror ''Cannot make YUV frame writable'')) (\<lambda>_.
     bindS (getS (\<lambda>(v, w). vc_height (vw_config v))) (\<lambda>height.
     bindS (on_world (next_code height)) (\<lambda>rows.
     bindS (throw_ifS (rows \<noteq> height) (Runtime_error ''Cannot convert RGB frame to YUV.'')) (\<lambda>_.
     bindS (on_world (checked_call av_strerror ''Cannot submit H.264 frame'')) (\<lambda>_.
     bindS (modS (\<lambda>(v, w). (v\<lparr>vw_sent := vw_sent v @ [(sint (vw_submitted_frame_count v), frame)]\<rparr>, w))) (\<lambda>_.
     bindS (on_world (writeAvailablePackets av_strerror)) (\<lambda>_.
     bindS (getS (\<lambda>(v, w). vw_submitted_frame_count v)) (\<lambda>index.
     bindS (modS (\<lambda>(v, w). (v\<lparr>vw_submitted_frame_count := vw_submitted_frame_count v + 1\<rparr>, w))) (\<lambda>_.
     retS index)))))))))))"

definition video_finalize ::
  "(int \<Rightarrow> string) \<Rightarrow> ((int \<times> VideoFrameView) list \<Rightarrow> string) \<Rightarrow> (ColorVideoWriter \<times> world, unit) act"
where
  "video_finalize av_strerror mux =
     bindS (getS (\<lambda>(v, w). vw_finalized v)) (\<lambda>finished.
     if finished then retS ()
     else
       bindS (on_world (checked_call av_strerror ''Cannot flush H.264 encoder'')) (\<lambda>_.
       bindS (on_world (writeAvailablePackets av_strerror)) (\<lambda>_.
       bindS (on_world (checked_call av_strerror ''Cannot write MP4 trailer'')) (\<lambda>_.
       bindS (modS (\<lambda>(v, w). (v, w\<lparr>disk_of :=
                append_file (vc_output_path (vw_config v)) (mux (vw_sent v)) (disk_of w)\<rparr>))) (\<lambda>_.
       bindS (on_world (checked_call av_strerror ''Cannot close MP4 output'')) (\<lambda>_.
       modS (\<lambda>(v, w). (v\<lparr>vw_finalized := True\<rparr>, w))))))))"

text \<open>
  The destructor finishes a file that was begun, ignores every failure of it and frees the rest.
\<close>

definition ColorVideoWriter_destroy ::
  "(int \<Rightarrow> string) \<Rightarrow> ((int \<times> VideoFrameView) list \<Rightarrow> string) \<Rightarrow> ColorVideoWriter \<Rightarrow> (world, unit) act"
where
  "ColorVideoWriter_destroy av_strerror mux v w =
     (Inr (), if \<not> vw_finalized v \<and> vw_header_written v then snd (snd (video_finalize av_strerror mux (v, w))) else w)"

end
