(* ===== verification/RingQueue.thy ===== *)
theory RingQueue
  imports Main
begin

text \<open>
  The bounded frame queue of the recording manager: the vector \<^verbatim>\<open>m_queue\<close> with
  \<^verbatim>\<open>m_queue_head\<close>, \<^verbatim>\<open>m_queue_tail\<close> and \<^verbatim>\<open>m_queue_count\<close>
  (\<^verbatim>\<open>src/recording/recording_manager.cpp\<close>). What the manager relies on is the locale
  \<open>bounded_fifo\<close>, interpreted on the ring.
\<close>

section \<open>The contract\<close>

locale bounded_fifo =
  fixes put :: "'a \<Rightarrow> 'q \<Rightarrow> 'q"
    and get :: "'q \<Rightarrow> 'a option \<times> 'q"
    and reset :: "'q \<Rightarrow> 'q"
    and depth :: "'q \<Rightarrow> nat"
    and capacity :: "'q \<Rightarrow> nat"
    and items :: "'q \<Rightarrow> 'a list"
    and ok :: "'q \<Rightarrow> bool"
  assumes put_ok: "ok q \<Longrightarrow> depth q \<noteq> capacity q \<Longrightarrow> ok (put x q)"
    and put_items: "ok q \<Longrightarrow> depth q \<noteq> capacity q \<Longrightarrow> items (put x q) = items q @ [x]"
    and put_capacity: "capacity (put x q) = capacity q"
    and get_ok: "ok q \<Longrightarrow> depth q \<noteq> 0 \<Longrightarrow> ok (snd (get q))"
    and get_items: "ok q \<Longrightarrow> depth q \<noteq> 0 \<Longrightarrow> items q = the (fst (get q)) # items (snd (get q))"
    and get_some: "ok q \<Longrightarrow> depth q \<noteq> 0 \<Longrightarrow> fst (get q) \<noteq> None"
    and get_capacity: "capacity (snd (get q)) = capacity q"
    and reset_ok: "0 < capacity q \<Longrightarrow> ok (reset q)"
    and reset_items: "items (reset q) = []"
    and reset_capacity: "capacity (reset q) = capacity q"
    and depth_items: "ok q \<Longrightarrow> depth q = length (items q)"
    and depth_bound: "ok q \<Longrightarrow> depth q \<le> capacity q"
begin

text \<open>Clients offer an item, which a full queue refuses, or take one, which an empty queue has not.\<close>

definition offer :: "'a \<Rightarrow> 'q \<Rightarrow> bool \<times> 'q" where
  "offer x q = (if depth q = capacity q then (False, q) else (True, put x q))"

definition poll :: "'q \<Rightarrow> 'a option \<times> 'q" where
  "poll q = (if depth q = 0 then (None, q) else get q)"

fun run :: "'a option list \<Rightarrow> 'q \<Rightarrow> 'a list \<times> 'a list \<times> 'q" where
  "run [] q = ([], [], q)"
| "run (Some x # ops) q = (case offer x q of (accepted, q1) \<Rightarrow>
     (case run ops q1 of (ins, outs, q2) \<Rightarrow> (if accepted then x # ins else ins, outs, q2)))"
| "run (None # ops) q = (case poll q of (y, q1) \<Rightarrow>
     (case run ops q1 of (ins, outs, q2) \<Rightarrow> (ins, (case y of None \<Rightarrow> outs | Some z \<Rightarrow> z # outs), q2)))"

lemma offer_simps:
  assumes "ok q"
  shows "ok (snd (offer x q))" "capacity (snd (offer x q)) = capacity q"
    "items (snd (offer x q)) = items q @ (if fst (offer x q) then [x] else [])"
    "fst (offer x q) \<longleftrightarrow> length (items q) < capacity q"
  using assms put_ok put_items put_capacity depth_items [OF assms] depth_bound [OF assms]
  by (auto simp: offer_def)

lemma poll_simps:
  assumes "ok q"
  shows "ok (snd (poll q))" "capacity (snd (poll q)) = capacity q"
    "items q = (case fst (poll q) of None \<Rightarrow> [] | Some y \<Rightarrow> [y]) @ items (snd (poll q))"
    "fst (poll q) = None \<longleftrightarrow> items q = []"
proof -
  show "ok (snd (poll q))" "capacity (snd (poll q)) = capacity q"
    using assms by (simp_all add: poll_def get_ok get_capacity)
  show "fst (poll q) = None \<longleftrightarrow> items q = []"
    using get_some [OF assms] depth_items [OF assms] by (simp add: poll_def)
  show "items q = (case fst (poll q) of None \<Rightarrow> [] | Some y \<Rightarrow> [y]) @ items (snd (poll q))"
  proof (cases "depth q = 0")
    case True
    then show ?thesis by (simp add: poll_def)
  next
    case False
    then obtain y where "fst (get q) = Some y" using get_some [OF assms] by blast
    with False get_items [OF assms False] show ?thesis by (simp add: poll_def)
  qed
qed

text \<open>
  Over any interleaving of offers and polls, what came out followed by what is left is what was
  in the queue followed by what it accepted: nothing is lost, duplicated or reordered.
\<close>

lemma run_fifo:
  "ok q \<Longrightarrow> run ops q = (ins, outs, q') \<Longrightarrow>
     items q @ ins = outs @ items q' \<and> ok q' \<and> capacity q' = capacity q"
proof (induction ops q arbitrary: ins outs q' rule: run.induct)
  case (2 x ops q)
  obtain b q1 where o: "offer x q = (b, q1)" by fastforce
  obtain i2 o2 q2 where r: "run ops q1 = (i2, o2, q2)" by (cases "run ops q1")
  note f = offer_simps [OF "2.prems"(1), of x, unfolded o fst_conv snd_conv]
  have "items q1 @ i2 = o2 @ items q2 \<and> ok q2 \<and> capacity q2 = capacity q1"
    using "2.IH" [OF o [symmetric] f(1) r] .
  moreover have "ins = (if b then x # i2 else i2)" "outs = o2" "q' = q2"
    using "2.prems"(2) o r by simp_all
  ultimately show ?case using f(2,3) by (cases b) simp_all
next
  case (3 ops q)
  obtain y q1 where p: "poll q = (y, q1)" by fastforce
  obtain i2 o2 q2 where r: "run ops q1 = (i2, o2, q2)" by (cases "run ops q1")
  note f = poll_simps [OF "3.prems"(1), unfolded p fst_conv snd_conv]
  have "items q1 @ i2 = o2 @ items q2 \<and> ok q2 \<and> capacity q2 = capacity q1"
    using "3.IH" [OF p [symmetric] f(1) r] .
  moreover have "ins = i2" "outs = (case y of None \<Rightarrow> o2 | Some z \<Rightarrow> z # o2)" "q' = q2"
    using "3.prems"(2) p r by simp_all
  ultimately show ?case using f(2,3) by (cases y) simp_all
qed simp

end

section \<open>The ring buffer\<close>

record 'a ring =
  rg_slots :: "'a option list"
  rg_head :: nat
  rg_tail :: nat
  rg_count :: nat

definition ring_new :: "nat \<Rightarrow> 'a ring" where
  "ring_new n = \<lparr>rg_slots = replicate n None, rg_head = 0, rg_tail = 0, rg_count = 0\<rparr>"

definition ring_put :: "'a \<Rightarrow> 'a ring \<Rightarrow> 'a ring" where
  "ring_put x q = q\<lparr>rg_slots := (rg_slots q)[rg_tail q := Some x],
     rg_tail := (rg_tail q + 1) mod length (rg_slots q), rg_count := rg_count q + 1\<rparr>"

definition ring_get :: "'a ring \<Rightarrow> 'a option \<times> 'a ring" where
  "ring_get q = (rg_slots q ! rg_head q,
     q\<lparr>rg_slots := (rg_slots q)[rg_head q := None],
       rg_head := (rg_head q + 1) mod length (rg_slots q), rg_count := rg_count q - 1\<rparr>)"

definition ring_reset :: "'a ring \<Rightarrow> 'a ring" where
  "ring_reset q = q\<lparr>rg_slots := map (\<lambda>_. None) (rg_slots q), rg_head := 0, rg_tail := 0, rg_count := 0\<rparr>"

definition ring_capacity :: "'a ring \<Rightarrow> nat" where
  "ring_capacity q = length (rg_slots q)"

text \<open>Abstraction and representation invariant.\<close>

definition ring_at :: "'a ring \<Rightarrow> nat \<Rightarrow> 'a option" where
  "ring_at q k = rg_slots q ! ((rg_head q + k) mod length (rg_slots q))"

definition ring_items :: "'a ring \<Rightarrow> 'a list" where
  "ring_items q = map (\<lambda>k. the (ring_at q k)) [0..<rg_count q]"

definition ring_ok :: "'a ring \<Rightarrow> bool" where
  "ring_ok q \<longleftrightarrow> rg_head q < length (rg_slots q) \<and> rg_count q \<le> length (rg_slots q) \<and>
     rg_tail q = (rg_head q + rg_count q) mod length (rg_slots q) \<and>
     (\<forall>k < rg_count q. ring_at q k \<noteq> None)"

lemma mod_wrap:
  fixes h k n :: nat
  assumes "h < n" and "k \<le> n"
  shows "(h + k) mod n = (if h + k < n then h + k else h + k - n)"
  using assms by (simp add: le_mod_geq not_less)

lemma mod_wrap_inj:
  fixes h k c n :: nat
  assumes "h < n" and "c < n" and "k \<le> c"
  shows "(h + k) mod n = (h + c) mod n \<longleftrightarrow> k = c"
  using assms mod_wrap [of h n k] mod_wrap [of h n c] by (auto split: if_splits)

lemma mod_wrap_neq:
  fixes h k n :: nat
  assumes "h < n" and "0 < k" and "k < n"
  shows "(h + k) mod n \<noteq> h"
  using assms mod_wrap [of h n k] by (auto split: if_splits)

lemma ring_at_put:
  assumes "ring_ok q" and "rg_count q < length (rg_slots q)" and "k \<le> rg_count q"
  shows "ring_at (ring_put x q) k = (if k = rg_count q then Some x else ring_at q k)"
proof -
  let ?n = "length (rg_slots q)"
  have h: "rg_head q < ?n" using assms(1) by (simp add: ring_ok_def)
  have "(rg_head q + k) mod ?n = (rg_head q + rg_count q) mod ?n \<longleftrightarrow> k = rg_count q"
    using h assms(2,3) by (rule mod_wrap_inj)
  moreover have "(rg_head q + rg_count q) mod ?n < ?n"
    using assms(2) by (intro mod_less_divisor) auto
  ultimately show ?thesis
    using assms by (auto simp: ring_at_def ring_put_def ring_ok_def nth_list_update)
qed

lemma ring_at_get:
  assumes "ring_ok q" and "Suc k < rg_count q"
  shows "ring_at (snd (ring_get q)) k = ring_at q (Suc k)"
proof -
  let ?n = "length (rg_slots q)"
  have "((rg_head q + 1) mod ?n + k) mod ?n = (rg_head q + Suc k) mod ?n"
    by (simp add: mod_add_left_eq)
  moreover have "(rg_head q + Suc k) mod ?n \<noteq> rg_head q"
    using assms by (intro mod_wrap_neq) (auto simp: ring_ok_def)
  ultimately show ?thesis by (simp add: ring_at_def ring_get_def)
qed

interpretation ring: bounded_fifo ring_put ring_get ring_reset rg_count ring_capacity ring_items ring_ok
proof
  fix q :: "'a ring" and x :: 'a
  assume q: "ring_ok q" "rg_count q \<noteq> ring_capacity q"
  then have lt: "rg_count q < length (rg_slots q)" by (auto simp: ring_ok_def ring_capacity_def)
  have at: "ring_at (ring_put x q) k = (if k = rg_count q then Some x else ring_at q k)"
    if "k < Suc (rg_count q)" for k using ring_at_put [OF q(1) lt] that by simp
  have "rg_tail (ring_put x q) = (rg_head q + Suc (rg_count q)) mod length (rg_slots q)"
    using q(1) by (simp add: ring_put_def ring_ok_def mod_Suc_eq)
  then show "ring_ok (ring_put x q)"
    using q(1) lt at unfolding ring_ok_def by (simp add: ring_put_def)
  show "ring_items (ring_put x q) = ring_items q @ [x]"
    using at by (simp add: ring_items_def) (simp add: ring_put_def at)
next
  fix q :: "'a ring" assume q: "ring_ok q" "rg_count q \<noteq> 0"
  have head: "fst (ring_get q) = ring_at q 0"
    using q by (simp add: ring_get_def ring_at_def ring_ok_def)
  show "fst (ring_get q) \<noteq> None" using head q by (simp add: ring_ok_def)
  have at: "ring_at (snd (ring_get q)) k = ring_at q (Suc k)" if "k < rg_count q - 1" for k
    using ring_at_get [OF q(1)] that by simp
  have "rg_tail q = ((rg_head q + 1) mod length (rg_slots q) + (rg_count q - 1)) mod length (rg_slots q)"
    using q by (cases "rg_count q") (simp_all add: ring_ok_def mod_add_left_eq)
  moreover have "(rg_head q + 1) mod length (rg_slots q) < length (rg_slots q)"
    using q by (intro mod_less_divisor) (auto simp: ring_ok_def)
  ultimately show "ring_ok (snd (ring_get q))"
    using q at unfolding ring_ok_def by (auto simp: ring_get_def)
  have "ring_items q = the (ring_at q 0) # map (\<lambda>k. the (ring_at q (Suc k))) [0..<rg_count q - 1]"
    using q(2) by (cases "rg_count q") (simp_all add: ring_items_def upt_conv_Cons map_Suc_upt [symmetric] o_def
        del: upt_Suc)
  also have "\<dots> = the (fst (ring_get q)) # ring_items (snd (ring_get q))"
    using at by (simp add: head ring_items_def) (simp add: ring_get_def at)
  finally show "ring_items q = the (fst (ring_get q)) # ring_items (snd (ring_get q))" .
qed (auto simp: ring_put_def ring_get_def ring_reset_def ring_capacity_def ring_ok_def ring_items_def)

lemma ring_new_ok: "0 < n \<Longrightarrow> ring_ok (ring_new n) \<and> ring_items (ring_new n) = [] \<and> ring_capacity (ring_new n) = n"
  by (simp add: ring_new_def ring_ok_def ring_items_def ring_capacity_def)

end
