(* ===== verification/RecordingStoreFacts.thy ===== *)
theory RecordingStoreFacts
  imports RecordingStore
begin

text \<open>
  What the recording store guarantees: files appear whole or not at all, the store only writes
  below its managed directories, and persisted evidence is found again.
\<close>

section \<open>Primitive calls\<close>

lemma nodes_next_outcome [simp]: "nodes (snd (next_outcome s)) = nodes s"
  by (simp add: next_outcome_def split: list.split)

lemma nodes_succeeds [simp]: "nodes (snd (succeeds s)) = nodes s"
  by (simp add: succeeds_def split: prod.split) (metis nodes_next_outcome snd_conv)

lemma succeeds_nodes: "succeeds s = (ok, t) \<Longrightarrow> nodes t = nodes s"
  by (metis nodes_succeeds snd_conv)

lemma succeeds_clean [simp]: "outcomes s = [] \<Longrightarrow> succeeds s = (True, s)"
  by (simp add: succeeds_def next_outcome_def)

lemma stat_nodes: "nodes t = nodes s \<Longrightarrow> stat p t = stat p s"
  and lstat_nodes: "nodes t = nodes s \<Longrightarrow> lstat p t = lstat p s"
  and entry_nodes: "nodes t = nodes s \<Longrightarrow> entry_of p t = entry_of p s"
  by (simp_all add: stat_def lstat_def entry_of_def split: option.split)

lemma nodes_set_node [simp]: "nodes (set_node p v s) = (nodes s)(p := v)"
  by (simp add: set_node_def)

lemma write_loop_nodes:
  "write_loop q c n s = (ok, t) \<Longrightarrow> nodes s q = Some (File (take n c)) \<Longrightarrow> n \<le> length c \<Longrightarrow>
     (\<forall>p. p \<noteq> q \<longrightarrow> nodes t p = nodes s p) \<and> (\<exists>b. nodes t q = Some (File b)) \<and>
     (ok \<longrightarrow> nodes t q = Some (File c))"
proof (induction q c n s arbitrary: ok t rule: write_loop.induct)
  case (1 q c n s)
  show ?case
  proof (cases "n < length c")
    case False
    with "1.prems" show ?thesis by (simp add: write_loop.simps [of q c n])
  next
    case True
    obtain x u where xu: "next_outcome s = (x, u)" by fastforce
    then have u: "nodes u = nodes s" by (metis nodes_next_outcome snd_conv)
    have a: "nodes (append_file q b u) = (nodes s)(q := Some (File (take n c @ b)))" for b
      using "1.prems"(2) u by (simp add: append_file_def)
    show ?thesis
    proof (cases x)
      case Io_ok
      have w: "write_loop q c (length c) (append_file q (drop n c) u) = (ok, t)"
        using "1.prems"(1) True xu Io_ok by (simp add: write_loop.simps [of q c n])
      have "nodes (append_file q (drop n c) u) q = Some (File (take (length c) c))"
        by (simp add: a)
      from "1.IH"(1) [OF True xu [symmetric] Io_ok w this] show ?thesis by (simp add: a)
    next
      case (Io_partial k)
      show ?thesis
      proof (cases "0 < k")
        case k: True
        let ?m = "n + min k (length c - n)"
        have w: "write_loop q c ?m (append_file q (take k (drop n c)) u) = (ok, t)"
          using "1.prems"(1) True xu Io_partial k by (simp add: write_loop.simps [of q c n])
        have "take n c @ take k (drop n c) = take ?m c"
          by (simp add: take_add min_def)
        then have "nodes (append_file q (take k (drop n c)) u) q = Some (File (take ?m c))"
          by (simp add: a)
        from "1.IH"(2) [OF True xu [symmetric] Io_partial k w this] show ?thesis
          using True by (simp add: a)
      next
        case False
        with "1.prems" True xu Io_partial u show ?thesis
          by (simp add: write_loop.simps [of q c n])
      qed
    next
      case Io_interrupted
      have w: "write_loop q c n u = (ok, t)"
        using "1.prems"(1) True xu Io_interrupted by (simp add: write_loop.simps [of q c n])
      from "1.IH"(3) [OF True xu [symmetric] Io_interrupted w] "1.prems"(2,3) u
      show ?thesis by simp
    next
      case Io_fail
      with "1.prems" True xu u show ?thesis by (simp add: write_loop.simps [of q c n])
    qed
  qed
qed


section \<open>Atomic files\<close>

lemma plain_tmp [simp]: "plain_name f \<Longrightarrow> plain_name (f @ ''.tmp'')"
  by (auto simp: plain_name_def)

lemma clean_path_update [simp]:
  assumes "length p \<le> length q"
  shows "clean_path (m(q := v)) p \<longleftrightarrow> clean_path m p"
proof -
  have "take k p \<noteq> q" if "k < length p" for k using assms that by auto
  then show ?thesis by (auto simp: clean_path_def)
qed

lemma syncDirectory_nodes: "syncDirectory d s = (r, t) \<Longrightarrow> nodes t = nodes s"
  by (auto simp: syncDirectory_def bindS_def throw_ifS_def act_simps
      split: prod.splits sum.splits if_splits dest!: succeeds_nodes)

lemma open_exclusive_clean:
  assumes "clean_path (nodes s) q" and "q \<noteq> []" and "open_exclusive q s = (d, t)"
  shows "(d = None \<and> nodes t = nodes s) \<or>
    (d = Some q \<and> nodes s q = None \<and> nodes t = (nodes s)(q := Some (File [])))"
proof -
  obtain ok u where u: "succeeds s = (ok, u)" by fastforce
  then have n: "nodes u = nodes s" by (rule succeeds_nodes)
  have "entry_of q u = Some q"
    using entry_of_clean [of s q] assms entry_nodes [OF n] by simp
  with assms(3) u n show ?thesis by (auto simp: open_exclusive_def split: if_splits)
qed

lemma rename_file_clean:
  assumes "clean_path (nodes s) (d @ [f])" and "clean_path (nodes s) (d @ [g])" and "f \<noteq> g"
    and "nodes s (d @ [f]) = Some (File c)"
    and "rename_entry (d @ [f]) (d @ [g]) s = (ok, t)"
  shows "nodes t = (if ok then (nodes s)(d @ [f] := None, d @ [g] := Some (File c)) else nodes s)"
proof -
  obtain b u where u: "succeeds s = (b, u)" by fastforce
  then have n: "nodes u = nodes s" by (rule succeeds_nodes)
  have "entry_of (d @ [f]) u = Some (d @ [f])" "entry_of (d @ [g]) u = Some (d @ [g])"
    using entry_of_clean [of s] assms(1,2) entry_nodes [OF n] by simp_all
  with assms(3-5) u n show ?thesis
    by (auto simp: rename_entry_def fun_upd_twist split: if_splits option.splits node.splits)
qed

lemma writeAtomically_nodes:
  assumes c: "clean_path (nodes s) (d @ [f])" and w: "writeAtomically d f contents s = (r, t)"
  shows "\<And>p. p \<noteq> d @ [f] \<Longrightarrow> p \<noteq> d @ [f @ ''.tmp''] \<Longrightarrow> nodes t p = nodes s p"
    and "nodes t (d @ [f]) = nodes s (d @ [f]) \<or> nodes t (d @ [f]) = Some (File contents)"
    and "r = Inr () \<Longrightarrow> nodes t = (nodes s)(d @ [f] := Some (File contents))"
proof -
  let ?q = "d @ [f @ ''.tmp'']"
  have f: "plain_name f" using c by (simp add: clean_path_snoc)
  have cq: "clean_path (nodes s) ?q" using c by (simp add: clean_path_snoc f)
  obtain o1 s1 where o1: "open_exclusive ?q s = (o1, s1)" by fastforce
  have "(\<forall>p. p \<noteq> d @ [f] \<longrightarrow> p \<noteq> ?q \<longrightarrow> nodes t p = nodes s p) \<and>
    (nodes t (d @ [f]) = nodes s (d @ [f]) \<or> nodes t (d @ [f]) = Some (File contents)) \<and>
    (r = Inr () \<longrightarrow> nodes t = (nodes s)(d @ [f] := Some (File contents)))"
  proof (cases o1)
    case None
    then have "nodes s1 = nodes s" using open_exclusive_clean [OF cq _ o1] by simp
    with None w o1 f show ?thesis by (auto simp: writeAtomically_def bindS_def act_simps)
  next
    case (Some q)
    then have q: "q = ?q" and free: "nodes s ?q = None"
      and n1: "nodes s1 = (nodes s)(?q := Some (File []))"
      using open_exclusive_clean [OF cq _ o1] by auto
    obtain b2 s2 where w2: "write_loop ?q contents 0 s1 = (b2, s2)" by fastforce
    note l = write_loop_nodes [OF w2]
    have n2: "nodes s2 p = nodes s p" if "p \<noteq> ?q" for p using l n1 that by simp
    show ?thesis
    proof (cases b2)
      case False
      with w o1 Some q w2 n2 f show ?thesis
        by (auto simp: writeAtomically_def bindS_def act_simps)
    next
      case True
      have n2': "nodes s2 = (nodes s)(?q := Some (File contents))"
        using l n1 True by (auto simp: fun_eq_iff)
      obtain b3 s3 b4 s4 where b3: "succeeds s2 = (b3, s3)" and b4: "succeeds s3 = (b4, s4)" by fastforce
      then have n4: "nodes s4 = nodes s2" by (simp add: succeeds_nodes)
      show ?thesis
      proof (cases "b3 \<and> b4")
        case False
        with w o1 Some q w2 True b3 b4 n4 n2 f show ?thesis
          by (auto simp: writeAtomically_def bindS_def act_simps)
      next
        case b: True
        obtain b5 s5 where b5: "rename_entry ?q (d @ [f]) s4 = (b5, s5)" by fastforce
        have clean: "clean_path (nodes s4) ?q" "clean_path (nodes s4) (d @ [f])"
          using c cq by (simp_all add: n4 n2')
        have "nodes s5 = (if b5 then (nodes s4)(?q := None, d @ [f] := Some (File contents)) else nodes s4)"
          using b5 clean by (intro rename_file_clean) (simp_all add: n4 n2')
        then have n5: "nodes s5 = (if b5 then (nodes s)(d @ [f] := Some (File contents))
            else (nodes s)(?q := Some (File contents)))"
          using free by (auto simp: n4 n2' fun_eq_iff)
        show ?thesis
        proof (cases b5)
          case False
          with w o1 Some q w2 True b3 b4 b b5 n5 f show ?thesis
            by (auto simp: writeAtomically_def bindS_def act_simps)
        next
          case b5t: True
          have "syncDirectory d s5 = (r, t)"
            using w o1 Some q w2 True b3 b4 b b5 b5t f
            by (simp add: writeAtomically_def bindS_def act_simps)
          from syncDirectory_nodes [OF this] show ?thesis by (simp add: n5 b5t)
        qed
      qed
    qed
  qed
  then show "\<And>p. p \<noteq> d @ [f] \<Longrightarrow> p \<noteq> ?q \<Longrightarrow> nodes t p = nodes s p"
    and "nodes t (d @ [f]) = nodes s (d @ [f]) \<or> nodes t (d @ [f]) = Some (File contents)"
    and "r = Inr () \<Longrightarrow> nodes t = (nodes s)(d @ [f] := Some (File contents))"
    by blast+
qed


section \<open>Managed directories\<close>

text \<open>No symbolic link or file stands in the place of the configured root or of its parents.\<close>

definition plain_root :: "(path \<Rightarrow> node option) \<Rightarrow> path \<Rightarrow> bool" where
  "plain_root m root \<longleftrightarrow> (\<forall>c \<in> set root. plain_name c) \<and>
     (\<forall>k \<le> length root. 0 < k \<longrightarrow> m (take k root) = None \<or> m (take k root) = Some Dir)"

text \<open>Only directories were added, and only at places in \<open>S\<close>.\<close>

definition grown :: "path set \<Rightarrow> (path \<Rightarrow> node option) \<Rightarrow> (path \<Rightarrow> node option) \<Rightarrow> bool" where
  "grown S m m' \<longleftrightarrow> (\<forall>p. m' p = m p \<or> (p \<in> S \<and> m p = None \<and> m' p = Some Dir))"

lemma grown_refl [simp]: "grown S m m" by (simp add: grown_def)

lemma grown_trans: "grown S m m' \<Longrightarrow> grown T m' m'' \<Longrightarrow> grown (S \<union> T) m m''"
  unfolding grown_def by (metis UnCI option.distinct(1))

lemma grown_mono: "grown S m m' \<Longrightarrow> S \<subseteq> T \<Longrightarrow> grown T m m'"
  unfolding grown_def by blast

lemma grown_Dir: "grown S m m' \<Longrightarrow> m p = Some Dir \<Longrightarrow> m' p = Some Dir"
  unfolding grown_def by (metis option.distinct(1))

lemma grown_clean: "grown S m m' \<Longrightarrow> clean_path m p \<Longrightarrow> clean_path m' p"
  by (auto simp: clean_path_def intro: grown_Dir)

lemma create_directory_clean:
  assumes "clean_path (nodes s) p" and "p \<noteq> []" and "create_directory p s = (r, t)"
  shows "if r = Mk_created then nodes s p = None \<and> nodes t = (nodes s)(p := Some Dir)
    else nodes t = nodes s \<and> (r = Mk_directory_exists \<longrightarrow> is_directory p s)"
proof -
  obtain ok u where u: "succeeds s = (ok, u)" by fastforce
  then have n: "nodes u = nodes s" by (rule succeeds_nodes)
  have "entry_of p u = Some p"
    using entry_of_clean [of s p] assms(1,2) entry_nodes [OF n] by simp
  with assms(3) u n show ?thesis
    by (auto simp: create_directory_def is_directory_def stat_nodes [OF n] split: if_splits)
qed

lemma is_directory_clean:
  "clean_path (nodes s) p \<Longrightarrow> is_directory p s \<Longrightarrow> \<not> is_symlink p s \<Longrightarrow> node_at (nodes s) p = Some Dir"
  by (simp add: is_directory_def stat_clean)

lemma create_prefixes_snoc:
  "create_prefixes (ps @ [p]) s = (case create_prefixes ps s of
     (ok, t) \<Rightarrow> if ok then create_prefixes [p] t else (False, t))"
  by (induction ps arbitrary: s) (auto split: prod.split)

lemma tl_prefixes_snoc: "tl (prefixes (xs @ [x])) = tl (prefixes xs) @ [xs @ [x]]"
  by (cases xs) (simp_all add: prefixes_snoc)

lemma create_directories_plain:
  "plain_root (nodes s) root \<Longrightarrow> create_directories root s = (ok, t) \<Longrightarrow>
     grown {p. p \<noteq> [] \<and> prefix p root} (nodes s) (nodes t) \<and>
     (ok \<longrightarrow> clean_path (nodes t) root \<and> node_at (nodes t) root = Some Dir)"
proof (induction root arbitrary: ok t rule: rev_induct)
  case Nil
  then show ?case by (simp add: create_directories_def clean_path_def node_at_def)
next
  case (snoc x xs)
  let ?p = "xs @ [x]"
  have pr: "plain_root (nodes s) xs" "plain_name x" and free: "nodes s ?p = None \<or> nodes s ?p = Some Dir"
    using snoc.prems(1) unfolding plain_root_def
    by (auto dest: spec [of _ "length ?p"]) (metis le_SucI length_append_singleton take_append take_all
        diff_is_0_eq take_0 append_Nil2)+
  obtain ok1 t1 where 1: "create_directories xs s = (ok1, t1)" by fastforce
  note ih = snoc.IH [OF pr(1) 1]
  have sub: "{p. p \<noteq> [] \<and> prefix p xs} \<subseteq> {p. p \<noteq> [] \<and> prefix p ?p}" by auto
  show ?case
  proof (cases ok1)
    case False
    with 1 snoc.prems(2) have "ok = False" "t = t1"
      by (simp_all add: create_directories_def tl_prefixes_snoc create_prefixes_snoc)
    with ih show ?thesis by (auto simp: grown_def)
  next
    case True
    obtain r u where c: "create_directory ?p t1 = (r, u)" by fastforce
    have clean: "clean_path (nodes t1) ?p"
      using ih True pr(2) by (auto simp: clean_path_snoc node_at_def split: if_splits)
    have out: "t = u" "ok \<longleftrightarrow> r = Mk_created \<or> r = Mk_directory_exists"
      using 1 True c snoc.prems(2)
      by (auto simp: create_directories_def tl_prefixes_snoc create_prefixes_snoc split: if_splits)
    have free1: "nodes t1 ?p = None \<or> nodes t1 ?p = Some Dir"
      using ih free unfolding grown_def by metis
    note cd = create_directory_clean [OF clean _ c]
    have g: "grown {?p} (nodes t1) (nodes u)"
      using cd by (auto simp: grown_def split: if_splits)
    have "is_directory ?p t1 \<Longrightarrow> nodes t1 ?p = Some Dir"
      using free1 clean by (auto simp: is_directory_def stat_def walk_clean_path node_at_def)
    then have "ok \<longrightarrow> nodes u ?p = Some Dir"
      using cd out by (auto split: if_splits)
    moreover have "clean_path (nodes u) ?p" using g clean by (rule grown_clean)
    ultimately show ?thesis
      using grown_trans [OF conjunct1 [OF ih] g] out by (auto simp: node_at_def grown_def)
  qed
qed


lemma plain_children [simp]: "plain_name ''.staging''" "plain_name ''finalized''"
  "plain_name ''start_request.json''" "plain_name ''stop_request.json''"
  "plain_name ''recording_manifest.json''"
  by (simp_all add: plain_name_def)

lemma rejectSymlink_simps:
  "rejectSymlink p s = (if is_symlink p s
     then (Inl (Invalid_argument ''Recording managed directory must not be a symlink.''), s)
     else (Inr (), s))"
  by (simp add: rejectSymlink_def act_simps)

lemma prepare_child_nodes:
  assumes "clean_path (nodes s) (root @ [c])" and "plain_name c" and "prepare_child root c s = (r, t)"
  shows "grown {root @ [c]} (nodes s) (nodes t) \<and> (r = Inr () \<longrightarrow> nodes t (root @ [c]) = Some Dir)"
proof -
  obtain m u where m: "create_directory (root @ [c]) s = (m, u)" by fastforce
  note cd = create_directory_clean [OF assms(1) _ m]
  have g: "grown {root @ [c]} (nodes s) (nodes u)"
    using cd by (auto simp: grown_def split: if_splits)
  then have clean: "clean_path (nodes u) (root @ [c])" using assms(1) by (rule grown_clean)
  have "t = u \<and> (r = Inr () \<longrightarrow> is_directory (root @ [c]) u \<and> \<not> is_symlink (root @ [c]) u)"
    using assms(3) m assms(2)
    by (auto simp: prepare_child_def run_simps rejectSymlink_simps split: if_splits)
  with g is_directory_clean [OF clean] show ?thesis by (auto simp: node_at_def)
qed

definition managed_parents :: "path \<Rightarrow> path set" where
  "managed_parents root = {p. p \<noteq> [] \<and> prefix p root} \<union> {root @ [''.staging''], root @ [''finalized'']}"

lemma initialize_nodes:
  assumes root: "plain_root (nodes s) root" and i: "RecordingStore_initialize root s = (r, t)"
  shows "grown (managed_parents root) (nodes s) (nodes t)"
    and "r = Inr () \<Longrightarrow> clean_path (nodes t) (root @ [''.staging'']) \<and>
      clean_path (nodes t) (root @ [''finalized'']) \<and>
      nodes t (root @ [''.staging'']) = Some Dir \<and> nodes t (root @ [''finalized'']) = Some Dir"
proof -
  obtain ok u where u: "create_directories root s = (ok, u)" by fastforce
  note cd = create_directories_plain [OF root u]
  have "grown (managed_parents root) (nodes s) (nodes t) \<and>
    (r = Inr () \<longrightarrow> clean_path (nodes t) (root @ [''.staging'']) \<and>
      clean_path (nodes t) (root @ [''finalized'']) \<and>
      nodes t (root @ [''.staging'']) = Some Dir \<and> nodes t (root @ [''finalized'']) = Some Dir)"
  proof (cases "ok \<and> is_directory root u \<and> \<not> is_symlink root u")
    case False
    then have "t = u" "r \<noteq> Inr ()" using i u
      by (auto simp: RecordingStore_initialize_def run_simps rejectSymlink_simps split: if_splits)
    with cd show ?thesis by (auto simp: managed_parents_def grown_def)
  next
    case True
    then have c: "clean_path (nodes u) root" "node_at (nodes u) root = Some Dir"
      using cd by simp_all
    then have cs: "clean_path (nodes u) (root @ [''.staging''])" "clean_path (nodes u) (root @ [''finalized''])"
      by (auto simp: clean_path_snoc node_at_def split: if_splits)
    obtain r1 u1 where p1: "prepare_child root ''.staging'' u = (r1, u1)" by fastforce
    note n1 = prepare_child_nodes [OF cs(1) _ p1]
    have g1: "grown (managed_parents root) (nodes s) (nodes u1)"
      using grown_mono [OF grown_trans [OF conjunct1 [OF cd] conjunct1 [OF n1]]]
      by (auto simp: managed_parents_def)
    show ?thesis
    proof (cases r1)
      case (Inl e)
      then have "t = u1" "r = Inl e" using i u True p1
        by (auto simp: RecordingStore_initialize_def run_simps rejectSymlink_simps split: if_splits)
      with g1 show ?thesis by simp
    next
      case (Inr x)
      then have p2: "prepare_child root ''finalized'' u1 = (r, t)" using i u True p1
        by (auto simp: RecordingStore_initialize_def run_simps rejectSymlink_simps split: if_splits)
      have cs1: "clean_path (nodes u1) (root @ [''finalized''])" "clean_path (nodes u1) (root @ [''.staging''])"
        using n1 cs by (auto intro: grown_clean)
      note n2 = prepare_child_nodes [OF cs1(1) _ p2]
      have g2: "grown {root @ [''finalized'']} (nodes u1) (nodes t)" using n2 by simp
      have "grown (managed_parents root) (nodes s) (nodes t)"
        by (rule grown_mono [OF grown_trans [OF g1 g2]]) (simp add: managed_parents_def)
      moreover note grown_clean [OF g2 cs1(1)] grown_clean [OF g2 cs1(2)] grown_Dir [OF g2]
      ultimately show ?thesis using n1 n2 Inr by simp
    qed
  qed
  then show "grown (managed_parents root) (nodes s) (nodes t)"
    and "r = Inr () \<Longrightarrow> clean_path (nodes t) (root @ [''.staging'']) \<and>
      clean_path (nodes t) (root @ [''finalized'']) \<and>
      nodes t (root @ [''.staging'']) = Some Dir \<and> nodes t (root @ [''finalized'']) = Some Dir"
    by blast+
qed


section \<open>Staging\<close>

abbreviation staging_of :: "path \<Rightarrow> string \<Rightarrow> path" where
  "staging_of root i \<equiv> root @ [''.staging'', i]"

abbreviation finalized_of :: "path \<Rightarrow> string \<Rightarrow> path" where
  "finalized_of root i \<equiv> root @ [''finalized'', i]"

lemma artifact_paths_valid [simp]:
  "isRecordingIdValid i \<Longrightarrow> artifact_paths root i =
     \<lparr>staging_directory = staging_of root i, finalized_directory = finalized_of root i\<rparr>"
  by (simp add: artifact_paths_def)

lemma clean_path_snoc2:
  "clean_path m (p @ [c, d]) \<longleftrightarrow> clean_path m (p @ [c]) \<and> plain_name d \<and> m (p @ [c]) = Some Dir"
  using clean_path_snoc [of m "p @ [c]" d] by simp

lemma clean_path_snoc3:
  "clean_path m (p @ [c, d, e]) \<longleftrightarrow> clean_path m (p @ [c, d]) \<and> plain_name e \<and> m (p @ [c, d]) = Some Dir"
  using clean_path_snoc [of m "p @ [c, d]" e] by simp

lemma createStaging_nodes:
  assumes root: "plain_root (nodes s) root"
    and run: "createStaging ser root request s = (r, t)"
  defines "i \<equiv> rq_recording_id request"
  obtains (rejected) e where "r = Inl e" "grown (managed_parents root) (nodes s) (nodes t)"
  | (created) m where "isRecordingIdValid i" "grown (managed_parents root) (nodes s) m"
      "m (staging_of root i) = None" "clean_path m (staging_of root i)"
      "clean_path m (finalized_of root i)"
      "\<And>p. p \<noteq> staging_of root i \<Longrightarrow> p \<noteq> staging_of root i @ [''start_request.json''] \<Longrightarrow>
         p \<noteq> staging_of root i @ [''start_request.json.tmp''] \<Longrightarrow> nodes t p = m p"
      "\<And>paths. r = Inr paths \<Longrightarrow> paths = artifact_paths root i \<and>
         (\<exists>contents. serializeRecordingStartRequest ser request = Inr contents \<and>
            nodes t = m(staging_of root i := Some Dir,
              staging_of root i @ [''start_request.json''] := Some (File contents)))"
proof (cases "isRecordingIdValid i")
  case False
  then have "r = Inl (Invalid_argument ''Recording ID is unsafe.'')" "t = s"
    using run by (simp_all add: createStaging_def i_def run_simps)
  then show thesis by (intro rejected) simp_all
next
  case valid: True
  obtain r0 s0 where i0: "RecordingStore_initialize root s = (r0, s0)" by fastforce
  note init = initialize_nodes [OF root i0]
  show thesis
  proof (cases r0)
    case (Inl e)
    then have "r = Inl e" "t = s0"
      using run valid i0 by (simp_all add: createStaging_def i_def run_simps)
    with init(1) show thesis by (intro rejected) simp_all
  next
    case (Inr u)
    then have c: "clean_path (nodes s0) (staging_of root i)" "clean_path (nodes s0) (finalized_of root i)"
      using init(2) valid by (simp_all add: clean_path_snoc2 isRecordingIdValid_plain)
    obtain k s1 where mk: "create_directory (staging_of root i) s0 = (k, s1)" by fastforce
    note cd = create_directory_clean [OF c(1) _ mk]
    show thesis
    proof (cases "exists (finalized_of root i) s0 \<or> k \<noteq> Mk_created")
      case True
      then have "nodes t = nodes s0 \<and> (\<exists>e. r = Inl e)"
        using run valid i0 Inr mk cd
        by (auto simp: createStaging_def i_def [symmetric] run_simps Let_def split: if_splits)
      with init(1) show thesis by (auto intro: rejected)
    next
      case False
      then have k: "k = Mk_created" by simp
      with cd have new: "nodes s0 (staging_of root i) = None"
        and n1: "nodes s1 = (nodes s0)(staging_of root i := Some Dir)" by simp_all
      show thesis
      proof (cases "serializeRecordingStartRequest ser request")
        case (Inl e)
        then have "r = Inl e" "t = s1"
          using run valid i0 Inr mk False
          by (auto simp: createStaging_def i_def [symmetric] run_simps Let_def)
        then show thesis using new n1 c init(1) valid by (intro created) simp_all
      next
        case contents: (Inr contents)
        obtain w s2 where w: "writeAtomically (staging_of root i) ''start_request.json'' contents s1 = (w, s2)"
          by fastforce
        have "clean_path (nodes s1) (staging_of root i @ [''start_request.json''])"
          using c(1) n1 by (simp add: clean_path_snoc3)
        note wa = writeAtomically_nodes [OF this w]
        have t: "t = s2" "\<And>paths. r = Inr paths \<longleftrightarrow> w = Inr () \<and> paths = artifact_paths root i"
          using run valid i0 Inr mk False contents w
          by (auto simp: createStaging_def i_def [symmetric] run_simps Let_def split: sum.splits)
        have "paths = artifact_paths root i \<and> nodes t = (nodes s0)(staging_of root i := Some Dir,
            staging_of root i @ [''start_request.json''] := Some (File contents))" if "r = Inr paths" for paths
          using that t wa(3) n1 by simp
        then show thesis
          using wa(1) contents n1 t(1) new c init(1) valid by (intro created [of "nodes s0"]) simp_all
      qed
    qed
  qed
qed

section \<open>Evidence found again\<close>

lemma clean_node:
  assumes "clean_path (nodes s) p"
  shows "node_at (nodes s) p = Some Dir \<Longrightarrow> exists p s \<and> is_directory p s \<and> \<not> is_symlink p s"
    and "node_at (nodes s) p = None \<Longrightarrow> \<not> exists p s \<and> \<not> is_symlink p s"
    and "node_at (nodes s) p = Some (File b) \<Longrightarrow> exists p s \<and> \<not> is_symlink p s \<and> lstat p s = Some (File b)"
  using lstat_clean [OF assms] stat_clean [OF assms]
  by (auto simp: exists_def is_directory_def is_symlink_def)

lemma readBoundedRegularFile_clean:
  assumes "clean_path (nodes s) p" and "p \<noteq> []" and "nodes s p = Some (File b)"
    and "length b \<le> MAX_REQUEST_FILE_BYTES" and "outcomes s = []"
  shows "readBoundedRegularFile p s = (Inr b, s)"
  using clean_node(3) [OF assms(1), of b] assms
  by (simp add: readBoundedRegularFile_def run_simps node_at_def lstat_is_regular_file_def)

definition evidence_of :: "(path \<Rightarrow> node option) \<Rightarrow> path \<Rightarrow> string \<Rightarrow> string option \<Rightarrow> bool" where
  "evidence_of m dir start stop \<longleftrightarrow> m dir = Some Dir \<and>
     m (dir @ [''start_request.json'']) = Some (File start) \<and> length start \<le> MAX_REQUEST_FILE_BYTES \<and>
     m (dir @ [''stop_request.json'']) = map_option File stop \<and>
     (\<forall>b. stop = Some b \<longrightarrow> length b \<le> MAX_REQUEST_FILE_BYTES)"

lemma clean_parent: "clean_path (nodes s) (p @ [c]) \<Longrightarrow> node_at (nodes s) p = Some Dir"
  by (auto simp: clean_path_snoc node_at_def)

lemma findPersistedArtifact_eval:
  assumes valid: "isRecordingIdValid i" and ok: "outcomes s = []"
    and c: "clean_path (nodes s) (staging_of root i)" "clean_path (nodes s) (finalized_of root i)"
    and dir: "evidence_of (nodes s) (if fin then finalized_of root i else staging_of root i) start stop"
    and other: "nodes s (if fin then staging_of root i else finalized_of root i) = None"
  shows "findPersistedArtifact root i s =
    (Inr (Some \<lparr>pa_paths = artifact_paths root i, pa_finalized = fin,
                pa_start_request = start, pa_stop_request = stop\<rparr>), s)"
proof -
  let ?d = "if fin then finalized_of root i else staging_of root i"
  have p: "clean_path (nodes s) (root @ [''.staging''])" "clean_path (nodes s) (root @ [''finalized''])"
    "nodes s (root @ [''.staging'']) = Some Dir" "nodes s (root @ [''finalized'']) = Some Dir"
    using c by (simp_all add: clean_path_snoc2)
  then have "clean_path (nodes s) root" by (simp add: clean_path_snoc)
  note n = clean_node(1) [OF this clean_parent [OF p(1)]] clean_node(1) [OF p(1)] clean_node(1) [OF p(2)]
    clean_node(1) [OF c(1)] clean_node(1) [OF c(2)] clean_node(2) [OF c(1)] clean_node(2) [OF c(2)]
  have cd: "clean_path (nodes s) ?d" using c by simp
  have cf: "clean_path (nodes s) (?d @ [''start_request.json''])"
    "clean_path (nodes s) (?d @ [''stop_request.json''])"
    using cd dir by (simp_all only: clean_path_snoc plain_children evidence_of_def) simp_all
  have start: "readBoundedRegularFile (?d @ [''start_request.json'']) s = (Inr start, s)"
    using dir cf(1) ok by (intro readBoundedRegularFile_clean) (simp_all add: evidence_of_def)
  have stop: "exists (?d @ [''stop_request.json'']) s \<longleftrightarrow> stop \<noteq> None"
    "stop = Some b \<Longrightarrow> readBoundedRegularFile (?d @ [''stop_request.json'']) s = (Inr b, s)" for b
    using dir cf(2) ok clean_node [OF cf(2)]
    by (cases stop; auto intro!: readBoundedRegularFile_clean simp: evidence_of_def node_at_def)+
  show ?thesis
    using n p dir other valid start stop
    by (cases fin; cases stop)
       (simp_all add: findPersistedArtifact_def run_simps Let_def reject_if_present_def
          rejectSymlink_simps node_at_def evidence_of_def)
qed

lemma managed_parents_length:
  assumes "grown (managed_parents root) m m'" and "length root + 2 \<le> length p"
  shows "m' p = m p"
proof -
  have "p \<notin> managed_parents root"
    using assms(2) by (auto simp: managed_parents_def dest: prefix_length_le)
  with assms(1) show ?thesis by (auto simp: grown_def)
qed

section \<open>Activation\<close>

lemma rename_directory_clean:
  assumes "clean_path (nodes s) p" and "clean_path (nodes s) q" and "p \<noteq> []" and "q \<noteq> []"
    and "nodes s p = Some Dir" and "nodes s q = None" and "\<not> prefix p q"
    and "rename_entry p q s = (ok, t)"
  shows "nodes t = (if ok then move_tree p q (nodes s) else nodes s)"
proof -
  obtain b u where u: "succeeds s = (b, u)" by fastforce
  then have n: "nodes u = nodes s" by (rule succeeds_nodes)
  have "entry_of p u = Some p" "entry_of q u = Some q"
    using entry_of_clean [of s] assms(1-4) entry_nodes [OF n] by simp_all
  with assms(5-8) u n show ?thesis
    by (auto simp: rename_entry_def split: if_splits)
qed

lemma activateFinalized_nodes:
  assumes valid: "isRecordingIdValid i"
    and c: "clean_path (nodes s) (staging_of root i)" "clean_path (nodes s) (finalized_of root i)"
    and free: "nodes s (finalized_of root i) = None"
    and run: "activateFinalized root (artifact_paths root i) s = (r, t)"
  shows "nodes t = nodes s \<and> r \<noteq> Inr () \<or>
    nodes s (staging_of root i) = Some Dir \<and>
    nodes t = move_tree (staging_of root i) (finalized_of root i) (nodes s)"
proof -
  obtain ok u where u: "rename_entry (staging_of root i) (finalized_of root i) s = (ok, u)" by fastforce
  show ?thesis
  proof (cases "is_directory (staging_of root i) s \<and> \<not> is_symlink (staging_of root i) s")
    case False
    then show ?thesis
      using run valid by (auto simp: activateFinalized_def run_simps Let_def parent_path_def
          butlast_append rejectSymlink_simps split: if_splits)
  next
    case True
    then have d: "nodes s (staging_of root i) = Some Dir"
      using is_directory_clean [OF c(1)] by (simp add: node_at_def)
    have n: "nodes u = (if ok then move_tree (staging_of root i) (finalized_of root i) (nodes s) else nodes s)"
      using c d free u by (intro rename_directory_clean [of s]) simp_all
    obtain r1 u1 where s1: "syncDirectory (root @ [''.staging'']) u = (r1, u1)" by fastforce
    obtain r2 u2 where s2: "syncDirectory (root @ [''finalized'']) u1 = (r2, u2)" by fastforce
    have nn: "nodes u1 = nodes u" "nodes u2 = nodes u1"
      using s1 s2 syncDirectory_nodes by blast+
    have "\<not> exists (finalized_of root i) s"
      using clean_node(2) [OF c(2)] free by (simp add: node_at_def)
    then have "if ok then t = u1 \<or> t = u2 else t = u \<and> r \<noteq> Inr ()"
      using run valid True u s1 s2
      by (auto simp: activateFinalized_def run_simps Let_def parent_path_def
          butlast_append rejectSymlink_simps split: if_splits sum.splits)
    with d n nn show ?thesis by (auto split: if_splits)
  qed
qed

section \<open>Properties\<close>

text \<open>A disk that holds only a root directory, and a request, for the witnesses.\<close>

definition sample_disk :: disk where
  "sample_disk = \<lparr>nodes = [[''r''] \<mapsto> Dir], outcomes = [], space_available = 10\<rparr>"

definition sample_request :: RecordingStartRequest where
  "sample_request = \<lparr>rq_request_id = ''q1'', rq_recording_id = ''rec-1'', rq_canonical_json = ''{}''\<rparr>"

lemma plain_root_sample: "plain_root (nodes sample_disk) [''r'']"
  by (auto simp: plain_root_def sample_disk_def plain_name_def le_Suc_eq)

abbreviation "sample_run \<equiv> createStaging (\<lambda>_. ''j'') [''r''] sample_request sample_disk"

lemma createStaging_sample:
  "fst sample_run = Inr (artifact_paths [''r''] ''rec-1'')"
  "nodes (snd sample_run) [''r'', ''.staging'', ''rec-1''] = Some Dir"
  by code_simp+

lemma sample_run_pair: "sample_run = (Inr (artifact_paths [''r''] ''rec-1''), snd sample_run)"
  using createStaging_sample(1) by (metis prod.collapse)

lemma valid_sample: "isRecordingIdValid ''rec-1''"
  by code_simp

text \<open>
  C16: the recording store stays below its root. Whatever the request says and whatever fails,
  creating a staging artifact changes nothing but directories leading to the managed folders and
  entries inside the one staging directory of that recording, and there only for a valid
  identity; a request cannot name a path elsewhere.
\<close>

lemma createStaging_confined:
  assumes "plain_root (nodes s) root" and "createStaging ser root request s = (r, t)"
    and "nodes t p \<noteq> nodes s p"
  shows "p \<in> managed_parents root \<or>
    (isRecordingIdValid (rq_recording_id request) \<and> prefix (staging_of root (rq_recording_id request)) p)"
  using assms(1,2)
proof (cases rule: createStaging_nodes)
  case rejected
  with assms(3) show ?thesis by (auto simp: grown_def)
next
  case (created m)
  show ?thesis
  proof (cases "nodes t p = m p")
    case True
    with created(2) assms(3) show ?thesis by (auto simp: grown_def)
  next
    case False
    with created(6) [of p] have "prefix (staging_of root (rq_recording_id request)) p"
      by (auto simp: prefix_def)
    with created(1) show ?thesis by simp
  qed
qed

lemma createStaging_confined_witness:
  "[''r'', ''.staging'', ''rec-1''] \<in> managed_parents [''r''] \<or>
     (isRecordingIdValid ''rec-1'' \<and> prefix (staging_of [''r''] ''rec-1'') [''r'', ''.staging'', ''rec-1''])"
  using createStaging_confined [OF plain_root_sample sample_run_pair, of "[''r'', ''.staging'', ''rec-1'']"]
    createStaging_sample(2)
  by (simp add: sample_request_def sample_disk_def)



text \<open>
  Activation is atomic. Whether moving a staged artifact to the finalized folder succeeds or
  fails at any point, a later lookup finds the recording in exactly one place with its start and
  stop evidence unchanged, every file of the artifact is where the lookup says, and after a
  success that place is the finalized folder.
\<close>

lemma activation_atomic:
  assumes valid: "isRecordingIdValid i"
    and c: "clean_path (nodes s) (staging_of root i)" "clean_path (nodes s) (finalized_of root i)"
    and free: "nodes s (finalized_of root i) = None"
    and ev: "evidence_of (nodes s) (staging_of root i) start stop"
    and run: "activateFinalized root (artifact_paths root i) s = (r, t)"
  shows "\<exists>finalized. (r = Inr () \<longrightarrow> finalized) \<and>
    fst (findPersistedArtifact root i (t\<lparr>outcomes := []\<rparr>)) =
      Inr (Some \<lparr>pa_paths = artifact_paths root i, pa_finalized = finalized,
                 pa_start_request = start, pa_stop_request = stop\<rparr>) \<and>
    (\<forall>name. nodes t ((if finalized then finalized_of root i else staging_of root i) @ name) =
       nodes s (staging_of root i @ name))"
  using activateFinalized_nodes [OF valid c free run]
proof (elim disjE conjE)
  assume n: "nodes t = nodes s" and r: "r \<noteq> Inr ()"
  have "findPersistedArtifact root i (t\<lparr>outcomes := []\<rparr>) = (Inr (Some \<lparr>pa_paths = artifact_paths root i,
      pa_finalized = False, pa_start_request = start, pa_stop_request = stop\<rparr>), t\<lparr>outcomes := []\<rparr>)"
    using valid c ev free n by (intro findPersistedArtifact_eval) simp_all
  with n r show ?thesis by (intro exI [of _ False]) simp
next
  assume n: "nodes t = move_tree (staging_of root i) (finalized_of root i) (nodes s)"
  have other: "\<not> prefix (staging_of root i) p" "\<not> prefix (finalized_of root i) p"
    if "length p < length root + 2" for p
    using that by (auto dest!: prefix_length_le)
  have keep: "clean_path (nodes t) p \<longleftrightarrow> clean_path (nodes s) p" if "length p \<le> length root + 2" for p
    using that other unfolding clean_path_def n move_tree_def by (auto simp: min_def)
  have moved: "nodes t (finalized_of root i @ name) = nodes s (staging_of root i @ name)" for name
    by (simp add: n move_tree_def)
  have "evidence_of (nodes t) (finalized_of root i) start stop"
    using ev moved [of "[]"] moved [of "[''start_request.json'']"] moved [of "[''stop_request.json'']"]
    by (simp add: evidence_of_def)
  moreover have "nodes t (staging_of root i) = None"
    by (simp add: n move_tree_def)
  ultimately have "findPersistedArtifact root i (t\<lparr>outcomes := []\<rparr>) = (Inr (Some \<lparr>pa_paths = artifact_paths root i,
      pa_finalized = True, pa_start_request = start, pa_stop_request = stop\<rparr>), t\<lparr>outcomes := []\<rparr>)"
    using valid c by (intro findPersistedArtifact_eval) (simp_all add: keep)
  with moved show ?thesis by (intro exI [of _ True]) simp
qed


definition sample_staged :: disk where
  "sample_staged = \<lparr>nodes = [[''r''] \<mapsto> Dir, [''r'', ''.staging''] \<mapsto> Dir, [''r'', ''finalized''] \<mapsto> Dir,
     [''r'', ''.staging'', ''rec-1''] \<mapsto> Dir,
     [''r'', ''.staging'', ''rec-1'', ''start_request.json''] \<mapsto> File ''{}''],
     outcomes = [Io_ok, Io_fail], space_available = 10\<rparr>"

lemma sample_staged_facts:
  "clean_path (nodes sample_staged) (staging_of [''r''] ''rec-1'')"
  "clean_path (nodes sample_staged) (finalized_of [''r''] ''rec-1'')"
  "evidence_of (nodes sample_staged) (staging_of [''r''] ''rec-1'') ''{}'' None"
proof -
  have "clean_path (nodes sample_staged) [''r'']" by (simp add: clean_path_def plain_name_def)
  then show "clean_path (nodes sample_staged) (staging_of [''r''] ''rec-1'')"
    "clean_path (nodes sample_staged) (finalized_of [''r''] ''rec-1'')"
    using clean_path_snoc [of "nodes sample_staged" "[''r'']"] isRecordingIdValid_plain [OF valid_sample]
    by (simp_all add: clean_path_snoc2 [of _ "[''r'']", simplified] sample_staged_def)
  show "evidence_of (nodes sample_staged) (staging_of [''r''] ''rec-1'') ''{}'' None"
    by (simp add: evidence_of_def sample_staged_def MAX_REQUEST_FILE_BYTES_def)
qed

lemma activation_atomic_witness:
  "\<exists>r t. activateFinalized [''r''] (artifact_paths [''r''] ''rec-1'') sample_staged = (r, t) \<and>
     (\<exists>finalized. fst (findPersistedArtifact [''r''] ''rec-1'' (t\<lparr>outcomes := []\<rparr>)) =
      Inr (Some \<lparr>pa_paths = artifact_paths [''r''] ''rec-1'', pa_finalized = finalized,
                 pa_start_request = ''{}'', pa_stop_request = None\<rparr>))"
proof -
  obtain r t where run: "activateFinalized [''r''] (artifact_paths [''r''] ''rec-1'') sample_staged = (r, t)"
    by fastforce
  have "nodes sample_staged (finalized_of [''r''] ''rec-1'') = None" by (simp add: sample_staged_def)
  from activation_atomic [OF valid_sample sample_staged_facts(1,2) this sample_staged_facts(3) run] run
  show ?thesis by blast
qed

end
