(* ===== verification/RecordingManager.thy ===== *)
theory RecordingManager
  imports ColorVideoWriter RingQueue RecordingStoreFacts
begin

text \<open>
  The recording lifecycle owner (\<^verbatim>\<open>src/recording/recording_manager.cpp\<close>). A client operation
  holds \<^verbatim>\<open>m_mutex\<close> for its whole body and is one action on the manager; the worker thread is a
  program counter with one action per critical section. Clock readings are arguments.
  \<^verbatim>\<open>m_worker.join()\<close> inside \<^verbatim>\<open>startOrReplay\<close> runs with the mutex held: an operation that
  would wait there for a worker that still needs the mutex has no result.
\<close>

section \<open>State\<close>

record RecordingManagerConfig =
  rc_root :: string
  rc_queue_capacity_frames :: nat
  rc_width :: int
  rc_height :: int
  rc_fps :: int
  rc_bit_rate_bps :: int
  rc_max_duration_ms :: int
  rc_minimum_free_bytes :: nat
  rc_finalize_timeout_ms :: int
  rc_preset :: string
  rc_tune :: string
  rc_sensor_frame :: string
  rc_calibration_id :: string
  rc_component_id :: string
  rc_device_id :: string
  rc_instance_id :: string

record RecordingStatus =
  st_state :: RecordingState
  st_recording_id :: string
  st_admitted_frame_count :: u64
  st_submitted_frame_count :: u64
  st_recording_drop_count :: u64
  st_queue_depth :: nat
  st_queue_capacity :: nat
  st_orphan_staging_count :: nat
  st_started_monotonic_ns :: int
  st_started_unix_epoch_ns :: int
  st_stopped_monotonic_ns :: int
  st_stopped_unix_epoch_ns :: int
  st_finalized_artifact_reference :: string

datatype RecordingStartResult = SRES_STARTED | SRES_REPLAYED
datatype RecordingStopResult = STOP_ACCEPTED | STOP_REPLAYED

text \<open>
  Where the worker thread is: at the head of its loop, holding a dequeued frame, about to commit
  the frame it wrote, past the loop, or returned.
\<close>

datatype worker_pc =
    W_loop
  | W_frame CapturedFrame
  | W_commit FrameIdentity
  | W_finalize
  | W_returned

record manager =
  m_config :: RecordingManagerConfig
  m_store :: path
  m_artifact_paths :: RecordingArtifactPaths
  m_queue :: "CapturedFrame ring"
  m_worker :: "worker_pc option"
  m_writer :: "ColorVideoWriter option"
  m_sidecar :: "RecordingSidecarWriter option"
  m_recording_id :: string
  m_start_request_id :: string
  m_start_canonical :: string
  m_stop_request_id :: string
  m_stop_canonical :: string
  m_first_identity :: FrameIdentity
  m_last_identity :: FrameIdentity
  m_admitted_frame_count :: u64
  m_submitted_frame_count :: u64
  m_recording_drop_count :: u64
  m_contention_drop_count :: u64
  m_state :: RecordingState
  m_admitting :: bool
  m_started_monotonic_ns :: int
  m_started_unix_epoch_ns :: int
  m_stopped_monotonic_ns :: int
  m_stopped_unix_epoch_ns :: int
  m_duration_deadline :: int
  m_finalize_deadline :: int
  m_stop_reason :: RecordingStopReason
  m_has_identity :: bool
  m_stop_requested :: bool
  m_world :: world

text \<open>Code outside the repository: the JSON serializer, FFmpeg's texts and muxer, SHA-256.\<close>

record library =
  lib_serialize :: "json \<Rightarrow> string"
  lib_strerror :: "int \<Rightarrow> string"
  lib_mux :: "(int \<times> VideoFrameView) list \<Rightarrow> string"
  lib_sha256 :: "string \<Rightarrow> u8 list"

definition on_store :: "(disk, 'a) act \<Rightarrow> (manager, 'a) act" where
  "on_store m = zoomS m_world (\<lambda>w s. s\<lparr>m_world := w\<rparr>) (on_disk m)"

definition in_world :: "(world, 'a) act \<Rightarrow> (manager, 'a) act" where
  "in_world = zoomS m_world (\<lambda>w s. s\<lparr>m_world := w\<rparr>)"

text \<open>Calls through \<^verbatim>\<open>m_writer\<close> and \<^verbatim>\<open>m_sidecar\<close>, which the worker only makes while they are set.\<close>

definition on_writer :: "(ColorVideoWriter \<times> world, 'a) act \<Rightarrow> (manager, 'a) act" where
  "on_writer = zoomS (\<lambda>s. (the (m_writer s), m_world s))
     (\<lambda>(v, w) s. s\<lparr>m_writer := Some v, m_world := w\<rparr>)"

definition on_sidecar :: "(RecordingSidecarWriter \<times> disk, 'a) act \<Rightarrow> (manager, 'a) act" where
  "on_sidecar = zoomS (\<lambda>s. (the (m_sidecar s), disk_of (m_world s)))
     (\<lambda>(v, d) s. s\<lparr>m_sidecar := Some v, m_world := (m_world s)\<lparr>disk_of := d\<rparr>\<rparr>)"

definition no_paths :: RecordingArtifactPaths where
  "no_paths = \<lparr>staging_directory = [], finalized_directory = []\<rparr>"

definition RecordingManager_new :: "RecordingManagerConfig \<Rightarrow> world \<Rightarrow> manager result" where
  "RecordingManager_new config w =
     bindE (RecordingStore_new (rc_root config)) (\<lambda>store.
     bindE (throw_if (rc_queue_capacity_frames config = 0 \<or> rc_sensor_frame config = [] \<or>
              rc_calibration_id config = [] \<or> rc_component_id config = [] \<or>
              rc_device_id config = [] \<or> rc_instance_id config = [] \<or>
              rc_max_duration_ms config \<le> 0 \<or> rc_minimum_free_bytes config = 0 \<or>
              rc_finalize_timeout_ms config \<le> 0 \<or> rc_preset config \<noteq> ''veryfast'' \<or>
              rc_tune config \<noteq> ''zerolatency'')
            (Invalid_argument ''Recording manager configuration is invalid.'')) (\<lambda>_.
     Inr \<lparr>m_config = config, m_store = store, m_artifact_paths = no_paths,
          m_queue = ring_new (rc_queue_capacity_frames config), m_worker = None, m_writer = None,
          m_sidecar = None, m_recording_id = [], m_start_request_id = [], m_start_canonical = [],
          m_stop_request_id = [], m_stop_canonical = [], m_first_identity = default_FrameIdentity,
          m_last_identity = default_FrameIdentity, m_admitted_frame_count = 0,
          m_submitted_frame_count = 0, m_recording_drop_count = 0, m_contention_drop_count = 0,
          m_state = RS_IDLE, m_admitting = False, m_started_monotonic_ns = 0,
          m_started_unix_epoch_ns = 0, m_stopped_monotonic_ns = 0, m_stopped_unix_epoch_ns = 0,
          m_duration_deadline = 0, m_finalize_deadline = 0,
          m_stop_reason = SR_APPLICATION_SHUTDOWN, m_has_identity = False,
          m_stop_requested = False, m_world = w\<rparr>))"

section \<open>Finalization requests\<close>

text \<open>The JSON texts that the code builds by concatenation.\<close>

definition quoted :: "string \<Rightarrow> string" where
  "quoted s = CHR 0x22 # s @ [CHR 0x22]"

definition serializeInternalStopEvidence :: "string \<Rightarrow> RecordingStopReason \<Rightarrow> string" where
  "serializeInternalStopEvidence recording_id reason =
     ''{'' @ quoted ''schema_version'' @ '':1,'' @ quoted ''recording_id'' @ '':'' @ quoted recording_id @
     '','' @ quoted ''stop_reason'' @ '':'' @ quoted (getRecordingStopReasonName reason) @ ''}''"

definition stop_request_text :: "RecordingStartRequest \<Rightarrow> string" where
  "stop_request_text request =
     (if rq_canonical_json request = []
      then ''{'' @ quoted ''schema_version'' @ '':1,'' @ quoted ''request_id'' @ '':'' @
           quoted (rq_request_id request) @ '','' @ quoted ''recording_id'' @ '':'' @
           quoted (rq_recording_id request) @ ''}''
      else rq_canonical_json request)"

definition beginFinalizationLocked ::
  "RecordingStopReason \<Rightarrow> string \<Rightarrow> string \<Rightarrow> string \<Rightarrow> int \<Rightarrow> int \<Rightarrow> (manager, unit) act"
where
  "beginFinalizationLocked reason stop_evidence stop_request_id stop_canonical now now' =
     bindS (modS (\<lambda>s. s\<lparr>m_state := RS_FINALIZING, m_admitting := False, m_stop_requested := True,
              m_finalize_deadline := now + rc_finalize_timeout_ms (m_config s) * 1000000\<rparr>)) (\<lambda>_.
     catchS
       (bindS (\<lambda>s. on_store (writeStopRequest (m_store s) (m_artifact_paths s) stop_evidence) s) (\<lambda>_.
        bindS (getS m_finalize_deadline) (\<lambda>deadline.
        bindS (throw_ifS (now' \<ge> deadline)
                 (Runtime_error ''Recording stop evidence exceeded its configured finalize timeout.'')) (\<lambda>_.
        modS (\<lambda>s. s\<lparr>m_stop_reason := reason, m_stop_request_id := stop_request_id,
                    m_stop_canonical := stop_canonical\<rparr>)))))
       (\<lambda>e. bindS (modS (\<lambda>s. s\<lparr>m_state := RS_FAULTED\<rparr>)) (\<lambda>_. throwS e)))"

definition restorePersistedArtifactLocked ::
  "PersistedRecordingArtifact \<Rightarrow> RecordingStartRequest \<Rightarrow> string \<Rightarrow> manager \<Rightarrow> manager"
where
  "restorePersistedArtifactLocked artifact request canonical_start s =
     s\<lparr>m_artifact_paths := pa_paths artifact, m_recording_id := rq_recording_id request,
       m_admitted_frame_count := 0, m_submitted_frame_count := 0, m_recording_drop_count := 0,
       m_contention_drop_count := 0, m_queue := ring_reset (m_queue s),
       m_started_monotonic_ns := 0, m_started_unix_epoch_ns := 0, m_stopped_monotonic_ns := 0,
       m_stopped_unix_epoch_ns := 0, m_stop_request_id := [], m_stop_canonical := [],
       m_stop_reason := SR_APPLICATION_SHUTDOWN, m_has_identity := False,
       m_start_request_id := (if canonical_start \<noteq> [] then rq_request_id request else []),
       m_start_canonical := canonical_start,
       m_stop_requested := True, m_admitting := False,
       m_state := (if pa_finalized artifact then RS_FINALIZED else RS_FAULTED)\<rparr>"

section \<open>Client operations\<close>

record start_env =
  se_monotonic :: int
  se_unix :: int
  se_now :: int
  se_space_error :: bool
  se_thread_ok :: bool

definition recording_active :: "RecordingState \<Rightarrow> bool" where
  "recording_active st \<longleftrightarrow> st = RS_PREPARING \<or> st = RS_RECORDING \<or> st = RS_FINALIZING"

text \<open>Assigning \<^verbatim>\<open>m_writer\<close> destroys the writer of the previous recording, which a fault may have left unfinished.\<close>

definition destroy_writer :: "library \<Rightarrow> ColorVideoWriter option \<Rightarrow> (world, unit) act" where
  "destroy_writer lib old = (case old of
     None \<Rightarrow> retS () | Some v \<Rightarrow> ColorVideoWriter_destroy (lib_strerror lib) (lib_mux lib) v)"

text \<open>The body of the \<^verbatim>\<open>try\<close> block of \<^verbatim>\<open>startOrReplay\<close>.\<close>

definition start_recording ::
  "library \<Rightarrow> start_env \<Rightarrow> RecordingStartRequest \<Rightarrow> string \<Rightarrow> (manager, RecordingStartResult) act"
where
  "start_recording lib env request canonical =
     bindS (\<lambda>s. on_store (RecordingStore_initialize (m_store s)) s) (\<lambda>_.
     bindS (getS (\<lambda>s. se_space_error env \<or>
              space_available (disk_of (m_world s)) < rc_minimum_free_bytes (m_config s))) (\<lambda>full.
     bindS (throw_ifS full
              (Runtime_error ''Recording root does not satisfy the configured free-space reserve.'')) (\<lambda>_.
     bindS (\<lambda>s. on_store (createStaging (lib_serialize lib) (m_store s) request) s) (\<lambda>paths.
     bindS (modS (\<lambda>s. s\<lparr>m_artifact_paths := paths\<rparr>)) (\<lambda>_.
     bindS (\<lambda>s. in_world (ColorVideoWriter_new (lib_strerror lib)
              \<lparr>vc_output_path = path_join (staging_directory paths) ''color.mp4'',
               vc_width = rc_width (m_config s), vc_height = rc_height (m_config s),
               vc_fps = rc_fps (m_config s), vc_bit_rate_bps = rc_bit_rate_bps (m_config s),
               vc_preset = rc_preset (m_config s), vc_tune = rc_tune (m_config s)\<rparr>) s) (\<lambda>writer.
     bindS (\<lambda>s. in_world (destroy_writer lib (m_writer s)) s) (\<lambda>_.
     bindS (modS (\<lambda>s. s\<lparr>m_writer := Some writer\<rparr>)) (\<lambda>_.
     bindS (\<lambda>s. on_store (RecordingSidecarWriter_new (path_join (staging_directory paths) ''frames.jsonl'')
              (rq_recording_id request) (rc_sensor_frame (m_config s)) (rc_calibration_id (m_config s))) s) (\<lambda>sidecar.
     bindS (modS (\<lambda>s. s\<lparr>m_sidecar := Some sidecar, m_recording_id := rq_recording_id request,
              m_start_request_id := rq_request_id request, m_start_canonical := canonical,
              m_admitted_frame_count := 0, m_submitted_frame_count := 0, m_recording_drop_count := 0,
              m_contention_drop_count := 0, m_queue := ring_reset (m_queue s),
              m_stop_requested := False, m_stop_request_id := [], m_stop_canonical := [],
              m_stop_reason := SR_APPLICATION_SHUTDOWN, m_has_identity := False,
              m_started_monotonic_ns := se_monotonic env, m_started_unix_epoch_ns := se_unix env,
              m_stopped_monotonic_ns := 0, m_stopped_unix_epoch_ns := 0,
              m_duration_deadline := se_now env + rc_max_duration_ms (m_config s) * 1000000\<rparr>)) (\<lambda>_.
     bindS (throw_ifS (\<not> se_thread_ok env) (System_error ''thread'')) (\<lambda>_.
     bindS (modS (\<lambda>s. s\<lparr>m_worker := Some W_loop, m_state := RS_RECORDING, m_admitting := True\<rparr>)) (\<lambda>_.
     retS SRES_STARTED))))))))))))"

definition start_after_join ::
  "library \<Rightarrow> start_env \<Rightarrow> RecordingStartRequest \<Rightarrow> string \<Rightarrow> (manager, RecordingStartResult) act"
where
  "start_after_join lib env request canonical =
     bindS (\<lambda>s. on_store (findPersistedArtifact (m_store s) (rq_recording_id request)) s) (\<lambda>persisted.
     case persisted of
       Some artifact \<Rightarrow>
         bindS (throw_ifS (pa_start_request artifact \<noteq> canonical)
                  (Runtime_error ''Recording identity exists with different start request content.'')) (\<lambda>_.
         bindS (modS (restorePersistedArtifactLocked artifact request canonical)) (\<lambda>_.
         retS SRES_REPLAYED))
     | None \<Rightarrow>
         bindS (modS (\<lambda>s. s\<lparr>m_state := RS_PREPARING\<rparr>)) (\<lambda>_.
         catchS (start_recording lib env request canonical)
           (\<lambda>e. bindS (modS (\<lambda>s. s\<lparr>m_state := RS_FAULTED, m_admitting := False\<rparr>)) (\<lambda>_. throwS e))))"

text \<open>\<^const>\<open>None\<close>: the call waits for ever in \<^verbatim>\<open>join\<close>, holding the mutex.\<close>

definition startOrReplay ::
  "library \<Rightarrow> start_env \<Rightarrow> RecordingStartRequest \<Rightarrow> manager \<Rightarrow> (RecordingStartResult result \<times> manager) option"
where
  "startOrReplay lib env request s =
     (case serializeRecordingStartRequest (lib_serialize lib) request of
        Inl e \<Rightarrow> Some (Inl e, s)
      | Inr canonical \<Rightarrow>
         (if rq_recording_id request = m_recording_id s \<and> rq_request_id request = m_start_request_id s
          then Some (if canonical = m_start_canonical s then Inr SRES_REPLAYED
                     else Inl (Runtime_error ''Recording request ID was reused with different content.''), s)
          else if recording_active (m_state s)
          then Some (Inl (Runtime_error ''A recording is already active.''), s)
          else (case m_worker s of
              None \<Rightarrow> Some (start_after_join lib env request canonical s)
            | Some W_returned \<Rightarrow> Some (start_after_join lib env request canonical (s\<lparr>m_worker := None\<rparr>))
            | Some _ \<Rightarrow> None)))"

text \<open>\<open>owns_lock\<close> is the outcome of \<^verbatim>\<open>try_lock\<close>; a null frame is \<^const>\<open>None\<close>.\<close>

definition trySubmitFrame :: "bool \<Rightarrow> CapturedFrame option \<Rightarrow> manager \<Rightarrow> bool \<times> manager" where
  "trySubmitFrame owns_lock frame s = (case frame of
     None \<Rightarrow> (False, s)
   | Some f \<Rightarrow>
      (if \<not> owns_lock
       then (False, if m_admitting s then s\<lparr>m_contention_drop_count := m_contention_drop_count s + 1\<rparr> else s)
       else if m_state s \<noteq> RS_RECORDING then (False, s)
       else if rg_count (m_queue s) = ring_capacity (m_queue s)
       then (False, s\<lparr>m_recording_drop_count := m_recording_drop_count s + 1\<rparr>)
       else (True, s\<lparr>m_queue := ring_put f (m_queue s),
                     m_admitted_frame_count := m_admitted_frame_count s + 1\<rparr>)))"

text \<open>The critical section of \<^verbatim>\<open>finalize\<close>; the join after it needs no mutex.\<close>

definition finalize_request :: "int \<Rightarrow> int \<Rightarrow> manager \<Rightarrow> manager" where
  "finalize_request now now' s =
     (if m_state s = RS_RECORDING
      then (case beginFinalizationLocked SR_APPLICATION_SHUTDOWN
                   (serializeInternalStopEvidence (m_recording_id s) SR_APPLICATION_SHUTDOWN) [] [] now now' s of
              (Inr _, t) \<Rightarrow> t
            | (Inl _, t) \<Rightarrow> t\<lparr>m_state := RS_FAULTED, m_admitting := False, m_stop_requested := True\<rparr>)
      else s)"

definition stop_on_persisted ::
  "RecordingStartRequest \<Rightarrow> string \<Rightarrow> PersistedRecordingArtifact \<Rightarrow> (manager, RecordingStopResult option) act"
where
  "stop_on_persisted request canonical artifact =
     (case pa_stop_request artifact of
        None \<Rightarrow> retS None
      | Some stop \<Rightarrow>
         bindS (throw_ifS (stop \<noteq> canonical)
                  (Runtime_error ''Recording identity exists with different stop request content.'')) (\<lambda>_.
         if pa_finalized artifact
         then bindS (modS (\<lambda>s.
                if m_state s \<noteq> RS_RECORDING \<and> m_state s \<noteq> RS_FINALIZING
                then (restorePersistedArtifactLocked artifact request [] s)
                       \<lparr>m_stop_request_id := rq_request_id request, m_stop_canonical := canonical,
                        m_stop_reason := SR_REQUESTED\<rparr>
                else s)) (\<lambda>_. retS (Some STOP_REPLAYED))
         else bindS (getS (\<lambda>s. m_state s \<noteq> RS_FINALIZING \<or> rq_recording_id request \<noteq> m_recording_id s)) (\<lambda>bad.
              bindS (throw_ifS bad (Runtime_error ''Persisted recording finalization did not complete.'')) (\<lambda>_.
              retS None))))"

definition same_stop_request :: "RecordingStartRequest \<Rightarrow> manager \<Rightarrow> bool" where
  "same_stop_request request s \<longleftrightarrow>
     rq_recording_id request = m_recording_id s \<and> rq_request_id request = m_stop_request_id s"

definition repeat_stop :: "string \<Rightarrow> (manager, RecordingStopResult) act" where
  "repeat_stop canonical s =
     (if canonical = m_stop_canonical s
      then (if m_state s = RS_FAULTED
            then throwS (Runtime_error ''Recording finalization faulted.'') s
            else retS (if m_state s = RS_FINALIZED then STOP_REPLAYED else STOP_ACCEPTED) s)
      else throwS (Runtime_error ''Recording stop request ID was reused with different content.'') s)"

definition accept_stop ::
  "int \<Rightarrow> int \<Rightarrow> RecordingStartRequest \<Rightarrow> string \<Rightarrow> (manager, RecordingStopResult) act"
where
  "accept_stop now now' request canonical =
     bindS (getS (\<lambda>s. rq_recording_id request \<noteq> m_recording_id s)) (\<lambda>unknown.
     bindS (throw_ifS unknown (Recording_not_found ''Recording is unknown.'')) (\<lambda>_.
     bindS (getS (\<lambda>s. m_state s \<noteq> RS_RECORDING)) (\<lambda>idle.
     bindS (throw_ifS idle (Runtime_error ''Recording is not accepting a stop request.'')) (\<lambda>_.
     bindS (beginFinalizationLocked SR_REQUESTED canonical (rq_request_id request) canonical now now') (\<lambda>_.
     retS STOP_ACCEPTED)))))"

definition finalizeOrReplay ::
  "int \<Rightarrow> int \<Rightarrow> RecordingStartRequest \<Rightarrow> (manager, RecordingStopResult) act"
where
  "finalizeOrReplay now now' request =
     bindS (throw_ifS (\<not> isRecordingRequestIdValid (rq_request_id request) \<or>
                       \<not> isRecordingIdValid (rq_recording_id request))
              (Invalid_argument ''Recording stop request has an unsafe identity.'')) (\<lambda>_.
     bindS (getS (same_stop_request request)) (\<lambda>repeated.
     if repeated then repeat_stop (stop_request_text request)
     else
       bindS (\<lambda>s. on_store (findPersistedArtifact (m_store s) (rq_recording_id request)) s) (\<lambda>persisted.
       bindS (case persisted of None \<Rightarrow> retS None
              | Some artifact \<Rightarrow> stop_on_persisted request (stop_request_text request) artifact) (\<lambda>replayed.
       case replayed of
         Some result \<Rightarrow> retS result
       | None \<Rightarrow> accept_stop now now' request (stop_request_text request)))))"

definition getStatus :: "string list \<Rightarrow> (manager, RecordingStatus) act" where
  "getStatus listing =
     bindS (getS (\<lambda>s. \<lparr>st_state = m_state s, st_recording_id = m_recording_id s,
        st_admitted_frame_count = m_admitted_frame_count s,
        st_submitted_frame_count = m_submitted_frame_count s,
        st_recording_drop_count = m_recording_drop_count s + m_contention_drop_count s,
        st_queue_depth = rg_count (m_queue s), st_queue_capacity = ring_capacity (m_queue s),
        st_orphan_staging_count = 0,
        st_started_monotonic_ns = m_started_monotonic_ns s,
        st_started_unix_epoch_ns = m_started_unix_epoch_ns s,
        st_stopped_monotonic_ns = m_stopped_monotonic_ns s,
        st_stopped_unix_epoch_ns = m_stopped_unix_epoch_ns s,
        st_finalized_artifact_reference =
          (if m_state s = RS_FINALIZED then ''finalized/'' @ m_recording_id s else [])\<rparr>)) (\<lambda>status.
     bindS (\<lambda>s. on_store (getStagingCount (m_store s) listing) s) (\<lambda>count.
     retS (status\<lparr>st_orphan_staging_count := count\<rparr>)))"

section \<open>The worker\<close>

text \<open>The \<^verbatim>\<open>catch (...)\<close> of \<^verbatim>\<open>runWorker\<close>, after which the thread returns.\<close>

definition worker_fault :: "manager \<Rightarrow> manager" where
  "worker_fault s = s\<lparr>m_state := RS_FAULTED, m_admitting := False, m_stop_requested := True,
                      m_worker := Some W_returned\<rparr>"

definition requireFinalizeWithinDeadline :: "int \<Rightarrow> (manager, unit) act" where
  "requireFinalizeWithinDeadline now =
     bindS (getS (\<lambda>s. m_stop_requested s \<and> now \<ge> m_finalize_deadline s)) (\<lambda>late.
     throw_ifS late (Runtime_error ''Recording finalization exceeded its configured timeout.''))"

text \<open>The first critical section of the loop, once the wait has ended.\<close>

definition wait_ended :: "int \<Rightarrow> manager \<Rightarrow> bool" where
  "wait_ended now s \<longleftrightarrow> m_stop_requested s \<or> rg_count (m_queue s) \<noteq> 0 \<or> now \<ge> m_duration_deadline s"

definition worker_dequeue :: "int \<Rightarrow> int \<Rightarrow> int \<Rightarrow> (manager, unit) act" where
  "worker_dequeue now now1 now2 =
     bindS (getS (\<lambda>s. \<not> m_stop_requested s \<and> now \<ge> m_duration_deadline s)) (\<lambda>expired.
     bindS (if expired
            then (\<lambda>s. beginFinalizationLocked SR_MAX_DURATION
                   (serializeInternalStopEvidence (m_recording_id s) SR_MAX_DURATION) [] [] now1 now2 s)
            else retS ()) (\<lambda>_.
     modS (\<lambda>s.
       if rg_count (m_queue s) = 0 \<and> m_stop_requested s
       then s\<lparr>m_worker := Some W_finalize\<rparr>
       else (case ring_get (m_queue s) of (frame, q) \<Rightarrow>
               s\<lparr>m_worker := Some (W_frame (the frame)), m_queue := q\<rparr>))))"

text \<open>The dequeued frame, without the mutex except for the deadline check.\<close>

definition worker_write :: "library \<Rightarrow> int \<Rightarrow> CapturedFrame \<Rightarrow> (manager, unit) act" where
  "worker_write lib now frame =
     bindS (requireFinalizeWithinDeadline now) (\<lambda>_.
     let identity = fs_identity (getSnapshot frame) in
     (case getColorFrameView frame of
        None \<Rightarrow> throwS (Runtime_error ''Recording frame identity is invalid or out of order.'')
      | Some color \<Rightarrow>
         bindS (getS (\<lambda>s. capture_generation (vf_identity color) \<noteq> capture_generation identity \<or>
                  frame_number (vf_identity color) \<noteq> frame_number identity \<or>
                  (m_has_identity s \<and> \<not> manager_isStrictlyAfter identity (m_last_identity s)))) (\<lambda>bad.
         bindS (throw_ifS bad (Runtime_error ''Recording frame identity is invalid or out of order.'')) (\<lambda>_.
         bindS (getS (\<lambda>s. m_has_identity s \<and>
                  capture_generation identity \<noteq> capture_generation (m_last_identity s))) (\<lambda>changed.
         bindS (throw_ifS changed (Runtime_error ''Recording capture generation changed.'')) (\<lambda>_.
         bindS (on_writer (writeFrame (lib_strerror lib) color)) (\<lambda>index.
         bindS (on_sidecar (sidecar_append (lib_serialize lib)
                  \<lparr>en_video_frame_index = index, en_video_pts = sint index, en_identity = identity\<rparr>)) (\<lambda>_.
         modS (\<lambda>s. s\<lparr>m_worker := Some (W_commit identity)\<rparr>)))))))))"

definition worker_commit :: "FrameIdentity \<Rightarrow> manager \<Rightarrow> manager" where
  "worker_commit identity s =
     s\<lparr>m_first_identity := (if m_has_identity s then m_first_identity s else identity),
       m_last_identity := identity, m_has_identity := True,
       m_submitted_frame_count := m_submitted_frame_count s + 1,
       m_worker := Some W_loop\<rparr>"

record finalize_clock =
  fc_check :: "nat \<Rightarrow> int"
  fc_video :: "nat \<Rightarrow> int"
  fc_sidecar :: "nat \<Rightarrow> int"
  fc_monotonic :: int
  fc_unix :: int

definition manifest_of :: "manager \<Rightarrow> FinalizedRecordingManifest" where
  "manifest_of s =
     \<lparr>mf_recording_id = m_recording_id s, mf_component_id = rc_component_id (m_config s),
      mf_instance_id = rc_instance_id (m_config s), mf_device_id = rc_device_id (m_config s),
      mf_sensor_frame = rc_sensor_frame (m_config s), mf_calibration_id = rc_calibration_id (m_config s),
      mf_width = rc_width (m_config s), mf_height = rc_height (m_config s), mf_fps = rc_fps (m_config s),
      mf_started_monotonic_ns = m_started_monotonic_ns s,
      mf_started_unix_epoch_ns = m_started_unix_epoch_ns s,
      mf_stopped_monotonic_ns = m_stopped_monotonic_ns s,
      mf_stopped_unix_epoch_ns = m_stopped_unix_epoch_ns s,
      mf_admitted_frame_count = m_admitted_frame_count s,
      mf_submitted_frame_count = m_submitted_frame_count s,
      mf_recording_drop_count = m_recording_drop_count s + m_contention_drop_count s,
      mf_first_frame = m_first_identity s, mf_last_frame = m_last_identity s,
      mf_has_frames = m_has_identity s, mf_start_request_id = m_start_request_id s,
      mf_stop_request_id = m_stop_request_id s, mf_stop_reason = m_stop_reason s\<rparr>"

text \<open>
  \<^verbatim>\<open>finalizeArtifacts\<close>. Its critical sections are one action here: meanwhile the state is
  \<^const>\<open>RS_FINALIZING\<close> or \<^const>\<open>RS_FAULTED\<close> and no client operation that returns changes what they read
  in the former.
\<close>

definition finalizeArtifacts :: "library \<Rightarrow> finalize_clock \<Rightarrow> (manager, unit) act" where
  "finalizeArtifacts lib clock =
     bindS (requireFinalizeWithinDeadline (fc_check clock 0)) (\<lambda>_.
     bindS (on_writer (video_finalize (lib_strerror lib) (lib_mux lib))) (\<lambda>_.
     bindS (requireFinalizeWithinDeadline (fc_check clock 1)) (\<lambda>_.
     bindS (on_sidecar sidecar_finalize) (\<lambda>_.
     bindS (requireFinalizeWithinDeadline (fc_check clock 2)) (\<lambda>_.
     bindS (getS m_finalize_deadline) (\<lambda>deadline.
     bindS (\<lambda>s. on_store (calculateRecordingArtifactDigest (lib_sha256 lib)
              (staging_directory (m_artifact_paths s)) ''color.mp4'' (Some deadline) (fc_video clock)) s) (\<lambda>video.
     bindS (\<lambda>s. on_store (calculateRecordingArtifactDigest (lib_sha256 lib)
              (staging_directory (m_artifact_paths s)) ''frames.jsonl'' (Some deadline) (fc_sidecar clock)) s) (\<lambda>sidecar.
     bindS (requireFinalizeWithinDeadline (fc_check clock 3)) (\<lambda>_.
     bindS (modS (\<lambda>s. s\<lparr>m_stopped_monotonic_ns := fc_monotonic clock,
                        m_stopped_unix_epoch_ns := fc_unix clock\<rparr>)) (\<lambda>_.
     bindS (\<lambda>s. liftS (serializeFinalizedRecordingManifest (lib_serialize lib) (manifest_of s) video sidecar) s) (\<lambda>text.
     bindS (\<lambda>s. on_store (writeFinalizedManifest (m_store s) (m_artifact_paths s) text) s) (\<lambda>_.
     bindS (requireFinalizeWithinDeadline (fc_check clock 4)) (\<lambda>_.
     bindS (\<lambda>s. on_store (activateFinalized (m_store s) (m_artifact_paths s)) s) (\<lambda>_.
     modS (\<lambda>s. s\<lparr>m_state := RS_FINALIZED, m_worker := Some W_returned\<rparr>)))))))))))))))"

text \<open>One step of the worker: the action at its program counter, or the fault handler.\<close>

definition guarded :: "(manager, unit) act \<Rightarrow> manager \<Rightarrow> manager" where
  "guarded m s = (case m s of (Inr _, t) \<Rightarrow> t | (Inl _, t) \<Rightarrow> worker_fault t)"

section \<open>Steps\<close>

text \<open>
  What threads can do next. \<open>adm\<close> is the history of the frames admitted since the current
  recording started, kept beside the state. A blocked start holds the mutex for ever, so nothing
  follows it.
\<close>

text \<open>
  The environment may decide anew at any time how the coming file-system and encoder calls end.
\<close>

definition with_fate :: "outcome list \<Rightarrow> nat \<Rightarrow> int list \<Rightarrow> world \<Rightarrow> world" where
  "with_fate os space codes w =
     w\<lparr>disk_of := (disk_of w)\<lparr>outcomes := os, space_available := space\<rparr>, ffmpeg := codes\<rparr>"

text \<open>The steps of the worker thread alone, and what the environment decides for its calls.\<close>

inductive manager_thread :: "library \<Rightarrow> manager \<Rightarrow> manager \<Rightarrow> bool" for lib :: library where
  fate: "manager_thread lib s (s\<lparr>m_world := with_fate os space codes (m_world s)\<rparr>)"
| dequeue: "m_worker s = Some W_loop \<Longrightarrow> wait_ended now s \<Longrightarrow>
    manager_thread lib s (guarded (worker_dequeue now now1 now2) s)"
| written: "m_worker s = Some (W_frame frame) \<Longrightarrow> manager_thread lib s (guarded (worker_write lib now frame) s)"
| commit: "m_worker s = Some (W_commit identity) \<Longrightarrow> manager_thread lib s (worker_commit identity s)"
| finalize: "m_worker s = Some W_finalize \<Longrightarrow> manager_thread lib s (guarded (finalizeArtifacts lib clock) s)"

text \<open>The steps of all threads.\<close>

inductive recording_step :: "library \<Rightarrow> manager \<times> CapturedFrame list \<Rightarrow> manager \<times> CapturedFrame list \<Rightarrow> bool"
  for lib :: library
where
  step_start_new: "startOrReplay lib env request s = Some (Inr SRES_STARTED, t) \<Longrightarrow>
     recording_step lib (s, adm) (t, [])"
| step_start_other: "startOrReplay lib env request s = Some (r, t) \<Longrightarrow> r \<noteq> Inr SRES_STARTED \<Longrightarrow>
     recording_step lib (s, adm) (t, adm)"
| step_submit: "trySubmitFrame owns_lock frame s = (accepted, t) \<Longrightarrow>
     recording_step lib (s, adm) (t, if accepted then adm @ [the frame] else adm)"
| step_shutdown: "recording_step lib (s, adm) (finalize_request now now' s, adm)"
| step_stop: "finalizeOrReplay now now' request s = (r, t) \<Longrightarrow> recording_step lib (s, adm) (t, adm)"
| step_status: "getStatus listing s = (r, t) \<Longrightarrow> recording_step lib (s, adm) (t, adm)"
| step_environment: "recording_step lib (s, adm) (s\<lparr>m_world := with_fate os space codes (m_world s)\<rparr>, adm)"
| step_dequeue: "m_worker s = Some W_loop \<Longrightarrow> wait_ended now s \<Longrightarrow>
     recording_step lib (s, adm) (guarded (worker_dequeue now now1 now2) s, adm)"
| step_write: "m_worker s = Some (W_frame frame) \<Longrightarrow>
     recording_step lib (s, adm) (guarded (worker_write lib now frame) s, adm)"
| step_commit: "m_worker s = Some (W_commit identity) \<Longrightarrow>
     recording_step lib (s, adm) (worker_commit identity s, adm)"
| step_finalize: "m_worker s = Some W_finalize \<Longrightarrow>
     recording_step lib (s, adm) (guarded (finalizeArtifacts lib clock) s, adm)"

inductive reachable :: "library \<Rightarrow> manager \<Rightarrow> CapturedFrame list \<Rightarrow> bool" for lib :: library where
  reach_init: "RecordingManager_new config w = Inr s \<Longrightarrow> reachable lib s []"
| reach_step: "reachable lib s adm \<Longrightarrow> recording_step lib (s, adm) (t, adm') \<Longrightarrow> reachable lib t adm'"

end
