(* ===== verification/RecordingFacts.thy ===== *)
theory RecordingFacts
  imports RecordingManager
begin

text \<open>
  The invariant of the recording manager and what follows from it: the frames of a recording go
  from admission through the ring and the writer into the finalized files without loss,
  duplication or reordering, whatever the interleaving of clients and worker.
\<close>

section \<open>Actions on members\<close>

lemma on_store_world: "on_store m s = (r, t) \<Longrightarrow> \<exists>w. t = s\<lparr>m_world := w\<rparr>"
  by (auto simp: on_store_def zoomS_def split: prod.splits)

lemma in_world_world: "in_world m s = (r, t) \<Longrightarrow> \<exists>w. t = s\<lparr>m_world := w\<rparr>"
  by (auto simp: in_world_def zoomS_def split: prod.splits)

lemma on_world_fst: "on_world m p = (r, q) \<Longrightarrow> fst q = fst p"
  by (auto simp: on_world_def zoomS_def split: prod.splits)

lemma writeFrame_Inr:
  assumes "writeFrame err frame (v, w) = (Inr index, (v', w'))"
  shows "index = vw_submitted_frame_count v \<and> \<not> frame_mismatch v frame \<and>
    v' = v\<lparr>vw_sent := vw_sent v @ [(sint (vw_submitted_frame_count v), frame)],
           vw_submitted_frame_count := vw_submitted_frame_count v + 1\<rparr>"
  using assms unfolding writeFrame_def
  by (auto simp: act_iffs getS_def modS_def retS_def dest!: on_world_fst)

lemma sidecar_append_Inr:
  assumes "sidecar_append ser entry (v, d) = (Inr (), (v', d'))"
  shows "\<not> sc_finalized v \<and> en_video_frame_index entry = sc_entry_count v \<and>
    v' = v\<lparr>sc_last_identity := en_identity entry, sc_has_identity := True,
           sc_entry_count := sc_entry_count v + 1\<rparr>"
  using assms unfolding sidecar_append_def
  by (auto simp: act_iffs getS_def modS_def retS_def split: prod.splits)

section \<open>The invariant\<close>

abbreviation id_of :: "CapturedFrame \<Rightarrow> FrameIdentity" where
  "id_of f \<equiv> fs_identity (getSnapshot f)"

definition in_flight :: "manager \<Rightarrow> CapturedFrame list" where
  "in_flight s = (case m_worker s of Some (W_frame f) \<Rightarrow> [f] | _ \<Rightarrow> [])"

definition committed :: "manager \<Rightarrow> CapturedFrame list \<Rightarrow> CapturedFrame list" where
  "committed s written = (case m_worker s of Some (W_commit i) \<Rightarrow> butlast written | _ \<Rightarrow> written)"

text \<open>Identities grow strictly within one capture generation.\<close>

definition ordered :: "CapturedFrame list \<Rightarrow> bool" where
  "ordered fs \<longleftrightarrow> sorted_wrt (\<lambda>f g. manager_isStrictlyAfter (id_of g) (id_of f) \<and>
     capture_generation (id_of g) = capture_generation (id_of f)) fs"

definition counters_ok :: "manager \<Rightarrow> CapturedFrame list \<Rightarrow> bool" where
  "counters_ok s cs \<longleftrightarrow> m_submitted_frame_count s = word_of_nat (length cs) \<and>
     (m_has_identity s \<longleftrightarrow> cs \<noteq> []) \<and>
     (cs \<noteq> [] \<longrightarrow> m_first_identity s = id_of (hd cs) \<and> m_last_identity s = id_of (last cs))"

definition color_of :: "CapturedFrame \<Rightarrow> VideoFrameView" where
  "color_of f = the (getColorFrameView f)"

text \<open>The video got the colour images of \<open>written\<close> in order, stamped 0, 1, 2, \<dots>; the sidecar has one entry each.\<close>

definition files_ok :: "manager \<Rightarrow> CapturedFrame list \<Rightarrow> bool" where
  "files_ok s written \<longleftrightarrow> (\<exists>v w. m_writer s = Some v \<and> m_sidecar s = Some w \<and>
     vw_sent v = map (\<lambda>k. (sint (word_of_nat k :: u64), color_of (written ! k))) [0..<length written] \<and>
     vw_submitted_frame_count v = word_of_nat (length written) \<and>
     sc_entry_count w = word_of_nat (length written))"

definition recorded :: "manager \<Rightarrow> CapturedFrame list \<Rightarrow> CapturedFrame list \<Rightarrow> bool" where
  "recorded s adm written \<longleftrightarrow>
     adm = written @ in_flight s @ ring_items (m_queue s) \<and>
     m_admitted_frame_count s = word_of_nat (length adm) \<and>
     (\<forall>i. m_worker s = Some (W_commit i) \<longrightarrow> written \<noteq> [] \<and> i = id_of (last written)) \<and>
     counters_ok s (committed s written) \<and> files_ok s written \<and> ordered written"

definition live :: "manager \<Rightarrow> bool" where
  "live s \<longleftrightarrow> m_state s = RS_RECORDING \<or> m_state s = RS_FINALIZING"

definition running :: "manager \<Rightarrow> bool" where
  "running s \<longleftrightarrow> m_worker s \<noteq> None \<and> m_worker s \<noteq> Some W_returned"

definition manager_inv :: "manager \<Rightarrow> CapturedFrame list \<Rightarrow> bool" where
  "manager_inv s adm \<longleftrightarrow>
     ring_ok (m_queue s) \<and> m_state s \<noteq> RS_PREPARING \<and>
     (m_admitting s \<longleftrightarrow> m_state s = RS_RECORDING) \<and>
     (m_state s = RS_RECORDING \<longrightarrow> \<not> m_stop_requested s) \<and>
     (m_state s = RS_FINALIZING \<longrightarrow> m_stop_requested s) \<and>
     (\<not> live s \<longrightarrow> running s \<longrightarrow> m_stop_requested s) \<and>
     (live s \<longrightarrow> running s \<and>
        (m_worker s = Some W_finalize \<longrightarrow> m_state s = RS_FINALIZING \<and> ring_items (m_queue s) = []) \<and>
        (\<exists>written. recorded s adm written))"

text \<open>Fields that the invariant does not look at.\<close>

lemma manager_inv_update [simp]:
  "manager_inv (s\<lparr>m_world := w\<rparr>) adm \<longleftrightarrow> manager_inv s adm"
  "manager_inv (s\<lparr>m_contention_drop_count := c\<rparr>) adm \<longleftrightarrow> manager_inv s adm"
  "manager_inv (s\<lparr>m_recording_drop_count := c\<rparr>) adm \<longleftrightarrow> manager_inv s adm"
  by (simp_all add: manager_inv_def recorded_def counters_ok_def files_ok_def committed_def
      in_flight_def live_def running_def)

lemma inv_not_live:
  "ring_ok (m_queue s) \<Longrightarrow> m_state s = RS_FAULTED \<or> m_state s = RS_FINALIZED \<Longrightarrow> \<not> m_admitting s \<Longrightarrow>
     m_worker s = None \<or> m_worker s = Some W_returned \<or> m_stop_requested s \<Longrightarrow> manager_inv s adm"
  by (auto simp: manager_inv_def live_def running_def)

lemma worker_fault_inv: "ring_ok (m_queue s) \<Longrightarrow> manager_inv (worker_fault s) adm"
  by (intro inv_not_live) (simp_all add: worker_fault_def)

section \<open>Preservation\<close>

lemma begin_shape:
  assumes "beginFinalizationLocked reason ev i c now now' s = (r, t)"
  shows "m_queue t = m_queue s \<and> m_worker t = m_worker s \<and> m_writer t = m_writer s \<and>
    m_sidecar t = m_sidecar s \<and> m_admitted_frame_count t = m_admitted_frame_count s \<and>
    m_submitted_frame_count t = m_submitted_frame_count s \<and> m_has_identity t = m_has_identity s \<and>
    m_first_identity t = m_first_identity s \<and> m_last_identity t = m_last_identity s \<and>
    m_stop_requested t \<and> \<not> m_admitting t \<and>
    m_state t = (case r of Inl _ \<Rightarrow> RS_FAULTED | Inr _ \<Rightarrow> RS_FINALIZING)"
proof -
  let ?s1 = "s\<lparr>m_state := RS_FINALIZING, m_admitting := False, m_stop_requested := True,
              m_finalize_deadline := now + rc_finalize_timeout_ms (m_config s) * 1000000\<rparr>"
  obtain r1 t1 where 1: "on_store (writeStopRequest (m_store ?s1) (m_artifact_paths ?s1) ev) ?s1 = (r1, t1)"
    by fastforce
  then obtain w where w: "t1 = ?s1\<lparr>m_world := w\<rparr>" using on_store_world by blast
  show ?thesis
    using assms 1 w
    by (cases r1) (auto simp: beginFinalizationLocked_def catchS_def run_simps split: if_splits)
qed

lemma begin_inv:
  assumes "manager_inv s adm" and "m_state s = RS_RECORDING"
    and "beginFinalizationLocked reason ev i c now now' s = (r, t)"
  shows "manager_inv t adm"
  using begin_shape [OF assms(3)] assms(1,2)
  by (cases r) (auto simp: manager_inv_def live_def recorded_def counters_ok_def files_ok_def
      committed_def in_flight_def running_def)

lemma ring_ok_reset: "ring_ok q \<Longrightarrow> ring_ok (ring_reset q)"
  by (rule ring.reset_ok) (auto simp: ring_ok_def ring_capacity_def)

lemma restore_inv:
  "ring_ok (m_queue s) \<Longrightarrow> manager_inv (restorePersistedArtifactLocked a rq c s) adm"
  by (intro inv_not_live) (simp_all add: restorePersistedArtifactLocked_def ring_ok_reset)

lemma submit_inv:
  assumes inv: "manager_inv s adm" and sub: "trySubmitFrame own frame s = (accepted, t)"
  shows "manager_inv t (if accepted then adm @ [the frame] else adm)"
proof (cases "accepted")
  case False
  then show ?thesis
    using sub inv by (auto simp: trySubmitFrame_def split: option.splits if_splits)
next
  case True
  then obtain f where f: "frame = Some f" and st: "m_state s = RS_RECORDING"
    and nf: "rg_count (m_queue s) \<noteq> ring_capacity (m_queue s)"
    and t: "t = s\<lparr>m_queue := ring_put f (m_queue s), m_admitted_frame_count := m_admitted_frame_count s + 1\<rparr>"
    using sub by (auto simp: trySubmitFrame_def split: option.splits if_splits)
  have q: "ring_ok (m_queue s)" using inv by (simp add: manager_inv_def)
  obtain written where w: "recorded s adm written" and wk: "m_worker s \<noteq> Some W_finalize"
    using inv st by (auto simp: manager_inv_def live_def)
  have "recorded t (adm @ [f]) written"
    using w ring.put_items [OF q nf, of f]
    by (auto simp: t recorded_def counters_ok_def files_ok_def committed_def in_flight_def)
  then show ?thesis
    using inv st wk ring.put_ok [OF q nf, of f] True f
    by (auto simp: manager_inv_def live_def running_def t)
qed


lemma shutdown_inv:
  assumes "manager_inv s adm"
  shows "manager_inv (finalize_request now now' s) adm"
proof (cases "m_state s = RS_RECORDING")
  case False
  with assms show ?thesis by (simp add: finalize_request_def)
next
  case True
  obtain r t where b: "beginFinalizationLocked SR_APPLICATION_SHUTDOWN
      (serializeInternalStopEvidence (m_recording_id s) SR_APPLICATION_SHUTDOWN) [] [] now now' s = (r, t)"
    by fastforce
  have q: "ring_ok (m_queue t)"
    using begin_shape [OF b] assms by (simp add: manager_inv_def)
  show ?thesis
  proof (cases r)
    case (Inr u)
    with begin_inv [OF assms True b] show ?thesis by (simp add: finalize_request_def True b)
  next
    case (Inl e)
    then have "finalize_request now now' s = t\<lparr>m_state := RS_FAULTED, m_admitting := False, m_stop_requested := True\<rparr>"
      by (simp add: finalize_request_def True b)
    with q show ?thesis by (auto intro: inv_not_live)
  qed
qed

lemma stop_on_persisted_shape:
  assumes "stop_on_persisted rq c a s = (r, t)"
  shows "t = s \<or> (m_state s \<noteq> RS_RECORDING \<and> m_state s \<noteq> RS_FINALIZING \<and>
    t = (restorePersistedArtifactLocked a rq [] s)\<lparr>m_stop_request_id := rq_request_id rq,
          m_stop_canonical := c, m_stop_reason := SR_REQUESTED\<rparr> \<and> r = Inr (Some STOP_REPLAYED))"
  using assms by (auto simp: stop_on_persisted_def run_simps split: option.splits if_splits)

lemma stop_found_inv:
  assumes inv: "manager_inv s adm"
    and run: "bindS (case persisted of None \<Rightarrow> retS None
              | Some artifact \<Rightarrow> stop_on_persisted rq c artifact) (\<lambda>replayed.
       case replayed of Some result \<Rightarrow> retS result | None \<Rightarrow> accept_stop now now' rq c) s = (r, t)"
  shows "manager_inv t adm"
proof -
  let ?k = "case persisted of None \<Rightarrow> retS None | Some artifact \<Rightarrow> stop_on_persisted rq c artifact"
  obtain r2 t2 where k: "?k s = (r2, t2)" by fastforce
  have "t2 = s \<or> (\<exists>a. \<not> live s \<and> t2 = (restorePersistedArtifactLocked a rq [] s)
      \<lparr>m_stop_request_id := rq_request_id rq, m_stop_canonical := c, m_stop_reason := SR_REQUESTED\<rparr>)"
    using k by (auto simp: retS_def live_def split: option.splits dest!: stop_on_persisted_shape)
  then have inv2: "manager_inv t2 adm"
  proof (elim disjE exE conjE)
    assume "t2 = s"
    with inv show ?thesis by simp
  next
    fix a assume "t2 = (restorePersistedArtifactLocked a rq [] s)
      \<lparr>m_stop_request_id := rq_request_id rq, m_stop_canonical := c, m_stop_reason := SR_REQUESTED\<rparr>"
    moreover have "ring_ok (m_queue s)" using inv by (simp add: manager_inv_def)
    ultimately show ?thesis
      by (intro inv_not_live) (simp_all add: restorePersistedArtifactLocked_def ring_ok_reset)
  qed
  show ?thesis
  proof (cases "r2 = Inr None \<and> m_state t2 = RS_RECORDING \<and> rq_recording_id rq = m_recording_id t2")
    case False
    then have "t = t2"
      using run k by (cases r2) (auto simp: bindS_def retS_def getS_def accept_stop_def throw_ifS_apply
          split: option.splits if_splits)
    with inv2 show ?thesis by simp
  next
    case True
    then obtain r3 where "beginFinalizationLocked SR_REQUESTED c (rq_request_id rq) c now now' t2 = (r3, t)"
      using run k by (auto simp: accept_stop_def run_simps split: prod.splits sum.splits)
    with inv2 True show ?thesis using begin_inv by blast
  qed
qed

lemma repeat_stop_state: "snd (repeat_stop c s) = s"
  by (simp add: repeat_stop_def throwS_def retS_def)

lemma stop_inv:
  assumes inv: "manager_inv s adm" and run: "finalizeOrReplay now now' rq s = (r, t)"
  shows "manager_inv t adm"
proof (cases "isRecordingRequestIdValid (rq_request_id rq) \<and> isRecordingIdValid (rq_recording_id rq) \<and>
    \<not> same_stop_request rq s")
  case False
  then have "t = s"
    using run repeat_stop_state [of "stop_request_text rq" s]
    by (auto simp: finalizeOrReplay_def bindS_def throw_ifS_apply getS_def split: if_splits)
  with inv show ?thesis by simp
next
  case True
  obtain r1 t1 where f: "on_store (findPersistedArtifact (m_store s) (rq_recording_id rq)) s = (r1, t1)"
    by fastforce
  then have inv1: "manager_inv t1 adm" using on_store_world [OF f] inv by auto
  show ?thesis
  proof (cases r1)
    case (Inl e)
    then have "t = t1" using run True f
      by (simp add: finalizeOrReplay_def bindS_def throw_ifS_apply getS_def)
    with inv1 show ?thesis by simp
  next
    case (Inr persisted)
    have "finalizeOrReplay now now' rq s = bindS (case persisted of None \<Rightarrow> retS None
              | Some artifact \<Rightarrow> stop_on_persisted rq (stop_request_text rq) artifact) (\<lambda>replayed.
       case replayed of Some result \<Rightarrow> retS result
       | None \<Rightarrow> accept_stop now now' rq (stop_request_text rq)) t1"
      using True f Inr by (subst finalizeOrReplay_def) (simp add: bindS_def [of _ _ s] throw_ifS_apply getS_def)
    with run inv1 show ?thesis using stop_found_inv by simp
  qed
qed


text \<open>Starting.\<close>

abbreviation queue_ok :: "manager \<Rightarrow> bool" where "queue_ok s \<equiv> ring_ok (m_queue s)"
abbreviation no_worker :: "manager \<Rightarrow> bool" where "no_worker s \<equiv> m_worker s = None"

text \<open>\<open>fails_with P m\<close>: when the action throws from a state with \<open>P\<close>, it leaves one with \<open>P\<close>.\<close>

definition fails_with :: "('s \<Rightarrow> bool) \<Rightarrow> ('s, 'a) act \<Rightarrow> bool" where
  "fails_with P m \<longleftrightarrow> (\<forall>s e t. P s \<longrightarrow> m s = (Inl e, t) \<longrightarrow> P t)"

lemma fails_with_bindS: "keeps P m \<Longrightarrow> (\<And>a. fails_with P (f a)) \<Longrightarrow> fails_with P (bindS m f)"
  unfolding fails_with_def bindS_Inl_iff by (meson keepsD)

lemma fails_with_end: "fails_with P (bindS (modS g) (\<lambda>_. retS a))"
  by (simp add: fails_with_def run_simps)

lemma keeps_on_store:
  "(\<And>s w. P s \<Longrightarrow> P (s\<lparr>m_world := w\<rparr>)) \<Longrightarrow> keeps P (\<lambda>s. on_store (m s) s)"
  "(\<And>s w. P s \<Longrightarrow> P (s\<lparr>m_world := w\<rparr>)) \<Longrightarrow> keeps P (on_store n)"
  by (auto simp: keeps_def on_store_def zoomS_def split: prod.split)

lemma keeps_in_world:
  "(\<And>s w. P s \<Longrightarrow> P (s\<lparr>m_world := w\<rparr>)) \<Longrightarrow> keeps P (\<lambda>s. in_world (m s) s)"
  by (auto simp: keeps_def in_world_def zoomS_def split: prod.split)

lemma keeps_on_writer [keeps_intros]: "keeps queue_ok (on_writer m)"
  by (auto simp: keeps_def on_writer_def zoomS_def split: prod.split)

lemma keeps_on_sidecar [keeps_intros]: "keeps queue_ok (on_sidecar m)"
  by (auto simp: keeps_def on_sidecar_def zoomS_def split: prod.split)

lemma start_recording_queue: "keeps queue_ok (start_recording lib env rq c)"
  unfolding start_recording_def
  by (intro keeps_intros keeps_on_store keeps_in_world) (simp_all add: ring_ok_reset)

lemma start_recording_fails: "fails_with no_worker (start_recording lib env rq c)"
  unfolding start_recording_def
  by (intro fails_with_end fails_with_bindS keeps_intros keeps_on_store keeps_in_world) simp_all

text \<open>\<open>returns Q m\<close>: a value that the action returns satisfies \<open>Q\<close>.\<close>

definition returns :: "('a \<Rightarrow> bool) \<Rightarrow> ('s, 'a) act \<Rightarrow> bool" where
  "returns Q m \<longleftrightarrow> (\<forall>s a t. m s = (Inr a, t) \<longrightarrow> Q a)"

lemma returns_bindS: "(\<And>a. returns Q (f a)) \<Longrightarrow> returns Q (bindS m f)"
  by (auto simp: returns_def bindS_Inr_iff)

lemma returns_retS: "Q a \<Longrightarrow> returns Q (retS a)"
  by (simp add: returns_def retS_def)

lemma ColorVideoWriter_new_Inr:
  "ColorVideoWriter_new err c w = (Inr v, w') \<Longrightarrow> vw_sent v = [] \<and> vw_submitted_frame_count v = 0"
proof -
  have "returns (\<lambda>v. vw_sent v = [] \<and> vw_submitted_frame_count v = 0) (ColorVideoWriter_new err c)"
    unfolding ColorVideoWriter_new_def by (intro returns_bindS returns_retS) simp
  then show "ColorVideoWriter_new err c w = (Inr v, w') \<Longrightarrow> ?thesis"
    unfolding returns_def by blast
qed

lemma in_world_new:
  "in_world (ColorVideoWriter_new err c) s = (Inr v, t) \<Longrightarrow>
     (\<exists>w. t = s\<lparr>m_world := w\<rparr>) \<and> vw_sent v = [] \<and> vw_submitted_frame_count v = 0"
  by (auto simp: in_world_def zoomS_def split: prod.splits dest: ColorVideoWriter_new_Inr)

lemma RecordingSidecarWriter_new_Inr:
  "RecordingSidecarWriter_new p i f c d = (Inr w, d') \<Longrightarrow> sc_entry_count w = 0 \<and> \<not> sc_has_identity w"
  by (auto simp: RecordingSidecarWriter_new_def act_iffs retS_def)

lemma on_store_sidecar_new:
  "on_store (RecordingSidecarWriter_new p i f c) s = (Inr w, t) \<Longrightarrow>
     (\<exists>x. t = s\<lparr>m_world := x\<rparr>) \<and> sc_entry_count w = 0"
  by (auto simp: on_store_def on_disk_def zoomS_def split: prod.splits dest: RecordingSidecarWriter_new_Inr)

lemma start_recording_Inr:
  assumes "start_recording lib env rq c s = (Inr res, t)" and q: "queue_ok s"
  shows "res = SRES_STARTED \<and> m_state t = RS_RECORDING \<and> m_admitting t \<and> \<not> m_stop_requested t \<and>
    m_worker t = Some W_loop \<and> m_queue t = ring_reset (m_queue s) \<and> recorded t [] []"
  using assms(1) unfolding start_recording_def bindS_Inr_iff
  by - (elim exE conjE, drule on_store_sidecar_new, drule in_world_new,
      auto simp: act_iffs getS_def modS_def retS_def throw_ifS_Inr_iff dest!: on_store_world in_world_world
       simp: recorded_def counters_ok_def files_ok_def committed_def in_flight_def ordered_def
         ring.reset_items)

lemma start_after_join_inv:
  assumes q: "queue_ok s" "no_worker s" and run: "start_after_join lib env rq c s = (r, t)"
    and st: "m_state s = RS_IDLE \<or> m_state s = RS_DISABLED \<or> m_state s = RS_FINALIZED \<or> m_state s = RS_FAULTED"
    and adm: "\<not> m_admitting s"
  shows "manager_inv t (if r = Inr SRES_STARTED then [] else adm)"
proof -
  obtain r1 t1 where f: "on_store (findPersistedArtifact (m_store s) (rq_recording_id rq)) s = (r1, t1)"
    by fastforce
  then obtain w where t1: "t1 = s\<lparr>m_world := w\<rparr>" using on_store_world by blast
  then have q1: "queue_ok t1" using q by simp
  have idle: "manager_inv t1 adm'" for adm'
    using q st adm by (auto simp: t1 manager_inv_def live_def running_def)
  show ?thesis
  proof (cases r1)
    case (Inl e)
    then have "t = t1" "r = Inl e" using run f by (auto simp: start_after_join_def bindS_def)
    with idle show ?thesis by simp
  next
    case found: (Inr persisted)
    show ?thesis
    proof (cases persisted)
      case (Some a)
      then have "t = t1 \<and> r \<noteq> Inr SRES_STARTED \<or>
          t = restorePersistedArtifactLocked a rq c t1 \<and> r = Inr SRES_REPLAYED"
        using run f found by (auto simp: start_after_join_def run_simps split: if_splits)
      with idle restore_inv [OF q1] show ?thesis by auto
    next
      case None
      let ?s2 = "t1\<lparr>m_state := RS_PREPARING\<rparr>"
      obtain r3 t3 where g: "start_recording lib env rq c ?s2 = (r3, t3)" by fastforce
      have q3: "queue_ok t3"
        using keepsD [OF start_recording_queue _ g] q1 by simp
      show ?thesis
      proof (cases r3)
        case (Inl e)
        then have "r = Inl e" "t = t3\<lparr>m_state := RS_FAULTED, m_admitting := False\<rparr>"
          using run f found None g
          by (auto simp: start_after_join_def run_simps catchS_def)
        moreover have "no_worker t3"
          using start_recording_fails [of lib env rq c] g Inl q(2) t1
          by (auto simp: fails_with_def dest: spec [of _ "t1\<lparr>m_state := RS_PREPARING\<rparr>"])
        ultimately show ?thesis using q3 by (simp add: inv_not_live)
      next
        case (Inr res)
        then have t: "r = Inr res" "t = t3"
          using run f found None g
          by (auto simp: start_after_join_def run_simps catchS_def)
        have "res = SRES_STARTED \<and> m_state t = RS_RECORDING \<and> m_admitting t \<and> \<not> m_stop_requested t \<and>
            m_worker t = Some W_loop \<and> recorded t [] []"
          using start_recording_Inr [of lib env rq c ?s2 res t3] g Inr q1 t by simp
        with q3 t show ?thesis by (auto simp: manager_inv_def live_def running_def)
      qed
    qed
  qed
qed

lemma start_inv:
  assumes inv: "manager_inv s adm" and run: "startOrReplay lib env rq s = Some (r, t)"
  shows "manager_inv t (if r = Inr SRES_STARTED then [] else adm)"
proof -
  consider "t = s" "r \<noteq> Inr SRES_STARTED"
    | (go) c where "start_after_join lib env rq c (s\<lparr>m_worker := None\<rparr>) = (r, t)" "\<not> recording_active (m_state s)"
  proof (cases "serializeRecordingStartRequest (lib_serialize lib) rq")
    case (Inl e)
    with run that(1) show thesis by (auto simp: startOrReplay_def)
  next
    case (Inr c)
    consider "t = s" "r \<noteq> Inr SRES_STARTED"
      | "m_worker s = None" "start_after_join lib env rq c s = (r, t)" "\<not> recording_active (m_state s)"
      | "start_after_join lib env rq c (s\<lparr>m_worker := None\<rparr>) = (r, t)" "\<not> recording_active (m_state s)"
      using run Inr by (auto simp: startOrReplay_def split: if_splits option.splits worker_pc.splits)
    then show thesis
    proof cases
      case 2
      have "s\<lparr>m_worker := None\<rparr> = s" using 2(1) by (cases s) simp
      with 2 that(2) [of c] show thesis by simp
    qed (use that in blast)+
  qed
  then show ?thesis
  proof cases
    case 1
    with inv show ?thesis by simp
  next
    case go
    show ?thesis
      by (rule start_after_join_inv [OF _ _ go(1)])
         (use inv go(2) in \<open>auto simp: manager_inv_def recording_active_def; cases "m_state s"; simp\<close>)+
  qed
qed


text \<open>The worker.\<close>

lemma guarded_fault:
  "m s = (Inl e, t) \<Longrightarrow> queue_ok t \<Longrightarrow> manager_inv (guarded m s) adm"
  by (simp add: guarded_def worker_fault_inv)

lemma ring_get_items:
  assumes "ring_ok q" and "rg_count q \<noteq> 0" and "ring_get q = (x, q')"
  shows "ring_ok q'" and "ring_items q = the x # ring_items q'"
  using ring.get_ok [OF assms(1,2)] ring.get_items [OF assms(1,2)] assms(3) by simp_all

lemma dequeue_tail_inv:
  assumes inv: "manager_inv s adm" and w: "m_worker s = Some W_loop"
    and ready: "m_stop_requested s \<or> rg_count (m_queue s) \<noteq> 0"
  shows "manager_inv (if rg_count (m_queue s) = 0 \<and> m_stop_requested s
       then s\<lparr>m_worker := Some W_finalize\<rparr>
       else (case ring_get (m_queue s) of (frame, q) \<Rightarrow>
               s\<lparr>m_worker := Some (W_frame (the frame)), m_queue := q\<rparr>)) adm"
proof (cases "rg_count (m_queue s) = 0")
  case True
  then have "ring_items (m_queue s) = []"
    using inv ring.depth_items [of "m_queue s"] by (simp add: manager_inv_def)
  with True ready inv w show ?thesis
    by (auto simp: manager_inv_def live_def running_def recorded_def counters_ok_def files_ok_def
        committed_def in_flight_def)
next
  case False
  obtain x q where g: "ring_get (m_queue s) = (x, q)" by fastforce
  note items = ring_get_items [OF _ False g]
  have "ring_ok (m_queue s)" using inv by (simp add: manager_inv_def)
  note items = items [OF this]
  show ?thesis
    using inv w items False
    by (auto simp: g manager_inv_def live_def running_def recorded_def counters_ok_def files_ok_def
        committed_def in_flight_def)
qed

lemma dequeue_inv:
  assumes inv: "manager_inv s adm" and w: "m_worker s = Some W_loop" and ready: "wait_ended now s"
  shows "manager_inv (guarded (worker_dequeue now now1 now2) s) adm"
proof (cases "\<not> m_stop_requested s \<and> now \<ge> m_duration_deadline s")
  case False
  then have "m_stop_requested s \<or> rg_count (m_queue s) \<noteq> 0" using ready by (auto simp: wait_ended_def)
  moreover have "worker_dequeue now now1 now2 s = (Inr (), if rg_count (m_queue s) = 0 \<and> m_stop_requested s
       then s\<lparr>m_worker := Some W_finalize\<rparr>
       else (case ring_get (m_queue s) of (frame, q) \<Rightarrow>
               s\<lparr>m_worker := Some (W_frame (the frame)), m_queue := q\<rparr>))"
    using False by (auto simp: worker_dequeue_def run_simps)
  ultimately show ?thesis
    using dequeue_tail_inv [OF inv w] by (simp add: guarded_def)
next
  case True
  then have st: "m_state s = RS_RECORDING"
    using inv w by (auto simp: manager_inv_def live_def running_def)
  obtain r t where b: "beginFinalizationLocked SR_MAX_DURATION
      (serializeInternalStopEvidence (m_recording_id s) SR_MAX_DURATION) [] [] now1 now2 s = (r, t)"
    by fastforce
  note shape = begin_shape [OF b]
  note inv_t = begin_inv [OF inv st b]
  show ?thesis
  proof (cases r)
    case (Inl e)
    then have "worker_dequeue now now1 now2 s = (Inl e, t)"
      using True b by (simp add: worker_dequeue_def run_simps)
    then show ?thesis by (rule guarded_fault) (use inv_t in \<open>simp add: manager_inv_def\<close>)
  next
    case (Inr u)
    then have "worker_dequeue now now1 now2 s = (Inr (), if rg_count (m_queue t) = 0 \<and> m_stop_requested t
       then t\<lparr>m_worker := Some W_finalize\<rparr>
       else (case ring_get (m_queue t) of (frame, q) \<Rightarrow>
               t\<lparr>m_worker := Some (W_frame (the frame)), m_queue := q\<rparr>))"
      using True b by (simp add: worker_dequeue_def run_simps)
    then show ?thesis
      using dequeue_tail_inv [OF inv_t] w shape by (simp add: guarded_def)
  qed
qed

lemma committed_cases:
  "m_worker s = Some (W_frame f) \<Longrightarrow> committed s written = written"
  "m_worker s = Some W_loop \<Longrightarrow> committed s written = written"
  "m_worker s = Some W_finalize \<Longrightarrow> committed s written = written"
  "m_worker s = Some (W_commit i) \<Longrightarrow> committed s written = butlast written"
  by (simp_all add: committed_def)

lemma ordered_snoc:
  assumes "ordered fs" and "fs \<noteq> [] \<Longrightarrow> manager_isStrictlyAfter (id_of f) (id_of (last fs)) \<and>
    capture_generation (id_of f) = capture_generation (id_of (last fs))"
  shows "ordered (fs @ [f])"
proof (cases "fs = []")
  case True
  then show ?thesis by (simp add: ordered_def)
next
  case False
  have "manager_isStrictlyAfter (id_of f) (id_of g) \<and> capture_generation (id_of f) = capture_generation (id_of g)"
    if "g \<in> set fs" for g
  proof (cases "g = last fs")
    case True
    with assms(2) False show ?thesis by simp
  next
    case neq: False
    have "fs = butlast fs @ [last fs]" using False by simp
    then have "ordered (butlast fs @ [last fs])" "g \<in> set (butlast fs)"
      using assms(1) that neq by (metis, metis in_set_butlast_appendI UnE append_butlast_last_id
          empty_iff insert_iff list.set(1) list.simps(15) set_append)
    then show ?thesis
      using assms(2) [OF False] by (auto simp: ordered_def sorted_wrt_append manager_isStrictlyAfter_def)
  qed
  with assms(1) show ?thesis by (auto simp: ordered_def sorted_wrt_append)
qed


lemma on_writer_Inr:
  assumes "on_writer m s = (Inr a, t)"
  obtains v w where "m (the (m_writer s), m_world s) = (Inr a, (v, w))"
    "t = s\<lparr>m_writer := Some v, m_world := w\<rparr>"
  using assms by (auto simp: on_writer_def zoomS_def split: prod.splits)

lemma on_sidecar_Inr:
  assumes "on_sidecar m s = (Inr a, t)"
  obtains v d where "m (the (m_sidecar s), disk_of (m_world s)) = (Inr a, (v, d))"
    "t = s\<lparr>m_sidecar := Some v, m_world := (m_world s)\<lparr>disk_of := d\<rparr>\<rparr>"
  using assms by (auto simp: on_sidecar_def zoomS_def split: prod.splits)

lemma worker_write_queue: "keeps queue_ok (worker_write lib now f)"
  unfolding worker_write_def requireFinalizeWithinDeadline_def Let_def
  by (cases "getColorFrameView f"; simp only: option.case; intro keeps_intros; simp)

lemma worker_write_Inr:
  assumes run: "worker_write lib now f s = (Inr (), t)"
  obtains color v v' w x where "getColorFrameView f = Some color"
    "\<not> (m_has_identity s \<and> \<not> manager_isStrictlyAfter (id_of f) (m_last_identity s))"
    "\<not> (m_has_identity s \<and> capture_generation (id_of f) \<noteq> capture_generation (m_last_identity s))"
    "v' = (the (m_writer s))\<lparr>vw_sent := vw_sent (the (m_writer s)) @
        [(sint (vw_submitted_frame_count (the (m_writer s))), color)],
        vw_submitted_frame_count := vw_submitted_frame_count (the (m_writer s)) + 1\<rparr>"
    "w = (the (m_sidecar s))\<lparr>sc_last_identity := id_of f, sc_has_identity := True,
        sc_entry_count := sc_entry_count (the (m_sidecar s)) + 1\<rparr>"
    "t = s\<lparr>m_writer := Some v', m_sidecar := Some w, m_world := x, m_worker := Some (W_commit (id_of f))\<rparr>"
proof (cases "getColorFrameView f")
  case None
  then show thesis using run by (auto simp: worker_write_def run_simps Let_def requireFinalizeWithinDeadline_def
      split: if_splits)
next
  case (Some color)
  from run obtain i u where 1: "on_writer (writeFrame (lib_strerror lib) color) s = (Inr i, u)"
    and 2: "\<not> (m_has_identity s \<and> \<not> manager_isStrictlyAfter (id_of f) (m_last_identity s))"
      "\<not> (m_has_identity s \<and> capture_generation (id_of f) \<noteq> capture_generation (m_last_identity s))"
    and 3: "\<exists>u2. on_sidecar (sidecar_append (lib_serialize lib) \<lparr>en_video_frame_index = i, en_video_pts = sint i,
        en_identity = id_of f\<rparr>) u = (Inr (), u2) \<and> t = u2\<lparr>m_worker := Some (W_commit (id_of f))\<rparr>"
    unfolding worker_write_def Some option.case Let_def requireFinalizeWithinDeadline_def
    by (auto simp: act_iffs getS_def modS_def)
  from 1 obtain v w where v: "writeFrame (lib_strerror lib) color (the (m_writer s), m_world s) = (Inr i, (v, w))"
    "u = s\<lparr>m_writer := Some v, m_world := w\<rparr>" by (rule on_writer_Inr)
  from 3 obtain u2 where 4: "on_sidecar (sidecar_append (lib_serialize lib) \<lparr>en_video_frame_index = i, en_video_pts = sint i,
        en_identity = id_of f\<rparr>) u = (Inr (), u2)" "t = u2\<lparr>m_worker := Some (W_commit (id_of f))\<rparr>" by blast
  from 4(1) obtain c d where c: "sidecar_append (lib_serialize lib) \<lparr>en_video_frame_index = i, en_video_pts = sint i,
        en_identity = id_of f\<rparr> (the (m_sidecar u), disk_of (m_world u)) = (Inr (), (c, d))"
    "u2 = u\<lparr>m_sidecar := Some c, m_world := (m_world u)\<lparr>disk_of := d\<rparr>\<rparr>" by (rule on_sidecar_Inr)
  show thesis
    by (rule that [OF Some 2])
       (use writeFrame_Inr [OF v(1)] sidecar_append_Inr [OF c(1)] v(2) c(2) 4(2) in simp_all)
qed

lemma write_inv:
  assumes inv: "manager_inv s adm" and w: "m_worker s = Some (W_frame f)"
  shows "manager_inv (guarded (worker_write lib now f) s) adm"
proof -
  obtain r t where run: "worker_write lib now f s = (r, t)" by fastforce
  have q: "queue_ok s" using inv by (simp add: manager_inv_def)
  then have qt: "queue_ok t" by (rule keepsD [OF worker_write_queue _ run])
  show ?thesis
  proof (cases r)
    case (Inl e)
    with run show ?thesis by (intro guarded_fault [OF _ qt]) simp
  next
    case (Inr x)
    then have ok: "worker_write lib now f s = (Inr (), t)" using run by simp
    then have g: "guarded (worker_write lib now f) s = t" by (simp add: guarded_def)
    from ok show ?thesis
    proof (rule worker_write_Inr)
      fix color v' sc x
      assume color: "getColorFrameView f = Some color"
        and after: "\<not> (m_has_identity s \<and> \<not> manager_isStrictlyAfter (id_of f) (m_last_identity s))"
          "\<not> (m_has_identity s \<and> capture_generation (id_of f) \<noteq> capture_generation (m_last_identity s))"
        and v': "v' = (the (m_writer s))\<lparr>vw_sent := vw_sent (the (m_writer s)) @
          [(sint (vw_submitted_frame_count (the (m_writer s))), color)],
          vw_submitted_frame_count := vw_submitted_frame_count (the (m_writer s)) + 1\<rparr>"
        and sc: "sc = (the (m_sidecar s))\<lparr>sc_last_identity := id_of f, sc_has_identity := True,
          sc_entry_count := sc_entry_count (the (m_sidecar s)) + 1\<rparr>"
        and t: "t = s\<lparr>m_writer := Some v', m_sidecar := Some sc, m_world := x, m_worker := Some (W_commit (id_of f))\<rparr>"
      have "\<exists>written'. recorded t adm written'" if live: "live s"
      proof -
        obtain written where rec: "recorded s adm written" using inv live by (auto simp: manager_inv_def)
        have cnt: "counters_ok s written" and fl: "files_ok s written" and ord: "ordered written"
          using rec w by (simp_all add: recorded_def committed_cases)
        have "ordered (written @ [f])"
          using ord after cnt by (intro ordered_snoc) (auto simp: counters_ok_def)
        moreover have "files_ok t (written @ [f])"
          using fl color by (auto simp: files_ok_def t v' sc nth_append color_of_def)
        moreover have "counters_ok t (committed t (written @ [f]))"
          using cnt by (simp add: t committed_def counters_ok_def)
        ultimately have "recorded t adm (written @ [f])"
          using rec w by (simp add: recorded_def t in_flight_def)
        then show ?thesis by blast
      qed
      then show ?thesis
        using inv w unfolding g by (auto simp: manager_inv_def t live_def running_def)
    qed
  qed
qed

lemma commit_inv:
  assumes inv: "manager_inv s adm" and w: "m_worker s = Some (W_commit i)"
  shows "manager_inv (worker_commit i s) adm"
proof -
  have "\<exists>written. recorded (worker_commit i s) adm written" if live: "live s"
  proof -
    obtain written where rec: "recorded s adm written" using inv live by (auto simp: manager_inv_def)
    then have ne: "written \<noteq> []" and i: "i = id_of (last written)"
      and cnt: "counters_ok s (butlast written)"
      using w by (auto simp: recorded_def committed_cases)
    obtain ws f where ws: "written = ws @ [f]" using ne by (cases written rule: rev_cases) auto
    have "counters_ok (worker_commit i s) written"
      using cnt i by (auto simp: ws counters_ok_def worker_commit_def hd_append)
    then have "recorded (worker_commit i s) adm written"
      using rec w by (auto simp: recorded_def worker_commit_def in_flight_def committed_def files_ok_def)
    then show ?thesis by blast
  qed
  then show ?thesis
    using inv w by (auto simp: manager_inv_def live_def running_def worker_commit_def)
qed

lemma finalizeArtifacts_queue: "keeps queue_ok (finalizeArtifacts lib clock)"
  unfolding finalizeArtifacts_def requireFinalizeWithinDeadline_def
  by (intro keeps_intros keeps_on_store) (simp_all add: keeps_def liftS_def)

lemma finalizeArtifacts_Inr:
  "finalizeArtifacts lib clock s = (Inr (), t) \<Longrightarrow> m_state t = RS_FINALIZED \<and> m_worker t = Some W_returned"
  unfolding finalizeArtifacts_def bindS_Inr_iff by (elim exE conjE) (simp add: modS_def, auto)

lemma finalize_admitting: "keeps (\<lambda>s. \<not> m_admitting s) (finalizeArtifacts lib clock)"
  unfolding finalizeArtifacts_def requireFinalizeWithinDeadline_def
  by (intro keeps_intros keeps_on_store)
     (auto simp: keeps_def liftS_def on_writer_def on_sidecar_def zoomS_def split: prod.split)

lemma finalize_inv:
  assumes inv: "manager_inv s adm" and w: "m_worker s = Some W_finalize"
  shows "manager_inv (guarded (finalizeArtifacts lib clock) s) adm"
proof -
  obtain r t where run: "finalizeArtifacts lib clock s = (r, t)" by fastforce
  have q: "queue_ok s" "\<not> m_admitting s" using inv w by (auto simp: manager_inv_def live_def)
  have qt: "queue_ok t" "\<not> m_admitting t"
    using keepsD [OF finalizeArtifacts_queue _ run] keepsD [OF finalize_admitting _ run] q by blast+
  show ?thesis
  proof (cases r)
    case (Inl e)
    with run show ?thesis by (intro guarded_fault [OF _ qt(1)]) simp
  next
    case (Inr u)
    with run finalizeArtifacts_Inr [of lib clock s t] qt show ?thesis
      by (auto simp: guarded_def intro: inv_not_live)
  qed
qed

lemma status_inv: "manager_inv s adm \<Longrightarrow> getStatus listing s = (r, t) \<Longrightarrow> manager_inv t adm"
  by (auto simp: getStatus_def run_simps split: prod.splits sum.splits dest!: on_store_world)

lemma step_inv:
  "recording_step lib (s, adm) (t, adm') \<Longrightarrow> manager_inv s adm \<Longrightarrow> manager_inv t adm'"
proof (cases rule: recording_step.cases, assumption)
qed (auto dest: start_inv submit_inv stop_inv status_inv
    intro: shutdown_inv dequeue_inv write_inv commit_inv finalize_inv)

lemma new_inv: "RecordingManager_new config w = Inr s \<Longrightarrow> manager_inv s []"
  using ring_new_ok [of "rc_queue_capacity_frames config"]
  by (auto simp: RecordingManager_new_def bindE_Inr_iff manager_inv_def live_def running_def)

theorem reachable_inv: "reachable lib s adm \<Longrightarrow> manager_inv s adm"
  by (induction rule: reachable.induct) (auto intro: new_inv step_inv)

end
