(* ===== verification/RecordingRuns.thy ===== *)
theory RecordingRuns
  imports RecordingFacts
begin

text \<open>
  Evaluation of concrete runs of the recording manager by the simplifier: an action is evaluated
  only once it is applied to a state, its continuation only once the result is known.
\<close>

definition bind_result :: "'a result \<times> 's \<Rightarrow> ('a \<Rightarrow> ('s, 'b) act) \<Rightarrow> 'b result \<times> 's" where
  "bind_result p f = (case p of (Inl e, t) \<Rightarrow> (Inl e, t) | (Inr a, t) \<Rightarrow> f a t)"

definition catch_result :: "'a result \<times> 's \<Rightarrow> (cpp_exn \<Rightarrow> ('s, 'a) act) \<Rightarrow> 'a result \<times> 's" where
  "catch_result p h = (case p of (Inl e, t) \<Rightarrow> h e t | (Inr a, t) \<Rightarrow> (Inr a, t))"

definition put_result :: "'a result \<times> 's \<Rightarrow> ('s \<Rightarrow> 'o \<Rightarrow> 'o) \<Rightarrow> 'o \<Rightarrow> 'a result \<times> 'o" where
  "put_result p put s = (case p of (r, t) \<Rightarrow> (r, put t s))"

lemma bindS_lazy: "s = s' \<Longrightarrow> bindS m f s = bindS m f s'" by simp
lemma catchS_lazy: "s = s' \<Longrightarrow> catchS m f s = catchS m f s'" by simp
lemma zoomS_lazy: "s = s' \<Longrightarrow> zoomS sel put m s = zoomS sel put m s'" by simp
lemma bind_result_lazy: "p = p' \<Longrightarrow> bind_result p f = bind_result p' f" by simp
lemma catch_result_lazy: "p = p' \<Longrightarrow> catch_result p f = catch_result p' f" by simp
lemma put_result_lazy: "p = p' \<Longrightarrow> put_result p put s = put_result p' put s" by simp
lemma guarded_lazy: "s = s' \<Longrightarrow> guarded m s = guarded m s'" by simp

lemmas lazy_congs = bindS_lazy catchS_lazy zoomS_lazy bind_result_lazy catch_result_lazy
  put_result_lazy guarded_lazy

lemma bindS_step: "bindS m f s = bind_result (m s) f"
  by (simp add: bindS_def bind_result_def)

lemma catchS_step: "catchS m f s = catch_result (m s) f"
  by (simp add: catchS_def catch_result_def)

lemma zoomS_step: "zoomS sel put m s = put_result (m (sel s)) put s"
  by (simp add: zoomS_def put_result_def)

lemma result_steps:
  "bind_result (Inl e, t) f = (Inl e, t)" "bind_result (Inr a, t) f = f a t"
  "catch_result (Inl e, t) h = h e t" "catch_result (Inr a, t) h = (Inr a, t)"
  "put_result (r, t) put s = (r, put t s)"
  by (simp_all add: bind_result_def catch_result_def put_result_def)

lemma throw_step: "throw_ifS b e s = (if b then Inl e else Inr (), s)"
  by (simp add: throw_ifS_def act_simps)

lemma guarded_step: "guarded m s = (case m s of (Inr _, t) \<Rightarrow> t | (Inl _, t) \<Rightarrow> worker_fault t)"
  by (simp add: guarded_def)

lemmas action_steps = bindS_step catchS_step zoomS_step result_steps throw_step retS_def throwS_def
  getS_def modS_def liftS_def Let_def

lemmas disk_steps = stat_def lstat_def exists_def is_directory_def is_symlink_def is_regular_file_def
  lstat_is_regular_file_def entry_of_def set_node_def next_outcome_def succeeds_def create_directory_def
  create_directories_def open_exclusive_def append_file_def rename_entry_def move_tree_def node_at_def
  MAXSYMLINKS_def parent_path_def is_absolute_def split_path_def starts_with_def

text \<open>The file names of a recording, so that joining them does not scan them again.\<close>

lemma joins [simp]:
  "path_join p ''.staging'' = p @ [''.staging'']" "path_join p ''finalized'' = p @ [''finalized'']"
  "path_join p ''a'' = p @ [''a'']" "path_join p ''b'' = p @ [''b'']"
  "path_join p ''color.mp4'' = p @ [''color.mp4'']"
  "path_join p ''frames.jsonl'' = p @ [''frames.jsonl'']"
  "path_join p ''start_request.json'' = p @ [''start_request.json'']"
  "path_join p ''start_request.json.tmp'' = p @ [''start_request.json.tmp'']"
  "path_join p ''stop_request.json'' = p @ [''stop_request.json'']"
  "path_join p ''stop_request.json.tmp'' = p @ [''stop_request.json.tmp'']"
  "path_join p ''recording_manifest.json'' = p @ [''recording_manifest.json'']"
  "path_join p ''recording_manifest.json.tmp'' = p @ [''recording_manifest.json.tmp'']"
  by (simp_all add: plain_name_def)

lemmas store_steps = rejectSymlink_def syncDirectory_def write_loop.simps writeAtomically_def
  readBoundedRegularFile_def RecordingStore_new_def prepare_child_def RecordingStore_initialize_def
  artifact_paths_def createStaging_def activateFinalized_def staging_path_unsafe_def
  writeStopRequest_def writeFinalizedManifest_def reject_if_present_def findPersistedArtifact_def
  MAX_REQUEST_FILE_BYTES_def serializeRecordingStartRequest_def

lemmas file_steps = open_truncate_def RecordingSidecarWriter_new_def sidecar_append_def
  sidecar_finalize_def digest_loop.simps calculateRecordingArtifactDigest_def
  next_code_def on_disk_def checkFfmpegResult_def checked_call_def non_null_def writer_profile_invalid_def
  ColorVideoWriter_new_def writeAvailablePackets_def on_world_def frame_mismatch_def writeFrame_def
  video_finalize_def serializeFinalizedRecordingManifest_def manifest_values_invalid_def

lemmas manager_steps = on_store_def in_world_def on_writer_def on_sidecar_def no_paths_def
  beginFinalizationLocked_def recording_active_def start_recording_def start_after_join_def
  startOrReplay_def trySubmitFrame_def finalize_request_def stop_on_persisted_def same_stop_request_def
  repeat_stop_def accept_stop_def finalizeOrReplay_def worker_fault_def requireFinalizeWithinDeadline_def
  wait_ended_def worker_dequeue_def worker_write_def worker_commit_def manifest_of_def
  finalizeArtifacts_def guarded_step stop_request_text_def

lemmas ring_steps = ring_new_def ring_put_def ring_get_def ring_reset_def ring_capacity_def

lemmas run_steps = action_steps disk_steps store_steps file_steps manager_steps ring_steps

section \<open>A sample run\<close>

text \<open>
  One recording with one frame, from the constructor to the finalized artifact, and the same
  recording with a stop request whose evidence was written too late. Each state is a definition
  with its value as the equation of the same name.
\<close>

definition sample_config :: RecordingManagerConfig where
  "sample_config = \<lparr>rc_root = ''/r'', rc_queue_capacity_frames = 1, rc_width = 2, rc_height = 2,
     rc_fps = 30, rc_bit_rate_bps = 1000, rc_max_duration_ms = 1000, rc_minimum_free_bytes = 1,
     rc_finalize_timeout_ms = 1000, rc_preset = ''veryfast'', rc_tune = ''zerolatency'',
     rc_sensor_frame = ''f'', rc_calibration_id = ''c'', rc_component_id = ''k'',
     rc_device_id = ''d'', rc_instance_id = ''i''\<rparr>"

definition sample_library :: library where
  "sample_library = \<lparr>lib_serialize = (\<lambda>_. ''j''), lib_strerror = (\<lambda>_. ''e''), lib_mux = (\<lambda>_. ''m''),
     lib_sha256 = (\<lambda>_. replicate 32 0)\<rparr>"

definition sample_env :: start_env where
  "sample_env = \<lparr>se_monotonic = 5, se_unix = 6, se_now = 5, se_space_error = False, se_thread_ok = True\<rparr>"

definition start_request :: "string \<Rightarrow> string \<Rightarrow> RecordingStartRequest" where
  "start_request q i = \<lparr>rq_request_id = q, rq_recording_id = i, rq_canonical_json = ''c''\<rparr>"

definition sample_world :: world where
  "sample_world = \<lparr>disk_of = \<lparr>nodes = [[''r''] \<mapsto> Dir], outcomes = [], space_available = 10\<rparr>, ffmpeg = []\<rparr>"

definition sample_identity :: FrameIdentity where
  "sample_identity = default_FrameIdentity\<lparr>frame_number := 1\<rparr>"

definition sample_image :: VideoFrameView where
  "sample_image = \<lparr>vf_width = 2, vf_height = 2, vf_stride_bytes = 6, vf_format = PF_RGB8, vf_owner = True,
     vf_data = Some (replicate 12 0), vf_identity = sample_identity\<rparr>"

definition sample_frame :: CapturedFrame where
  "sample_frame = \<lparr>getSnapshot = default_FrameSnapshot\<lparr>fs_identity := sample_identity\<rparr>,
     getColorFrameView = Some sample_image, getDepthPreviewFrameView = None,
     queryPixelPoint = (\<lambda>_ _. Inr None), queryDepthInRoi = (\<lambda>_ _ _ _. Inr default_RoiDepthResult),
     buildPointCloudSnapshot = (\<lambda>_ _. Inr default_PointCloudSnapshot)\<rparr>"

lemma sample_frame_fields [simp]:
  "fs_identity (getSnapshot sample_frame) = sample_identity"
  "getColorFrameView sample_frame = Some sample_image"
  "capture_generation sample_identity = 0" "frame_number sample_identity = 1"
  "vf_identity sample_image = sample_identity" "vf_width sample_image = 2" "vf_height sample_image = 2"
  "vf_stride_bytes sample_image = 6" "vf_format sample_image = PF_RGB8" "vf_owner sample_image"
  "vf_data sample_image = Some (replicate 12 0)"
  by (simp_all add: sample_frame_def sample_image_def sample_identity_def default_FrameIdentity_def)

lemma sample_ids [simp]:
  "isRecordingIdValid ''a''" "isRecordingIdValid ''b''" "isRecordingRequestIdValid ''q1''"
  "isRecordingRequestIdValid ''q2''" "isRecordingRequestIdValid ''q3''"
  by code_simp+

lemma sample_config_fields [simp]:
  "rc_root sample_config = ''/r''" "rc_queue_capacity_frames sample_config = 1"
  "rc_width sample_config = 2" "rc_height sample_config = 2" "rc_fps sample_config = 30"
  "rc_bit_rate_bps sample_config = 1000" "rc_max_duration_ms sample_config = 1000"
  "rc_minimum_free_bytes sample_config = 1" "rc_finalize_timeout_ms sample_config = 1000"
  "rc_preset sample_config = ''veryfast''" "rc_tune sample_config = ''zerolatency''"
  "rc_sensor_frame sample_config = ''f''" "rc_calibration_id sample_config = ''c''"
  "rc_component_id sample_config = ''k''" "rc_device_id sample_config = ''d''"
  "rc_instance_id sample_config = ''i''"
  by (simp_all add: sample_config_def)

lemma sample_library_fields [simp]:
  "lib_serialize sample_library v = ''j''" "lib_strerror sample_library = (\<lambda>_. ''e'')"
  "lib_mux sample_library fs = ''m''" "lib_sha256 sample_library bytes = replicate 32 0"
  by (simp_all add: sample_library_def)

lemma sample_digest [simp]: "concat (replicate 32 (hex_byte 0)) = replicate 64 (CHR ''0'')"
  by code_simp

lemmas sample_defs = sample_env_def start_request_def
  sample_world_def bindE_def throw_if_def RecordingManager_new_def destroy_writer_def

definition run_new :: manager where
  "run_new = (case RecordingManager_new sample_config sample_world of Inr s \<Rightarrow> s)"

definition run_started :: manager where
  "run_started = snd (the (startOrReplay sample_library sample_env (start_request ''q1'' ''a'') run_new))"

definition run_admitted :: manager where
  "run_admitted = snd (trySubmitFrame True (Some sample_frame) run_started)"

definition run_dequeued :: manager where
  "run_dequeued = guarded (worker_dequeue 6 6 6) run_admitted"

definition run_written :: manager where
  "run_written = guarded (worker_write sample_library 6 sample_frame) run_dequeued"

definition run_committed :: manager where
  "run_committed = worker_commit sample_identity run_written"

definition run_stopping :: manager where
  "run_stopping = snd (finalizeOrReplay 6 7 (start_request ''q2'' ''a'') run_committed)"

definition run_draining :: manager where
  "run_draining = guarded (worker_dequeue 8 8 8) run_stopping"

definition sample_clock :: finalize_clock where
  "sample_clock = \<lparr>fc_check = (\<lambda>_. 9), fc_video = (\<lambda>_. 9), fc_sidecar = (\<lambda>_. 9), fc_monotonic = 9, fc_unix = 9\<rparr>"

definition run_finalized :: manager where
  "run_finalized = guarded (finalizeArtifacts sample_library sample_clock) run_draining"


text \<open>The values of these states.\<close>

definition staged :: "string \<Rightarrow> path" where "staged name = [''r'', ''.staging'', ''a'', name]"

lemma run_new_eq:
  "run_new = \<lparr>m_config = sample_config, m_store = [''r''], m_artifact_paths = no_paths,
     m_queue = ring_new 1, m_worker = None, m_writer = None,
     m_sidecar = None, m_recording_id = [], m_start_request_id = [], m_start_canonical = [],
     m_stop_request_id = [], m_stop_canonical = [], m_first_identity = default_FrameIdentity,
     m_last_identity = default_FrameIdentity, m_admitted_frame_count = 0,
     m_submitted_frame_count = 0, m_recording_drop_count = 0, m_contention_drop_count = 0,
     m_state = RS_IDLE, m_admitting = False, m_started_monotonic_ns = 0,
     m_started_unix_epoch_ns = 0, m_stopped_monotonic_ns = 0, m_stopped_unix_epoch_ns = 0,
     m_duration_deadline = 0, m_finalize_deadline = 0,
     m_stop_reason = SR_APPLICATION_SHUTDOWN, m_has_identity = False,
     m_stop_requested = False, m_world = sample_world\<rparr>"
  and run_new_ok: "RecordingManager_new sample_config sample_world = Inr run_new"
  by (simp_all add: run_new_def run_steps sample_defs cong: lazy_congs)

lemma run_started_value:
  "startOrReplay sample_library sample_env (start_request ''q1'' ''a'') run_new =
     Some (Inr SRES_STARTED, run_new
      \<lparr>m_artifact_paths := \<lparr>staging_directory = [''r'', ''.staging'', ''a''],
                            finalized_directory = [''r'', ''finalized'', ''a'']\<rparr>,
       m_worker := Some W_loop,
       m_writer := Some \<lparr>vw_config = \<lparr>vc_output_path = staged ''color.mp4'', vc_width = 2, vc_height = 2,
            vc_fps = 30, vc_bit_rate_bps = 1000, vc_preset = ''veryfast'', vc_tune = ''zerolatency''\<rparr>,
          vw_submitted_frame_count = 0, vw_header_written = True, vw_finalized = False, vw_sent = []\<rparr>,
       m_sidecar := Some \<lparr>sc_output = staged ''frames.jsonl'', sc_recording_id = ''a'',
          sc_sensor_frame = ''f'', sc_calibration_id = ''c'', sc_last_identity = default_FrameIdentity,
          sc_entry_count = 0, sc_has_identity = False, sc_finalized = False\<rparr>,
       m_recording_id := ''a'', m_start_request_id := ''q1'', m_start_canonical := ''c'',
       m_state := RS_RECORDING, m_admitting := True, m_started_monotonic_ns := 5,
       m_started_unix_epoch_ns := 6, m_duration_deadline := 1000000005,
       m_world := \<lparr>disk_of = \<lparr>nodes = [[''r''] \<mapsto> Dir, [''r'', ''.staging''] \<mapsto> Dir,
            [''r'', ''finalized''] \<mapsto> Dir, [''r'', ''.staging'', ''a''] \<mapsto> Dir,
            staged ''start_request.json'' \<mapsto> File ''c'', staged ''color.mp4'' \<mapsto> File [],
            staged ''frames.jsonl'' \<mapsto> File []], outcomes = [], space_available = 10\<rparr>, ffmpeg = []\<rparr>\<rparr>)"
  by (simp add: run_new_eq run_steps sample_defs staged_def cong: lazy_congs)

lemma run_started_ok:
  "startOrReplay sample_library sample_env (start_request ''q1'' ''a'') run_new = Some (Inr SRES_STARTED, run_started)"
  by (simp add: run_started_def run_started_value)

lemmas run_started_eq = run_started_def [unfolded run_started_value option.sel snd_conv, unfolded run_new_eq]

lemma run_admitted_ok: "trySubmitFrame True (Some sample_frame) run_started = (True, run_admitted)"
  and run_admitted_eq: "run_admitted = run_started
    \<lparr>m_queue := \<lparr>rg_slots = [Some sample_frame], rg_head = 0, rg_tail = 0, rg_count = 1\<rparr>,
     m_admitted_frame_count := 1\<rparr>"
  by (simp_all add: run_admitted_def run_started_eq run_steps sample_defs cong: lazy_congs)

lemmas run_admitted_val = run_admitted_eq [unfolded run_started_eq, simplified]

lemma run_dequeued_eq: "run_dequeued = run_admitted\<lparr>m_queue := ring_new 1, m_worker := Some (W_frame sample_frame)\<rparr>"
  by (simp add: run_dequeued_def run_admitted_val run_steps sample_defs cong: lazy_congs)

lemmas run_dequeued_val = run_dequeued_eq [unfolded run_admitted_val, simplified]

lemma run_written_eq: "run_written = run_dequeued
    \<lparr>m_worker := Some (W_commit sample_identity),
     m_writer := Some ((the (m_writer run_started))\<lparr>vw_submitted_frame_count := 1, vw_sent := [(0, sample_image)]\<rparr>),
     m_sidecar := Some ((the (m_sidecar run_started))\<lparr>sc_last_identity := sample_identity,
        sc_entry_count := 1, sc_has_identity := True\<rparr>),
     m_world := (m_world run_started)\<lparr>disk_of := (disk_of (m_world run_started))
        \<lparr>nodes := (nodes (disk_of (m_world run_started)))(staged ''frames.jsonl'' \<mapsto> File [CHR ''j'', CHR 0x0A])\<rparr>\<rparr>\<rparr>"
  by (simp add: run_written_def run_dequeued_val run_started_eq run_steps sample_defs
      staged_def cong: lazy_congs)

lemmas run_written_val = run_written_eq [unfolded run_dequeued_val run_started_eq, simplified]

lemma run_committed_eq: "run_committed = run_written
    \<lparr>m_first_identity := sample_identity, m_last_identity := sample_identity, m_has_identity := True,
     m_submitted_frame_count := 1, m_worker := Some W_loop\<rparr>"
  by (simp add: run_committed_def run_written_val worker_commit_def)

lemmas run_committed_val = run_committed_eq [unfolded run_written_val, simplified]

lemma run_stopping_value:
  "finalizeOrReplay 6 7 (start_request ''q2'' ''a'') run_committed = (Inr STOP_ACCEPTED, run_committed
    \<lparr>m_stop_request_id := ''q2'', m_stop_canonical := ''c'', m_state := RS_FINALIZING, m_admitting := False,
     m_finalize_deadline := 1000000006, m_stop_reason := SR_REQUESTED, m_stop_requested := True,
     m_world := (m_world run_committed)\<lparr>disk_of := (disk_of (m_world run_committed))
        \<lparr>nodes := (nodes (disk_of (m_world run_committed)))(staged ''stop_request.json'' \<mapsto> File ''c'')\<rparr>\<rparr>\<rparr>)"
  by (simp add: run_committed_val staged_def run_steps sample_defs cong: lazy_congs)

lemma run_stopping_ok:
  "finalizeOrReplay 6 7 (start_request ''q2'' ''a'') run_committed = (Inr STOP_ACCEPTED, run_stopping)"
  by (simp add: run_stopping_def run_stopping_value)

lemmas run_stopping_eq = run_stopping_def [unfolded run_stopping_value snd_conv]

lemmas run_stopping_val = run_stopping_eq [unfolded run_committed_val, simplified]

lemma run_draining_eq: "run_draining = run_stopping\<lparr>m_worker := Some W_finalize\<rparr>"
  by (simp add: run_draining_def run_stopping_val run_steps sample_defs cong: lazy_congs)

lemmas run_draining_val = run_draining_eq [unfolded run_stopping_val, simplified]

text \<open>
  The finalization, for any state, stop reason and stop request: the run below is continued from
  several of them.
\<close>

definition run_stop_fields :: "RecordingState \<Rightarrow> RecordingStopReason \<Rightarrow> string \<Rightarrow> string \<Rightarrow> manager" where
  "run_stop_fields st reason request canonical = run_draining
     \<lparr>m_state := st, m_stop_reason := reason, m_stop_request_id := request, m_stop_canonical := canonical\<rparr>"

definition run_closed :: "manager \<Rightarrow> manager" where
  "run_closed s = s
     \<lparr>m_writer := Some ((the (m_writer s))\<lparr>vw_finalized := True\<rparr>),
      m_sidecar := Some ((the (m_sidecar s))\<lparr>sc_finalized := True\<rparr>),
      m_state := RS_FINALIZED, m_worker := Some W_returned,
      m_stopped_monotonic_ns := 9, m_stopped_unix_epoch_ns := 9,
      m_world := (m_world s)\<lparr>disk_of := (disk_of (m_world s))\<lparr>nodes :=
        move_tree [''r'', ''.staging'', ''a''] [''r'', ''finalized'', ''a'']
          ((nodes (disk_of (m_world s)))(staged ''color.mp4'' \<mapsto> File ''m'',
             staged ''recording_manifest.json'' \<mapsto> File ''j''))\<rparr>\<rparr>\<rparr>"

lemma run_stop_fields_closed:
  "finalizeArtifacts sample_library sample_clock (run_stop_fields st reason request canonical) =
     (Inr (), run_closed (run_stop_fields st reason request canonical))"
  by (simp add: run_stop_fields_def run_closed_def run_draining_val staged_def sample_clock_def run_steps
      sample_defs cong: lazy_congs)

lemma run_finalized_ok: "finalizeArtifacts sample_library sample_clock run_draining = (Inr (), run_finalized)"
proof -
  have "run_draining = run_stop_fields RS_FINALIZING SR_REQUESTED ''q2'' ''c''"
    by (simp add: run_stop_fields_def run_draining_val)
  then show ?thesis
    using run_stop_fields_closed [of RS_FINALIZING SR_REQUESTED "''q2''" "''c''"]
    by (simp add: run_finalized_def guarded_def)
qed

section \<open>The sample run is reachable\<close>

lemma run_reachable:
  "reachable sample_library run_committed [sample_frame]"
  "reachable sample_library run_draining [sample_frame]"
proof -
  have 0: "reachable sample_library run_new []" by (rule reach_init [OF run_new_ok])
  have 1: "reachable sample_library run_started []"
    by (rule reach_step [OF 0]) (rule step_start_new [OF run_started_ok])
  have 2: "reachable sample_library run_admitted [sample_frame]"
    by (rule reach_step [OF 1]) (use step_submit [OF run_admitted_ok, of sample_library "[]"] in simp)
  have 3: "reachable sample_library run_dequeued [sample_frame]"
    unfolding run_dequeued_def
    by (rule reach_step [OF 2], rule step_dequeue)
       (simp_all add: run_admitted_val wait_ended_def)
  have 4: "reachable sample_library run_written [sample_frame]"
    unfolding run_written_def
    by (rule reach_step [OF 3], rule step_write) (simp add: run_dequeued_val)
  show 5: "reachable sample_library run_committed [sample_frame]"
    unfolding run_committed_def
    by (rule reach_step [OF 4], rule step_commit) (simp add: run_written_val)
  have 6: "reachable sample_library run_stopping [sample_frame]"
    by (rule reach_step [OF 5]) (rule step_stop [OF run_stopping_ok])
  show "reachable sample_library run_draining [sample_frame]"
    unfolding run_draining_def
    by (rule reach_step [OF 6], rule step_dequeue) (simp_all add: run_stopping_val wait_ended_def)
qed

end
