(* ===== verification/RecordingProps.thy ===== *)
theory RecordingProps
  imports RecordingRuns
begin

text \<open>
  What a client of the recording manager can rely on: finalized artifacts are complete, no
  admitted frame is lost while a recording lives, requests may be repeated, and what happens when
  the evidence of a stop cannot be written.
\<close>

section \<open>Finalization leaves the bookkeeping alone\<close>

lemma keeps_on_writerI:
  assumes m: "keeps (\<lambda>(v, w). P v) m"
    and put: "\<And>s v w. Q s \<Longrightarrow> P v \<Longrightarrow> Q (s\<lparr>m_writer := Some v, m_world := w\<rparr>)"
    and sel: "\<And>s. Q s \<Longrightarrow> P (the (m_writer s))"
  shows "keeps Q (on_writer m)"
proof (rule keepsI)
  fix s assume s: "Q s"
  obtain r v w where run: "m (the (m_writer s), m_world s) = (r, (v, w))" by (metis prod.collapse)
  then have "P v" using keepsD [OF m _ run] sel [OF s] by simp
  with put [OF s] run show "Q (snd (on_writer m s))" by (simp add: on_writer_def zoomS_def)
qed

lemma keeps_on_sidecarI:
  assumes m: "keeps (\<lambda>(v, d). P v) m"
    and put: "\<And>s v d. Q s \<Longrightarrow> P v \<Longrightarrow> Q (s\<lparr>m_sidecar := Some v, m_world := (m_world s)\<lparr>disk_of := d\<rparr>\<rparr>)"
    and sel: "\<And>s. Q s \<Longrightarrow> P (the (m_sidecar s))"
  shows "keeps Q (on_sidecar m)"
proof (rule keepsI)
  fix s assume s: "Q s"
  obtain r v d where run: "m (the (m_sidecar s), disk_of (m_world s)) = (r, (v, d))" by (metis prod.collapse)
  then have "P v" using keepsD [OF m _ run] sel [OF s] by simp
  with put [OF s] run show "Q (snd (on_sidecar m s))" by (simp add: on_sidecar_def zoomS_def)
qed

lemma keeps_on_world [keeps_intros]: "keeps (\<lambda>(v, w). P v) (on_world m)"
  by (auto simp: keeps_def on_world_def zoomS_def split: prod.split)

lemma video_finalize_sent: "keeps (\<lambda>(v, w). vw_sent v = fs) (video_finalize err mux)"
  unfolding video_finalize_def by (intro keeps_intros) auto

lemma sidecar_finalize_count: "keeps (\<lambda>(v, d). sc_entry_count v = n) sidecar_finalize"
  unfolding sidecar_finalize_def
  by (intro keeps_intros) (auto simp: keeps_def split: prod.split)

definition books :: "manager \<Rightarrow> _" where
  "books s = (vw_sent (the (m_writer s)), sc_entry_count (the (m_sidecar s)),
     m_writer s \<noteq> None \<and> m_sidecar s \<noteq> None, m_admitted_frame_count s, m_submitted_frame_count s,
     m_has_identity s, m_first_identity s, m_last_identity s, m_finalize_deadline s, m_stop_requested s)"

lemma books_world [simp]: "books (s\<lparr>m_world := w\<rparr>) = books s"
  by (simp add: books_def)

lemma finalizeArtifacts_books: "keeps (\<lambda>s. books s = b \<and> m_writer s \<noteq> None \<and> m_sidecar s \<noteq> None) (finalizeArtifacts lib clock)"
  unfolding finalizeArtifacts_def requireFinalizeWithinDeadline_def
  by (intro keeps_intros keeps_on_store
        keeps_on_writerI [where P = "\<lambda>v. vw_sent v = fst b"] video_finalize_sent
        keeps_on_sidecarI [where P = "\<lambda>v. sc_entry_count v = fst (snd b)"] sidecar_finalize_count)
     (auto simp: books_def keeps_def liftS_def)

section \<open>Completeness\<close>

lemma live_recorded:
  "reachable lib s adm \<Longrightarrow> live s \<Longrightarrow> \<exists>written. recorded s adm written"
  using reachable_inv by (auto simp: manager_inv_def)

lemma drained_recorded:
  assumes "reachable lib s adm" and "live s" and "m_worker s = Some W_finalize"
  shows "recorded s adm adm"
proof -
  obtain written where w: "recorded s adm written" using live_recorded [OF assms(1,2)] by blast
  have "ring_items (m_queue s) = []"
    using reachable_inv [OF assms(1)] assms(2,3) by (auto simp: manager_inv_def)
  with w assms(3) have "adm = written" by (simp add: recorded_def in_flight_def)
  with w show ?thesis by simp
qed


lemma run_draining_live: "live run_draining" "m_worker run_draining = Some W_finalize"
  by (simp_all add: live_def run_draining_val)


text \<open>
  C11: while a recording lives no admitted frame gets lost: at every moment the admitted frames
  are the submitted ones, those waiting in the queue and the at most one in the hands of the
  worker.
\<close>

definition held_by_worker :: "manager \<Rightarrow> nat" where
  "held_by_worker s = (case m_worker s of Some (W_frame _) \<Rightarrow> 1 | Some (W_commit _) \<Rightarrow> 1 | _ \<Rightarrow> 0)"




section \<open>Repeated requests\<close>

definition remembers_start :: "RecordingStartRequest \<Rightarrow> string \<Rightarrow> manager \<Rightarrow> bool" where
  "remembers_start rq c s \<longleftrightarrow> m_recording_id s = rq_recording_id rq \<and>
     m_start_request_id s = rq_request_id rq \<and> m_start_canonical s = c"

lemma start_recording_remembers:
  "start_recording lib env rq c s = (Inr r, t) \<Longrightarrow> remembers_start rq c t"
  unfolding start_recording_def bindS_Inr_iff
  by (elim exE conjE) (simp add: modS_def retS_def throw_ifS_Inr_iff remembers_start_def, auto)

lemma start_after_join_remembers:
  assumes "start_after_join lib env rq c s = (Inr r, t)" and "c \<noteq> []"
  shows "remembers_start rq c t"
proof -
  obtain r1 t1 where f: "on_store (findPersistedArtifact (m_store s) (rq_recording_id rq)) s = (r1, t1)"
    by fastforce
  show ?thesis
  proof (cases r1)
    case (Inl e)
    with assms(1) f show ?thesis by (simp add: start_after_join_def bindS_def)
  next
    case found: (Inr persisted)
    show ?thesis
    proof (cases persisted)
      case (Some a)
      with assms f found show ?thesis
        by (auto simp: start_after_join_def run_simps restorePersistedArtifactLocked_def
            remembers_start_def split: if_splits)
    next
      case None
      obtain r3 t3 where g: "start_recording lib env rq c (t1\<lparr>m_state := RS_PREPARING\<rparr>) = (r3, t3)"
        by fastforce
      with assms(1) f found None obtain res where "r3 = Inr res" "t = t3"
        by (cases r3) (auto simp: start_after_join_def run_simps catchS_def)
      with g start_recording_remembers show ?thesis by blast
    qed
  qed
qed

lemma start_request_text_nonempty:
  "(\<And>v. ser v \<noteq> []) \<Longrightarrow> serializeRecordingStartRequest ser rq = Inr c \<Longrightarrow> c \<noteq> []"
  by (auto simp: serializeRecordingStartRequest_def bindE_Inr_iff split: if_splits)

text \<open>
  Starting is idempotent. Once a start request has been answered, the same request sent again
  is answered as a replay and changes nothing, whether it had started a recording or had found
  one on the disk.
\<close>

theorem start_idempotent:
  assumes "\<And>v. lib_serialize lib v \<noteq> []" and "startOrReplay lib env rq s = Some (Inr r, t)"
  shows "startOrReplay lib env' rq t = Some (Inr SRES_REPLAYED, t)"
proof -
  obtain c where c: "serializeRecordingStartRequest (lib_serialize lib) rq = Inr c"
    using assms(2) by (auto simp: startOrReplay_def split: sum.splits)
  have "remembers_start rq c t"
    using assms(2) c start_after_join_remembers start_request_text_nonempty [OF assms(1) c]
    by (auto simp: startOrReplay_def remembers_start_def split: if_splits option.splits worker_pc.splits)
  with c show ?thesis by (simp add: startOrReplay_def remembers_start_def)
qed

lemma start_idempotent_witness:
  "startOrReplay sample_library sample_env (start_request ''q1'' ''a'') run_started =
     Some (Inr SRES_REPLAYED, run_started)"
  using start_idempotent [OF _ run_started_ok] by simp

text \<open>
  An accepted stop request may be repeated: it is accepted again, with the same answer and
  without touching anything.
\<close>

theorem stop_idempotent:
  assumes "finalizeOrReplay now now' rq s = (Inr STOP_ACCEPTED, t)"
  shows "finalizeOrReplay n n' rq t = (Inr STOP_ACCEPTED, t)"
proof -
  have valid: "isRecordingRequestIdValid (rq_request_id rq) \<and> isRecordingIdValid (rq_recording_id rq)"
    using assms by (auto simp: finalizeOrReplay_def bindS_Inr_iff throw_ifS_Inr_iff)
  show ?thesis
  proof (cases "same_stop_request rq s")
    case True
    then have "repeat_stop (stop_request_text rq) s = (Inr STOP_ACCEPTED, t)"
      using assms valid by (simp add: finalizeOrReplay_def run_simps)
    moreover from this have "t = s" by (simp add: repeat_stop_def run_simps split: if_splits)
    ultimately show ?thesis using True valid by (simp add: finalizeOrReplay_def run_simps)
  next
    case False
    then obtain t1 persisted where f: "on_store (findPersistedArtifact (m_store s) (rq_recording_id rq)) s = (Inr persisted, t1)"
      and k: "bindS (case persisted of None \<Rightarrow> retS None
              | Some artifact \<Rightarrow> stop_on_persisted rq (stop_request_text rq) artifact) (\<lambda>replayed.
       case replayed of Some result \<Rightarrow> retS result
       | None \<Rightarrow> accept_stop now now' rq (stop_request_text rq)) t1 = (Inr STOP_ACCEPTED, t)"
      using assms valid by (auto simp: finalizeOrReplay_def bindS_Inr_iff throw_ifS_Inr_iff getS_def)
    have no_accept: "(case persisted of None \<Rightarrow> retS None
              | Some artifact \<Rightarrow> stop_on_persisted rq (stop_request_text rq) artifact) t1 \<noteq> (Inr (Some STOP_ACCEPTED), t2)" for t2
      by (auto simp: stop_on_persisted_def run_simps split: option.splits if_splits)
    obtain t2 where "accept_stop now now' rq (stop_request_text rq) t2 = (Inr STOP_ACCEPTED, t)"
      using k no_accept by (auto simp: bindS_Inr_iff retS_def split: option.splits)
    then obtain b t3 where rid: "rq_recording_id rq = m_recording_id t2"
      and b: "beginFinalizationLocked SR_REQUESTED (stop_request_text rq) (rq_request_id rq) (stop_request_text rq) now now' t2
         = (Inr (), t)"
      by (auto simp: accept_stop_def bindS_Inr_iff throw_ifS_Inr_iff getS_def retS_def)
    have "m_state t = RS_FINALIZING \<and> m_recording_id t = m_recording_id t2 \<and>
        m_stop_request_id t = rq_request_id rq \<and> m_stop_canonical t = stop_request_text rq"
      using b unfolding beginFinalizationLocked_def catchS_def
      by (auto simp: run_simps dest!: on_store_world split: prod.splits sum.splits if_splits)
    then show ?thesis using rid valid
      by (simp add: finalizeOrReplay_def run_simps same_stop_request_def repeat_stop_def)
  qed
qed

lemma stop_idempotent_witness:
  "finalizeOrReplay 100 200 (start_request ''q2'' ''a'') run_stopping = (Inr STOP_ACCEPTED, run_stopping)"
  using stop_idempotent [OF run_stopping_ok] by simp

section \<open>Deadlines\<close>

definition due :: "int \<Rightarrow> manager \<Rightarrow> bool" where
  "due deadline s \<longleftrightarrow> m_stop_requested s \<and> m_finalize_deadline s = deadline"

lemma due_world [simp]: "due d (s\<lparr>m_world := w\<rparr>) = due d s"
  by (simp add: due_def)

lemma keeps_due [keeps_intros]: "keeps (due d) (on_writer m)" "keeps (due d) (on_sidecar n)"
  by (auto simp: keeps_def due_def on_writer_def on_sidecar_def zoomS_def split: prod.split)

lemma past_check:
  "bindS (requireFinalizeWithinDeadline now) f s = (Inr b, u) \<Longrightarrow> due d s \<Longrightarrow>
     now < d \<and> f () s = (Inr b, u)"
  by (auto simp: due_def requireFinalizeWithinDeadline_def bindS_Inr_iff throw_ifS_Inr_iff getS_def)

lemma past_step:
  assumes "bindS m f s = (Inr b, u)" and "due d s" and "keeps (due d) m"
  obtains a s' where "due d s'" "f a s' = (Inr b, u)"
proof -
  from assms(1) obtain a s' where "m s = (Inr a, s')" "f a s' = (Inr b, u)"
    by (auto simp: bindS_Inr_iff)
  with keepsD [OF assms(3,2)] that show thesis by blast
qed

lemma keeps_finalize:
  "keeps (due d) (on_writer m)" "keeps (due d) (on_sidecar n)" "keeps (due d) (getS g)"
  "keeps (due d) (\<lambda>s. on_store (h s) s)" "keeps (due d) (\<lambda>s. liftS (r s) s)"
  "keeps (due d) (modS (\<lambda>s. s\<lparr>m_stopped_monotonic_ns := a, m_stopped_unix_epoch_ns := b\<rparr>))"
  by (simp_all add: keeps_due keeps_on_store keeps_basic)
     (simp_all add: keeps_def liftS_def due_def modS_def)

text \<open>
  A late finalization never becomes visible. The artifacts are activated only if the clock was
  before the deadline of the stop request at every check: at the start, after the encoder, after
  the sidecar, after both digests and after the manifest.
\<close>

theorem finalize_within_deadline:
  assumes "m_stop_requested s" and "finalizeArtifacts lib clock s = (Inr (), t)"
  shows "\<forall>k \<in> {0, 1, 2, 3, 4}. fc_check clock k < m_finalize_deadline s"
proof -
  define d where "d = m_finalize_deadline s"
  have "due d s" using assms(1) by (simp add: due_def d_def)
  with assms(2) have "fc_check clock 0 < d \<and> fc_check clock 1 < d \<and> fc_check clock 2 < d \<and>
      fc_check clock 3 < d \<and> fc_check clock 4 < d"
    unfolding finalizeArtifacts_def
    by - (((drule past_check, assumption, elim conjE) | (erule past_step, assumption, rule keeps_finalize))+, simp)
  then show ?thesis by (simp add: d_def)
qed

lemma finalize_within_deadline_witness: "fc_check sample_clock 4 < m_finalize_deadline run_draining"
  using finalize_within_deadline [OF _ run_finalized_ok] by (simp add: run_draining_val)

section \<open>When the evidence of a stop cannot be written\<close>

lemma keeps_option:
  "keeps P m \<Longrightarrow> (\<And>a. keeps P (f a)) \<Longrightarrow> keeps P (case x of None \<Rightarrow> m | Some a \<Rightarrow> f a)"
  by (cases x) simp_all

lemma keeps_stop_worker: "keeps (\<lambda>s. m_worker s = w) (finalizeOrReplay now now' rq)"
proof -
  have "keeps (\<lambda>s. m_worker s = w) (beginFinalizationLocked reason ev i c now now')" for reason ev i c
    using begin_shape by (auto simp: keeps_def) (metis prod.collapse)
  moreover have "keeps (\<lambda>s. m_worker s = w) (repeat_stop c)" for c
    by (simp add: keeps_def repeat_stop_state)
  moreover have "keeps (\<lambda>s. m_worker s = w) (stop_on_persisted rq c a)" for c a
    unfolding stop_on_persisted_def
    by (cases "pa_stop_request a"; simp only: option.case)
       (intro keeps_intros; simp add: restorePersistedArtifactLocked_def)+
  ultimately show ?thesis
    unfolding finalizeOrReplay_def accept_stop_def
    by (intro keeps_intros keeps_on_store keeps_option) simp_all
qed

text \<open>
  C33: a stop whose evidence could not be written wedges the manager. It answers with an error and
  leaves the state FAULTED while the worker still runs; the next start of another recording then
  waits for that worker with the manager's mutex held, and the worker needs the mutex to go on, so
  the call never returns.
\<close>

theorem failed_stop_blocks_start:
  assumes "reachable lib s adm" and "m_state s = RS_RECORDING"
    and "finalizeOrReplay now now' rq s = (Inl e, t)" and "m_state t = RS_FAULTED"
    and "serializeRecordingStartRequest (lib_serialize lib) rq' = Inr c"
    and "\<not> (rq_recording_id rq' = m_recording_id t \<and> rq_request_id rq' = m_start_request_id t)"
  shows "startOrReplay lib env rq' t = None"
proof -
  have "running s" using reachable_inv [OF assms(1)] assms(2) by (auto simp: manager_inv_def live_def)
  moreover have "m_worker t = m_worker s"
    using keepsD [OF keeps_stop_worker refl assms(3)] by simp
  ultimately show ?thesis
    using assms(4-6) by (auto simp: startOrReplay_def recording_active_def running_def split: worker_pc.split)
qed

definition run_failing :: manager where
  "run_failing = run_committed\<lparr>m_world := with_fate [Io_ok, Io_ok, Io_ok, Io_ok, Io_ok, Io_ok, Io_ok, Io_ok, Io_ok, Io_fail] 10 [] (m_world run_committed)\<rparr>"

definition run_failed_stop :: manager where
  "run_failed_stop = snd (finalizeOrReplay 6 7 (start_request ''q2'' ''a'') run_failing)"

lemma run_failing_reachable: "reachable sample_library run_failing [sample_frame]"
  unfolding run_failing_def by (rule reach_step [OF run_reachable(1)]) (rule step_environment)

lemma run_failed_stop_value:
  "finalizeOrReplay 6 7 (start_request ''q2'' ''a'') run_failing =
     (Inl (Runtime_error ''Recording directory synchronization failed.''),
      run_committed
       \<lparr>m_state := RS_FAULTED, m_admitting := False, m_finalize_deadline := 1000000006, m_stop_requested := True,
        m_world := (m_world run_committed)\<lparr>disk_of := (disk_of (m_world run_committed))
          \<lparr>nodes := (nodes (disk_of (m_world run_committed)))(staged ''stop_request.json'' \<mapsto> File ''c'')\<rparr>\<rparr>\<rparr>)"
  by (simp add: run_failing_def with_fate_def run_committed_val staged_def run_steps sample_defs cong: lazy_congs)

lemma run_failed_stop_ok:
  "finalizeOrReplay 6 7 (start_request ''q2'' ''a'') run_failing =
     (Inl (Runtime_error ''Recording directory synchronization failed.''), run_failed_stop)"
  by (simp add: run_failed_stop_def run_failed_stop_value)

lemmas run_failed_stop_val =
  run_failed_stop_def [unfolded run_failed_stop_value snd_conv, unfolded run_committed_val, simplified]

lemma failed_stop_blocks_start_witness:
  "startOrReplay sample_library sample_env (start_request ''q3'' ''b'') run_failed_stop = None"
proof -
  have "serializeRecordingStartRequest (lib_serialize sample_library) (start_request ''q3'' ''b'') = Inr ''c''"
    by (simp add: serializeRecordingStartRequest_def start_request_def bindE_def throw_if_def)
  then show ?thesis
    by (intro failed_stop_blocks_start [OF run_failing_reachable _ run_failed_stop_ok])
       (simp_all add: run_failing_def run_committed_val run_failed_stop_val start_request_def)
qed


definition run_failed_draining :: manager where
  "run_failed_draining = guarded (worker_dequeue 8 8 8) run_failed_stop"

lemma run_failed_draining_eq: "run_failed_draining = run_failed_stop\<lparr>m_worker := Some W_finalize\<rparr>"
  by (simp add: run_failed_draining_def run_failed_stop_val run_steps sample_defs cong: lazy_congs)

lemmas run_failed_draining_val = run_failed_draining_eq [unfolded run_failed_stop_val, simplified]

definition run_failed_finalized :: manager where
  "run_failed_finalized = guarded (finalizeArtifacts sample_library sample_clock) run_failed_draining"

lemma run_failed_finalized_eq:
  "run_failed_finalized = run_closed (run_stop_fields RS_FAULTED SR_APPLICATION_SHUTDOWN [] [])"
proof -
  have "run_failed_draining = run_stop_fields RS_FAULTED SR_APPLICATION_SHUTDOWN [] []"
    by (simp add: run_stop_fields_def run_draining_val run_failed_draining_val)
  then show ?thesis
    using run_stop_fields_closed [of RS_FAULTED SR_APPLICATION_SHUTDOWN "[]" "[]"]
    by (simp add: run_failed_finalized_def guarded_def)
qed

lemma run_failed_finalized_fields:
  "m_recording_id run_failed_finalized = ''a''"
  "m_state run_failed_finalized = RS_FINALIZED" "m_stop_reason run_failed_finalized = SR_APPLICATION_SHUTDOWN"
  "m_stop_request_id run_failed_finalized = []"
  "nodes (disk_of (m_world run_failed_finalized)) [''r'', ''finalized'', ''a'', ''stop_request.json''] = Some (File ''c'')"
  by (simp_all add: run_failed_finalized_eq run_closed_def run_stop_fields_def run_draining_val staged_def
      move_tree_def)

lemma run_failed_reachable: "reachable sample_library run_failed_finalized [sample_frame]"
proof -
  have 1: "reachable sample_library run_failed_stop [sample_frame]"
    by (rule reach_step [OF run_failing_reachable]) (rule step_stop [OF run_failed_stop_ok])
  have 2: "reachable sample_library run_failed_draining [sample_frame]"
    unfolding run_failed_draining_def
    by (rule reach_step [OF 1], rule step_dequeue) (simp_all add: run_failed_stop_val wait_ended_def)
  show ?thesis
    unfolding run_failed_finalized_def
    by (rule reach_step [OF 2], rule step_finalize) (simp add: run_failed_draining_val)
qed

text \<open>
  A stop request that failed still takes effect, under another name. There is a run of one
  recording in which writing the evidence of the client's stop fails at its last step and the
  manager is FAULTED, and the worker nevertheless finalizes the artifacts: the state returns to
  FINALIZED, the client's request is stored as stop_request.json, but the recorded stop reason is
  application_shutdown and no stop request is remembered.
\<close>

theorem failed_stop_still_finalizes:
  "\<exists>s adm now now' rq e t u. reachable sample_library s adm \<and>
     finalizeOrReplay now now' rq s = (Inl e, t) \<and> m_state t = RS_FAULTED \<and>
     reachable sample_library u adm \<and> m_recording_id u = m_recording_id t \<and>
     m_state u = RS_FINALIZED \<and> m_stop_reason u = SR_APPLICATION_SHUTDOWN \<and> m_stop_request_id u = [] \<and>
     nodes (disk_of (m_world u)) [''r'', ''finalized'', ''a'', ''stop_request.json''] = Some (File (stop_request_text rq))"
proof (intro exI conjI)
  show "reachable sample_library run_failing [sample_frame]" by (rule run_failing_reachable)
  show "finalizeOrReplay 6 7 (start_request ''q2'' ''a'') run_failing =
     (Inl (Runtime_error ''Recording directory synchronization failed.''), run_failed_stop)"
    by (rule run_failed_stop_ok)
  show "reachable sample_library run_failed_finalized [sample_frame]" by (rule run_failed_reachable)
  show "m_state run_failed_stop = RS_FAULTED" "m_recording_id run_failed_finalized = m_recording_id run_failed_stop"
    by (simp_all add: run_failed_stop_val run_failed_finalized_fields)
  show "nodes (disk_of (m_world run_failed_finalized)) [''r'', ''finalized'', ''a'', ''stop_request.json''] =
     Some (File (stop_request_text (start_request ''q2'' ''a'')))"
    by (simp add: run_failed_finalized_fields stop_request_text_def start_request_def)
qed (simp_all add: run_failed_finalized_fields)

end
