(* ===== verification/FakeCamera.thy ===== *)
theory FakeCamera
  imports FrameStore Effects Ieee "HOL-Library.Signed_Division"
begin

text \<open>
  The deterministic RGBD camera (\<^verbatim>\<open>src/adapters/fake/fake_camera_adapter.cpp\<close>): its frames
  with the three depth queries, and the adapter's lifecycle. \<^verbatim>\<open>std::sort\<close> does not fix the
  order of samples with equal depth, so the sorting step is the parameter \<open>sort_samples\<close>; the
  facts that depend on it assume what the standard promises (\<open>sorts_by_depth\<close>).
\<close>

section \<open>Library steps\<close>

text \<open>\<^verbatim>\<open>vector.at(i)\<close>, the index converted to \<^verbatim>\<open>std::size_t\<close>.\<close>

definition vec_at :: "'a list \<Rightarrow> int \<Rightarrow> 'a result" where
  "vec_at xs i = (if 0 \<le> i \<and> i < int (length xs) then Inr (xs ! nat i)
     else Inl (Out_of_range ''vector::_M_range_check''))"

definition clamp :: "int \<Rightarrow> int \<Rightarrow> int \<Rightarrow> int" where
  "clamp v lo hi = (if v < lo then lo else if hi < v then hi else v)"

text \<open>The values of a counter in \<^verbatim>\<open>for (i = from; i < limit; i += step)\<close>; steps are positive.\<close>

function counter_values :: "int \<Rightarrow> int \<Rightarrow> int \<Rightarrow> int list" where
  "counter_values i limit step =
     (if i < limit \<and> 0 < step then i # counter_values (i + step) limit step else [])"
  by pat_completeness auto

termination
  by (relation "measure (\<lambda>(i, limit, step). nat (limit - i))") auto

declare counter_values.simps [simp del]

section \<open>Frames\<close>

definition DEPTH_BASE_M :: f32 where "DEPTH_BASE_M = 0x3F800000"
definition DEPTH_X_STEP_M :: f32 where "DEPTH_X_STEP_M = 0x3DCCCCCD"
definition DEPTH_Y_STEP_M :: f32 where "DEPTH_Y_STEP_M = 0x3E4CCCCD"
definition INTRINSIC_FOCAL_LENGTH :: f32 where "INTRINSIC_FOCAL_LENGTH = 0x42C80000"
definition NS_PER_SECOND :: int where "NS_PER_SECOND = 1000000000"

definition deproject :: "CameraIntrinsics \<Rightarrow> int \<Rightarrow> int \<Rightarrow> f32 \<Rightarrow> f32 \<times> f32 \<times> f32" where
  "deproject intrinsics pixel_x pixel_y depth_m =
     (f32_div (f32_mul (f32_sub (f32_of_int pixel_x) (in_ppx intrinsics)) depth_m) (in_fx intrinsics),
      f32_div (f32_mul (f32_sub (f32_of_int pixel_y) (in_ppy intrinsics)) depth_m) (in_fy intrinsics),
      depth_m)"

definition countSampleSlots :: "int \<Rightarrow> int \<Rightarrow> int \<Rightarrow> int" where
  "countSampleSlots width height stride_pixels =
     ((width + stride_pixels - 1) sdiv stride_pixels) * ((height + stride_pixels - 1) sdiv stride_pixels)"

record FakeCapturedFrame =
  fk_snapshot :: FrameSnapshot
  fk_color :: "u8 list"
  fk_depth_preview :: "u8 list"
  fk_depth :: "f32 list"

abbreviation fk_width :: "FakeCapturedFrame \<Rightarrow> int" where
  "fk_width f \<equiv> sp_width (fs_depth_profile (fk_snapshot f))"
abbreviation fk_height :: "FakeCapturedFrame \<Rightarrow> int" where
  "fk_height f \<equiv> sp_height (fs_depth_profile (fk_snapshot f))"

definition fake_getColorFrameView :: "FakeCapturedFrame \<Rightarrow> VideoFrameView option" where
  "fake_getColorFrameView f =
     (if \<not> fs_has_color (fk_snapshot f) then None
      else Some \<lparr>vf_width = sp_width (fs_color_profile (fk_snapshot f)),
                 vf_height = sp_height (fs_color_profile (fk_snapshot f)),
                 vf_stride_bytes = sp_width (fs_color_profile (fk_snapshot f)) * 3,
                 vf_format = PF_RGB8, vf_owner = True, vf_data = Some (fk_color f),
                 vf_identity = fs_identity (fk_snapshot f)\<rparr>)"

definition fake_getDepthPreviewFrameView :: "FakeCapturedFrame \<Rightarrow> VideoFrameView option" where
  "fake_getDepthPreviewFrameView f =
     Some \<lparr>vf_width = fk_width f, vf_height = fk_height f, vf_stride_bytes = fk_width f * 3,
           vf_format = PF_RGB8, vf_owner = True, vf_data = Some (fk_depth_preview f),
           vf_identity = fs_identity (fk_snapshot f)\<rparr>"

definition fake_queryPixelPoint :: "FakeCapturedFrame \<Rightarrow> int \<Rightarrow> int \<Rightarrow> PixelPointResult option result" where
  "fake_queryPixelPoint f pixel_x pixel_y =
     (let r = default_PixelPointResult\<lparr>pp_identity := fs_identity (fk_snapshot f),
                pp_pixel_x := pixel_x, pp_pixel_y := pixel_y\<rparr>
      in if pixel_x < 0 \<or> pixel_y < 0 \<or> pixel_x \<ge> fk_width f \<or> pixel_y \<ge> fk_height f
         then Inr (Some (r\<lparr>pp_invalid_reason := ''pixel_out_of_bounds''\<rparr>))
         else bindE (vec_at (fk_depth f) (pixel_y * fk_width f + pixel_x)) (\<lambda>depth_m.
           Inr (Some (if f32_le depth_m 0 then r\<lparr>pp_invalid_reason := ''invalid_depth''\<rparr>
             else r\<lparr>pp_valid := True, pp_depth_m := depth_m,
                    pp_optical_point_m := deproject (fs_depth_intrinsics (fk_snapshot f)) pixel_x pixel_y depth_m\<rparr>))))"

type_synonym sample = "f32 \<times> int \<times> int"

definition roi_pixels :: "int \<Rightarrow> int \<Rightarrow> int \<Rightarrow> int \<Rightarrow> (int \<times> int) list" where
  "roi_pixels min_x min_y max_x max_y =
     concat (map (\<lambda>y. map (\<lambda>x. (x, y)) (counter_values min_x max_x 1)) (counter_values min_y max_y 1))"

definition sample_at :: "FakeCapturedFrame \<Rightarrow> int \<times> int \<Rightarrow> sample result" where
  "sample_at f = (\<lambda>(x, y). bindE (vec_at (fk_depth f) (y * fk_width f + x)) (\<lambda>depth_m. Inr (depth_m, x, y)))"

definition roi_of_samples ::
  "(sample list \<Rightarrow> sample list) \<Rightarrow> CameraIntrinsics \<Rightarrow> RoiDepthResult \<Rightarrow> sample list \<Rightarrow> RoiDepthResult"
where
  "roi_of_samples sort_samples intrinsics r samples =
     (let r = r\<lparr>rd_mean_depth_m := foldl (\<lambda>mean s. f32_add mean (fst s)) 0 samples,
               rd_valid_pixel_count := word_of_nat (length samples),
               rd_fill_rate := (if rd_pixel_count r = 0 then 0
                 else f32_div (f32_of_int (int (length samples))) (f32_of_int (uint (rd_pixel_count r))))\<rparr>
      in if samples = [] then r
         else let sorted_samples = sort_samples samples;
                  (median, x, y) = sorted_samples ! (length sorted_samples div 2)
              in r\<lparr>rd_valid := True,
                   rd_min_depth_m := fst (hd sorted_samples), rd_max_depth_m := fst (last sorted_samples),
                   rd_mean_depth_m := f32_div (rd_mean_depth_m r) (f32_of_int (int (length samples))),
                   rd_median_depth_m := median, rd_median_pixel_x := x, rd_median_pixel_y := y,
                   rd_median_optical_point_m := deproject intrinsics x y median\<rparr>)"

definition fake_queryDepthInRoi ::
  "(sample list \<Rightarrow> sample list) \<Rightarrow> FakeCapturedFrame \<Rightarrow> int \<Rightarrow> int \<Rightarrow> int \<Rightarrow> int \<Rightarrow> RoiDepthResult result"
where
  "fake_queryDepthInRoi sort_samples f pixel_x pixel_y width height =
     bindE (throw_if (width \<le> 0 \<or> height \<le> 0)
              (Invalid_argument ''ROI width and height must be positive.'')) (\<lambda>_.
     let min_x = clamp pixel_x 0 (fk_width f);
         min_y = clamp pixel_y 0 (fk_height f);
         max_x = clamp (pixel_x + width) 0 (fk_width f);
         max_y = clamp (pixel_y + height) 0 (fk_height f);
         clamped = \<lparr>roi_x = min_x, roi_y = min_y, roi_width = max 0 (max_x - min_x),
                    roi_height = max 0 (max_y - min_y)\<rparr>;
         r = default_RoiDepthResult\<lparr>rd_identity := fs_identity (fk_snapshot f),
               rd_requested_roi := \<lparr>roi_x = pixel_x, roi_y = pixel_y, roi_width = width, roi_height = height\<rparr>,
               rd_clamped_roi := clamped,
               rd_pixel_count := word_of_int (roi_width clamped) * word_of_int (roi_height clamped)\<rparr>
     in bindE (mapE (sample_at f) (roi_pixels min_x min_y max_x max_y)) (\<lambda>visited.
     Inr (roi_of_samples sort_samples (fs_depth_intrinsics (fk_snapshot f)) r
            (filter (\<lambda>s. f32_less 0 (fst s)) visited))))"

lemma sdiv_nonneg: "0 \<le> a \<Longrightarrow> 0 < b \<Longrightarrow> a sdiv b = a div (b :: int)"
  by (cases "a = 0") (simp_all add: signed_divide_int_def sgn_if)

lemma sdiv_neg: "a < 0 \<Longrightarrow> 0 < b \<Longrightarrow> a sdiv b = - ((- a) div (b :: int))"
  by (simp add: signed_divide_int_def sgn_if)

lemma slots_one:
  assumes "\<bar>d\<bar> < s" "0 < s"
  shows "(d + s - 1) sdiv s \<in> {0, 1 :: int}"
proof (cases "0 \<le> d + s - 1")
  case True
  have "(d + s - 1) div s \<in> {0, 1}"
  proof (cases "d \<le> 0")
    case True
    with \<open>0 \<le> d + s - 1\<close> assms show ?thesis by (simp add: div_pos_pos_trivial)
  next
    case False
    then have "(d + s - 1) div s = 1 + (d - 1) div s"
      using assms by (metis add.commute add_diff_eq div_add_self1 less_irrefl diff_add_eq)
    also have "(d - 1) div s = 0" using False assms by (simp add: div_pos_pos_trivial)
    finally show ?thesis by simp
  qed
  with True assms show ?thesis by (simp add: sdiv_nonneg)
next
  case False
  with assms show ?thesis by (simp add: sdiv_neg div_pos_pos_trivial)
qed

lemma countSampleSlots_wide: "\<bar>w\<bar> < s \<Longrightarrow> \<bar>h\<bar> < s \<Longrightarrow> countSampleSlots w h s \<le> 1"
  using slots_one [of w s] slots_one [of h s] abs_ge_zero [of w] by (fastforce simp: countSampleSlots_def)

text \<open>
  The search for the stride. The code has rejected \<open>max_points = 0\<close> and non-positive strides before
  this loop; the tests of them here make it total.
\<close>

function effective_stride :: "int \<Rightarrow> int \<Rightarrow> nat \<Rightarrow> int \<Rightarrow> int" where
  "effective_stride width height max_points stride =
     (if 0 < max_points \<and> 0 < stride \<and> int max_points < countSampleSlots width height stride
      then effective_stride width height max_points (stride + 1) else stride)"
  by pat_completeness auto

termination
proof (relation "measure (\<lambda>(w, h, _, s). nat (1 + max \<bar>w\<bar> \<bar>h\<bar> - s))")
  fix width height stride :: int and max_points :: nat
  assume a: "0 < max_points \<and> 0 < stride \<and> int max_points < countSampleSlots width height stride"
  have "\<not> (\<bar>width\<bar> < stride \<and> \<bar>height\<bar> < stride)"
    using a countSampleSlots_wide [of width stride height] by auto
  then show "((width, height, max_points, stride + 1), (width, height, max_points, stride))
      \<in> measure (\<lambda>(w, h, _, s). nat (1 + max \<bar>w\<bar> \<bar>h\<bar> - s))"
    by auto
qed simp

declare effective_stride.simps [simp del]

definition cloud_point :: "FakeCapturedFrame \<Rightarrow> int \<times> int \<Rightarrow> PointCloudPoint option result" where
  "cloud_point f = (\<lambda>(x, y).
     bindE (vec_at (fk_depth f) (y * fk_width f + x)) (\<lambda>depth_m.
     if f32_le depth_m 0 then Inr None
     else let color_index = (y * sp_width (fs_color_profile (fk_snapshot f)) + x) * 3 in
       bindE (vec_at (fk_color f) color_index) (\<lambda>r.
       bindE (vec_at (fk_color f) (color_index + 1)) (\<lambda>g.
       bindE (vec_at (fk_color f) (color_index + 2)) (\<lambda>b.
       Inr (Some \<lparr>pt_optical_point_m = deproject (fs_depth_intrinsics (fk_snapshot f)) x y depth_m,
                  pt_color_rgb = (r, g, b)\<rparr>))))))"

definition sampled_pixels :: "int \<Rightarrow> int \<Rightarrow> int \<Rightarrow> (int \<times> int) list" where
  "sampled_pixels width height stride =
     concat (map (\<lambda>y. map (\<lambda>x. (x, y)) (counter_values 0 width stride)) (counter_values 0 height stride))"

definition fake_buildPointCloudSnapshot :: "FakeCapturedFrame \<Rightarrow> nat \<Rightarrow> int \<Rightarrow> PointCloudSnapshot result" where
  "fake_buildPointCloudSnapshot f max_points stride_pixels =
     bindE (throw_if (max_points = 0 \<or> stride_pixels \<le> 0)
              (Invalid_argument ''Point cloud bounds must be positive.'')) (\<lambda>_.
     let stride = effective_stride (fk_width f) (fk_height f) max_points stride_pixels
     in bindE (mapE (cloud_point f) (sampled_pixels (fk_width f) (fk_height f) stride)) (\<lambda>points.
     Inr (default_PointCloudSnapshot
       \<lparr>pc_identity := fs_identity (fk_snapshot f), pc_source_profile := fs_depth_profile (fk_snapshot f),
        pc_source_intrinsics := fs_depth_intrinsics (fk_snapshot f),
        pc_requested_stride_pixels := stride_pixels, pc_stride_pixels := stride,
        pc_points := List.map_filter id points\<rparr>)))"

text \<open>The frame behind its abstract class.\<close>

definition as_captured :: "(sample list \<Rightarrow> sample list) \<Rightarrow> FakeCapturedFrame \<Rightarrow> CapturedFrame" where
  "as_captured sort_samples f =
     \<lparr>getSnapshot = fk_snapshot f, getColorFrameView = fake_getColorFrameView f,
      getDepthPreviewFrameView = fake_getDepthPreviewFrameView f,
      queryPixelPoint = fake_queryPixelPoint f, queryDepthInRoi = fake_queryDepthInRoi sort_samples f,
      buildPointCloudSnapshot = fake_buildPointCloudSnapshot f\<rparr>"

section \<open>The adapter\<close>

record FakeCameraAdapterConfig =
  fc_width :: int
  fc_height :: int
  fc_fps :: int
  fc_start_frame_number :: u64
  fc_pattern_seed :: u32
  fc_auto_advance :: bool
  fc_inject_timeout :: bool
  fc_inject_read_error :: bool
  fc_device_id :: string

record FakeCameraAdapter =
  fa_config :: FakeCameraAdapterConfig
  fa_health :: CameraHealthSnapshot
  fa_connected :: bool
  fa_streaming :: bool
  fa_manual_frame_ready :: bool
  fa_capture_generation :: u64
  fa_next_frame_number :: u64

definition FakeCameraAdapter_new :: "FakeCameraAdapterConfig \<Rightarrow> FakeCameraAdapter result" where
  "FakeCameraAdapter_new config =
     bindE (throw_if (fc_width config \<le> 0 \<or> fc_height config \<le> 0 \<or> fc_fps config \<le> 0)
              (Invalid_argument ''Fake camera width, height, and fps must be positive.'')) (\<lambda>_.
     Inr \<lparr>fa_config = config,
          fa_health = default_CameraHealthSnapshot\<lparr>ch_device_id := fc_device_id config\<rparr>,
          fa_connected = False, fa_streaming = False, fa_manual_frame_ready = False,
          fa_capture_generation = 0, fa_next_frame_number = 0\<rparr>)"

definition fake_snapshot :: "FakeCameraAdapterConfig \<Rightarrow> u64 \<Rightarrow> u64 \<Rightarrow> FrameSnapshot" where
  "fake_snapshot config generation number =
     (let timestamp = (sint number * NS_PER_SECOND) sdiv fc_fps config;
          intrinsics = \<lparr>in_width = fc_width config, in_height = fc_height config,
            in_fx = INTRINSIC_FOCAL_LENGTH, in_fy = INTRINSIC_FOCAL_LENGTH, in_ppx = 0, in_ppy = 0,
            in_distortion_model = DM_NONE, in_distortion_coefficients = [0, 0, 0, 0, 0]\<rparr>
      in \<lparr>fs_identity = \<lparr>capture_generation = generation, frame_number = number,
            capture_timestamp_ns = timestamp, capture_unix_epoch_ns = timestamp,
            device_timestamp = f64_div (f64_of_int timestamp) 0x412E848000000000,
            device_timestamp_domain = TD_HARDWARE_CLOCK\<rparr>,
          fs_depth_profile = \<lparr>sp_width = fc_width config, sp_height = fc_height config,
            sp_fps = fc_fps config, sp_format = PF_Z16\<rparr>,
          fs_color_profile = \<lparr>sp_width = fc_width config, sp_height = fc_height config,
            sp_fps = fc_fps config, sp_format = PF_RGB8\<rparr>,
          fs_depth_intrinsics = intrinsics, fs_color_intrinsics = intrinsics,
          fs_depth_scale_m = 0x3A83126F, fs_has_color = True, fs_has_depth = True\<rparr>)"

text \<open>
  The vectors the loops over \<open>y\<close> and \<open>x\<close> fill, pixel after pixel in row-major order.
\<close>

definition raster :: "int \<Rightarrow> int \<Rightarrow> (int \<times> int) list" where
  "raster width height = roi_pixels 0 0 width height"

definition fake_color_of :: "FakeCameraAdapterConfig \<Rightarrow> u64 \<Rightarrow> int \<times> int \<Rightarrow> u8 list" where
  "fake_color_of config number = (\<lambda>(x, y).
     [ucast ((word_of_int x + number + ucast (fc_pattern_seed config)) mod 256 :: u64),
      ucast ((word_of_int y + fc_pattern_seed config) mod 256 :: u32),
      ucast (number mod 256)])"

definition fake_depth_of :: "int \<times> int \<Rightarrow> f32" where
  "fake_depth_of = (\<lambda>(x, y). if x = 0 \<and> y = 0 then 0
     else f32_add (f32_add DEPTH_BASE_M (f32_mul DEPTH_X_STEP_M (f32_of_int x)))
            (f32_mul DEPTH_Y_STEP_M (f32_of_int y)))"

definition f32_min :: "f32 \<Rightarrow> f32 \<Rightarrow> f32" where
  "f32_min a b = (if f32_less b a then b else a)"

definition fake_preview_of :: "f32 \<Rightarrow> u8 list" where
  "fake_preview_of depth =
     (let intensity = word_of_int (the (fp_trunc (f32_val (f32_min 0x437F0000 (f32_mul depth 0x42C80000)))))
      in [intensity, 0, 255 - intensity])"

definition makeFrame :: "(FakeCameraAdapter, FakeCapturedFrame) act" where
  "makeFrame =
     bindS (modS (\<lambda>a. a\<lparr>fa_next_frame_number := fa_next_frame_number a + 1\<rparr>)) (\<lambda>_.
     bindS (getS (\<lambda>a. a)) (\<lambda>a.
     let config = fa_config a;
         number = fa_next_frame_number a;
         snapshot = fake_snapshot config (fa_capture_generation a) number;
         pixels = raster (fc_width config) (fc_height config);
         depth = map fake_depth_of pixels
     in bindS (modS (\<lambda>a. a\<lparr>fa_health := (fa_health a)
            \<lparr>ch_latest_identity := fs_identity snapshot, ch_latest_frame_age_ms := 0\<rparr>\<rparr>)) (\<lambda>_.
        retS \<lparr>fk_snapshot = snapshot, fk_color = concat (map (fake_color_of config number) pixels),
              fk_depth_preview = concat (map fake_preview_of depth), fk_depth = depth\<rparr>)))"

definition fake_connectCamera :: "(FakeCameraAdapter, unit) act" where
  "fake_connectCamera = modS (\<lambda>a. a\<lparr>fa_connected := True,
     fa_health := (fa_health a)\<lparr>ch_lifecycle := CL_CONNECTED\<rparr>\<rparr>)"

definition fake_disconnectCamera :: "(FakeCameraAdapter, unit) act" where
  "fake_disconnectCamera = modS (\<lambda>a. a\<lparr>fa_streaming := False, fa_connected := False,
     fa_health := (fa_health a)\<lparr>ch_lifecycle := CL_DISCONNECTED\<rparr>\<rparr>)"

definition fake_startStream :: "(FakeCameraAdapter, unit) act" where
  "fake_startStream =
     bindS (getS fa_connected) (\<lambda>connected.
     bindS (throw_ifS (\<not> connected) (Runtime_error ''Fake camera is not connected.'')) (\<lambda>_.
     modS (\<lambda>a. a\<lparr>fa_streaming := True, fa_capture_generation := fa_capture_generation a + 1,
       fa_next_frame_number := fc_start_frame_number (fa_config a) - 1,
       fa_health := (fa_health a)\<lparr>ch_lifecycle := CL_STREAMING\<rparr>\<rparr>)))"

definition fake_stopStream :: "(FakeCameraAdapter, unit) act" where
  "fake_stopStream = modS (\<lambda>a. a\<lparr>fa_streaming := False,
     fa_health := (fa_health a)\<lparr>ch_lifecycle := (if fa_connected a then CL_CONNECTED else CL_DISCONNECTED)\<rparr>\<rparr>)"

definition count_timeout :: "FakeCameraAdapter \<Rightarrow> FakeCameraAdapter" where
  "count_timeout a = a\<lparr>fa_health := (fa_health a)\<lparr>ch_timeout_count := ch_timeout_count (fa_health a) + 1\<rparr>\<rparr>"

definition fake_readFrame :: "int \<Rightarrow> (FakeCameraAdapter, FakeCapturedFrame) act" where
  "fake_readFrame timeout =
     bindS (getS (\<lambda>a. a)) (\<lambda>a.
     bindS (throw_ifS (\<not> fa_streaming a) (Runtime_error ''Fake camera stream is not running.'')) (\<lambda>_.
     if timeout \<le> 0 \<or> fc_inject_timeout (fa_config a)
     then bindS (modS count_timeout) (\<lambda>_. throwS (Runtime_error ''Fake camera frame read timed out.''))
     else if fc_inject_read_error (fa_config a)
     then bindS (modS (\<lambda>a. a\<lparr>fa_health := (fa_health a)
                  \<lparr>ch_last_diagnostic := ''Fake camera injected read error.''\<rparr>\<rparr>)) (\<lambda>_.
          throwS (Runtime_error ''Fake camera injected read error.''))
     else if \<not> fc_auto_advance (fa_config a) \<and> \<not> fa_manual_frame_ready a
     then bindS (modS count_timeout) (\<lambda>_. throwS (Runtime_error ''Fake camera has no caller-advanced frame.''))
     else bindS (modS (\<lambda>a. a\<lparr>fa_manual_frame_ready := False\<rparr>)) (\<lambda>_. makeFrame)))"

definition fake_getHealthSnapshot :: "FakeCameraAdapter \<Rightarrow> CameraHealthSnapshot" where
  "fake_getHealthSnapshot a = fa_health a"

definition advanceFrame :: "(FakeCameraAdapter, unit) act" where
  "advanceFrame = modS (\<lambda>a. a\<lparr>fa_manual_frame_ready := True\<rparr>)"

end
