(* ===== verification/CameraAdapter.thy ===== *)
theory CameraAdapter
  imports FrameStore
begin

text \<open>
  The contract of a \<^verbatim>\<open>CameraAdapter\<close> (\<^verbatim>\<open>include/nodus_vision/camera_adapter.hpp\<close>) towards the
  frame store: whatever operations its owner calls, the frames it hands out carry strictly
  increasing identities. The locale \<open>identity_source\<close> states what one operation must do for that;
  both adapters are instances of it, each in its own theory.
\<close>

text \<open>The frames that a sequence of operations hands out, and the state it ends in.\<close>

primrec drive :: "('op \<Rightarrow> 's \<Rightarrow> 'f option \<times> 's) \<Rightarrow> 'op list \<Rightarrow> 's \<Rightarrow> 'f list \<times> 's" where
  "drive step [] s = ([], s)"
| "drive step (x # xs) s =
     (case step x s of (out, t) \<Rightarrow> (case drive step xs t of (fs, u) \<Rightarrow>
       ((case out of None \<Rightarrow> fs | Some f \<Rightarrow> f # fs), u)))"

text \<open>Every operation of a sequence is one the environment may make in the state it meets.\<close>

primrec permitted_run :: "('op \<Rightarrow> 's \<Rightarrow> bool) \<Rightarrow> ('op \<Rightarrow> 's \<Rightarrow> 'f option \<times> 's) \<Rightarrow> 'op list \<Rightarrow> 's \<Rightarrow> bool"
where
  "permitted_run permitted step [] s = True"
| "permitted_run permitted step (x # xs) s =
     (permitted x s \<and> permitted_run permitted step xs (snd (step x s)))"

lemma permitted_run_True: "(\<And>x s. permitted x s) \<Longrightarrow> permitted_run permitted step xs s"
  by (induction xs arbitrary: s) auto

text \<open>
  \<open>room n s\<close>: \<open>n\<close> more operations cannot wrap a counter. \<open>position s\<close> bounds the keys of the
  frames handed out so far.
\<close>

locale identity_source =
  fixes step :: "'op \<Rightarrow> 's \<Rightarrow> 'f option \<times> 's"
    and permitted :: "'op \<Rightarrow> 's \<Rightarrow> bool"
    and room :: "nat \<Rightarrow> 's \<Rightarrow> bool"
    and position :: "'s \<Rightarrow> 'k::linorder"
    and key :: "'f \<Rightarrow> 'k"
  assumes step_room: "room (Suc n) s \<Longrightarrow> permitted x s \<Longrightarrow> room n (snd (step x s))"
    and step_silent: "room (Suc n) s \<Longrightarrow> permitted x s \<Longrightarrow> step x s = (None, t) \<Longrightarrow> position s \<le> position t"
    and step_emits: "room (Suc n) s \<Longrightarrow> permitted x s \<Longrightarrow> step x s = (Some f, t) \<Longrightarrow>
      position s < key f \<and> key f = position t"
begin

lemma drive_keys:
  "room (length xs) s \<Longrightarrow> permitted_run permitted step xs s \<Longrightarrow> drive step xs s = (fs, t) \<Longrightarrow>
     sorted_wrt (<) (map key fs) \<and> (\<forall>f \<in> set fs. position s < key f)"
proof (induction xs arbitrary: s fs t)
  case Nil
  then show ?case by simp
next
  case (Cons x xs)
  obtain out s1 where x: "step x s = (out, s1)" by fastforce
  obtain fs1 u where r: "drive step xs s1 = (fs1, u)" by fastforce
  have "room (length xs) s1" "permitted_run permitted step xs s1"
    using step_room [of "length xs" s x] Cons.prems x by simp_all
  from Cons.IH [OF this r]
  have ih: "sorted_wrt (<) (map key fs1)" "\<And>f. f \<in> set fs1 \<Longrightarrow> position s1 < key f" by auto
  show ?case
  proof (cases out)
    case None
    with x step_silent [of "length xs" s x s1] Cons.prems have "position s \<le> position s1" by simp
    with ih None Cons.prems x r show ?thesis by force
  next
    case (Some f)
    have "room (Suc (length xs)) s" "permitted x s" using Cons.prems by simp_all
    moreover have "step x s = (Some f, s1)" using x Some by simp
    ultimately have "position s < key f \<and> key f = position s1" by (rule step_emits)
    then have "position s < key f" and "key f = position s1" by blast+
    with ih Some Cons.prems x r show ?thesis by force
  qed
qed

end

text \<open>A slot accepts every publication of a strictly increasing sequence.\<close>

context latest_slot
begin

lemma increasing_all_accepted:
  "sorted_wrt (<) (map (\<lambda>p. key (snd p)) ps) \<Longrightarrow> (\<And>p. p \<in> set ps \<Longrightarrow> admissible (snd p)) \<Longrightarrow>
   (\<And>w p. current s = Some w \<Longrightarrow> p \<in> set ps \<Longrightarrow> key w < key (snd p)) \<Longrightarrow> k < length ps \<Longrightarrow>
     fst (publish (fst (ps ! k)) (snd (ps ! k)) (publish_all publish (take k ps) s))"
proof (induction ps arbitrary: s k)
  case Nil
  then show ?case by simp
next
  case (Cons p ps)
  have acc: "fst (publish (fst p) (snd p) s)" "current (snd (publish (fst p) (snd p) s)) = Some (snd p)"
    using publish_accepts [of "snd p" s "fst p"] Cons.prems(2,3) by auto
  show ?case
  proof (cases k)
    case 0
    with acc show ?thesis by simp
  next
    case (Suc j)
    have "fst (publish (fst (ps ! j)) (snd (ps ! j))
        (publish_all publish (take j ps) (snd (publish (fst p) (snd p) s))))"
      using Cons.prems acc Suc by (intro Cons.IH) auto
    with Suc show ?thesis by simp
  qed
qed

end

end
