(* ===== verification/FakeCameraFacts.thy ===== *)
theory FakeCameraFacts
  imports FakeCamera CameraAdapter
begin

text \<open>
  What the fake camera guarantees: every frame it makes is well formed, so no query on it raises a
  range error; the statistics of a region are those of its valid samples; a point cloud keeps to
  its bound; and its frames carry strictly increasing identities (\<open>identity_source\<close>).
\<close>

section \<open>Counters and rasters\<close>

lemma counter_values_set:
  "0 < step \<Longrightarrow> x \<in> set (counter_values i limit step) \<Longrightarrow> i \<le> x \<and> x < limit"
proof (induction i limit step rule: counter_values.induct)
  case (1 i limit step)
  then show ?case using counter_values.simps [of i limit step] by (fastforce split: if_splits)
qed

lemma counter_values_one: "counter_values i limit 1 = [i..limit - 1]"
proof (induction i limit "1 :: int" rule: counter_values.induct)
  case (1 i limit)
  then show ?case
    by (subst counter_values.simps) (simp add: upto_rec1)
qed

lemma div_slot: "0 < d \<Longrightarrow> 0 < s \<Longrightarrow> (d + s - 1) div s = 1 + (d - 1) div (s :: int)"
  using div_add_self1 [of s "d - 1"] by (simp add: algebra_simps)

lemma counter_values_length:
  "0 < step \<Longrightarrow> 0 \<le> limit - i \<Longrightarrow> int (length (counter_values i limit step)) = (limit - i + step - 1) div step"
proof (induction i limit step rule: counter_values.induct)
  case (1 i limit step)
  show ?case
  proof (cases "i < limit")
    case False
    with 1 show ?thesis by (simp add: counter_values.simps)
  next
    case True
    have c: "counter_values i limit step = i # counter_values (i + step) limit step"
      using True 1 by (subst counter_values.simps) simp
    have d: "(limit - i + step - 1) div step = 1 + (limit - i - 1) div step"
      using True 1 div_slot [of "limit - i" step] by simp
    show ?thesis
    proof (cases "0 \<le> limit - (i + step)")
      case True
      then have "int (length (counter_values (i + step) limit step)) = (limit - (i + step) + step - 1) div step"
        using 1 \<open>i < limit\<close> by blast
      also have "limit - (i + step) + step - 1 = limit - i - 1" by simp
      finally show ?thesis using c d by simp
    next
      case False
      then have "counter_values (i + step) limit step = []" by (simp add: counter_values.simps)
      moreover have "(limit - i - 1) div step = 0"
        using True False by (simp add: div_pos_pos_trivial)
      ultimately show ?thesis using c d by simp
    qed
  qed
qed

lemma roi_pixels_set: "(x, y) \<in> set (roi_pixels a b c d) \<longleftrightarrow> a \<le> x \<and> x < c \<and> b \<le> y \<and> y < d"
  by (force simp: roi_pixels_def counter_values_one)

lemma length_grid:
  "length (concat (map (\<lambda>y. map (\<lambda>x. (x, y)) xs) ys)) = length ys * length xs"
  by (induction ys) simp_all

lemma length_roi_pixels: "length (roi_pixels a b c d) = nat (d - b) * nat (c - a)"
  by (simp add: roi_pixels_def length_grid counter_values_one)

lemma distinct_roi_pixels: "distinct (roi_pixels a b c d)"
proof -
  have "distinct (concat (map (\<lambda>y. map (\<lambda>x. (x, y)) xs) ys))" if "distinct xs" "distinct ys" for xs ys :: "int list"
    using that(2) by (induction ys) (auto simp: that(1) distinct_map inj_on_def)
  then show ?thesis by (simp add: roi_pixels_def counter_values_one)
qed

lemma vec_at_ok: "0 \<le> i \<Longrightarrow> i < int (length xs) \<Longrightarrow> vec_at xs i = Inr (xs ! nat i)"
  by (simp add: vec_at_def)

text \<open>A pixel inside the frame has its index inside the vector.\<close>

lemma pixel_index:
  fixes x y w h :: int
  assumes "0 \<le> x" "x < w" "0 \<le> y" "y < h"
  shows "0 \<le> y * w + x" and "y * w + x < w * h"
proof -
  show "0 \<le> y * w + x" using assms by simp
  have "y * w + x < y * w + w" using assms by simp
  also have "\<dots> = (y + 1) * w" by (simp add: algebra_simps)
  also have "\<dots> \<le> h * w" using assms by (intro mult_right_mono) auto
  finally show "y * w + x < w * h" by (simp add: algebra_simps)
qed

section \<open>Well-formed frames\<close>

definition frame_wf :: "FakeCapturedFrame \<Rightarrow> bool" where
  "frame_wf f \<longleftrightarrow> 0 < fk_width f \<and> 0 < fk_height f \<and>
     sp_width (fs_color_profile (fk_snapshot f)) = fk_width f \<and>
     int (length (fk_depth f)) = fk_width f * fk_height f \<and>
     int (length (fk_color f)) = 3 * (fk_width f * fk_height f) \<and>
     int (length (fk_depth_preview f)) = 3 * (fk_width f * fk_height f)"

lemma length_concat3: "(\<And>x. length (g x) = 3) \<Longrightarrow> length (concat (map g xs)) = 3 * length xs"
  by (induction xs) auto

lemma makeFrame_run:
  "makeFrame a = (Inr f, b) \<Longrightarrow> 0 < fc_width (fa_config a) \<Longrightarrow> 0 < fc_height (fa_config a) \<Longrightarrow>
     frame_wf f \<and> fk_snapshot f = fake_snapshot (fa_config a) (fa_capture_generation a) (fa_next_frame_number a + 1) \<and>
     b = a\<lparr>fa_next_frame_number := fa_next_frame_number a + 1,
           fa_health := (fa_health a)\<lparr>ch_latest_identity := fs_identity (fk_snapshot f), ch_latest_frame_age_ms := 0\<rparr>\<rparr>"
  by (auto simp: makeFrame_def act_simps Let_def frame_wf_def fake_snapshot_def raster_def length_concat3
      fake_color_of_def fake_preview_of_def length_roi_pixels split: prod.splits)

lemma depth_at:
  "frame_wf f \<Longrightarrow> 0 \<le> x \<Longrightarrow> x < fk_width f \<Longrightarrow> 0 \<le> y \<Longrightarrow> y < fk_height f \<Longrightarrow>
     vec_at (fk_depth f) (y * fk_width f + x) = Inr (fk_depth f ! nat (y * fk_width f + x))"
  using pixel_index [of x "fk_width f" y "fk_height f"] by (intro vec_at_ok) (auto simp: frame_wf_def)

lemma color_at:
  "frame_wf f \<Longrightarrow> 0 \<le> x \<Longrightarrow> x < fk_width f \<Longrightarrow> 0 \<le> y \<Longrightarrow> y < fk_height f \<Longrightarrow> 0 \<le> k \<Longrightarrow> k < 3 \<Longrightarrow>
     vec_at (fk_color f) ((y * fk_width f + x) * 3 + k) = Inr (fk_color f ! nat ((y * fk_width f + x) * 3 + k))"
  using pixel_index [of x "fk_width f" y "fk_height f"] by (intro vec_at_ok) (auto simp: frame_wf_def)

lemma cloud_point_ok:
  assumes "frame_wf f" "0 \<le> x" "x < fk_width f" "0 \<le> y" "y < fk_height f"
  shows "is_ok (cloud_point f (x, y))"
  using assms color_at [OF assms, of 0] color_at [OF assms, of 1] color_at [OF assms, of 2]
  by (simp add: cloud_point_def depth_at Let_def frame_wf_def)


section \<open>Regions and clouds\<close>

text \<open>
  What \<^verbatim>\<open>std::sort\<close> by depth promises on valid samples, where \<open><\<close> is a strict weak order: a
  permutation with no descent.
\<close>

definition sorts_by_depth :: "(sample list \<Rightarrow> sample list) \<Rightarrow> bool" where
  "sorts_by_depth sort_samples \<longleftrightarrow>
     (\<forall>xs. (\<forall>s \<in> set xs. f32_less 0 (fst s)) \<longrightarrow>
        mset (sort_samples xs) = mset xs \<and>
        sorted_wrt (\<lambda>a b. \<not> f32_less (fst b) (fst a)) (sort_samples xs))"

lemma sorts_by_depthD:
  assumes "sorts_by_depth srt" and "\<And>s. s \<in> set xs \<Longrightarrow> f32_less 0 (fst s)"
  shows "mset (srt xs) = mset xs" and "sorted_wrt (\<lambda>a b. \<not> f32_less (fst b) (fst a)) (srt xs)"
    and "set (srt xs) = set xs" and "length (srt xs) = length xs"
proof -
  have "mset (srt xs) = mset xs \<and> sorted_wrt (\<lambda>a b. \<not> f32_less (fst b) (fst a)) (srt xs)"
    using assms(1) assms(2) unfolding sorts_by_depth_def by blast
  then show "mset (srt xs) = mset xs" and "sorted_wrt (\<lambda>a b. \<not> f32_less (fst b) (fst a)) (srt xs)"
    and "set (srt xs) = set xs" and "length (srt xs) = length xs"
    by (auto dest: mset_eq_setD mset_eq_length simp del: set_mset_mset)
qed

definition valid_samples :: "FakeCapturedFrame \<Rightarrow> PixelRoi \<Rightarrow> sample list" where
  "valid_samples f roi = filter (\<lambda>s. f32_less 0 (fst s))
     (map (\<lambda>(x, y). (fk_depth f ! nat (y * fk_width f + x), x, y))
       (roi_pixels (roi_x roi) (roi_y roi) (roi_x roi + roi_width roi) (roi_y roi + roi_height roi)))"

definition clamped_roi :: "FakeCapturedFrame \<Rightarrow> int \<Rightarrow> int \<Rightarrow> int \<Rightarrow> int \<Rightarrow> PixelRoi" where
  "clamped_roi f px py w h =
     \<lparr>roi_x = clamp px 0 (fk_width f), roi_y = clamp py 0 (fk_height f),
      roi_width = clamp (px + w) 0 (fk_width f) - clamp px 0 (fk_width f),
      roi_height = clamp (py + h) 0 (fk_height f) - clamp py 0 (fk_height f)\<rparr>"

lemma clamp_bounds: "0 \<le> hi \<Longrightarrow> 0 \<le> clamp v 0 hi \<and> clamp v 0 hi \<le> hi"
  by (simp add: clamp_def)

lemma clamp_mono: "0 \<le> hi \<Longrightarrow> v \<le> v' \<Longrightarrow> clamp v 0 hi \<le> clamp v' 0 hi"
  by (simp add: clamp_def)

lemma mapE_sample_at:
  assumes "frame_wf f" and "\<And>x y. (x, y) \<in> set ps \<Longrightarrow> 0 \<le> x \<and> x < fk_width f \<and> 0 \<le> y \<and> y < fk_height f"
  shows "mapE (sample_at f) ps = Inr (map (\<lambda>(x, y). (fk_depth f ! nat (y * fk_width f + x), x, y)) ps)"
  by (rule mapE_all_Inr) (use assms in \<open>auto simp: sample_at_def depth_at\<close>)

text \<open>The region query is total on a positive region, and its answer is a function of the valid samples.\<close>

lemma queryDepthInRoi_eq:
  assumes "frame_wf f" "0 < w" "0 < h"
  shows "fake_queryDepthInRoi srt f px py w h =
     Inr (roi_of_samples srt (fs_depth_intrinsics (fk_snapshot f))
       (default_RoiDepthResult\<lparr>rd_identity := fs_identity (fk_snapshot f),
          rd_requested_roi := \<lparr>roi_x = px, roi_y = py, roi_width = w, roi_height = h\<rparr>,
          rd_clamped_roi := clamped_roi f px py w h,
          rd_pixel_count := word_of_int (roi_width (clamped_roi f px py w h)) *
            word_of_int (roi_height (clamped_roi f px py w h))\<rparr>)
       (valid_samples f (clamped_roi f px py w h)))"
proof -
  have d: "0 \<le> fk_width f" "0 \<le> fk_height f" using assms(1) by (auto simp: frame_wf_def)
  note c = clamp_bounds [OF d(1), of px] clamp_bounds [OF d(1), of "px + w"]
    clamp_bounds [OF d(2), of py] clamp_bounds [OF d(2), of "py + h"]
    clamp_mono [OF d(1), of px "px + w"] clamp_mono [OF d(2), of py "py + h"]
  have "mapE (sample_at f) (roi_pixels (clamp px 0 (fk_width f)) (clamp py 0 (fk_height f))
      (clamp (px + w) 0 (fk_width f)) (clamp (py + h) 0 (fk_height f))) =
    Inr (map (\<lambda>(x, y). (fk_depth f ! nat (y * fk_width f + x), x, y))
      (roi_pixels (clamp px 0 (fk_width f)) (clamp py 0 (fk_height f))
      (clamp (px + w) 0 (fk_width f)) (clamp (py + h) 0 (fk_height f))))"
    by (rule mapE_sample_at [OF assms(1)]) (use c in \<open>auto simp: roi_pixels_set\<close>)
  moreover have "max 0 (clamp (px + w) 0 (fk_width f) - clamp px 0 (fk_width f)) = roi_width (clamped_roi f px py w h)"
    "max 0 (clamp (py + h) 0 (fk_height f) - clamp py 0 (fk_height f)) = roi_height (clamped_roi f px py w h)"
    using c assms by (simp_all add: clamped_roi_def)
  ultimately show ?thesis
    using assms by (simp add: fake_queryDepthInRoi_def Let_def valid_samples_def clamped_roi_def)
qed

lemma valid_samples_length: "length (valid_samples f roi) \<le> nat (roi_width roi) * nat (roi_height roi)"
  unfolding valid_samples_def
  by (rule order.trans [OF length_filter_le]) (simp add: length_roi_pixels)

lemma valid_samples_set:
  "(d, x, y) \<in> set (valid_samples f roi) \<longleftrightarrow>
     roi_x roi \<le> x \<and> x < roi_x roi + roi_width roi \<and> roi_y roi \<le> y \<and> y < roi_y roi + roi_height roi \<and>
     d = fk_depth f ! nat (y * fk_width f + x) \<and> f32_less 0 d"
  by (auto simp: valid_samples_def roi_pixels_set image_iff intro!: bexI [of _ "(x, y)"])

lemma roi_of_samples_counts:
  "rd_pixel_count (roi_of_samples srt i r samples) = rd_pixel_count r"
  "rd_valid_pixel_count (roi_of_samples srt i r samples) = word_of_nat (length samples)"
  by (cases "srt samples ! (length (srt samples) div 2)"; simp add: roi_of_samples_def Let_def)+

text \<open>The numbers the region query reports when there is at least one valid sample.\<close>

lemma roi_of_samples_stats:
  assumes srt: "sorts_by_depth srt" and ne: "samples \<noteq> []"
    and pos: "\<forall>s \<in> set samples. f32_less 0 (fst s)"
  shows "rd_valid (roi_of_samples srt i r samples)"
    and "(rd_median_depth_m (roi_of_samples srt i r samples),
          rd_median_pixel_x (roi_of_samples srt i r samples),
          rd_median_pixel_y (roi_of_samples srt i r samples)) \<in> set samples"
    and "\<exists>p. (rd_min_depth_m (roi_of_samples srt i r samples), p) \<in> set samples"
    and "\<exists>p. (rd_max_depth_m (roi_of_samples srt i r samples), p) \<in> set samples"
    and "s \<in> set samples \<Longrightarrow> \<not> f32_less (fst s) (rd_min_depth_m (roi_of_samples srt i r samples))"
    and "s \<in> set samples \<Longrightarrow> \<not> f32_less (rd_max_depth_m (roi_of_samples srt i r samples)) (fst s)"
proof -
  let ?s = "srt samples"
  note D = sorts_by_depthD [OF srt pos [rule_format], of samples, simplified]
  have n: "?s \<noteq> []" using D(4) ne by (metis length_0_conv)
  have m: "?s ! (length ?s div 2) \<in> set samples"
    using n D(3) by (metis div_less_dividend length_greater_0_conv nth_mem one_less_numeral_iff semiring_norm(76))
  show "rd_valid (roi_of_samples srt i r samples)"
    using ne by (simp add: roi_of_samples_def Let_def split: prod.split)
  show "(rd_median_depth_m (roi_of_samples srt i r samples),
          rd_median_pixel_x (roi_of_samples srt i r samples),
          rd_median_pixel_y (roi_of_samples srt i r samples)) \<in> set samples"
    using ne m by (cases "?s ! (length ?s div 2)") (simp add: roi_of_samples_def Let_def)
  have mn: "rd_min_depth_m (roi_of_samples srt i r samples) = fst (hd ?s)"
    and mx: "rd_max_depth_m (roi_of_samples srt i r samples) = fst (last ?s)"
    using ne by (simp_all add: roi_of_samples_def Let_def split: prod.split)
  show "\<exists>p. (rd_min_depth_m (roi_of_samples srt i r samples), p) \<in> set samples"
    unfolding mn using hd_in_set [OF n] D(3) by (metis prod.collapse)
  show "\<exists>p. (rd_max_depth_m (roi_of_samples srt i r samples), p) \<in> set samples"
    unfolding mx using last_in_set [OF n] D(3) by (metis prod.collapse)
  have refl: "\<not> f32_less d d" for d
    by (cases "f32_val d") (simp_all add: f32_less_def Let_def)
  assume "s \<in> set samples"
  then obtain k where k: "k < length ?s" "?s ! k = s" using D(3) by (metis in_set_conv_nth)
  have lo: "\<not> f32_less (fst (?s ! k)) (fst (?s ! 0))"
    using sorted_wrt_nth_less [OF D(2), of 0 k] k(1) refl by (cases k) auto
  have hi: "\<not> f32_less (fst (?s ! (length ?s - 1))) (fst (?s ! k))"
    using sorted_wrt_nth_less [OF D(2), of k "length ?s - 1"] k(1) refl
    by (cases "k = length ?s - 1") auto
  show "\<not> f32_less (fst s) (rd_min_depth_m (roi_of_samples srt i r samples))"
    using lo k n by (simp add: mn hd_conv_nth)
  show "\<not> f32_less (rd_max_depth_m (roi_of_samples srt i r samples)) (fst s)"
    using hi k n by (simp add: mx last_conv_nth)
qed

section \<open>Point clouds\<close>

lemma effective_stride_bounds:
  "0 < max_points \<Longrightarrow> 0 < stride \<Longrightarrow>
     stride \<le> effective_stride w h max_points stride \<and>
     countSampleSlots w h (effective_stride w h max_points stride) \<le> int max_points \<and>
     (\<forall>s. stride \<le> s \<longrightarrow> s < effective_stride w h max_points stride \<longrightarrow> int max_points < countSampleSlots w h s)"
proof (induction w h max_points stride rule: effective_stride.induct)
  case (1 w h n s)
  show ?case
  proof (cases "int n < countSampleSlots w h s")
    case False
    then have "effective_stride w h n s = s" by (simp add: effective_stride.simps [of w h n s])
    with False show ?thesis by simp
  next
    case True
    have eq: "effective_stride w h n s = effective_stride w h n (s + 1)"
      using True 1 by (simp add: effective_stride.simps [of w h n s])
    have ih: "s + 1 \<le> effective_stride w h n (s + 1)"
      "countSampleSlots w h (effective_stride w h n (s + 1)) \<le> int n"
      "\<And>t. s + 1 \<le> t \<Longrightarrow> t < effective_stride w h n (s + 1) \<Longrightarrow> int n < countSampleSlots w h t"
      using 1 True by auto
    show ?thesis unfolding eq
    proof (intro conjI allI impI)
      fix t assume t: "s \<le> t" "t < effective_stride w h n (s + 1)"
      show "int n < countSampleSlots w h t"
        using t True ih(3) [of t] by (cases "t = s") auto
    qed (use ih in auto)
  qed
qed

lemma sampled_pixels_count:
  assumes "0 \<le> w" "0 \<le> h" "0 < s"
  shows "int (length (sampled_pixels w h s)) = countSampleSlots w h s"
  using assms counter_values_length [of s w 0] counter_values_length [of s h 0]
  by (simp add: sampled_pixels_def length_grid countSampleSlots_def sdiv_nonneg)

lemma sampled_pixels_set:
  "0 < s \<Longrightarrow> (x, y) \<in> set (sampled_pixels w h s) \<Longrightarrow> 0 \<le> x \<and> x < w \<and> 0 \<le> y \<and> y < h"
  using counter_values_set [of s x 0 w] counter_values_set [of s y 0 h]
  by (auto simp: sampled_pixels_def)

lemma length_map_filter_le: "length (List.map_filter f xs) \<le> length xs"
  by (simp add: map_filter_def)

lemma buildPointCloud_run:
  assumes "frame_wf f" "0 < n" "0 < s"
  obtains c where "fake_buildPointCloudSnapshot f n s = Inr c"
    and "pc_stride_pixels c = effective_stride (fk_width f) (fk_height f) n s"
    and "length (pc_points c) \<le> n"
proof -
  let ?e = "effective_stride (fk_width f) (fk_height f) n s"
  have e: "0 < ?e" "countSampleSlots (fk_width f) (fk_height f) ?e \<le> int n"
    using effective_stride_bounds [OF assms(2,3), of "fk_width f" "fk_height f"] assms(3) by simp_all
  have d: "0 \<le> fk_width f" "0 \<le> fk_height f" using assms(1) by (auto simp: frame_wf_def)
  have "is_ok (mapE (cloud_point f) (sampled_pixels (fk_width f) (fk_height f) ?e))"
  proof (rule mapE_is_ok)
    fix p assume p: "p \<in> set (sampled_pixels (fk_width f) (fk_height f) ?e)"
    obtain x y where "p = (x, y)" by fastforce
    with sampled_pixels_set [OF e(1)] p cloud_point_ok [OF assms(1)] show "is_ok (cloud_point f p)" by blast
  qed
  then obtain ps where ps: "mapE (cloud_point f) (sampled_pixels (fk_width f) (fk_height f) ?e) = Inr ps"
    by (auto simp: is_ok_iff)
  have "length (List.map_filter id ps) \<le> length ps" by (rule length_map_filter_le)
  also have "length ps \<le> n"
    using mapE_length [OF ps] sampled_pixels_count [OF d e(1)] e(2) by simp
  finally show thesis
    using that ps assms(2,3) by (simp add: fake_buildPointCloudSnapshot_def Let_def)
qed


section \<open>The adapter's runs\<close>

datatype fake_op = Fake_connect | Fake_disconnect | Fake_start | Fake_stop | Fake_read int | Fake_advance

text \<open>One call of the adapter; a call that throws hands out nothing.\<close>

fun fake_step :: "fake_op \<Rightarrow> FakeCameraAdapter \<Rightarrow> FakeCapturedFrame option \<times> FakeCameraAdapter" where
  "fake_step Fake_connect a = (None, snd (fake_connectCamera a))"
| "fake_step Fake_disconnect a = (None, snd (fake_disconnectCamera a))"
| "fake_step Fake_start a = (None, snd (fake_startStream a))"
| "fake_step Fake_stop a = (None, snd (fake_stopStream a))"
| "fake_step (Fake_read timeout) a =
     (case fake_readFrame timeout a of (Inl _, b) \<Rightarrow> (None, b) | (Inr f, b) \<Rightarrow> (Some f, b))"
| "fake_step Fake_advance a = (None, snd (advanceFrame a))"

lemmas fake_call_defs = fake_connectCamera_def fake_disconnectCamera_def fake_startStream_def
  fake_stopStream_def fake_readFrame_def advanceFrame_def count_timeout_def

lemma readFrame_Some:
  assumes "fake_step x a = (Some f, b)"
  obtains timeout where "x = Fake_read timeout" "0 < timeout" "fa_streaming a"
    "makeFrame (a\<lparr>fa_manual_frame_ready := False\<rparr>) = (Inr f, b)"
  using assms
  by (cases x) (auto simp: fake_readFrame_def act_simps split: if_splits prod.splits sum.splits)

lemma step_None:
  assumes "fake_step x a = (None, b)"
  shows "fa_config b = fa_config a"
    and "(fa_capture_generation b = fa_capture_generation a \<and> fa_next_frame_number b = fa_next_frame_number a) \<or>
      (fa_capture_generation b = fa_capture_generation a + 1 \<and>
       fa_next_frame_number b = fc_start_frame_number (fa_config a) - 1)"
proof -
  have mk: "fst (makeFrame c) \<noteq> Inl e" for c e
    by (simp add: makeFrame_def act_simps Let_def)
  have "fa_config b = fa_config a \<and>
    ((fa_capture_generation b = fa_capture_generation a \<and> fa_next_frame_number b = fa_next_frame_number a) \<or>
      (fa_capture_generation b = fa_capture_generation a + 1 \<and>
       fa_next_frame_number b = fc_start_frame_number (fa_config a) - 1))"
    using assms mk
    by (cases x)
       (auto simp: fake_call_defs act_simps split: if_splits prod.splits sum.splits dest!: arg_cong [where f = fst])
  then show "fa_config b = fa_config a"
    and "(fa_capture_generation b = fa_capture_generation a \<and> fa_next_frame_number b = fa_next_frame_number a) \<or>
      (fa_capture_generation b = fa_capture_generation a + 1 \<and>
       fa_next_frame_number b = fc_start_frame_number (fa_config a) - 1)"
    by blast+
qed

definition fake_room :: "nat \<Rightarrow> FakeCameraAdapter \<Rightarrow> bool" where
  "fake_room n a \<longleftrightarrow> unat (fa_capture_generation a) + n < 2 ^ 64 \<and> unat (fa_next_frame_number a) + n < 2 ^ 64 \<and>
     1 \<le> fc_start_frame_number (fa_config a) \<and> unat (fc_start_frame_number (fa_config a)) + n < 2 ^ 64"

abbreviation fake_key :: "FakeCapturedFrame \<Rightarrow> frame_key" where
  "fake_key f \<equiv> key_of (fs_identity (fk_snapshot f))"

definition fake_position :: "FakeCameraAdapter \<Rightarrow> frame_key" where
  "fake_position a = Frame_Key (fa_capture_generation a) (fa_next_frame_number a)"

lemma unat_inc: "unat w + Suc n < 2 ^ 64 \<Longrightarrow> unat (w + 1 :: u64) = unat w + 1"
  by (simp add: unat_word_ariths)

lemma unat_dec: "1 \<le> w \<Longrightarrow> unat (w - 1 :: u64) = unat w - 1"
  by (simp add: unat_sub)

lemma makeFrame_identity:
  "makeFrame a = (Inr f, b) \<Longrightarrow>
     fake_key f = Frame_Key (fa_capture_generation a) (fa_next_frame_number a + 1) \<and>
     fa_config b = fa_config a \<and> fa_capture_generation b = fa_capture_generation a \<and>
     fa_next_frame_number b = fa_next_frame_number a + 1"
  by (auto simp: makeFrame_def act_simps Let_def fake_snapshot_def key_of_def)

lemma fake_step_Some:
  assumes "fake_step x a = (Some f, b)"
  shows "fake_key f = fake_position b" and "fa_config b = fa_config a"
    and "fa_capture_generation b = fa_capture_generation a"
    and "fa_next_frame_number b = fa_next_frame_number a + 1"
  using assms by (auto elim!: readFrame_Some dest!: makeFrame_identity simp: fake_position_def)

interpretation fake: identity_source fake_step "\<lambda>_ _. True" fake_room fake_position fake_key
proof unfold_locales
  fix n s x assume r: "fake_room (Suc n) s"
  show "fake_room n (snd (fake_step x s))"
  proof (cases "fake_step x s")
    case (Pair out t)
    show ?thesis
    proof (cases out)
      case None
      with Pair step_None [of x s t] r show ?thesis
        by (auto simp: fake_room_def unat_inc [where n = n] unat_dec)
    next
      case (Some f)
      with Pair fake_step_Some [of x s f t] r show ?thesis
        by (auto simp: fake_room_def unat_inc [where n = n])
    qed
  qed
next
  fix n s x t assume r: "fake_room (Suc n) s" and "fake_step x s = (None, t)"
  then show "fake_position s \<le> fake_position t"
    using step_None [of x s t]
    by (auto simp: fake_position_def less_eq_frame_key_def fake_room_def word_less_nat_alt unat_inc [where n = n])
next
  fix n s x f t assume r: "fake_room (Suc n) s" and "fake_step x s = (Some f, t)"
  then show "fake_position s < fake_key f \<and> fake_key f = fake_position t"
    using fake_step_Some [of x s f t]
    by (auto simp: fake_position_def less_frame_key_def fake_room_def word_less_nat_alt unat_inc [where n = n])
qed

lemma new_room:
  "FakeCameraAdapter_new config = Inr a \<Longrightarrow> 1 \<le> fc_start_frame_number config \<Longrightarrow>
     n + unat (fc_start_frame_number config) < 2 ^ 64 \<Longrightarrow> fake_room n a"
  by (auto simp: FakeCameraAdapter_new_def result_simps fake_room_def)

lemma drive_frames_wf:
  assumes "0 < fc_width (fa_config a)" "0 < fc_height (fa_config a)" "f \<in> set (fst (drive fake_step ops a))"
  shows "frame_wf f \<and> fk_width f = fc_width (fa_config a) \<and> fk_height f = fc_height (fa_config a)"
  using assms
proof (induction ops arbitrary: a)
  case Nil
  then show ?case by simp
next
  case (Cons x xs)
  obtain out b where x: "fake_step x a = (out, b)" by fastforce
  have c: "fa_config b = fa_config a"
    using x step_None(1) [of x a b] fake_step_Some(2) [of x a _ b] by (cases out) auto
  have rest: "frame_wf f \<and> fk_width f = fc_width (fa_config a) \<and> fk_height f = fc_height (fa_config a)" if "f \<in> set (fst (drive fake_step xs b))"
    using Cons.IH [OF _ _ that] Cons.prems c by simp
  show ?case
  proof (cases out)
    case None
    with Cons.prems x rest show ?thesis by (auto split: prod.splits)
  next
    case (Some g)
    with x obtain t where "makeFrame (a\<lparr>fa_manual_frame_ready := False\<rparr>) = (Inr g, b)"
      by (auto elim: readFrame_Some)
    from makeFrame_run [OF this] Cons.prems
    have "frame_wf g \<and> fk_width g = fc_width (fa_config a) \<and> fk_height g = fc_height (fa_config a)"
      by (auto simp: fake_snapshot_def Let_def)
    with Some Cons.prems x rest show ?thesis by (auto split: prod.splits)
  qed
qed

end
