(* ===== verification/FakeCameraProps.thy ===== *)
theory FakeCameraProps
  imports FakeCameraFacts
begin

text \<open>
  The properties of the fake camera, with a concrete camera and a concrete sort for the witnesses.
\<close>

section \<open>A sort by depth\<close>

text \<open>The rank of a float that is not a NaN: infinities outside, finite values scaled to integers.\<close>

definition fp_rank :: "fp \<Rightarrow> int \<times> int" where
  "fp_rank v = (case v of FNaN \<Rightarrow> (0, 0) | FInf s \<Rightarrow> (if s then -1 else 1, 0)
     | FFin s m e \<Rightarrow> (0, signed_mant s m * 2 ^ nat (e + 149)))"

lemma f32_val_exponent: "f32_val x = FFin s m e \<Longrightarrow> -149 \<le> e"
  by (auto simp: f32_val_def fp_decode_def fp_qmin_def fp_bias_def Let_def split: if_splits)

lemma scaled_shift:
  assumes "e0 \<le> e" "-149 \<le> e0"
  shows "fp_scaled e0 s m e * 2 ^ nat (e0 + 149) = signed_mant s m * 2 ^ nat (e + 149)"
proof -
  have "nat (e + 149) = nat (e - e0) + nat (e0 + 149)" using assms by (simp add: nat_add_distrib [symmetric])
  then show ?thesis by (simp add: fp_scaled_def power_add)
qed

lemma f32_less_rank: "f32_less a b \<Longrightarrow> fp_rank (f32_val a) < fp_rank (f32_val b)"
proof (cases "f32_val a")
  case (FFin s m e)
  note a = this
  assume l: "f32_less a b"
  show ?thesis
  proof (cases "f32_val b")
    case (FFin t n d)
    let ?e0 = "min e d"
    have e: "-149 \<le> ?e0" using f32_val_exponent [OF a] f32_val_exponent [OF FFin] by simp
    have "fp_scaled ?e0 s m e < fp_scaled ?e0 t n d"
      using l a FFin by (simp add: f32_less_def Let_def)
    then have "fp_scaled ?e0 s m e * 2 ^ nat (?e0 + 149) < fp_scaled ?e0 t n d * 2 ^ nat (?e0 + 149)"
      by (rule mult_strict_right_mono) simp
    also have "fp_scaled ?e0 t n d * 2 ^ nat (?e0 + 149) = signed_mant t n * 2 ^ nat (d + 149)"
      by (rule scaled_shift [OF _ e]) simp
    also have "fp_scaled ?e0 s m e * 2 ^ nat (?e0 + 149) = signed_mant s m * 2 ^ nat (e + 149)"
      by (rule scaled_shift [OF _ e]) simp
    finally show ?thesis using a FFin by (simp add: fp_rank_def)
  qed (use l a in \<open>auto simp: f32_less_def fp_rank_def\<close>)
next
  case (FInf s)
  assume "f32_less a b"
  with FInf show ?thesis by (cases "f32_val b") (auto simp: f32_less_def fp_rank_def)
next
  case FNaN
  assume "f32_less a b"
  with FNaN show ?thesis by (simp add: f32_less_def)
qed

definition sort_depths :: "sample list \<Rightarrow> sample list" where
  "sort_depths = sort_key (\<lambda>s. fp_rank (f32_val (fst s)))"

lemma sort_depths_sorts: "sorts_by_depth sort_depths"
proof -
  have "sorted_wrt (\<lambda>a b. \<not> f32_less (fst b) (fst a)) (sort_depths xs)" for xs
  proof -
    have "sorted_wrt (\<lambda>a b. fp_rank (f32_val (fst a)) \<le> fp_rank (f32_val (fst b))) (sort_depths xs)"
      using sorted_sort_key [of "\<lambda>s :: sample. fp_rank (f32_val (fst s))" xs] by (simp add: sort_depths_def sorted_map)
    then show ?thesis
      by (rule sorted_wrt_mono_rel [rotated]) (use f32_less_rank in \<open>force simp: not_less [symmetric]\<close>)
  qed
  then show ?thesis by (simp add: sorts_by_depth_def) (simp add: sort_depths_def)
qed

section \<open>A concrete camera\<close>

definition tiny_config :: FakeCameraAdapterConfig where
  "tiny_config = \<lparr>fc_width = 2, fc_height = 1, fc_fps = 30, fc_start_frame_number = 1, fc_pattern_seed = 7,
     fc_auto_advance = True, fc_inject_timeout = False, fc_inject_read_error = False,
     fc_device_id = ''fake_camera''\<rparr>"

definition tiny_camera :: FakeCameraAdapter where
  "tiny_camera = \<lparr>fa_config = tiny_config, fa_health = default_CameraHealthSnapshot\<lparr>ch_device_id := ''fake_camera''\<rparr>,
     fa_connected = False, fa_streaming = False, fa_manual_frame_ready = False,
     fa_capture_generation = 0, fa_next_frame_number = 0\<rparr>"

definition tiny_ops :: "fake_op list" where
  "tiny_ops = [Fake_connect, Fake_start, Fake_read 5, Fake_read 5]"

definition tiny_frame :: FakeCapturedFrame where
  "tiny_frame = hd (fst (drive fake_step tiny_ops tiny_camera))"

lemma tiny_camera_new: "FakeCameraAdapter_new tiny_config = Inr tiny_camera"
  by (simp add: FakeCameraAdapter_new_def tiny_config_def tiny_camera_def)

lemma makeFrame_ok: "\<exists>f b. makeFrame a = (Inr f, b)"
  by (simp add: makeFrame_def act_simps Let_def)

lemma tiny_drive: "length (fst (drive fake_step tiny_ops tiny_camera)) = 2"
proof -
  obtain b where b: "snd (fake_startStream (snd (fake_connectCamera tiny_camera))) = b" by blast
  have bs: "fa_streaming b" "fa_config b = tiny_config"
    using b by (auto simp: fake_call_defs act_simps tiny_camera_def)
  have rd: "\<exists>f c'. fake_step (Fake_read 5) c = (Some f, c') \<and> fa_streaming c' \<and> fa_config c' = tiny_config"
    if "fa_streaming c" "fa_config c = tiny_config" for c
    using that by (simp add: fake_readFrame_def act_simps tiny_config_def makeFrame_def Let_def)
  from rd [OF bs] obtain f c where f: "fake_step (Fake_read 5) b = (Some f, c)" "fa_streaming c" "fa_config c = tiny_config"
    by blast
  from rd [OF f(2,3)] obtain g d where "fake_step (Fake_read 5) c = (Some g, d)" by blast
  with b f(1) show ?thesis by (simp add: tiny_ops_def del: fake_step.simps(5))
qed

lemma tiny_frame_made: "tiny_frame \<in> set (fst (drive fake_step tiny_ops tiny_camera))"
  using tiny_drive unfolding tiny_frame_def by (intro hd_in_set) auto

lemma tiny_frame_facts: "frame_wf tiny_frame" "fk_width tiny_frame = 2" "fk_height tiny_frame = 1"
  using drive_frames_wf [OF _ _ tiny_frame_made] by (simp_all add: tiny_camera_def tiny_config_def)

section \<open>Properties\<close>

text \<open>
  C24: whatever calls its owner makes (connecting, starting, stopping, reading with or without
  success), the frames the fake camera hands out carry strictly increasing identities, so the frame
  store accepts every one of them, in order; the bound says no 64-bit counter wraps.
\<close>

lemma fake_frames_all_accepted:
  assumes "FakeCameraAdapter_new config = Inr a" and "1 \<le> fc_start_frame_number config"
    and "length ops + unat (fc_start_frame_number config) < 2 ^ 64"
    and "map snd ps = map (as_captured srt) (fst (drive fake_step ops a))" and "k < length ps"
  shows "fst (publishFrame (fst (ps ! k)) (Some (snd (ps ! k)))
    (publish_all (\<lambda>t f. publishFrame t (Some f)) (take k ps) FrameStore_new))"
proof (rule frames.increasing_all_accepted)
  obtain fs t where d: "drive fake_step ops a = (fs, t)" by fastforce
  have "sorted_wrt (<) (map fake_key fs)"
    using fake.drive_keys [OF new_room [OF assms(1,2,3)] permitted_run_True d] by simp
  moreover have "map (\<lambda>p. key_of (frame_identity (snd p))) ps = map fake_key fs"
    using arg_cong [OF assms(4), of "map (\<lambda>f. key_of (frame_identity f))"] d
    by (simp add: as_captured_def comp_def)
  ultimately show "sorted_wrt (<) (map (\<lambda>p. key_of (frame_identity (snd p))) ps)" by simp
qed (use assms(5) in \<open>simp_all add: FrameStore_new_def\<close>)

lemma fake_frames_all_accepted_witness:
  "let fs = fst (drive fake_step tiny_ops tiny_camera) in
   fst (publishFrame 20 (Some (as_captured sort_depths (fs ! 1)))
     (snd (publishFrame 10 (Some (as_captured sort_depths (fs ! 0))) FrameStore_new)))"
proof -
  let ?fs = "fst (drive fake_step tiny_ops tiny_camera)"
  have fs: "?fs = [?fs ! 0, ?fs ! 1]"
    using tiny_drive by (cases ?fs rule: list.exhaust; cases "tl ?fs" rule: list.exhaust) auto
  have "map snd [(10 :: int, as_captured sort_depths (?fs ! 0)), (20, as_captured sort_depths (?fs ! 1))] =
      map (as_captured sort_depths) ?fs"
    by (subst (3) fs) simp
  from fake_frames_all_accepted [OF tiny_camera_new _ _ this, of 1] show ?thesis
    by (simp add: tiny_config_def tiny_ops_def)
qed

text \<open>
  On a frame of the fake camera no query fails unexpectedly: the pixel query answers for every
  pair of integers, and the region and cloud queries throw exactly when their bounds are not
  positive; in particular no vector is read out of range.
\<close>

lemma fake_frame_queries_total:
  assumes "FakeCameraAdapter_new config = Inr a" and "f \<in> set (fst (drive fake_step ops a))"
  shows "is_ok (fake_queryPixelPoint f x y) \<and>
    (is_ok (fake_queryDepthInRoi srt f x y w h) \<longleftrightarrow> 0 < w \<and> 0 < h) \<and>
    (is_ok (fake_buildPointCloudSnapshot f n s) \<longleftrightarrow> 0 < n \<and> 0 < s)"
proof (intro conjI iffI)
  have wf: "frame_wf f"
    using assms(1) drive_frames_wf [OF _ _ assms(2)] by (auto simp: FakeCameraAdapter_new_def result_simps)
  show "is_ok (fake_queryPixelPoint f x y)"
    using depth_at [OF wf, of x y] by (auto simp: fake_queryPixelPoint_def Let_def)
  show "is_ok (fake_queryDepthInRoi srt f x y w h)" if "0 < w \<and> 0 < h"
    using queryDepthInRoi_eq [OF wf] that by simp
  show "is_ok (fake_buildPointCloudSnapshot f n s)" if "0 < n \<and> 0 < s"
    using buildPointCloud_run [OF wf] that by (metis is_ok_simps(1))
qed (auto simp: fake_queryDepthInRoi_def fake_buildPointCloudSnapshot_def is_ok_iff result_simps)

lemma fake_frame_queries_total_witness:
  "is_ok (fake_queryPixelPoint tiny_frame (-3) 7) \<and>
   is_ok (fake_queryDepthInRoi sort_depths tiny_frame (-5) 0 9 4) \<and>
   \<not> is_ok (fake_buildPointCloudSnapshot tiny_frame 0 1)"
  using fake_frame_queries_total [OF tiny_camera_new tiny_frame_made, of "-3" 7 sort_depths 1 1 0 1]
    fake_frame_queries_total [OF tiny_camera_new tiny_frame_made, of "-5" 0 sort_depths 9 4 1 1]
  by simp


text \<open>The number of valid samples never exceeds the number of pixels, and neither wraps.\<close>

lemma roi_counts_ordered:
  assumes "0 < fk_width f" "0 < fk_height f" "fk_width f \<le> INT_MAX" "fk_height f \<le> INT_MAX" "0 < w" "0 < h"
    and "rd_pixel_count r0 = word_of_int (roi_width (clamped_roi f px py w h)) * word_of_int (roi_height (clamped_roi f px py w h))"
    and r_def: "r = roi_of_samples srt i r0 (valid_samples f (clamped_roi f px py w h))"
  shows "rd_valid_pixel_count r \<le> rd_pixel_count r"
proof -
  let ?roi = "clamped_roi f px py w h" let ?vs = "valid_samples f ?roi"
  have n: "roi_width ?roi \<in> {0..INT_MAX}" "roi_height ?roi \<in> {0..INT_MAX}"
    using assms(1-6) by (auto simp: clamped_roi_def clamp_def)
  have "uint (rd_pixel_count r) = (roi_width ?roi * roi_height ?roi) mod 2 ^ 64"
    by (simp add: r_def assms(7) roi_of_samples_counts uint_word_ariths unsigned_of_int take_bit_eq_mod mod_mult_eq)
  also have "roi_width ?roi * roi_height ?roi \<le> INT_MAX * INT_MAX"
    using n by (intro mult_mono) auto
  then have "(roi_width ?roi * roi_height ?roi) mod 2 ^ 64 = roi_width ?roi * roi_height ?roi"
    using n by (intro mod_pos_pos_trivial) auto
  finally have p: "uint (rd_pixel_count r) = roi_width ?roi * roi_height ?roi" .
  have "int (length ?vs) \<le> roi_width ?roi * roi_height ?roi"
    using valid_samples_length [of f ?roi] n by (simp add: zle_int [symmetric])
  moreover have "uint (rd_valid_pixel_count r) = int (length ?vs) mod 2 ^ 64"
    by (simp add: r_def roi_of_samples_counts unsigned_of_nat take_bit_eq_mod of_nat_mod)
  ultimately show ?thesis
    using p zmod_le_nonneg_dividend [of "int (length ?vs)" "2 ^ 64"] by (simp add: word_le_def)
qed



text \<open>
  C37: a point cloud of a frame never has more points than the caller allows, and the stride that
  achieves it is the smallest one from the requested stride on that keeps the sampling grid within
  the bound.
\<close>

lemma point_cloud_bounded:
  assumes "FakeCameraAdapter_new config = Inr a" and "f \<in> set (fst (drive fake_step ops a))"
    and "fake_buildPointCloudSnapshot f n s = Inr c"
  shows "length (pc_points c) \<le> n \<and> s \<le> pc_stride_pixels c \<and>
    countSampleSlots (fk_width f) (fk_height f) (pc_stride_pixels c) \<le> int n \<and>
    (\<forall>t. s \<le> t \<longrightarrow> t < pc_stride_pixels c \<longrightarrow> int n < countSampleSlots (fk_width f) (fk_height f) t)"
proof -
  have wf: "frame_wf f"
    using assms(1) drive_frames_wf [OF _ _ assms(2)] by (auto simp: FakeCameraAdapter_new_def result_simps)
  have b: "0 < n" "0 < s"
    using assms(3) by (auto simp: fake_buildPointCloudSnapshot_def result_simps)
  from buildPointCloud_run [OF wf b] assms(3)
  have "pc_stride_pixels c = effective_stride (fk_width f) (fk_height f) n s" "length (pc_points c) \<le> n"
    by auto
  with effective_stride_bounds [OF b, of "fk_width f" "fk_height f"] show ?thesis by simp
qed

lemma point_cloud_bounded_witness:
  "\<exists>c. fake_buildPointCloudSnapshot tiny_frame 1 1 = Inr c \<and> length (pc_points c) \<le> 1"
proof -
  have "is_ok (fake_buildPointCloudSnapshot tiny_frame 1 1)"
    using buildPointCloud_run [OF tiny_frame_facts(1), of 1 1] by (metis is_ok_simps(1) zero_less_one)
  then obtain c where "fake_buildPointCloudSnapshot tiny_frame 1 1 = Inr c" by (auto simp: is_ok_iff)
  with point_cloud_bounded [OF tiny_camera_new tiny_frame_made this] show ?thesis by simp
qed

end
