(* ===== verification/IntelD435.thy ===== *)
theory IntelD435
  imports CameraAdapter Effects Ieee
begin

text \<open>
  The Intel D435 adapter (\<^verbatim>\<open>src/adapters/intel_d435/intel_d435_adapter.cpp\<close>). What librealsense
  answers is an argument of each operation: the devices found, whether the pipeline starts, the frames
  of a read. A frame handle of the SDK is an option, \<^const>\<open>None\<close> being an empty handle; projecting a
  pixel (\<^verbatim>\<open>rs2_deproject_pixel_to_point\<close>) is the parameter \<open>sdk_deproject\<close>.
\<close>

section \<open>Values of the SDK\<close>

datatype rs2_format = RS2_RGB8 | RS2_BGR8 | RS2_Z16 | RS2_other_format

datatype rs2_domain = RS2_HARDWARE_CLOCK | RS2_SYSTEM_TIME | RS2_GLOBAL_TIME | RS2_other_domain

record sdk_intrinsics =
  si_width :: int
  si_height :: int
  si_fx :: f32
  si_fy :: f32
  si_ppx :: f32
  si_ppy :: f32
  si_coeffs :: "f32 list"

record sdk_frame =
  sf_width :: int
  sf_height :: int
  sf_fps :: int
  sf_format :: rs2_format
  sf_stride :: int
  sf_data :: "u8 list option"
  sf_intrinsics :: sdk_intrinsics
  sf_number :: u64
  sf_timestamp :: f64
  sf_domain :: rs2_domain
  sf_distance :: "int \<Rightarrow> int \<Rightarrow> f32"

section \<open>Conversions\<close>

fun toTimestampDomain :: "rs2_domain \<Rightarrow> DeviceTimestampDomain" where
  "toTimestampDomain RS2_HARDWARE_CLOCK = TD_HARDWARE_CLOCK"
| "toTimestampDomain RS2_SYSTEM_TIME = TD_SYSTEM_TIME"
| "toTimestampDomain RS2_GLOBAL_TIME = TD_GLOBAL_TIME"
| "toTimestampDomain RS2_other_domain = TD_UNKNOWN"

fun toPixelFormat :: "rs2_format \<Rightarrow> PixelFormat" where
  "toPixelFormat RS2_RGB8 = PF_RGB8"
| "toPixelFormat RS2_BGR8 = PF_BGR8"
| "toPixelFormat RS2_Z16 = PF_Z16"
| "toPixelFormat RS2_other_format = PF_UNKNOWN"

definition toStreamProfile :: "sdk_frame \<Rightarrow> StreamProfile" where
  "toStreamProfile f = \<lparr>sp_width = sf_width f, sp_height = sf_height f, sp_fps = sf_fps f,
     sp_format = toPixelFormat (sf_format f)\<rparr>"

definition toIntrinsics :: "sdk_frame \<Rightarrow> CameraIntrinsics" where
  "toIntrinsics f = (let source = sf_intrinsics f in
     \<lparr>in_width = si_width source, in_height = si_height source, in_fx = si_fx source, in_fy = si_fy source,
      in_ppx = si_ppx source, in_ppy = si_ppy source, in_distortion_model = DM_UNKNOWN,
      in_distortion_coefficients = si_coeffs source\<rparr>)"

definition isValidRgbFrame :: "sdk_frame option \<Rightarrow> bool" where
  "isValidRgbFrame frame = (case frame of None \<Rightarrow> False
     | Some f \<Rightarrow> sf_width f > 0 \<and> sf_height f > 0 \<and> sf_format f = RS2_RGB8 \<and>
         sf_stride f \<ge> sf_width f * 3 \<and> sf_data f \<noteq> None)"

section \<open>Frames\<close>

record IntelD435CapturedFrame =
  df_snapshot :: FrameSnapshot
  df_depth_frame :: "sdk_frame option"
  df_color_frame :: "sdk_frame option"
  df_depth_preview_frame :: "sdk_frame option"

definition d435_getColorFrameView :: "IntelD435CapturedFrame \<Rightarrow> VideoFrameView option" where
  "d435_getColorFrameView d = map_option (\<lambda>f.
     \<lparr>vf_width = sf_width f, vf_height = sf_height f, vf_stride_bytes = sf_stride f,
      vf_format = toPixelFormat (sf_format f), vf_owner = True, vf_data = sf_data f,
      vf_identity = fs_identity (df_snapshot d)\<rparr>) (df_color_frame d)"

definition d435_getDepthPreviewFrameView :: "IntelD435CapturedFrame \<Rightarrow> VideoFrameView option" where
  "d435_getDepthPreviewFrameView d =
     (if \<not> isValidRgbFrame (df_depth_preview_frame d) then None
      else map_option (\<lambda>f.
        \<lparr>vf_width = sf_width f, vf_height = sf_height f, vf_stride_bytes = sf_stride f,
         vf_format = PF_RGB8, vf_owner = True, vf_data = sf_data f,
         vf_identity = fs_identity (df_snapshot d)\<rparr>) (df_depth_preview_frame d))"

definition d435_queryPixelPoint ::
  "(sdk_intrinsics \<Rightarrow> f32 \<times> f32 \<Rightarrow> f32 \<Rightarrow> f32 \<times> f32 \<times> f32) \<Rightarrow> IntelD435CapturedFrame \<Rightarrow> int \<Rightarrow> int \<Rightarrow>
     PixelPointResult option result"
where
  "d435_queryPixelPoint sdk_deproject d pixel_x pixel_y =
     (let r = default_PixelPointResult\<lparr>pp_identity := fs_identity (df_snapshot d),
                pp_pixel_x := pixel_x, pp_pixel_y := pixel_y\<rparr>
      in Inr (Some (case df_depth_frame d of
           None \<Rightarrow> r\<lparr>pp_invalid_reason := ''pixel_out_of_bounds''\<rparr>
         | Some f \<Rightarrow>
            (if pixel_x < 0 \<or> pixel_y < 0 \<or> pixel_x \<ge> sf_width f \<or> pixel_y \<ge> sf_height f
             then r\<lparr>pp_invalid_reason := ''pixel_out_of_bounds''\<rparr>
             else let depth_m = sf_distance f pixel_x pixel_y; r = r\<lparr>pp_depth_m := depth_m\<rparr>
               in if f32_le depth_m 0 then r\<lparr>pp_invalid_reason := ''invalid_depth''\<rparr>
                  else r\<lparr>pp_valid := True,
                         pp_optical_point_m := sdk_deproject (sf_intrinsics f)
                           (f32_of_int pixel_x, f32_of_int pixel_y) depth_m\<rparr>))))"

definition d435_queryDepthInRoi :: "IntelD435CapturedFrame \<Rightarrow> int \<Rightarrow> int \<Rightarrow> int \<Rightarrow> int \<Rightarrow> RoiDepthResult result" where
  "d435_queryDepthInRoi d pixel_x pixel_y width height =
     bindE (throw_if (width \<le> 0 \<or> height \<le> 0)
              (Invalid_argument ''ROI width and height must be positive.'')) (\<lambda>_.
     Inr (default_RoiDepthResult\<lparr>rd_identity := fs_identity (df_snapshot d),
            rd_requested_roi := \<lparr>roi_x = pixel_x, roi_y = pixel_y, roi_width = width, roi_height = height\<rparr>\<rparr>))"

definition d435_buildPointCloudSnapshot :: "IntelD435CapturedFrame \<Rightarrow> nat \<Rightarrow> int \<Rightarrow> PointCloudSnapshot result" where
  "d435_buildPointCloudSnapshot d max_points stride_pixels =
     bindE (throw_if (max_points = 0 \<or> stride_pixels \<le> 0)
              (Invalid_argument ''Point cloud bounds must be positive.'')) (\<lambda>_.
     Inr (default_PointCloudSnapshot\<lparr>pc_identity := fs_identity (df_snapshot d),
            pc_source_profile := fs_depth_profile (df_snapshot d),
            pc_source_intrinsics := fs_depth_intrinsics (df_snapshot d),
            pc_requested_stride_pixels := stride_pixels, pc_stride_pixels := stride_pixels\<rparr>))"

definition d435_as_captured ::
  "(sdk_intrinsics \<Rightarrow> f32 \<times> f32 \<Rightarrow> f32 \<Rightarrow> f32 \<times> f32 \<times> f32) \<Rightarrow> IntelD435CapturedFrame \<Rightarrow> CapturedFrame"
where
  "d435_as_captured sdk_deproject d =
     \<lparr>getSnapshot = df_snapshot d, getColorFrameView = d435_getColorFrameView d,
      getDepthPreviewFrameView = d435_getDepthPreviewFrameView d,
      queryPixelPoint = d435_queryPixelPoint sdk_deproject d, queryDepthInRoi = d435_queryDepthInRoi d,
      buildPointCloudSnapshot = d435_buildPointCloudSnapshot d\<rparr>"

section \<open>The adapter\<close>

record IntelD435AdapterConfig =
  dc_serial_number :: string
  dc_device_name_filter :: string
  dc_depth_width :: int
  dc_depth_height :: int
  dc_depth_fps :: int
  dc_enable_color :: bool
  dc_color_width :: int
  dc_color_height :: int
  dc_color_fps :: int
  dc_depth_min_m :: f32
  dc_depth_max_m :: f32
  dc_device_id :: string

text \<open>The in-class initialisers; \<open>0x41200000\<close> is \<^verbatim>\<open>10.0F\<close>.\<close>

definition default_IntelD435AdapterConfig :: IntelD435AdapterConfig where
  "default_IntelD435AdapterConfig = \<lparr>dc_serial_number = [], dc_device_name_filter = ''D435'',
     dc_depth_width = 640, dc_depth_height = 480, dc_depth_fps = 30, dc_enable_color = True,
     dc_color_width = 640, dc_color_height = 480, dc_color_fps = 30, dc_depth_min_m = 0,
     dc_depth_max_m = 0x41200000, dc_device_id = []\<rparr>"

definition d435_config_invalid :: "IntelD435AdapterConfig \<Rightarrow> bool" where
  "d435_config_invalid c \<longleftrightarrow>
     dc_depth_width c \<le> 0 \<or> dc_depth_height c \<le> 0 \<or> dc_depth_fps c \<le> 0 \<or>
     (dc_enable_color c \<and> (dc_color_width c \<le> 0 \<or> dc_color_height c \<le> 0 \<or> dc_color_fps c \<le> 0)) \<or>
     f32_less (dc_depth_min_m c) 0 \<or> f32_le (dc_depth_max_m c) 0 \<or>
     f32_less (dc_depth_max_m c) (dc_depth_min_m c)"

definition validateIntelD435AdapterConfig :: "IntelD435AdapterConfig \<Rightarrow> unit result" where
  "validateIntelD435AdapterConfig c = throw_if (d435_config_invalid c)
     (Invalid_argument ''Intel D435 stream profile or depth range is invalid.'')"

text \<open>\<open>da_pipeline\<close>: the adapter owns an SDK pipeline object.\<close>

record IntelD435Adapter =
  da_config :: IntelD435AdapterConfig
  da_pipeline :: bool
  da_selected_serial :: string
  da_health :: CameraHealthSnapshot
  da_connected :: bool
  da_streaming :: bool
  da_capture_generation :: u64

definition IntelD435Adapter_new :: "IntelD435AdapterConfig \<Rightarrow> IntelD435Adapter result" where
  "IntelD435Adapter_new config =
     bindE (validateIntelD435AdapterConfig config) (\<lambda>_.
     Inr \<lparr>da_config = config, da_pipeline = False, da_selected_serial = [],
          da_health = default_CameraHealthSnapshot\<lparr>ch_device_id := dc_device_id config\<rparr>,
          da_connected = False, da_streaming = False, da_capture_generation = 0\<rparr>)"

text \<open>A device is its serial number and its name.\<close>

definition device_matches :: "IntelD435AdapterConfig \<Rightarrow> string \<times> string \<Rightarrow> bool" where
  "device_matches config device \<longleftrightarrow>
     (dc_serial_number config \<noteq> [] \<and> fst device = dc_serial_number config) \<or>
     (dc_serial_number config = [] \<and> contains_str (dc_device_name_filter config) (snd device))"

definition d435_connectCamera :: "(string \<times> string) list \<Rightarrow> (IntelD435Adapter, unit) act" where
  "d435_connectCamera devices =
     bindS (getS (\<lambda>a. filter (device_matches (da_config a)) devices)) (\<lambda>matching.
     bindS (throw_ifS (length matching \<noteq> 1)
              (Runtime_error ''Intel D435 selection requires exactly one matching device.'')) (\<lambda>_.
     modS (\<lambda>a. a\<lparr>da_selected_serial := fst (hd matching),
       da_health := (da_health a)\<lparr>ch_device_name := snd (hd matching), ch_lifecycle := CL_CONNECTED\<rparr>,
       da_connected := True\<rparr>)))"

definition d435_stopStream :: "(IntelD435Adapter, unit) act" where
  "d435_stopStream = modS (\<lambda>a. a\<lparr>da_pipeline := False, da_streaming := False,
     da_health := (da_health a)\<lparr>ch_lifecycle := (if da_connected a then CL_CONNECTED else CL_DISCONNECTED)\<rparr>\<rparr>)"

definition d435_disconnectCamera :: "(IntelD435Adapter, unit) act" where
  "d435_disconnectCamera =
     bindS d435_stopStream (\<lambda>_.
     modS (\<lambda>a. a\<lparr>da_selected_serial := [], da_connected := False,
       da_health := (da_health a)\<lparr>ch_lifecycle := CL_DISCONNECTED\<rparr>\<rparr>))"

text \<open>\<open>start_error\<close> is the exception of \<^verbatim>\<open>pipeline.start\<close>, if it throws.\<close>

definition d435_startStream :: "string option \<Rightarrow> (IntelD435Adapter, unit) act" where
  "d435_startStream start_error =
     bindS (getS da_connected) (\<lambda>connected.
     bindS (throw_ifS (\<not> connected) (Runtime_error ''Intel D435 is not connected.'')) (\<lambda>_.
     bindS (modS (\<lambda>a. a\<lparr>da_pipeline := True\<rparr>)) (\<lambda>_.
     bindS (liftS (case start_error of None \<Rightarrow> Inr () | Some e \<Rightarrow> Inl (Runtime_error e))) (\<lambda>_.
     modS (\<lambda>a. a\<lparr>da_capture_generation := da_capture_generation a + 1, da_streaming := True,
       da_health := (da_health a)\<lparr>ch_lifecycle := CL_STREAMING\<rparr>\<rparr>)))))"

text \<open>
  What a read gets from the SDK: an \<^verbatim>\<open>rs2::error\<close>, or the depth and colour handles of a frame set
  and the outcome of the colorizer (an error message, or a handle). Reading a property of an empty
  handle is an \<^verbatim>\<open>rs2::error\<close>, whose message is \<open>empty_handle\<close>.
\<close>

datatype sdk_read =
    Read_error string
  | Read_frames (rd_depth: "sdk_frame option") (rd_color: "sdk_frame option")
      (rd_colorized: "string + sdk_frame option") (empty_handle: string)

definition set_diagnostic :: "string \<Rightarrow> IntelD435Adapter \<Rightarrow> IntelD435Adapter" where
  "set_diagnostic text a = a\<lparr>da_health := (da_health a)\<lparr>ch_last_diagnostic := text\<rparr>\<rparr>"

text \<open>The colorizer: an unusable preview becomes an empty handle and leaves a diagnostic.\<close>

definition d435_preview :: "string + sdk_frame option \<Rightarrow> (IntelD435Adapter, sdk_frame option) act" where
  "d435_preview colorized = (case colorized of
     Inl message \<Rightarrow> bindS (modS (set_diagnostic (''Intel D435 depth preview colorization failed: '' @ message)))
       (\<lambda>_. retS None)
   | Inr preview \<Rightarrow>
      (if isValidRgbFrame preview then retS preview
       else bindS (modS (set_diagnostic ''Intel D435 depth preview colorization produced an invalid RGB8 frame.''))
         (\<lambda>_. retS None)))"

definition d435_snapshot :: "u64 \<Rightarrow> sdk_frame \<Rightarrow> sdk_frame option \<Rightarrow> FrameSnapshot" where
  "d435_snapshot generation depth color =
     (let snapshot = default_FrameSnapshot
        \<lparr>fs_identity := \<lparr>capture_generation = generation, frame_number = sf_number depth,
           capture_timestamp_ns = 0, capture_unix_epoch_ns = 0, device_timestamp = sf_timestamp depth,
           device_timestamp_domain = toTimestampDomain (sf_domain depth)\<rparr>,
         fs_depth_profile := toStreamProfile depth, fs_depth_intrinsics := toIntrinsics depth,
         fs_has_depth := True, fs_has_color := (color \<noteq> None)\<rparr>
      in case color of None \<Rightarrow> snapshot
         | Some c \<Rightarrow> snapshot\<lparr>fs_color_profile := toStreamProfile c, fs_color_intrinsics := toIntrinsics c\<rparr>)"

text \<open>The handler of \<^verbatim>\<open>rs2::error\<close>.\<close>

definition d435_read_failed :: "string \<Rightarrow> (IntelD435Adapter, 'a) act" where
  "d435_read_failed message =
     bindS (modS (\<lambda>a. a\<lparr>da_health := (da_health a)
       \<lparr>ch_timeout_count := ch_timeout_count (da_health a) + 1, ch_last_diagnostic := message\<rparr>\<rparr>)) (\<lambda>_.
     throwS (Runtime_error ''Intel D435 frame read failed.''))"

definition d435_readFrame :: "sdk_read \<Rightarrow> (IntelD435Adapter, IntelD435CapturedFrame) act" where
  "d435_readFrame answer =
     bindS (getS (\<lambda>a. a)) (\<lambda>a.
     bindS (throw_ifS (\<not> da_streaming a) (Runtime_error ''Intel D435 stream is not running.'')) (\<lambda>_.
     case answer of
       Read_error message \<Rightarrow> d435_read_failed message
     | Read_frames depth_frame color_frame colorized null_message \<Rightarrow>
         bindS (d435_preview colorized) (\<lambda>preview.
         case depth_frame of
           None \<Rightarrow> d435_read_failed null_message
         | Some depth \<Rightarrow>
            let snapshot = d435_snapshot (da_capture_generation a) depth color_frame
            in bindS (modS (\<lambda>a. a\<lparr>da_health := (da_health a)\<lparr>ch_latest_identity := fs_identity snapshot\<rparr>\<rparr>)) (\<lambda>_.
               retS \<lparr>df_snapshot = snapshot, df_depth_frame = Some depth, df_color_frame = color_frame,
                     df_depth_preview_frame = preview\<rparr>))))"

definition d435_getHealthSnapshot :: "IntelD435Adapter \<Rightarrow> CameraHealthSnapshot" where
  "d435_getHealthSnapshot a = da_health a"

section \<open>The identities of its frames\<close>

datatype d435_op =
    D435_connect "(string \<times> string) list" | D435_disconnect | D435_start "string option" | D435_stop
  | D435_read sdk_read

fun d435_step :: "d435_op \<Rightarrow> IntelD435Adapter \<Rightarrow> IntelD435CapturedFrame option \<times> IntelD435Adapter" where
  "d435_step (D435_connect devices) a = (None, snd (d435_connectCamera devices a))"
| "d435_step D435_disconnect a = (None, snd (d435_disconnectCamera a))"
| "d435_step (D435_start start_error) a = (None, snd (d435_startStream start_error a))"
| "d435_step D435_stop a = (None, snd (d435_stopStream a))"
| "d435_step (D435_read answer) a =
     (case d435_readFrame answer a of (Inl _, b) \<Rightarrow> (None, b) | (Inr f, b) \<Rightarrow> (Some f, b))"

text \<open>
  The device numbers the depth frames of one streaming session with increasing positive numbers; the
  last number the adapter saw is in its health record.
\<close>

definition last_number :: "IntelD435Adapter \<Rightarrow> u64" where
  "last_number a = (if capture_generation (ch_latest_identity (da_health a)) = da_capture_generation a
     then frame_number (ch_latest_identity (da_health a)) else 0)"

definition device_increasing :: "d435_op \<Rightarrow> IntelD435Adapter \<Rightarrow> bool" where
  "device_increasing x a = (case x of
     D435_read (Read_frames (Some depth) _ _ _) \<Rightarrow> last_number a < sf_number depth
   | _ \<Rightarrow> True)"

definition d435_position :: "IntelD435Adapter \<Rightarrow> frame_key" where
  "d435_position a = Frame_Key (da_capture_generation a) (last_number a)"

definition d435_room :: "nat \<Rightarrow> IntelD435Adapter \<Rightarrow> bool" where
  "d435_room n a \<longleftrightarrow> unat (da_capture_generation a) + n < 2 ^ 64 \<and>
     capture_generation (ch_latest_identity (da_health a)) \<le> da_capture_generation a"

abbreviation d435_key :: "IntelD435CapturedFrame \<Rightarrow> frame_key" where
  "d435_key f \<equiv> key_of (fs_identity (df_snapshot f))"

lemmas d435_call_defs = d435_connectCamera_def d435_disconnectCamera_def d435_stopStream_def
  d435_startStream_def

lemma d435_snapshot_identity [simp]:
  "capture_generation (fs_identity (d435_snapshot g d c)) = g"
  "frame_number (fs_identity (d435_snapshot g d c)) = sf_number d"
  by (simp_all add: d435_snapshot_def Let_def split: option.split)

lemma d435_preview_run:
  "\<exists>p b. d435_preview c a = (Inr p, b) \<and> da_capture_generation b = da_capture_generation a \<and>
     ch_latest_identity (da_health b) = ch_latest_identity (da_health a)"
  by (auto simp: d435_preview_def act_simps set_diagnostic_def split: sum.split)

lemma d435_step_Some:
  assumes "d435_step x a = (Some f, b)"
  shows "\<exists>depth c p m. x = D435_read (Read_frames (Some depth) c p m) \<and> frame_number (fs_identity (df_snapshot f)) = sf_number depth"
    and "da_streaming a" and "da_capture_generation b = da_capture_generation a"
    and "ch_latest_identity (da_health b) = fs_identity (df_snapshot f)"
    and "capture_generation (fs_identity (df_snapshot f)) = da_capture_generation a"
proof -
  obtain answer where x: "x = D435_read answer" using assms by (cases x) auto
  have r: "d435_readFrame answer a = (Inr f, b)"
    using assms x by (auto split: prod.splits sum.splits)
  then have "da_streaming a" by (auto simp: d435_readFrame_def act_simps split: if_splits)
  with r obtain dep c p m where a: "answer = Read_frames dep c p m"
    by (cases answer) (auto simp: d435_readFrame_def act_simps d435_read_failed_def)
  from d435_preview_run [of p a] obtain pr b0 where p:
    "d435_preview p a = (Inr pr, b0)" "da_capture_generation b0 = da_capture_generation a" by blast
  from r a p \<open>da_streaming a\<close> obtain depth where d: "dep = Some depth"
    by (cases dep) (auto simp: d435_readFrame_def act_simps d435_read_failed_def)
  note run = r [unfolded a d] p \<open>da_streaming a\<close>
  show "\<exists>depth c p m. x = D435_read (Read_frames (Some depth) c p m) \<and> frame_number (fs_identity (df_snapshot f)) = sf_number depth"
    using run x a d by (auto simp: d435_readFrame_def act_simps Let_def)
  show "da_streaming a" by fact
  show "da_capture_generation b = da_capture_generation a"
    "ch_latest_identity (da_health b) = fs_identity (df_snapshot f)"
    "capture_generation (fs_identity (df_snapshot f)) = da_capture_generation a"
    using run by (auto simp: d435_readFrame_def act_simps Let_def)
qed

lemma d435_step_None:
  assumes "d435_step x a = (None, b)"
  shows "ch_latest_identity (da_health b) = ch_latest_identity (da_health a)"
    and "da_capture_generation b = da_capture_generation a \<or> da_capture_generation b = da_capture_generation a + 1"
proof -
  have "ch_latest_identity (da_health b) = ch_latest_identity (da_health a) \<and>
    (da_capture_generation b = da_capture_generation a \<or> da_capture_generation b = da_capture_generation a + 1)"
  proof (cases x)
    case (D435_read answer)
    show ?thesis
    proof (cases answer)
      case (Read_error m)
      with D435_read assms show ?thesis
        by (auto simp: d435_readFrame_def act_simps d435_read_failed_def split: if_splits prod.splits sum.splits)
    next
      case (Read_frames dep c p m)
      from d435_preview_run [of p a] obtain pr b0 where "d435_preview p a = (Inr pr, b0)"
        "da_capture_generation b0 = da_capture_generation a"
        "ch_latest_identity (da_health b0) = ch_latest_identity (da_health a)" by blast
      with D435_read Read_frames assms show ?thesis
        by (cases dep) (auto simp: d435_readFrame_def act_simps d435_read_failed_def Let_def
            split: if_splits prod.splits sum.splits)
    qed
  qed (use assms in \<open>auto simp: d435_call_defs act_simps split: if_splits option.splits\<close>)
  then show "ch_latest_identity (da_health b) = ch_latest_identity (da_health a)"
    and "da_capture_generation b = da_capture_generation a \<or> da_capture_generation b = da_capture_generation a + 1"
    by blast+
qed

lemma generation_inc: "unat w + Suc n < 2 ^ 64 \<Longrightarrow> unat (w + 1 :: u64) = unat w + 1"
  by (simp add: unat_word_ariths)

interpretation d435: identity_source d435_step device_increasing d435_room d435_position d435_key
proof unfold_locales
  fix n s x assume r: "d435_room (Suc n) s" and p: "device_increasing x s"
  show "d435_room n (snd (d435_step x s))"
  proof (cases "d435_step x s")
    case (Pair out t)
    show ?thesis
    proof (cases out)
      case None
      with Pair d435_step_None [of x s t] r show ?thesis
        by (auto simp: d435_room_def generation_inc [where n = n] word_le_nat_alt)
    next
      case (Some f)
      with Pair d435_step_Some [of x s f t] r show ?thesis by (auto simp: d435_room_def)
    qed
  qed
next
  fix n s x t assume "d435_room (Suc n) s" and "device_increasing x s" and "d435_step x s = (None, t)"
  then show "d435_position s \<le> d435_position t"
    using d435_step_None [of x s t]
    by (auto simp: d435_position_def less_eq_frame_key_def d435_room_def last_number_def word_less_nat_alt
        word_le_nat_alt generation_inc [where n = n])
next
  fix n s x f t assume "d435_room (Suc n) s" and p: "device_increasing x s" and e: "d435_step x s = (Some f, t)"
  note st = d435_step_Some [OF e]
  from st(1) p have "last_number s < frame_number (fs_identity (df_snapshot f))"
    by (auto simp: device_increasing_def)
  with st(3-5) show "d435_position s < d435_key f \<and> d435_key f = d435_position t"
    by (auto simp: d435_position_def key_of_def less_frame_key_def last_number_def)
qed


section \<open>Properties\<close>

text \<open>Concrete SDK values for the witnesses.\<close>

definition sample_sdk_frame :: "u64 \<Rightarrow> sdk_frame" where
  "sample_sdk_frame number = \<lparr>sf_width = 4, sf_height = 3, sf_fps = 30, sf_format = RS2_Z16, sf_stride = 8,
     sf_data = Some (replicate 24 1),
     sf_intrinsics = \<lparr>si_width = 4, si_height = 3, si_fx = 0x43C80000, si_fy = 0x43C80000, si_ppx = 0, si_ppy = 0,
       si_coeffs = [0, 0, 0, 0, 0]\<rparr>,
     sf_number = number, sf_timestamp = 0, sf_domain = RS2_HARDWARE_CLOCK, sf_distance = (\<lambda>_ _. 0x3F800000)\<rparr>"

definition sample_reads :: "d435_op list" where
  "sample_reads = [D435_connect [(''241222076339'', ''Intel RealSense D435'')], D435_start None,
     D435_read (Read_frames (Some (sample_sdk_frame 11)) None (Inl ''no preview'') ''null''),
     D435_read (Read_error ''timeout''),
     D435_read (Read_frames (Some (sample_sdk_frame 12)) None (Inr None) ''null'')]"

definition sample_d435 :: IntelD435Adapter where
  "sample_d435 = \<lparr>da_config = default_IntelD435AdapterConfig, da_pipeline = False, da_selected_serial = [],
     da_health = default_CameraHealthSnapshot, da_connected = False, da_streaming = False,
     da_capture_generation = 0\<rparr>"

lemma sample_d435_new: "IntelD435Adapter_new default_IntelD435AdapterConfig = Inr sample_d435"
  by (simp add: IntelD435Adapter_new_def validateIntelD435AdapterConfig_def d435_config_invalid_def
      default_IntelD435AdapterConfig_def sample_d435_def default_CameraHealthSnapshot_def fp_eval)

lemmas d435_run_simps = d435_readFrame_def d435_preview_def d435_read_failed_def set_diagnostic_def
  d435_call_defs act_simps isValidRgbFrame_def device_matches_def contains_str_def

lemma device_name_contains: "sublist ''D435'' ''Intel RealSense D435''"
  by (simp add: sublist_Cons_right)

lemma sample_d435_run:
  "permitted_run device_increasing d435_step sample_reads sample_d435"
  "map (\<lambda>f. frame_number (fs_identity (df_snapshot f))) (fst (drive d435_step sample_reads sample_d435)) = [11, 12]"
  by (simp_all add: sample_reads_def sample_d435_def default_IntelD435AdapterConfig_def d435_run_simps
      device_name_contains device_increasing_def last_number_def default_CameraHealthSnapshot_def
      default_FrameIdentity_def sample_sdk_frame_def Let_def)

text \<open>
  C40: as long as the device numbers the frames of a session increasingly, every frame the D435 adapter
  hands out, over any sequence of connects, starts, stops and failing reads, is accepted by the frame
  store in order; a restart of the device's numbering is absorbed by the capture generation.
\<close>

lemma d435_frames_all_accepted:
  assumes "IntelD435Adapter_new config = Inr a" and "length ops < 2 ^ 64"
    and "permitted_run device_increasing d435_step ops a"
    and "map snd ps = map (d435_as_captured sdk_deproject) (fst (drive d435_step ops a))" and "k < length ps"
  shows "fst (publishFrame (fst (ps ! k)) (Some (snd (ps ! k)))
    (publish_all (\<lambda>t f. publishFrame t (Some f)) (take k ps) FrameStore_new))"
proof (rule frames.increasing_all_accepted)
  obtain fs t where d: "drive d435_step ops a = (fs, t)" by fastforce
  have "d435_room (length ops) a"
    using assms(1,2) by (auto simp: IntelD435Adapter_new_def result_simps d435_room_def
        default_CameraHealthSnapshot_def default_FrameIdentity_def)
  from d435.drive_keys [OF this assms(3) d] have "sorted_wrt (<) (map d435_key fs)" by simp
  moreover have "map (\<lambda>p. key_of (frame_identity (snd p))) ps = map d435_key fs"
    using arg_cong [OF assms(4), of "map (\<lambda>f. key_of (frame_identity f))"] d
    by (simp add: d435_as_captured_def comp_def)
  ultimately show "sorted_wrt (<) (map (\<lambda>p. key_of (frame_identity (snd p))) ps)" by simp
qed (use assms(5) in \<open>simp_all add: FrameStore_new_def\<close>)

lemma d435_frames_all_accepted_witness:
  "let fs = fst (drive d435_step sample_reads sample_d435); frame = d435_as_captured (\<lambda>_ _ z. (0, 0, z)) in
   fst (publishFrame 20 (Some (frame (fs ! 1))) (snd (publishFrame 10 (Some (frame (fs ! 0))) FrameStore_new)))"
proof -
  let ?fs = "fst (drive d435_step sample_reads sample_d435)" and ?c = "d435_as_captured (\<lambda>_ _ z. (0, 0, z))"
  have fs: "?fs = [?fs ! 0, ?fs ! 1]"
    using arg_cong [OF sample_d435_run(2), of length]
    by (cases ?fs rule: list.exhaust; cases "tl ?fs" rule: list.exhaust) auto
  have "map snd [(10 :: int, ?c (?fs ! 0)), (20, ?c (?fs ! 1))] = map ?c ?fs"
    by (subst (3) fs) simp
  from d435_frames_all_accepted [OF sample_d435_new _ sample_d435_run(1) this, of 1] show ?thesis
    by (simp add: sample_reads_def)
qed

text \<open>
  Connecting selects a device exactly when one and only one device fits the configured serial
  number (or, without one, the name filter); otherwise it throws and leaves the adapter as it was.
\<close>

lemma d435_connect_selects_unique:
  "case d435_connectCamera devices a of
     (Inr _, b) \<Rightarrow> (\<exists>d. filter (device_matches (da_config a)) devices = [d] \<and>
        da_selected_serial b = fst d \<and> ch_device_name (da_health b) = snd d \<and> da_connected b \<and>
        ch_lifecycle (da_health b) = CL_CONNECTED)
   | (Inl e, b) \<Rightarrow> b = a \<and> length (filter (device_matches (da_config a)) devices) \<noteq> 1 \<and>
        e = Runtime_error ''Intel D435 selection requires exactly one matching device.''"
  by (auto simp: d435_connectCamera_def act_simps length_Suc_conv)

text \<open>
  The D435 frames answer region and cloud queries without looking at the depth image: every region
  with positive sides gets an invalid result with no pixels, whatever the image holds, and every cloud
  has no points.
\<close>

lemma d435_region_queries_empty:
  "(case d435_queryDepthInRoi d x y w h of
      Inr r \<Rightarrow> \<not> rd_valid r \<and> rd_pixel_count r = 0 \<and> rd_valid_pixel_count r = 0 \<and> rd_clamped_roi r = default_PixelRoi
    | Inl e \<Rightarrow> w \<le> 0 \<or> h \<le> 0) \<and>
   (case d435_buildPointCloudSnapshot d n s of Inr c \<Rightarrow> pc_points c = [] | Inl e \<Rightarrow> n = 0 \<or> s \<le> 0)"
  by (auto simp: d435_queryDepthInRoi_def d435_buildPointCloudSnapshot_def default_RoiDepthResult_def
      default_PointCloudSnapshot_def throw_if_def bindE_def split: sum.split)

end
