(* ===== verification/ResultLogic.thy ===== *)
theory ResultLogic
  imports Prelude
begin

text \<open>
  Postconditions of functions that may throw: \<open>postE m P\<close> says that a value returned by \<open>m\<close>
  satisfies \<open>P\<close>. The rules walk along the \<^const>\<open>bindE\<close> structure of a function, so a property of
  a long parser is found by introduction, without inverting it; \<open>failE m Q\<close> does the same for the
  exceptions.
\<close>

definition postE :: "'a result \<Rightarrow> ('a \<Rightarrow> bool) \<Rightarrow> bool" where
  "postE m P \<longleftrightarrow> (\<forall>a. m = Inr a \<longrightarrow> P a)"

definition failE :: "'a result \<Rightarrow> (cpp_exn \<Rightarrow> bool) \<Rightarrow> bool" where
  "failE m Q \<longleftrightarrow> (\<forall>e. m = Inl e \<longrightarrow> Q e)"

named_theorems post_intros \<open>postconditions of results\<close>
named_theorems fail_intros \<open>exceptions of results\<close>

lemma postED: "postE m P \<Longrightarrow> m = Inr a \<Longrightarrow> P a"
  by (simp add: postE_def)

lemma failED: "failE m Q \<Longrightarrow> m = Inl e \<Longrightarrow> Q e"
  by (simp add: failE_def)

lemma postE_bind [post_intros]: "postE m (\<lambda>a. postE (f a) P) \<Longrightarrow> postE (bindE m f) P"
  by (auto simp: postE_def result_simps)

lemma postE_throw_if [post_intros]: "(\<not> b \<Longrightarrow> P ()) \<Longrightarrow> postE (throw_if b e) P"
  by (simp add: postE_def)

lemma postE_Inr [post_intros]: "P a \<Longrightarrow> postE (Inr a) P"
  by (simp add: postE_def)

lemma postE_Inl [post_intros]: "postE (Inl e) P"
  by (simp add: postE_def)

lemma postE_if [post_intros]: "(b \<Longrightarrow> postE m P) \<Longrightarrow> (\<not> b \<Longrightarrow> postE n P) \<Longrightarrow> postE (if b then m else n) P"
  by simp

lemma postE_any: "(\<And>a. P a) \<Longrightarrow> postE m P"
  by (simp add: postE_def)

lemma postE_weaken: "postE m P \<Longrightarrow> (\<And>a. P a \<Longrightarrow> Q a) \<Longrightarrow> postE m Q"
  by (simp add: postE_def)

lemma failE_bind [fail_intros]: "failE m Q \<Longrightarrow> (\<And>a. failE (f a) Q) \<Longrightarrow> failE (bindE m f) Q"
  by (auto simp: failE_def result_simps)

lemma failE_throw_if [fail_intros]: "Q e \<Longrightarrow> failE (throw_if b e) Q"
  by (simp add: failE_def)

lemma failE_Inr [fail_intros]: "failE (Inr a) Q"
  by (simp add: failE_def)

lemma failE_Inl [fail_intros]: "Q e \<Longrightarrow> failE (Inl e) Q"
  by (simp add: failE_def)

lemma failE_if [fail_intros]: "failE m Q \<Longrightarrow> failE n Q \<Longrightarrow> failE (if b then m else n) Q"
  by simp

end
