(* ===== verification/VisionConfig.thy ===== *)
theory VisionConfig
  imports ResultLogic Json FakeCamera IntelD435
begin

text \<open>
  The strict configuration parser (\<^verbatim>\<open>src/config/vision_config.cpp\<close>). The JSON text parser is
  the parameter \<open>parse\<close>; every check of the document is modelled, section by section in the
  order of the code. \<^verbatim>\<open>std::filesystem::path::is_absolute\<close> is the POSIX rule.
\<close>

section \<open>Configuration records\<close>

record ProviderConfig =
  pv_bind_host :: string
  pv_port :: int
  pv_advertised_base_url :: string
  pv_max_connections :: int
  pv_max_stream_clients :: int
  pv_request_timeout_ms :: int
  pv_max_header_bytes :: int
  pv_max_body_bytes :: int
  pv_max_frame_age_ms :: int
  pv_allowed_origins :: "string list"

record PilotConfig =
  pl_enabled :: bool
  pl_base_url :: string
  pl_clock_domain :: string
  pl_connect_timeout_ms :: int
  pl_request_timeout_ms :: int
  pl_max_response_bytes :: int
  pl_retry_initial_delay_ms :: int
  pl_retry_max_delay_ms :: int
  pl_shutdown_timeout_ms :: int

record RecordingConfig =
  rg_enabled :: bool
  rg_root :: string
  rg_queue_capacity_frames :: int
  rg_max_duration_ms :: int
  rg_minimum_free_bytes :: u64
  rg_finalize_timeout_ms :: int
  rg_bit_rate_bps :: int
  rg_preset :: string
  rg_tune :: string

record MountLocalTransform =
  mt_x :: f64
  mt_y :: f64
  mt_z :: f64
  mt_r1 :: f64
  mt_r2 :: f64
  mt_r3 :: f64
  mt_euler_type :: string

record CalibrationConfig =
  cb_calibration_id :: string
  cb_sensor_frame :: string
  cb_mount_frame :: string
  cb_mount_local_transform :: MountLocalTransform

record VisionConfig =
  vc_schema_version :: int
  vc_device_id :: string
  vc_component_id :: string
  vc_adapter :: string
  vc_fake :: FakeCameraAdapterConfig
  vc_intel_d435 :: IntelD435AdapterConfig
  vc_calibration :: CalibrationConfig
  vc_provider :: ProviderConfig
  vc_pilot :: PilotConfig
  vc_recording :: RecordingConfig

definition default_FakeCameraAdapterConfig :: FakeCameraAdapterConfig where
  "default_FakeCameraAdapterConfig = \<lparr>fc_width = 8, fc_height = 6, fc_fps = 30, fc_start_frame_number = 1,
     fc_pattern_seed = 7, fc_auto_advance = True, fc_inject_timeout = False, fc_inject_read_error = False,
     fc_device_id = ''fake_camera''\<rparr>"

section \<open>Field access\<close>

text \<open>\<open>0x4024000000000000\<close> is \<^verbatim>\<open>10.0\<close>.\<close>

definition MAX_MOUNT_TRANSLATION_M :: f64 where "MAX_MOUNT_TRANSLATION_M = 0x4024000000000000"

definition SUPPORTED_EULER_TYPES :: "string list" where
  "SUPPORTED_EULER_TYPES = [''XYZ'', ''XZY'', ''YXZ'', ''YZX'', ''ZXY'', ''ZYX'', ''ZXZ'', ''ZYZ'']"

definition requireField :: "jobject \<Rightarrow> string \<Rightarrow> string \<Rightarrow> json result" where
  "requireField obj key path = (case if_contains obj key of
     None \<Rightarrow> Inl (Invalid_argument (path @ '': required field is missing.'')) | Some v \<Rightarrow> Inr v)"

definition requireObject :: "jobject \<Rightarrow> string \<Rightarrow> string \<Rightarrow> jobject result" where
  "requireObject obj key path =
     bindE (requireField obj key path) (\<lambda>v. case v of JObject o' \<Rightarrow> Inr o'
       | _ \<Rightarrow> Inl (Invalid_argument (path @ '': must be an object.'')))"

definition control_char :: "char \<Rightarrow> bool" where
  "control_char c \<longleftrightarrow> byte_of c < 32 \<or> byte_of c = 127"

definition requireString :: "jobject \<Rightarrow> string \<Rightarrow> string \<Rightarrow> string result" where
  "requireString obj key path =
     bindE (requireField obj key path) (\<lambda>v.
     bindE (case v of JString s \<Rightarrow> throw_if (s = [] \<or> length s > 128)
                (Invalid_argument (path @ '': must be a non-empty bounded string.''))
            | _ \<Rightarrow> Inl (Invalid_argument (path @ '': must be a non-empty bounded string.''))) (\<lambda>_.
     bindE (jas_string v) (\<lambda>parsed.
     bindE (throw_if (list_ex control_char parsed)
              (Invalid_argument (path @ '': must not contain control characters.''))) (\<lambda>_.
     Inr parsed))))"

definition requireStringAllowEmpty :: "jobject \<Rightarrow> string \<Rightarrow> string \<Rightarrow> string result" where
  "requireStringAllowEmpty obj key path =
     bindE (requireField obj key path) (\<lambda>v.
     bindE (case v of JString s \<Rightarrow> throw_if (length s > 128)
                (Invalid_argument (path @ '': must be a bounded string.''))
            | _ \<Rightarrow> Inl (Invalid_argument (path @ '': must be a bounded string.''))) (\<lambda>_.
     bindE (jas_string v) (\<lambda>parsed.
     bindE (throw_if (list_ex control_char parsed)
              (Invalid_argument (path @ '': must not contain control characters.''))) (\<lambda>_.
     Inr parsed))))"

text \<open>An unsigned value past \<^verbatim>\<open>INT64_MAX\<close> converts to a negative one.\<close>

definition requireBoundedInt :: "jobject \<Rightarrow> string \<Rightarrow> string \<Rightarrow> int \<Rightarrow> int \<Rightarrow> int result" where
  "requireBoundedInt obj key path minimum maximum =
     bindE (requireField obj key path) (\<lambda>v.
     bindE (case v of JInt64 i \<Rightarrow> Inr i | JUint64 w \<Rightarrow> Inr (sint w)
            | _ \<Rightarrow> Inl (Invalid_argument (path @ '': must be an integer.''))) (\<lambda>parsed.
     bindE (throw_if (parsed < minimum \<or> parsed > maximum)
              (Invalid_argument (path @ '': is outside the allowed range.''))) (\<lambda>_.
     Inr parsed)))"

definition requireBoundedUint64 :: "jobject \<Rightarrow> string \<Rightarrow> string \<Rightarrow> u64 \<Rightarrow> u64 \<Rightarrow> u64 result" where
  "requireBoundedUint64 obj key path minimum maximum =
     bindE (requireField obj key path) (\<lambda>v.
     bindE (case v of
              JInt64 i \<Rightarrow> (if i < 0 then Inl (Invalid_argument (path @ '': must be non-negative.''))
                           else Inr (word_of_int i))
            | JUint64 w \<Rightarrow> Inr w
            | _ \<Rightarrow> Inl (Invalid_argument (path @ '': must be an integer.''))) (\<lambda>parsed.
     bindE (throw_if (parsed < minimum \<or> parsed > maximum)
              (Invalid_argument (path @ '': is outside the allowed range.''))) (\<lambda>_.
     Inr parsed)))"

fun rejectUnknownFields :: "jobject \<Rightarrow> string list \<Rightarrow> string \<Rightarrow> unit result" where
  "rejectUnknownFields [] allowed path = Inr ()"
| "rejectUnknownFields ((key, v) # items) allowed path =
     bindE (throw_if (key \<notin> set allowed) (Invalid_argument (path @ ''/'' @ key @ '': unknown field.''))) (\<lambda>_.
     rejectUnknownFields items allowed path)"

section \<open>URLs\<close>

text \<open>\<^verbatim>\<open>std::stoi\<close> on a string of decimal digits, the only strings it is called with.\<close>

definition stoi :: "string \<Rightarrow> int result" where
  "stoi s = (if s = [] then Inl (Invalid_argument ''stoi'')
     else if int (digits_val s) > INT_MAX then Inl (Out_of_range ''stoi'')
     else Inr (int (digits_val s)))"

definition url_authority :: "string \<Rightarrow> string" where
  "url_authority url = (case find_from (CHR ''/'') 7 url of
     None \<Rightarrow> drop 7 url | Some path_start \<Rightarrow> take (path_start - 7) (drop 7 url))"

definition isAdvertisedUrlValid :: "string \<Rightarrow> bool result" where
  "isAdvertisedUrlValid url =
     (if \<not> starts_with ''http://'' url \<or> contains_str ''0.0.0.0'' url \<or>
         find_char (CHR ''*'') url \<noteq> None \<or> find_char (CHR ''@'') url \<noteq> None \<or>
         find_char (CHR ''?'') url \<noteq> None \<or> find_char (CHR ''#'') url \<noteq> None
      then Inr False
      else let authority = url_authority url in
        case rfind_char (CHR '':'') authority of
          None \<Rightarrow> Inr False
        | Some port_separator \<Rightarrow>
           (if authority = [] \<or> port_separator = 0 \<or> port_separator = length authority - 1 then Inr False
            else if \<not> list_all is_digit (drop (port_separator + 1) authority) then Inr False
            else bindE (stoi (drop (port_separator + 1) authority)) (\<lambda>port.
                 Inr (port \<ge> 1 \<and> port \<le> 65535))))"

text \<open>\<^verbatim>\<open>npos + 1U\<close> is \<open>0\<close>.\<close>

definition getUrlPort :: "string \<Rightarrow> int result" where
  "getUrlPort url = (let authority = url_authority url in
     stoi (case rfind_char (CHR '':'') authority of None \<Rightarrow> authority | Some i \<Rightarrow> drop (i + 1) authority))"

fun origins_loop :: "string \<Rightarrow> json list \<Rightarrow> string list \<Rightarrow> string list result" where
  "origins_loop path [] origins = Inr origins"
| "origins_loop path (item # items) origins =
     bindE (case item of JString s \<Rightarrow> throw_if (s = [] \<or> length s > 128)
                (Invalid_argument (path @ '': entries must be non-empty bounded strings.''))
            | _ \<Rightarrow> Inl (Invalid_argument (path @ '': entries must be non-empty bounded strings.''))) (\<lambda>_.
     bindE (jas_string item) (\<lambda>origin.
     bindE (throw_if (list_ex control_char origin)
              (Invalid_argument (path @ '': entries must not contain control characters.''))) (\<lambda>_.
     bindE (isAdvertisedUrlValid origin) (\<lambda>valid.
     bindE (throw_if (\<not> valid \<or> find_from (CHR ''/'') 7 origin \<noteq> None)
              (Invalid_argument (path @
                '': entries must be exact non-wildcard HTTP origins with an explicit port.''))) (\<lambda>_.
     bindE (throw_if (origin \<in> set origins)
              (Invalid_argument (path @ '': duplicate origin is not allowed.''))) (\<lambda>_.
     origins_loop path items (origins @ [origin])))))))"

definition requireAllowedOrigins :: "jobject \<Rightarrow> string \<Rightarrow> string \<Rightarrow> string list result" where
  "requireAllowedOrigins obj key path =
     bindE (requireField obj key path) (\<lambda>v.
     case v of
       JArray items \<Rightarrow>
         bindE (throw_if (length items > 16) (Invalid_argument (path @ '': must be a bounded array.''))) (\<lambda>_.
         origins_loop path items [])
     | _ \<Rightarrow> Inl (Invalid_argument (path @ '': must be a bounded array.'')))"

definition isEulerTypeSupported :: "string \<Rightarrow> bool" where
  "isEulerTypeSupported euler_type \<longleftrightarrow> list_ex (\<lambda>t. euler_type = t) SUPPORTED_EULER_TYPES"

definition requireFiniteNumber :: "jobject \<Rightarrow> string \<Rightarrow> string \<Rightarrow> f64 result" where
  "requireFiniteNumber obj key path =
     bindE (requireField obj key path) (\<lambda>v.
     bindE (case v of JDouble d \<Rightarrow> Inr d | JInt64 i \<Rightarrow> Inr (f64_of_int i) | JUint64 w \<Rightarrow> Inr (f64_of_int (uint w))
            | _ \<Rightarrow> Inl (Invalid_argument (path @ '': must be a finite number.''))) (\<lambda>parsed.
     bindE (throw_if (\<not> f64_isfinite parsed) (Invalid_argument (path @ '': must be a finite number.''))) (\<lambda>_.
     Inr parsed)))"

section \<open>The sections of the document\<close>

definition parse_fake :: "string \<Rightarrow> jobject \<Rightarrow> FakeCameraAdapterConfig result" where
  "parse_fake device_id device =
     bindE (throw_if (if_contains device ''intel_d435'' \<noteq> None)
       (Invalid_argument ''/device/intel_d435: inactive adapter configuration is not allowed.'')) (\<lambda>_.
     bindE (requireObject device ''fake'' ''/device/fake'') (\<lambda>fake.
     bindE (rejectUnknownFields fake [''width'', ''height'', ''fps'', ''start_frame_number'', ''pattern_seed'']
       ''/device/fake'') (\<lambda>_.
     bindE (requireBoundedInt fake ''width'' ''/device/fake/width'' 1 4096) (\<lambda>width.
     bindE (requireBoundedInt fake ''height'' ''/device/fake/height'' 1 4096) (\<lambda>height.
     bindE (requireBoundedInt fake ''fps'' ''/device/fake/fps'' 1 240) (\<lambda>fps.
     bindE (requireBoundedInt fake ''start_frame_number'' ''/device/fake/start_frame_number'' 1 1000000000) (\<lambda>start.
     bindE (requireBoundedInt fake ''pattern_seed'' ''/device/fake/pattern_seed'' 0 255) (\<lambda>seed.
     Inr (default_FakeCameraAdapterConfig\<lparr>fc_width := width, fc_height := height, fc_fps := fps,
       fc_start_frame_number := word_of_int start, fc_pattern_seed := word_of_int seed,
       fc_device_id := device_id\<rparr>)))))))))"

definition parse_intel_d435 :: "string \<Rightarrow> jobject \<Rightarrow> IntelD435AdapterConfig result" where
  "parse_intel_d435 device_id device =
     bindE (throw_if (if_contains device ''fake'' \<noteq> None)
       (Invalid_argument ''/device/fake: inactive adapter configuration is not allowed.'')) (\<lambda>_.
     bindE (requireObject device ''intel_d435'' ''/device/intel_d435'') (\<lambda>d435.
     bindE (rejectUnknownFields d435 [''serial_number'', ''depth_width'', ''depth_height'', ''depth_fps'',
       ''color_width'', ''color_height'', ''color_fps'', ''enable_color'', ''depth_min_m'', ''depth_max_m'']
       ''/device/intel_d435'') (\<lambda>_.
     bindE (requireStringAllowEmpty d435 ''serial_number'' ''/device/intel_d435/serial_number'') (\<lambda>serial.
     bindE (requireBoundedInt d435 ''depth_width'' ''/device/intel_d435/depth_width'' 1 4096) (\<lambda>dw.
     bindE (requireBoundedInt d435 ''depth_height'' ''/device/intel_d435/depth_height'' 1 4096) (\<lambda>dh.
     bindE (requireBoundedInt d435 ''depth_fps'' ''/device/intel_d435/depth_fps'' 1 240) (\<lambda>dfps.
     bindE (requireBoundedInt d435 ''color_width'' ''/device/intel_d435/color_width'' 1 4096) (\<lambda>cw.
     bindE (requireBoundedInt d435 ''color_height'' ''/device/intel_d435/color_height'' 1 4096) (\<lambda>ch.
     bindE (requireBoundedInt d435 ''color_fps'' ''/device/intel_d435/color_fps'' 1 240) (\<lambda>cfps.
     bindE (bindE (requireField d435 ''enable_color'' ''/device/intel_d435/enable_color'') jas_bool) (\<lambda>enable.
     bindE (bindE (requireField d435 ''depth_min_m'' ''/device/intel_d435/depth_min_m'') jas_double) (\<lambda>dmin.
     bindE (bindE (requireField d435 ''depth_max_m'' ''/device/intel_d435/depth_max_m'') jas_double) (\<lambda>dmax.
     let config = default_IntelD435AdapterConfig\<lparr>dc_serial_number := serial, dc_depth_width := dw,
       dc_depth_height := dh, dc_depth_fps := dfps, dc_color_width := cw, dc_color_height := ch,
       dc_color_fps := cfps, dc_enable_color := enable, dc_depth_min_m := f64_to_f32 dmin,
       dc_depth_max_m := f64_to_f32 dmax, dc_device_id := device_id\<rparr>
     in bindE (validateIntelD435AdapterConfig config) (\<lambda>_. Inr config))))))))))))))"

definition parse_mount :: "jobject \<Rightarrow> MountLocalTransform result" where
  "parse_mount mount =
     bindE (rejectUnknownFields mount [''x'', ''y'', ''z'', ''r1'', ''r2'', ''r3'', ''euler_type'']
       ''/calibration/mount_local_transform'') (\<lambda>_.
     bindE (requireFiniteNumber mount ''x'' ''/calibration/mount_local_transform/x'') (\<lambda>x.
     bindE (requireFiniteNumber mount ''y'' ''/calibration/mount_local_transform/y'') (\<lambda>y.
     bindE (requireFiniteNumber mount ''z'' ''/calibration/mount_local_transform/z'') (\<lambda>z.
     bindE (requireFiniteNumber mount ''r1'' ''/calibration/mount_local_transform/r1'') (\<lambda>r1.
     bindE (requireFiniteNumber mount ''r2'' ''/calibration/mount_local_transform/r2'') (\<lambda>r2.
     bindE (requireFiniteNumber mount ''r3'' ''/calibration/mount_local_transform/r3'') (\<lambda>r3.
     bindE (requireString mount ''euler_type'' ''/calibration/mount_local_transform/euler_type'') (\<lambda>euler_type.
     bindE (throw_if (f64_less MAX_MOUNT_TRANSLATION_M (f64_abs x) \<or> f64_less MAX_MOUNT_TRANSLATION_M (f64_abs y) \<or>
                      f64_less MAX_MOUNT_TRANSLATION_M (f64_abs z))
       (Invalid_argument ''/calibration/mount_local_transform: translation is outside the allowed range.'')) (\<lambda>_.
     bindE (throw_if (\<not> isEulerTypeSupported euler_type)
       (Invalid_argument ''/calibration/mount_local_transform/euler_type: unsupported Euler convention.'')) (\<lambda>_.
     Inr \<lparr>mt_x = x, mt_y = y, mt_z = z, mt_r1 = r1, mt_r2 = r2, mt_r3 = r3, mt_euler_type = euler_type\<rparr>))))))))))"

definition parse_calibration :: "jobject \<Rightarrow> CalibrationConfig result" where
  "parse_calibration root =
     bindE (requireObject root ''calibration'' ''/calibration'') (\<lambda>calibration.
     bindE (rejectUnknownFields calibration [''calibration_id'', ''sensor_frame'', ''mount_frame'',
       ''mount_local_transform''] ''/calibration'') (\<lambda>_.
     bindE (requireString calibration ''calibration_id'' ''/calibration/calibration_id'') (\<lambda>calibration_id.
     bindE (requireString calibration ''sensor_frame'' ''/calibration/sensor_frame'') (\<lambda>sensor_frame.
     bindE (requireString calibration ''mount_frame'' ''/calibration/mount_frame'') (\<lambda>mount_frame.
     bindE (requireObject calibration ''mount_local_transform'' ''/calibration/mount_local_transform'') (\<lambda>mount.
     bindE (parse_mount mount) (\<lambda>transform.
     Inr \<lparr>cb_calibration_id = calibration_id, cb_sensor_frame = sensor_frame, cb_mount_frame = mount_frame,
          cb_mount_local_transform = transform\<rparr>)))))))"

definition parse_provider :: "jobject \<Rightarrow> ProviderConfig result" where
  "parse_provider root =
     bindE (requireObject root ''provider'' ''/provider'') (\<lambda>provider.
     bindE (rejectUnknownFields provider [''bind_host'', ''port'', ''advertised_base_url'', ''max_connections'',
       ''max_stream_clients'', ''request_timeout_ms'', ''max_header_bytes'', ''max_body_bytes'',
       ''max_frame_age_ms'', ''allowed_origins''] ''/provider'') (\<lambda>_.
     bindE (requireString provider ''bind_host'' ''/provider/bind_host'') (\<lambda>bind_host.
     bindE (requireBoundedInt provider ''port'' ''/provider/port'' 1 65535) (\<lambda>port.
     bindE (requireString provider ''advertised_base_url'' ''/provider/advertised_base_url'') (\<lambda>url.
     bindE (isAdvertisedUrlValid url) (\<lambda>url_valid.
     bindE (throw_if (\<not> url_valid)
       (Invalid_argument ''/provider/advertised_base_url: must be an absolute non-wildcard HTTP URL.'')) (\<lambda>_.
     bindE (requireBoundedInt provider ''max_connections'' ''/provider/max_connections'' 1 1024) (\<lambda>max_connections.
     bindE (requireBoundedInt provider ''max_stream_clients'' ''/provider/max_stream_clients'' 1 max_connections) (\<lambda>max_stream_clients.
     bindE (requireBoundedInt provider ''request_timeout_ms'' ''/provider/request_timeout_ms'' 1000 60000) (\<lambda>request_timeout_ms.
     bindE (requireBoundedInt provider ''max_header_bytes'' ''/provider/max_header_bytes'' 1 1048576) (\<lambda>max_header_bytes.
     bindE (requireBoundedInt provider ''max_body_bytes'' ''/provider/max_body_bytes'' 1 10485760) (\<lambda>max_body_bytes.
     bindE (requireBoundedInt provider ''max_frame_age_ms'' ''/provider/max_frame_age_ms'' 1 60000) (\<lambda>max_frame_age_ms.
     bindE (if if_contains provider ''allowed_origins'' \<noteq> None
            then requireAllowedOrigins provider ''allowed_origins'' ''/provider/allowed_origins''
            else Inr []) (\<lambda>allowed_origins.
     bindE (getUrlPort url) (\<lambda>url_port.
     bindE (throw_if (url_port \<noteq> port)
       (Invalid_argument ''/provider/advertised_base_url: port must match /provider/port.'')) (\<lambda>_.
     Inr \<lparr>pv_bind_host = bind_host, pv_port = port, pv_advertised_base_url = url,
          pv_max_connections = max_connections, pv_max_stream_clients = max_stream_clients,
          pv_request_timeout_ms = request_timeout_ms, pv_max_header_bytes = max_header_bytes,
          pv_max_body_bytes = max_body_bytes, pv_max_frame_age_ms = max_frame_age_ms,
          pv_allowed_origins = allowed_origins\<rparr>))))))))))))))))"

text \<open>\<^verbatim>\<open>requireField\<close>, the boolean test and \<^verbatim>\<open>as_bool\<close> of the two \<^verbatim>\<open>enabled\<close> members.\<close>

definition require_enabled :: "jobject \<Rightarrow> string \<Rightarrow> bool result" where
  "require_enabled obj path =
     bindE (requireField obj ''enabled'' path) (\<lambda>v.
     case v of JBool b \<Rightarrow> Inr b | _ \<Rightarrow> Inl (Invalid_argument (path @ '': must be a boolean.'')))"

definition parse_pilot :: "jobject \<Rightarrow> PilotConfig result" where
  "parse_pilot root =
     bindE (requireObject root ''pilot'' ''/pilot'') (\<lambda>pilot.
     bindE (rejectUnknownFields pilot [''enabled'', ''base_url'', ''clock_domain'', ''connect_timeout_ms'',
       ''request_timeout_ms'', ''max_response_bytes'', ''retry_initial_delay_ms'', ''retry_max_delay_ms'',
       ''shutdown_timeout_ms''] ''/pilot'') (\<lambda>_.
     bindE (require_enabled pilot ''/pilot/enabled'') (\<lambda>enabled.
     bindE (requireString pilot ''base_url'' ''/pilot/base_url'') (\<lambda>base_url.
     bindE (isAdvertisedUrlValid base_url) (\<lambda>url_valid.
     bindE (throw_if (\<not> url_valid)
       (Invalid_argument ''/pilot/base_url: must be an absolute HTTP URL without userinfo, query, or fragment.'')) (\<lambda>_.
     bindE (requireString pilot ''clock_domain'' ''/pilot/clock_domain'') (\<lambda>clock_domain.
     bindE (throw_if (clock_domain \<noteq> ''monotonic_same_host'')
       (Invalid_argument ''/pilot/clock_domain: only monotonic_same_host is supported.'')) (\<lambda>_.
     bindE (requireBoundedInt pilot ''connect_timeout_ms'' ''/pilot/connect_timeout_ms'' 1000 60000) (\<lambda>connect_timeout_ms.
     bindE (requireBoundedInt pilot ''request_timeout_ms'' ''/pilot/request_timeout_ms'' 1000 60000) (\<lambda>request_timeout_ms.
     bindE (requireBoundedInt pilot ''max_response_bytes'' ''/pilot/max_response_bytes'' 1 10485760) (\<lambda>max_response_bytes.
     bindE (requireBoundedInt pilot ''retry_initial_delay_ms'' ''/pilot/retry_initial_delay_ms'' 1 60000) (\<lambda>retry_initial.
     bindE (requireBoundedInt pilot ''retry_max_delay_ms'' ''/pilot/retry_max_delay_ms'' 1 60000) (\<lambda>retry_max.
     bindE (requireBoundedInt pilot ''shutdown_timeout_ms'' ''/pilot/shutdown_timeout_ms'' 1000 60000) (\<lambda>shutdown_timeout_ms.
     bindE (throw_if (retry_initial > retry_max)
       (Invalid_argument ''/pilot/retry_initial_delay_ms: must not exceed /pilot/retry_max_delay_ms.'')) (\<lambda>_.
     Inr \<lparr>pl_enabled = enabled, pl_base_url = base_url, pl_clock_domain = clock_domain,
          pl_connect_timeout_ms = connect_timeout_ms, pl_request_timeout_ms = request_timeout_ms,
          pl_max_response_bytes = max_response_bytes, pl_retry_initial_delay_ms = retry_initial,
          pl_retry_max_delay_ms = retry_max, pl_shutdown_timeout_ms = shutdown_timeout_ms\<rparr>)))))))))))))))"

definition parse_recording :: "jobject \<Rightarrow> RecordingConfig result" where
  "parse_recording root =
     bindE (requireObject root ''recording'' ''/recording'') (\<lambda>recording.
     bindE (rejectUnknownFields recording [''enabled'', ''root'', ''queue_capacity_frames'', ''max_duration_ms'',
       ''minimum_free_bytes'', ''finalize_timeout_ms'', ''bit_rate_bps'', ''preset'', ''tune''] ''/recording'') (\<lambda>_.
     bindE (require_enabled recording ''/recording/enabled'') (\<lambda>enabled.
     bindE (requireString recording ''root'' ''/recording/root'') (\<lambda>root_path.
     bindE (throw_if (\<not> starts_with ''/'' root_path)
       (Invalid_argument ''/recording/root: must be an absolute config-owned path.'')) (\<lambda>_.
     bindE (requireBoundedInt recording ''queue_capacity_frames'' ''/recording/queue_capacity_frames'' 1 4096) (\<lambda>capacity.
     bindE (requireBoundedInt recording ''max_duration_ms'' ''/recording/max_duration_ms'' 1 3600000) (\<lambda>max_duration.
     bindE (requireBoundedUint64 recording ''minimum_free_bytes'' ''/recording/minimum_free_bytes'' 1 1099511627776) (\<lambda>minimum_free.
     bindE (requireBoundedInt recording ''finalize_timeout_ms'' ''/recording/finalize_timeout_ms'' 1000 600000) (\<lambda>finalize_timeout.
     bindE (requireBoundedInt recording ''bit_rate_bps'' ''/recording/bit_rate_bps'' 1 100000000) (\<lambda>bit_rate.
     bindE (requireString recording ''preset'' ''/recording/preset'') (\<lambda>preset.
     bindE (requireString recording ''tune'' ''/recording/tune'') (\<lambda>tune.
     bindE (throw_if (preset \<noteq> ''veryfast'' \<or> tune \<noteq> ''zerolatency'')
       (Invalid_argument ''/recording: only the Phase 5 veryfast/zerolatency codec profile is supported.'')) (\<lambda>_.
     Inr \<lparr>rg_enabled = enabled, rg_root = root_path, rg_queue_capacity_frames = capacity,
          rg_max_duration_ms = max_duration, rg_minimum_free_bytes = minimum_free,
          rg_finalize_timeout_ms = finalize_timeout, rg_bit_rate_bps = bit_rate, rg_preset = preset,
          rg_tune = tune\<rparr>)))))))))))))"

definition parse_device ::
  "jobject \<Rightarrow> string \<Rightarrow> (string \<times> FakeCameraAdapterConfig \<times> IntelD435AdapterConfig) result"
where
  "parse_device root device_id =
     bindE (requireObject root ''device'' ''/device'') (\<lambda>device.
     bindE (rejectUnknownFields device [''adapter'', ''fake'', ''intel_d435''] ''/device'') (\<lambda>_.
     bindE (requireString device ''adapter'' ''/device/adapter'') (\<lambda>adapter.
     if adapter = ''fake'' then
       bindE (parse_fake device_id device) (\<lambda>fake. Inr (adapter, fake, default_IntelD435AdapterConfig))
     else if adapter = ''intel_d435'' then
       bindE (parse_intel_d435 device_id device) (\<lambda>d435. Inr (adapter, default_FakeCameraAdapterConfig, d435))
     else Inl (Invalid_argument ''/device/adapter: unsupported adapter.''))))"

definition color_width_of :: "VisionConfig \<Rightarrow> int" where
  "color_width_of c = (if vc_adapter c = ''fake'' then fc_width (vc_fake c) else dc_color_width (vc_intel_d435 c))"

definition color_height_of :: "VisionConfig \<Rightarrow> int" where
  "color_height_of c = (if vc_adapter c = ''fake'' then fc_height (vc_fake c) else dc_color_height (vc_intel_d435 c))"

definition color_enabled :: "VisionConfig \<Rightarrow> bool" where
  "color_enabled c \<longleftrightarrow> vc_adapter c = ''fake'' \<or> dc_enable_color (vc_intel_d435 c)"

definition parseVisionConfig :: "(string \<Rightarrow> json option) \<Rightarrow> string \<Rightarrow> VisionConfig result" where
  "parseVisionConfig parse json_text =
     (case parse json_text of
        Some (JObject root) \<Rightarrow>
          bindE (rejectUnknownFields root [''schema_version'', ''device_id'', ''component_id'', ''device'',
            ''calibration'', ''provider'', ''pilot'', ''recording''] ''/'') (\<lambda>_.
          bindE (requireBoundedInt root ''schema_version'' ''/schema_version'' 1 1) (\<lambda>schema_version.
          bindE (requireString root ''device_id'' ''/device_id'') (\<lambda>device_id.
          bindE (requireString root ''component_id'' ''/component_id'') (\<lambda>component_id.
          bindE (parse_device root device_id) (\<lambda>(adapter, fake, d435).
          bindE (parse_calibration root) (\<lambda>calibration.
          bindE (parse_provider root) (\<lambda>provider.
          bindE (parse_pilot root) (\<lambda>pilot.
          bindE (parse_recording root) (\<lambda>recording.
          let config = \<lparr>vc_schema_version = schema_version, vc_device_id = device_id,
            vc_component_id = component_id, vc_adapter = adapter, vc_fake = fake, vc_intel_d435 = d435,
            vc_calibration = calibration, vc_provider = provider, vc_pilot = pilot, vc_recording = recording\<rparr>
          in bindE (throw_if (rg_enabled recording \<and>
                 (\<not> color_enabled config \<or> color_width_of config mod 2 \<noteq> 0 \<or> color_height_of config mod 2 \<noteq> 0))
               (Invalid_argument ''/recording/enabled: requires an enabled even-dimension RGB color profile.'')) (\<lambda>_.
             Inr config))))))))))
      | _ \<Rightarrow> Inl (Invalid_argument ''/: must be a JSON object.''))"

definition getVisionConfigSchemaPath :: string where
  "getVisionConfigSchemaPath = ''schemas/vision/v1/config.schema.json''"

end
