(* ===== verification/VisionConfigFacts.thy ===== *)
theory VisionConfigFacts
  imports VisionConfig
begin

text \<open>
  What an accepted configuration guarantees to the rest of the program, which exceptions a refused
  one raises, and two concrete documents.
\<close>

section \<open>Postconditions of the field readers\<close>

definition text_ok :: "string \<Rightarrow> bool" where
  "text_ok s \<longleftrightarrow> s \<noteq> [] \<and> length s \<le> 128 \<and> \<not> list_ex control_char s"

lemma post_requireField [post_intros]:
  "(\<And>v. if_contains obj key = Some v \<Longrightarrow> P v) \<Longrightarrow> postE (requireField obj key path) P"
  by (simp add: requireField_def postE_def split: option.splits)

lemma post_json:
  assumes "v = JNull \<Longrightarrow> postE a P" "\<And>x. v = JBool x \<Longrightarrow> postE (b x) P" "\<And>x. v = JInt64 x \<Longrightarrow> postE (c x) P"
    "\<And>x. v = JUint64 x \<Longrightarrow> postE (d x) P" "\<And>x. v = JDouble x \<Longrightarrow> postE (e x) P"
    "\<And>x. v = JString x \<Longrightarrow> postE (f x) P" "\<And>x. v = JArray x \<Longrightarrow> postE (g x) P"
    "\<And>x. v = JObject x \<Longrightarrow> postE (h x) P"
  shows "postE (case_json a b c d e f g h v) P"
  using assms by (cases v) simp_all

lemma post_requireObject [post_intros]: "(\<And>v. P v) \<Longrightarrow> postE (requireObject obj key path) P"
  by (rule postE_any)

lemma post_requireBoundedInt [post_intros]:
  "(\<And>i. lo \<le> i \<Longrightarrow> i \<le> hi \<Longrightarrow> P i) \<Longrightarrow> postE (requireBoundedInt obj key path lo hi) P"
  by (auto simp: requireBoundedInt_def postE_def result_simps)

lemma post_requireBoundedUint64 [post_intros]:
  "(\<And>i. lo \<le> i \<Longrightarrow> i \<le> hi \<Longrightarrow> P i) \<Longrightarrow> postE (requireBoundedUint64 obj key path lo hi) P"
  by (auto simp: requireBoundedUint64_def postE_def result_simps)

lemma post_requireString [post_intros]:
  "(\<And>s. text_ok s \<Longrightarrow> P s) \<Longrightarrow> postE (requireString obj key path) P"
  by (auto simp: requireString_def postE_def result_simps text_ok_def split: json.splits)

lemma post_requireStringAllowEmpty [post_intros]:
  "(\<And>s. length s \<le> 128 \<Longrightarrow> P s) \<Longrightarrow> postE (requireStringAllowEmpty obj key path) P"
  by (auto simp: requireStringAllowEmpty_def postE_def result_simps split: json.splits)

lemma post_requireFiniteNumber [post_intros]:
  "(\<And>d. f64_isfinite d \<Longrightarrow> P d) \<Longrightarrow> postE (requireFiniteNumber obj key path) P"
  unfolding requireFiniteNumber_def by (intro post_intros post_json) simp_all

lemma post_rejectUnknownFields [post_intros]:
  "(set (map fst obj) \<subseteq> set allowed \<Longrightarrow> P ()) \<Longrightarrow> postE (rejectUnknownFields obj allowed path) P"
proof -
  have "rejectUnknownFields obj allowed path = Inr () \<Longrightarrow> set (map fst obj) \<subseteq> set allowed"
    by (induction obj allowed path rule: rejectUnknownFields.induct) (auto simp: result_simps)
  then show "(set (map fst obj) \<subseteq> set allowed \<Longrightarrow> P ()) \<Longrightarrow> postE (rejectUnknownFields obj allowed path) P"
    by (simp add: postE_def)
qed

lemma post_isAdvertisedUrlValid [post_intros]:
  "(\<And>b. (b \<Longrightarrow> isAdvertisedUrlValid url = Inr True) \<Longrightarrow> P b) \<Longrightarrow> postE (isAdvertisedUrlValid url) P"
  by (auto simp: postE_def)

lemma post_getUrlPort [post_intros]: "(\<And>p. getUrlPort url = Inr p \<Longrightarrow> P p) \<Longrightarrow> postE (getUrlPort url) P"
  by (simp add: postE_def)

lemma post_require_enabled [post_intros]: "(\<And>b. P b) \<Longrightarrow> postE (require_enabled obj path) P"
  by (rule postE_any)

lemma post_validateD435 [post_intros]:
  "(\<not> d435_config_invalid c \<Longrightarrow> P ()) \<Longrightarrow> postE (validateIntelD435AdapterConfig c) P"
  by (simp add: validateIntelD435AdapterConfig_def postE_def)

definition origin_ok :: "string \<Rightarrow> bool" where
  "origin_ok s \<longleftrightarrow> text_ok s \<and> isAdvertisedUrlValid s = Inr True \<and> find_from (CHR ''/'') 7 s = None"

lemma origins_loop_ok:
  "origins_loop path items acc = Inr origins \<Longrightarrow> distinct acc \<Longrightarrow> \<forall>s \<in> set acc. origin_ok s \<Longrightarrow>
     distinct origins \<and> (\<forall>s \<in> set origins. origin_ok s) \<and> length origins = length acc + length items"
proof (induction items arbitrary: acc)
  case (Cons item items)
  from Cons.prems(1) obtain s where s: "text_ok s" "isAdvertisedUrlValid s = Inr True"
      "find_from (CHR ''/'') 7 s = None" "s \<notin> set acc" "origins_loop path items (acc @ [s]) = Inr origins"
    by (cases item) (auto simp: result_simps text_ok_def not_less)
  have "\<forall>x \<in> set (acc @ [s]). origin_ok x" "distinct (acc @ [s])"
    using Cons.prems(2,3) s by (auto simp: origin_ok_def)
  with Cons.IH [OF s(5)] show ?case by simp
qed simp

definition origins_ok :: "string list \<Rightarrow> bool" where
  "origins_ok origins \<longleftrightarrow> length origins \<le> 16 \<and> distinct origins \<and> (\<forall>s \<in> set origins. origin_ok s)"

lemma post_requireAllowedOrigins [post_intros]:
  "(\<And>origins. origins_ok origins \<Longrightarrow> P origins) \<Longrightarrow> postE (requireAllowedOrigins obj key path) P"
proof -
  assume P: "\<And>origins. origins_ok origins \<Longrightarrow> P origins"
  have "postE (origins_loop path items []) P" if "length items \<le> 16" for items
    using that P origins_loop_ok [of path items "[]"] by (simp add: postE_def origins_ok_def)
  then show "postE (requireAllowedOrigins obj key path) P"
    unfolding requireAllowedOrigins_def by (intro post_intros post_json) simp_all
qed

section \<open>What the sections guarantee\<close>

definition fake_config_ok :: "FakeCameraAdapterConfig \<Rightarrow> bool" where
  "fake_config_ok f \<longleftrightarrow> 1 \<le> fc_width f \<and> fc_width f \<le> 4096 \<and> 1 \<le> fc_height f \<and> fc_height f \<le> 4096 \<and>
     1 \<le> fc_fps f \<and> fc_fps f \<le> 240 \<and> 1 \<le> uint (fc_start_frame_number f) \<and>
     uint (fc_start_frame_number f) \<le> 1000000000 \<and> uint (fc_pattern_seed f) \<le> 255 \<and>
     fc_auto_advance f \<and> \<not> fc_inject_timeout f \<and> \<not> fc_inject_read_error f"

definition mount_ok :: "MountLocalTransform \<Rightarrow> bool" where
  "mount_ok m \<longleftrightarrow> list_all f64_isfinite [mt_x m, mt_y m, mt_z m, mt_r1 m, mt_r2 m, mt_r3 m] \<and>
     list_all (\<lambda>d. \<not> f64_less MAX_MOUNT_TRANSLATION_M (f64_abs d)) [mt_x m, mt_y m, mt_z m] \<and>
     mt_euler_type m \<in> set SUPPORTED_EULER_TYPES"

definition calibration_ok :: "CalibrationConfig \<Rightarrow> bool" where
  "calibration_ok c \<longleftrightarrow> text_ok (cb_calibration_id c) \<and> text_ok (cb_sensor_frame c) \<and>
     text_ok (cb_mount_frame c) \<and> mount_ok (cb_mount_local_transform c)"

definition provider_ok :: "ProviderConfig \<Rightarrow> bool" where
  "provider_ok p \<longleftrightarrow> text_ok (pv_bind_host p) \<and> 1 \<le> pv_port p \<and> pv_port p \<le> 65535 \<and>
     isAdvertisedUrlValid (pv_advertised_base_url p) = Inr True \<and>
     getUrlPort (pv_advertised_base_url p) = Inr (pv_port p) \<and>
     1 \<le> pv_max_stream_clients p \<and> pv_max_stream_clients p \<le> pv_max_connections p \<and>
     pv_max_connections p \<le> 1024 \<and> 1000 \<le> pv_request_timeout_ms p \<and> pv_request_timeout_ms p \<le> 60000 \<and>
     1 \<le> pv_max_header_bytes p \<and> pv_max_header_bytes p \<le> 1048576 \<and>
     1 \<le> pv_max_body_bytes p \<and> pv_max_body_bytes p \<le> 10485760 \<and>
     1 \<le> pv_max_frame_age_ms p \<and> pv_max_frame_age_ms p \<le> 60000 \<and> origins_ok (pv_allowed_origins p)"

definition pilot_ok :: "PilotConfig \<Rightarrow> bool" where
  "pilot_ok p \<longleftrightarrow> isAdvertisedUrlValid (pl_base_url p) = Inr True \<and> pl_clock_domain p = ''monotonic_same_host'' \<and>
     1000 \<le> pl_connect_timeout_ms p \<and> pl_connect_timeout_ms p \<le> 60000 \<and>
     1000 \<le> pl_request_timeout_ms p \<and> pl_request_timeout_ms p \<le> 60000 \<and>
     1 \<le> pl_max_response_bytes p \<and> pl_max_response_bytes p \<le> 10485760 \<and>
     1 \<le> pl_retry_initial_delay_ms p \<and> pl_retry_initial_delay_ms p \<le> pl_retry_max_delay_ms p \<and>
     pl_retry_max_delay_ms p \<le> 60000 \<and> 1000 \<le> pl_shutdown_timeout_ms p \<and> pl_shutdown_timeout_ms p \<le> 60000"

definition recording_ok :: "RecordingConfig \<Rightarrow> bool" where
  "recording_ok r \<longleftrightarrow> text_ok (rg_root r) \<and> starts_with ''/'' (rg_root r) \<and>
     1 \<le> rg_queue_capacity_frames r \<and> rg_queue_capacity_frames r \<le> 4096 \<and>
     1 \<le> rg_max_duration_ms r \<and> rg_max_duration_ms r \<le> 3600000 \<and>
     1 \<le> rg_minimum_free_bytes r \<and> rg_minimum_free_bytes r \<le> 1099511627776 \<and>
     1000 \<le> rg_finalize_timeout_ms r \<and> rg_finalize_timeout_ms r \<le> 600000 \<and>
     1 \<le> rg_bit_rate_bps r \<and> rg_bit_rate_bps r \<le> 100000000 \<and>
     rg_preset r = ''veryfast'' \<and> rg_tune r = ''zerolatency''"

definition device_ok :: "string \<times> FakeCameraAdapterConfig \<times> IntelD435AdapterConfig \<Rightarrow> bool" where
  "device_ok = (\<lambda>(adapter, fake, d435).
     (adapter = ''fake'' \<and> fake_config_ok fake) \<or> (adapter = ''intel_d435'' \<and> \<not> d435_config_invalid d435))"

definition config_ok :: "VisionConfig \<Rightarrow> bool" where
  "config_ok c \<longleftrightarrow> vc_schema_version c = 1 \<and> text_ok (vc_device_id c) \<and> text_ok (vc_component_id c) \<and>
     device_ok (vc_adapter c, vc_fake c, vc_intel_d435 c) \<and> calibration_ok (vc_calibration c) \<and>
     provider_ok (vc_provider c) \<and> pilot_ok (vc_pilot c) \<and> recording_ok (vc_recording c) \<and>
     (rg_enabled (vc_recording c) \<longrightarrow>
        color_enabled c \<and> even (color_width_of c) \<and> even (color_height_of c))"

lemma word_of_bounded:
  "0 \<le> i \<Longrightarrow> i < 2 ^ LENGTH('a) \<Longrightarrow> uint (word_of_int i :: 'a::len word) = i"
  by (simp add: unsigned_of_int take_bit_int_eq_self)

lemma post_parse_fake: "postE (parse_fake device_id device) fake_config_ok"
  unfolding parse_fake_def
  by (intro post_intros) (simp add: fake_config_ok_def default_FakeCameraAdapterConfig_def word_of_bounded)

lemma post_parse_intel_d435: "postE (parse_intel_d435 device_id device) (\<lambda>c. \<not> d435_config_invalid c)"
  unfolding parse_intel_d435_def Let_def
  by (intro post_intros postE_any [where m = "bindE _ jas_bool"] postE_any [where m = "bindE _ jas_double"])
     assumption?

lemma post_parse_device: "postE (parse_device root device_id) device_ok"
  unfolding parse_device_def
  by (intro post_intros postE_weaken [OF post_parse_fake] postE_weaken [OF post_parse_intel_d435])
     (auto simp: device_ok_def)

lemma post_parse_mount: "postE (parse_mount mount) mount_ok"
  unfolding parse_mount_def
  by (intro post_intros)
     (simp add: mount_ok_def isEulerTypeSupported_def SUPPORTED_EULER_TYPES_def)

lemma post_parse_calibration: "postE (parse_calibration root) calibration_ok"
  unfolding parse_calibration_def
  by (intro post_intros postE_weaken [OF post_parse_mount]) (simp add: calibration_ok_def)

lemma post_parse_provider: "postE (parse_provider root) provider_ok"
  unfolding parse_provider_def
  by (intro post_intros) (simp_all add: provider_ok_def origins_ok_def)

lemma post_parse_pilot: "postE (parse_pilot root) pilot_ok"
  unfolding parse_pilot_def
  by (intro post_intros) (simp add: pilot_ok_def)

lemma post_parse_recording: "postE (parse_recording root) recording_ok"
  unfolding parse_recording_def
  by (intro post_intros) (simp add: recording_ok_def)


lemma post_parseVisionConfig: "postE (parseVisionConfig parse text) config_ok"
proof (cases "parse text")
  case None
  then show ?thesis by (simp add: parseVisionConfig_def postE_Inl)
next
  case (Some v)
  show ?thesis
  proof (cases v)
    case (JObject root)
    with Some show ?thesis
      unfolding parseVisionConfig_def
      by (simp only: option.case json.case)
         (intro post_intros postE_weaken [OF post_parse_device] postE_weaken [OF post_parse_calibration]
            postE_weaken [OF post_parse_provider] postE_weaken [OF post_parse_pilot]
            postE_weaken [OF post_parse_recording],
          clarsimp simp only: prod.case Let_def,
          intro post_intros postE_weaken [OF post_parse_calibration]
            postE_weaken [OF post_parse_provider] postE_weaken [OF post_parse_pilot]
            postE_weaken [OF post_parse_recording],
          auto simp: config_ok_def color_width_of_def color_height_of_def color_enabled_def
            even_iff_mod_2_eq_zero)
  qed (simp_all add: Some parseVisionConfig_def postE_Inl)
qed

section \<open>The exceptions\<close>

definition config_exn :: "cpp_exn \<Rightarrow> bool" where
  "config_exn e \<longleftrightarrow> (\<exists>m. e = Invalid_argument m) \<or> e = Out_of_range ''stoi'' \<or>
     e = System_error ''not a bool'' \<or> e = System_error ''not a double''"

lemma config_exn_simps [simp]:
  "config_exn (Invalid_argument m)" "config_exn (Out_of_range ''stoi'')"
  "config_exn (System_error ''not a bool'')" "config_exn (System_error ''not a double'')"
  by (simp_all add: config_exn_def)

lemma fail_json [fail_intros]:
  assumes "failE a Q" "\<And>x. failE (b x) Q" "\<And>x. failE (c x) Q" "\<And>x. failE (d x) Q" "\<And>x. failE (e x) Q"
    "\<And>x. failE (f x) Q" "\<And>x. failE (g x) Q" "\<And>x. failE (h x) Q"
  shows "failE (case_json a b c d e f g h v) Q"
  using assms by (cases v) simp_all

lemma fail_requireField [fail_intros]: "failE (requireField obj key path) config_exn"
  by (simp add: requireField_def failE_def split: option.split)

lemma fail_requireObject [fail_intros]: "failE (requireObject obj key path) config_exn"
  unfolding requireObject_def by (intro fail_intros) simp_all

lemma fail_requireBoundedInt [fail_intros]: "failE (requireBoundedInt obj key path lo hi) config_exn"
  unfolding requireBoundedInt_def by (intro fail_intros) simp_all

lemma fail_requireBoundedUint64 [fail_intros]: "failE (requireBoundedUint64 obj key path lo hi) config_exn"
  unfolding requireBoundedUint64_def by (intro fail_intros) simp_all

lemma fail_requireFiniteNumber [fail_intros]: "failE (requireFiniteNumber obj key path) config_exn"
  unfolding requireFiniteNumber_def by (intro fail_intros) simp_all

lemma fail_require_enabled [fail_intros]: "failE (require_enabled obj path) config_exn"
  unfolding require_enabled_def by (intro fail_intros) simp_all

text \<open>After the test of the kind the accessor cannot throw.\<close>

lemma fail_string_check:
  assumes "\<And>s. config_exn (e s)" and "\<And>s. failE (g s) config_exn"
  shows "failE (bindE (case v of JString s \<Rightarrow> throw_if (b s) (e s) | _ \<Rightarrow> Inl (Invalid_argument m))
    (\<lambda>_. bindE (jas_string v) g)) config_exn"
  using assms by (cases v) (auto simp: failE_def jas_string_def throw_if_def)

lemma fail_requireString [fail_intros]: "failE (requireString obj key path) config_exn"
  unfolding requireString_def by (intro fail_intros fail_string_check) simp_all

lemma fail_requireStringAllowEmpty [fail_intros]: "failE (requireStringAllowEmpty obj key path) config_exn"
  unfolding requireStringAllowEmpty_def by (intro fail_intros fail_string_check) simp_all

lemma fail_rejectUnknownFields [fail_intros]: "failE (rejectUnknownFields obj allowed path) config_exn"
  by (induction obj allowed path rule: rejectUnknownFields.induct) (auto intro!: fail_intros)

lemma fail_stoi [fail_intros]: "failE (stoi s) config_exn"
  by (simp add: stoi_def failE_def)

lemma fail_isAdvertisedUrlValid [fail_intros]: "failE (isAdvertisedUrlValid url) config_exn"
proof -
  have b: "failE (bindE (stoi s) (\<lambda>port. Inr (P port))) config_exn" for s P
    by (intro fail_intros)
  show ?thesis
    unfolding isAdvertisedUrlValid_def Let_def by (auto intro!: fail_intros b split: option.split)
qed

lemma fail_getUrlPort [fail_intros]: "failE (getUrlPort url) config_exn"
  unfolding getUrlPort_def Let_def by (rule fail_stoi)

lemma fail_origins_loop [fail_intros]: "failE (origins_loop path items acc) config_exn"
proof (induction items arbitrary: acc)
  case Nil
  then show ?case by (simp add: failE_Inr)
next
  case (Cons item items)
  show ?case
    unfolding origins_loop.simps by (intro fail_intros fail_string_check Cons.IH) simp_all
qed

lemma fail_requireAllowedOrigins [fail_intros]: "failE (requireAllowedOrigins obj key path) config_exn"
  unfolding requireAllowedOrigins_def by (intro fail_intros) simp_all

lemma fail_accessors [fail_intros]: "failE (jas_bool v) config_exn" "failE (jas_double v) config_exn"
  by (auto simp: jas_bool_def jas_double_def failE_def split: json.splits)

lemma fail_validateD435 [fail_intros]: "failE (validateIntelD435AdapterConfig c) config_exn"
  unfolding validateIntelD435AdapterConfig_def by (intro fail_intros) simp

lemma fail_sections [fail_intros]:
  "failE (parse_fake device_id device) config_exn" "failE (parse_intel_d435 device_id device) config_exn"
  "failE (parse_mount mount) config_exn" "failE (parse_provider root) config_exn"
  "failE (parse_pilot root) config_exn" "failE (parse_recording root) config_exn"
  unfolding parse_fake_def parse_intel_d435_def parse_mount_def parse_provider_def parse_pilot_def
    parse_recording_def Let_def
  by (intro fail_intros; simp)+

lemma fail_parse_calibration [fail_intros]: "failE (parse_calibration root) config_exn"
  unfolding parse_calibration_def by (intro fail_intros)

lemma fail_parse_device [fail_intros]: "failE (parse_device root device_id) config_exn"
  unfolding parse_device_def by (intro fail_intros) simp

lemma fail_parseVisionConfig: "failE (parseVisionConfig parse text) config_exn"
proof -
  have s: "failE (case x of (a, b, c) \<Rightarrow> g a b c) Q" if "\<And>a b c. failE (g a b c) Q" for x g Q
    using that by (cases x) auto
  have o: "failE (case x of None \<Rightarrow> a | Some v \<Rightarrow> g v) Q" if "failE a Q" "\<And>v. failE (g v) Q" for x a g Q
    using that by (cases x) auto
  show ?thesis
    unfolding parseVisionConfig_def Let_def by (intro fail_intros s o) simp_all
qed

end
