(* ===== verification/VisionConfigProps.thy ===== *)
theory VisionConfigProps
  imports VisionConfigFacts
begin

text \<open>The properties of the configuration parser, and two concrete documents.\<close>

section \<open>Concrete documents\<close>

definition sample_document :: "(string \<times> json) list \<Rightarrow> json" where
  "sample_document device = JObject
    [(''schema_version'', JInt64 1), (''device_id'', JString ''cam0''), (''component_id'', JString ''vision''),
     (''device'', JObject device),
     (''calibration'', JObject
       [(''calibration_id'', JString ''c1''), (''sensor_frame'', JString ''cam''), (''mount_frame'', JString ''base''),
        (''mount_local_transform'', JObject
          [(''x'', JInt64 0), (''y'', JInt64 0), (''z'', JInt64 1), (''r1'', JInt64 0), (''r2'', JInt64 0),
           (''r3'', JInt64 0), (''euler_type'', JString ''XYZ'')])]),
     (''provider'', JObject
       [(''bind_host'', JString ''0.0.0.0''), (''port'', JInt64 80), (''advertised_base_url'', JString ''http://h:80''),
        (''max_connections'', JInt64 8), (''max_stream_clients'', JInt64 4), (''request_timeout_ms'', JInt64 1000),
        (''max_header_bytes'', JInt64 4096), (''max_body_bytes'', JInt64 4096), (''max_frame_age_ms'', JInt64 500)]),
     (''pilot'', JObject
       [(''enabled'', JBool True), (''base_url'', JString ''http://p:90''),
        (''clock_domain'', JString ''monotonic_same_host''), (''connect_timeout_ms'', JInt64 1000),
        (''request_timeout_ms'', JInt64 1000), (''max_response_bytes'', JInt64 4096),
        (''retry_initial_delay_ms'', JInt64 10), (''retry_max_delay_ms'', JInt64 20),
        (''shutdown_timeout_ms'', JInt64 1000)]),
     (''recording'', JObject
       [(''enabled'', JBool True), (''root'', JString ''/r''), (''queue_capacity_frames'', JInt64 4),
        (''max_duration_ms'', JInt64 1000), (''minimum_free_bytes'', JInt64 1), (''finalize_timeout_ms'', JInt64 1000),
        (''bit_rate_bps'', JInt64 1), (''preset'', JString ''veryfast''), (''tune'', JString ''zerolatency'')])]"

definition sample_fake_device :: "(string \<times> json) list" where
  "sample_fake_device = [(''adapter'', JString ''fake''), (''fake'', JObject
     [(''width'', JInt64 2), (''height'', JInt64 2), (''fps'', JInt64 30), (''start_frame_number'', JInt64 1),
      (''pattern_seed'', JInt64 7)])]"

definition sample_d435_device :: "json \<Rightarrow> (string \<times> json) list" where
  "sample_d435_device depth_max = [(''adapter'', JString ''intel_d435''), (''intel_d435'', JObject
     [(''serial_number'', JString []), (''depth_width'', JInt64 640), (''depth_height'', JInt64 480),
      (''depth_fps'', JInt64 30), (''color_width'', JInt64 640), (''color_height'', JInt64 480),
      (''color_fps'', JInt64 30), (''enable_color'', JBool True), (''depth_min_m'', JDouble 0),
      (''depth_max_m'', depth_max)])]"

lemmas reader_defs = requireField_def requireObject_def requireString_def requireStringAllowEmpty_def
  requireBoundedInt_def requireBoundedUint64_def requireFiniteNumber_def require_enabled_def
  jas_string_def jas_bool_def jas_double_def

lemmas url_defs = isAdvertisedUrlValid_def url_authority_def getUrlPort_def starts_with_def contains_str_def
  find_from_def rfind_char_def stoi_def digits_val_def is_digit_def sublist_Cons_right Let_def

lemma sample_urls:
  "isAdvertisedUrlValid ''http://h:80'' = Inr True" "isAdvertisedUrlValid ''http://p:90'' = Inr True"
  "getUrlPort ''http://h:80'' = Inr 80"
  by (simp_all add: url_defs)

lemma small_numbers:
  "f64_isfinite (f64_of_int 0)" "f64_isfinite (f64_of_int 1)"
  "\<not> f64_less MAX_MOUNT_TRANSLATION_M (f64_abs (f64_of_int 0))"
  "\<not> f64_less MAX_MOUNT_TRANSLATION_M (f64_abs (f64_of_int 1))"
  by (simp_all add: MAX_MOUNT_TRANSLATION_M_def fp_eval)

lemma sample_sections:
  assumes "sample_document device = JObject root"
  shows "is_ok (parse_calibration root)" "is_ok (parse_provider root)" "is_ok (parse_pilot root)"
    and "\<exists>r. parse_recording root = Inr r"
  using assms
  by (auto simp: sample_document_def parse_calibration_def parse_mount_def parse_provider_def parse_pilot_def
      parse_recording_def reader_defs control_char_def sample_urls small_numbers isEulerTypeSupported_def
      SUPPORTED_EULER_TYPES_def starts_with_def)


text \<open>A sample document is decided by its device section.\<close>

lemma sample_document_run:
  assumes "sample_document device = JObject root" and "even (color_width_of c)" and "even (color_height_of c)"
    and "color_enabled c" and "parse_device root ''cam0'' = Inr (vc_adapter c, vc_fake c, vc_intel_d435 c)"
  shows "\<exists>c'. parseVisionConfig (\<lambda>_. Some (sample_document device)) [] = Inr c' \<and> vc_adapter c' = vc_adapter c \<and>
    parse_calibration root = Inr (vc_calibration c') \<and> parse_provider root = Inr (vc_provider c') \<and>
    parse_pilot root = Inr (vc_pilot c') \<and> parse_recording root = Inr (vc_recording c') \<and>
    vc_fake c' = vc_fake c \<and> vc_intel_d435 c' = vc_intel_d435 c"
proof -
  obtain cal pv pl rg where sec: "parse_calibration root = Inr cal" "parse_provider root = Inr pv"
      "parse_pilot root = Inr pl" "parse_recording root = Inr rg"
    using sample_sections [OF assms(1)] by (auto simp: is_ok_iff)
  have hd: "rejectUnknownFields root [''schema_version'', ''device_id'', ''component_id'', ''device'',
            ''calibration'', ''provider'', ''pilot'', ''recording''] ''/'' = Inr ()"
    "requireBoundedInt root ''schema_version'' ''/schema_version'' 1 1 = Inr 1"
    "requireString root ''device_id'' ''/device_id'' = Inr ''cam0''"
    "requireString root ''component_id'' ''/component_id'' = Inr ''vision''"
    using assms(1) by (auto simp: sample_document_def reader_defs control_char_def)
  let ?c = "\<lparr>vc_schema_version = 1, vc_device_id = ''cam0'', vc_component_id = ''vision'', vc_adapter = vc_adapter c,
    vc_fake = vc_fake c, vc_intel_d435 = vc_intel_d435 c, vc_calibration = cal, vc_provider = pv, vc_pilot = pl,
    vc_recording = rg\<rparr>"
  have "color_width_of ?c = color_width_of c" "color_height_of ?c = color_height_of c"
    "color_enabled ?c = color_enabled c"
    by (simp_all add: color_width_of_def color_height_of_def color_enabled_def)
  then have ok: "\<not> (rg_enabled rg \<and> (\<not> color_enabled ?c \<or> color_width_of ?c mod 2 \<noteq> 0 \<or> color_height_of ?c mod 2 \<noteq> 0))"
    using assms(2-4) by (simp add: even_iff_mod_2_eq_zero)
  have "parseVisionConfig (\<lambda>_. Some (sample_document device)) [] = Inr ?c"
    by (simp only: assms(1) parseVisionConfig_def option.case json.case hd assms(5) sec bindE_simps prod.case Let_def
        ok throw_if_simps)
  then show ?thesis using sec by simp
qed

lemma sample_document_refused:
  assumes "sample_document device = JObject root" and "parse_device root ''cam0'' = Inl e"
  shows "parseVisionConfig (\<lambda>_. Some (sample_document device)) [] = Inl e"
proof -
  have hd: "rejectUnknownFields root [''schema_version'', ''device_id'', ''component_id'', ''device'',
            ''calibration'', ''provider'', ''pilot'', ''recording''] ''/'' = Inr ()"
    "requireBoundedInt root ''schema_version'' ''/schema_version'' 1 1 = Inr 1"
    "requireString root ''device_id'' ''/device_id'' = Inr ''cam0''"
    "requireString root ''component_id'' ''/component_id'' = Inr ''vision''"
    using assms(1) by (auto simp: sample_document_def reader_defs control_char_def)
  show ?thesis
    by (simp only: assms parseVisionConfig_def option.case json.case hd bindE_simps)
qed

definition sample_fake_config :: FakeCameraAdapterConfig where
  "sample_fake_config = default_FakeCameraAdapterConfig\<lparr>fc_width := 2, fc_height := 2, fc_fps := 30,
     fc_start_frame_number := 1, fc_pattern_seed := 7, fc_device_id := ''cam0''\<rparr>"

lemma sample_document_object: "\<exists>root. sample_document device = JObject root \<and> if_contains root ''device'' = Some (JObject device)"
  by (simp add: sample_document_def)

lemma config_with: "\<exists>c :: VisionConfig. vc_adapter c = a \<and> vc_fake c = f \<and> vc_intel_d435 c = i"
  by (rule exI [of _ "c\<lparr>vc_adapter := a, vc_fake := f, vc_intel_d435 := i\<rparr>" for c]) simp

definition sample_calibration :: CalibrationConfig where
  "sample_calibration = \<lparr>cb_calibration_id = ''c1'', cb_sensor_frame = ''cam'', cb_mount_frame = ''base'',
     cb_mount_local_transform = \<lparr>mt_x = f64_of_int 0, mt_y = f64_of_int 0, mt_z = f64_of_int 1, mt_r1 = f64_of_int 0,
       mt_r2 = f64_of_int 0, mt_r3 = f64_of_int 0, mt_euler_type = ''XYZ''\<rparr>\<rparr>"

lemma sample_section_values:
  assumes "sample_document device = JObject root"
  shows "parse_calibration root = Inr sample_calibration"
    and "parse_pilot root = Inr p \<Longrightarrow> pl_enabled p" and "parse_recording root = Inr r \<Longrightarrow> rg_enabled r"
  using assms
  by (auto simp: sample_document_def parse_calibration_def parse_mount_def parse_pilot_def
      parse_recording_def reader_defs control_char_def sample_urls small_numbers isEulerTypeSupported_def
      SUPPORTED_EULER_TYPES_def starts_with_def sample_calibration_def)

lemma sample_fake_accepted:
  "\<exists>c. parseVisionConfig (\<lambda>_. Some (sample_document sample_fake_device)) [] = Inr c \<and> vc_adapter c = ''fake'' \<and>
     vc_calibration c = sample_calibration \<and> pl_enabled (vc_pilot c) \<and> rg_enabled (vc_recording c)"
proof -
  obtain root where r: "sample_document sample_fake_device = JObject root"
    "if_contains root ''device'' = Some (JObject sample_fake_device)" using sample_document_object by blast
  have d: "parse_device root ''cam0'' = Inr (''fake'', sample_fake_config, default_IntelD435AdapterConfig)"
    using r(2) by (simp add: parse_device_def parse_fake_def reader_defs control_char_def sample_fake_device_def
        sample_fake_config_def)
  obtain c :: VisionConfig where "vc_adapter c = ''fake''" "vc_fake c = sample_fake_config"
      "vc_intel_d435 c = default_IntelD435AdapterConfig"
    using config_with by blast
  with sample_document_run [OF r(1), of c] d sample_section_values [OF r(1)] show ?thesis
    by (auto simp: color_width_of_def color_height_of_def color_enabled_def sample_fake_config_def)
qed

lemma limit_bits:
  "f64_to_f32 0 = 0" "f64_to_f32 0x4018000000000000 = 0x40C00000"
  "\<not> f32_less 0 0" "\<not> f32_le 0x40C00000 0" "\<not> f32_less 0x40C00000 0"
  by (simp_all add: fp_eval)

lemmas d435_section_defs = parse_device_def parse_intel_d435_def reader_defs control_char_def
  sample_d435_device_def

lemma sample_d435_device_integer:
  "if_contains root ''device'' = Some (JObject (sample_d435_device (JInt64 6))) \<Longrightarrow>
     parse_device root ''cam0'' = Inl (System_error ''not a double'')"
  by (simp add: d435_section_defs)

lemma sample_d435_device_double:
  "if_contains root ''device'' = Some (JObject (sample_d435_device (JDouble 0x4018000000000000))) \<Longrightarrow>
     parse_device root ''cam0'' = Inr (''intel_d435'', default_FakeCameraAdapterConfig,
       default_IntelD435AdapterConfig\<lparr>dc_depth_max_m := 0x40C00000, dc_device_id := ''cam0''\<rparr>)"
  by (simp add: d435_section_defs validateIntelD435AdapterConfig_def d435_config_invalid_def
      default_IntelD435AdapterConfig_def limit_bits)

section \<open>Properties\<close>



text \<open>
  A refused configuration raises \<^verbatim>\<open>std::invalid_argument\<close>, with three exceptions: a port
  number past \<^verbatim>\<open>int\<close> (\<^verbatim>\<open>std::out_of_range\<close> from \<^verbatim>\<open>stoi\<close>), and an \<^verbatim>\<open>enable_color\<close> that is no
  boolean or a depth limit that is no floating-point literal (a system error of the JSON library).
\<close>

lemma config_refused_exceptions:
  assumes "parseVisionConfig parse json_text = Inl e"
  shows "(\<exists>m. e = Invalid_argument m) \<or> e = Out_of_range ''stoi'' \<or>
     e = System_error ''not a bool'' \<or> e = System_error ''not a double''"
  using fail_parseVisionConfig assms unfolding config_exn_def [symmetric] by (rule failED)

lemma config_refused_exceptions_witness:
  "parseVisionConfig (\<lambda>_. None) [] = Inl (Invalid_argument ''/: must be a JSON object.'')"
proof -
  have "\<exists>e. parseVisionConfig (\<lambda>_. None) [] = Inl e \<and> e = Invalid_argument ''/: must be a JSON object.''"
    by (simp add: parseVisionConfig_def)
  with config_refused_exceptions [of "\<lambda>_. None" "[]"] show ?thesis by auto
qed

text \<open>
  The depth limit of the D435 must be written as a floating-point literal: of two documents that
  differ only in writing it as \<^verbatim>\<open>6.0\<close> or as \<^verbatim>\<open>6\<close>, the first is accepted and the second ends in an
  unqualified system error.
\<close>

lemma integer_depth_limit_refused:
  "is_ok (parseVisionConfig (\<lambda>_. Some (sample_document (sample_d435_device (JDouble 0x4018000000000000)))) []) \<and>
   parseVisionConfig (\<lambda>_. Some (sample_document (sample_d435_device (JInt64 6)))) [] =
     Inl (System_error ''not a double'')"
proof
  obtain root where r: "sample_document (sample_d435_device (JInt64 6)) = JObject root"
    "if_contains root ''device'' = Some (JObject (sample_d435_device (JInt64 6)))" using sample_document_object by blast
  show "parseVisionConfig (\<lambda>_. Some (sample_document (sample_d435_device (JInt64 6)))) [] =
      Inl (System_error ''not a double'')"
    using sample_document_refused [OF r(1)] sample_d435_device_integer [OF r(2)] by simp
  let ?d = "sample_d435_device (JDouble 0x4018000000000000)"
  let ?i = "default_IntelD435AdapterConfig\<lparr>dc_depth_max_m := 0x40C00000, dc_device_id := ''cam0''\<rparr>"
  obtain root where q: "sample_document ?d = JObject root" "if_contains root ''device'' = Some (JObject ?d)"
    using sample_document_object by blast
  obtain c :: VisionConfig where "vc_adapter c = ''intel_d435''" "vc_fake c = default_FakeCameraAdapterConfig"
      "vc_intel_d435 c = ?i"
    using config_with by blast
  with sample_document_run [OF q(1), of c] sample_d435_device_double [OF q(2)]
  show "is_ok (parseVisionConfig (\<lambda>_. Some (sample_document ?d)) [])"
    by (auto simp: color_width_of_def color_height_of_def color_enabled_def default_IntelD435AdapterConfig_def is_ok_iff)
qed



end
