(* ===== verification/Geometry.thy ===== *)
theory Geometry
  imports VisionConfigFacts
begin

text \<open>
  The fixed mount transform (\<^verbatim>\<open>src/geometry/camera_mount_transform.cpp\<close>) on IEEE-754 doubles.
  \<^verbatim>\<open>std::cos\<close> and \<^verbatim>\<open>std::sin\<close> are not correctly rounded functions of the standard, so they are the
  parameters \<open>cosine\<close> and \<open>sine\<close>. A 4x4 matrix is the list of its sixteen entries, row by row.
\<close>

section \<open>Matrices\<close>

text \<open>\<open>0x3FF0000000000000\<close> is \<^verbatim>\<open>1.0\<close>, \<open>0x3E112E0BE826D695\<close> is \<^verbatim>\<open>1.0e-9\<close>, \<open>0xBFF0000000000000\<close> is \<^verbatim>\<open>-1.0\<close>.\<close>

definition one :: f64 where "one = 0x3FF0000000000000"
definition minus_one :: f64 where "minus_one = 0xBFF0000000000000"
definition ROTATION_TOLERANCE :: f64 where "ROTATION_TOLERANCE = 0x3E112E0BE826D695"

definition makeIdentityMatrix :: "f64 list" where
  "makeIdentityMatrix = [one, 0, 0, 0,  0, one, 0, 0,  0, 0, one, 0,  0, 0, 0, one]"

text \<open>The sum of the products over \<open>index\<close>, from \<open>0.0\<close> on, in the order of the loop.\<close>

definition dot :: "(nat \<Rightarrow> f64) \<Rightarrow> (nat \<Rightarrow> f64) \<Rightarrow> nat \<Rightarrow> f64" where
  "dot a b n = foldl (\<lambda>sum i. f64_add sum (f64_mul (a i) (b i))) 0 [0..<n]"

definition multiplyMatrices :: "f64 list \<Rightarrow> f64 list \<Rightarrow> f64 list" where
  "multiplyMatrices lhs rhs =
     concat (map (\<lambda>row. map (\<lambda>column.
       dot (\<lambda>index. lhs ! (row * 4 + index)) (\<lambda>index. rhs ! (index * 4 + column)) 4) [0..<4]) [0..<4])"

definition makeAxisRotation :: "(f64 \<Rightarrow> f64) \<Rightarrow> (f64 \<Rightarrow> f64) \<Rightarrow> char \<Rightarrow> f64 \<Rightarrow> f64 list result" where
  "makeAxisRotation cosine sine axis angle =
     (let r = makeIdentityMatrix; c = cosine angle; s = sine angle in
      if axis = CHR ''X'' then Inr (r[5 := c, 6 := f64_neg s, 9 := s, 10 := c])
      else if axis = CHR ''Y'' then Inr (r[0 := c, 2 := s, 8 := f64_neg s, 10 := c])
      else if axis = CHR ''Z'' then Inr (r[0 := c, 1 := f64_neg s, 4 := s, 5 := c])
      else Inl (Invalid_argument ''Camera mount Euler axis is invalid.''))"

definition beyond :: "f64 \<Rightarrow> f64 \<Rightarrow> bool" where
  "beyond value expected \<longleftrightarrow> f64_less ROTATION_TOLERANCE (f64_abs (f64_sub value expected))"

definition rotation_product :: "f64 list \<Rightarrow> nat \<Rightarrow> nat \<Rightarrow> f64" where
  "rotation_product m row column = dot (\<lambda>index. m ! (row * 4 + index)) (\<lambda>index. m ! (column * 4 + index)) 3"

definition determinant3 :: "f64 list \<Rightarrow> f64" where
  "determinant3 m =
     f64_add (f64_sub
       (f64_mul (m ! 0) (f64_sub (f64_mul (m ! 5) (m ! 10)) (f64_mul (m ! 6) (m ! 9))))
       (f64_mul (m ! 1) (f64_sub (f64_mul (m ! 4) (m ! 10)) (f64_mul (m ! 6) (m ! 8)))))
       (f64_mul (m ! 2) (f64_sub (f64_mul (m ! 4) (m ! 9)) (f64_mul (m ! 5) (m ! 8))))"

definition validateMatrix :: "f64 list \<Rightarrow> unit result" where
  "validateMatrix m =
     bindE (throw_if (list_ex (\<lambda>v. \<not> f64_isfinite v) m)
       (Invalid_argument ''Camera mount matrix must be finite.'')) (\<lambda>_.
     bindE (throw_if (f64_less ROTATION_TOLERANCE (f64_abs (m ! 12)) \<or> f64_less ROTATION_TOLERANCE (f64_abs (m ! 13)) \<or>
              f64_less ROTATION_TOLERANCE (f64_abs (m ! 14)) \<or> beyond (m ! 15) one)
       (Invalid_argument ''Camera mount matrix homogeneous row is invalid.'')) (\<lambda>_.
     bindE (throw_if (list_ex (\<lambda>row. list_ex (\<lambda>column.
                beyond (rotation_product m row column) (if row = column then one else 0)) [0..<3]) [0..<3])
       (Invalid_argument ''Camera mount rotation is not orthonormal.'')) (\<lambda>_.
     throw_if (beyond (determinant3 m) one)
       (Invalid_argument ''Camera mount rotation determinant is invalid.''))))"

section \<open>The transform\<close>

record CameraMountTransform =
  ct_calibration_id :: string
  ct_sensor_frame :: string
  ct_mount_frame :: string
  ct_matrix4x4 :: "f64 list"

definition calibration_invalid :: "CalibrationConfig \<Rightarrow> bool" where
  "calibration_invalid calibration \<longleftrightarrow>
     (let t = cb_mount_local_transform calibration in
      cb_calibration_id calibration = [] \<or> cb_sensor_frame calibration = [] \<or> cb_mount_frame calibration = [] \<or>
      length (mt_euler_type t) \<noteq> 3 \<or> \<not> f64_isfinite (mt_x t) \<or> \<not> f64_isfinite (mt_y t) \<or>
      \<not> f64_isfinite (mt_z t) \<or> \<not> f64_isfinite (mt_r1 t) \<or> \<not> f64_isfinite (mt_r2 t) \<or> \<not> f64_isfinite (mt_r3 t))"

fun rotate_axes :: "(f64 \<Rightarrow> f64) \<Rightarrow> (f64 \<Rightarrow> f64) \<Rightarrow> (char \<times> f64) list \<Rightarrow> f64 list \<Rightarrow> f64 list result" where
  "rotate_axes cosine sine [] m = Inr m"
| "rotate_axes cosine sine ((axis, angle) # rest) m =
     bindE (makeAxisRotation cosine sine axis angle) (\<lambda>rotation.
     rotate_axes cosine sine rest (multiplyMatrices m rotation))"

definition camera_body_from_camera_optical :: "f64 list" where
  "camera_body_from_camera_optical =
     [one, 0, 0, 0,  0, 0, one, 0,  0, minus_one, 0, 0,  0, 0, 0, one]"

definition buildCameraMountTransform ::
  "(f64 \<Rightarrow> f64) \<Rightarrow> (f64 \<Rightarrow> f64) \<Rightarrow> CalibrationConfig \<Rightarrow> CameraMountTransform result"
where
  "buildCameraMountTransform cosine sine calibration =
     (let t = cb_mount_local_transform calibration in
      bindE (throw_if (calibration_invalid calibration)
        (Invalid_argument ''Camera mount calibration is invalid.'')) (\<lambda>_.
      bindE (rotate_axes cosine sine (zip (mt_euler_type t) [mt_r1 t, mt_r2 t, mt_r3 t]) makeIdentityMatrix)
        (\<lambda>rotated.
      let body = rotated[3 := mt_x t, 7 := mt_y t, 11 := mt_z t];
          matrix = multiplyMatrices body camera_body_from_camera_optical
      in bindE (validateMatrix matrix) (\<lambda>_.
      Inr \<lparr>ct_calibration_id = cb_calibration_id calibration, ct_sensor_frame = cb_sensor_frame calibration,
           ct_mount_frame = cb_mount_frame calibration, ct_matrix4x4 = matrix\<rparr>))))"

text \<open>\<^verbatim>\<open>std::numeric_limits<float>::max()\<close> as a double, and its negation.\<close>

definition FLOAT_MAX :: f64 where "FLOAT_MAX = 0x47EFFFFFE0000000"
definition FLOAT_LOWEST :: f64 where "FLOAT_LOWEST = 0xC7EFFFFFE0000000"

definition transform_row :: "f64 list \<Rightarrow> f32 list \<Rightarrow> nat \<Rightarrow> f32 result" where
  "transform_row m point row =
     (let transformed = foldl (\<lambda>sum column. f64_add sum (f64_mul (m ! (row * 4 + column)) (f32_to_f64 (point ! column))))
            (m ! (row * 4 + 3)) [0..<3]
      in bindE (throw_if (\<not> f64_isfinite transformed \<or> f64_less FLOAT_MAX transformed \<or> f64_less transformed FLOAT_LOWEST)
           (Invalid_argument ''Camera mount point is outside float range.'')) (\<lambda>_.
         Inr (f64_to_f32 transformed)))"

definition transformCameraPointToMount :: "f32 list \<Rightarrow> CameraMountTransform \<Rightarrow> f32 list result" where
  "transformCameraPointToMount point transform =
     bindE (throw_if (list_ex (\<lambda>c. \<not> f32_isfinite c) point)
       (Invalid_argument ''Camera optical point must be finite.'')) (\<lambda>_.
     bindE (validateMatrix (ct_matrix4x4 transform)) (\<lambda>_.
     mapE (transform_row (ct_matrix4x4 transform) point) [0..<3]))"

definition float_entry :: "f64 \<Rightarrow> f32 result" where
  "float_entry value =
     bindE (throw_if (f64_less FLOAT_MAX value \<or> f64_less value FLOAT_LOWEST)
       (Invalid_argument ''Camera mount matrix is outside float range.'')) (\<lambda>_.
     Inr (f64_to_f32 value))"

definition buildMountFromCameraMatrix3x4 :: "CameraMountTransform \<Rightarrow> f32 list result" where
  "buildMountFromCameraMatrix3x4 transform =
     bindE (validateMatrix (ct_matrix4x4 transform)) (\<lambda>_.
     mapE (\<lambda>index. float_entry (ct_matrix4x4 transform ! index)) [0..<12])"

section \<open>Lemmas\<close>

lemma length_multiplyMatrices [simp]: "length (multiplyMatrices a b) = 16"
  by (simp add: multiplyMatrices_def upt_rec)

lemma length_makeAxisRotation: "makeAxisRotation c s axis angle = Inr m \<Longrightarrow> length m = 16"
  by (auto simp: makeAxisRotation_def makeIdentityMatrix_def Let_def split: if_splits)

lemma makeAxisRotation_ok:
  "is_ok (makeAxisRotation c s axis angle) \<longleftrightarrow> axis \<in> {CHR ''X'', CHR ''Y'', CHR ''Z''}"
  by (auto simp: makeAxisRotation_def Let_def)

lemma rotate_axes_ok:
  "(\<And>p. p \<in> set ps \<Longrightarrow> fst p \<in> {CHR ''X'', CHR ''Y'', CHR ''Z''}) \<Longrightarrow> length m = 16 \<Longrightarrow>
     \<exists>r. rotate_axes c s ps m = Inr r \<and> length r = 16"
proof (induction ps arbitrary: m)
  case Nil
  then show ?case by simp
next
  case (Cons p ps)
  obtain axis angle where p: "p = (axis, angle)" by fastforce
  have "axis \<in> {CHR ''X'', CHR ''Y'', CHR ''Z''}" using Cons.prems(1) [of p] p by simp
  then obtain r where "makeAxisRotation c s axis angle = Inr r"
    using makeAxisRotation_ok [of c s axis angle] by (auto simp: is_ok_iff)
  with Cons.IH [of "multiplyMatrices m r"] Cons.prems p show ?case by simp
qed

lemma euler_types: "t \<in> set SUPPORTED_EULER_TYPES \<Longrightarrow> length t = 3 \<and> set t \<subseteq> {CHR ''X'', CHR ''Y'', CHR ''Z''}"
  by (auto simp: SUPPORTED_EULER_TYPES_def)

end
