(* ===== verification/PilotCodec.thy ===== *)
theory PilotCodec
  imports Json "HOL-Library.List_Lexorder" "HOL-Library.Char_ord"
begin

text \<open>
  The DTO codec of the Pilot protocol (\<^verbatim>\<open>src/pilot/pilot_contract_codec.hpp\<close> and
  \<^verbatim>\<open>pilot_contract_codec.cpp\<close>). The JSON text layer is the parameters \<open>parse\<close> and
  \<open>ser\<close>; what this code decides is which values are acceptable. Strings compare byte by
  byte, the order of \<open>List_Lexorder\<close> over \<open>Char_ord\<close>.
\<close>

section \<open>DTOs\<close>

record PilotCommonState =
  cs_health :: string
  cs_reason :: string
  cs_details :: jobject

record PilotServiceContract =
  sv_method :: string
  sv_request_schema_id :: string
  sv_response_schema_id :: string

record PilotStreamContract =
  sm_clock_domain :: string
  sm_stream_group_id :: string

record PilotEndpointDescriptor =
  ds_descriptor_id :: string
  ds_kind :: string
  ds_capability :: string
  ds_contract_version :: u64
  ds_endpoint :: string
  ds_media_type :: string
  ds_schema_id :: string
  ds_metadata :: jobject
  ds_is_stream :: bool
  ds_service :: PilotServiceContract
  ds_stream :: PilotStreamContract

record PilotRegistrationRequest =
  rr_component_id :: string
  rr_instance_id :: string
  rr_capabilities :: "string list"
  rr_initial_state :: PilotCommonState
  rr_started_at_ns :: u64
  rr_metadata :: jobject
  rr_clock_domain :: string

record PilotRegistrationResponse =
  rs_session_id :: string
  rs_server_instance_id :: string
  rs_heartbeat_interval_ms :: u64
  rs_lease_timeout_ms :: u64
  rs_server_time_ns :: u64

record PilotCatalogAcceptedResponse =
  ca_server_instance_id :: string
  ca_component_id :: string
  ca_catalog_generation :: u64
  ca_descriptor_count :: int

record PilotLifecycleAcceptedResponse =
  la_server_instance_id :: string

section \<open>Field access\<close>

definition IDENTIFIER_MAX_BYTES :: nat where "IDENTIFIER_MAX_BYTES = 128"
definition MAX_INT64_VALUE :: u64 where "MAX_INT64_VALUE = 9223372036854775807"

definition validateIdentifier :: "string \<Rightarrow> string \<Rightarrow> unit result" where
  "validateIdentifier value field =
     throw_if (value = [] \<or> length value > IDENTIFIER_MAX_BYTES)
       (Invalid_argument (field @ '' must be a bounded non-empty identifier.''))"

text \<open>A JSON number that is an integer, as the unsigned value the code converts it to.\<close>

definition json_unsigned :: "cpp_exn \<Rightarrow> cpp_exn \<Rightarrow> json \<Rightarrow> u64 result" where
  "json_unsigned not_integer negative v = (case v of
     JInt64 i \<Rightarrow> (if i < 0 then Inl negative else Inr (word_of_int i))
   | JUint64 w \<Rightarrow> Inr w
   | _ \<Rightarrow> Inl not_integer)"

definition requireNonNegativeInteger :: "jobject \<Rightarrow> string \<Rightarrow> u64 result" where
  "requireNonNegativeInteger obj key = (case if_contains obj key of
     None \<Rightarrow> Inl (Invalid_argument (key @ '' must be a non-negative integer.''))
   | Some v \<Rightarrow>
      bindE (json_unsigned (Invalid_argument (key @ '' must be a non-negative integer.''))
               (Invalid_argument (key @ '' must be non-negative.'')) v) (\<lambda>value.
      bindE (throw_if (value > MAX_INT64_VALUE)
               (Invalid_argument (key @ '' exceeds the public integer range.''))) (\<lambda>_.
      Inr value)))"

definition requireIdentifier :: "jobject \<Rightarrow> string \<Rightarrow> string result" where
  "requireIdentifier obj key = (case if_contains obj key of
     Some (JString value) \<Rightarrow> bindE (validateIdentifier value key) (\<lambda>_. Inr value)
   | _ \<Rightarrow> Inl (Invalid_argument (key @ '' must be an identifier.'')))"

section \<open>Requests\<close>

definition serializeCommonState :: "PilotCommonState \<Rightarrow> json result" where
  "serializeCommonState state =
     bindE (throw_if (cs_health state \<noteq> ''starting'' \<and> cs_health state \<noteq> ''ready'' \<and>
              cs_health state \<noteq> ''degraded'' \<and> cs_health state \<noteq> ''faulted'' \<and>
              cs_health state \<noteq> ''stopping'')
            (Invalid_argument ''Pilot health must be a public CommonState value.'')) (\<lambda>_.
     bindE (throw_if (length (cs_reason state) > 256)
            (Invalid_argument ''Pilot state reason exceeds the public bound.'')) (\<lambda>_.
     Inr (JObject [(''health'', JString (cs_health state)),
                   (''reason'', string_or_null (cs_reason state)),
                   (''details'', JObject (cs_details state))])))"

definition serializeDescriptor :: "PilotEndpointDescriptor \<Rightarrow> json result" where
  "serializeDescriptor d =
     bindE (validateIdentifier (ds_descriptor_id d) ''descriptor_id'') (\<lambda>_.
     bindE (validateIdentifier (ds_capability d) ''capability'') (\<lambda>_.
     bindE (throw_if (ds_contract_version d = 0 \<or> ds_contract_version d > MAX_INT64_VALUE \<or>
              ds_endpoint d = [] \<or> ds_media_type d = [] \<or> ds_schema_id d = [])
            (Invalid_argument ''Pilot endpoint descriptor is incomplete.'')) (\<lambda>_.
     Inr (JObject
       ([(''descriptor_id'', JString (ds_descriptor_id d)),
         (''kind'', JString (if ds_is_stream d then ''stream'' else ''service'')),
         (''capability'', JString (ds_capability d)),
         (''contract_version'', JUint64 (ds_contract_version d)),
         (''protocol'', JString ''http''),
         (''endpoint'', JString (ds_endpoint d)),
         (''media_type'', JString (ds_media_type d)),
         (''schema_id'', JString (ds_schema_id d)),
         (''metadata'', JObject (ds_metadata d))] @
        (if ds_is_stream d
         then [(''service'', JNull),
               (''stream'', JObject
                  [(''clock_domain'', JString (sm_clock_domain (ds_stream d))),
                   (''stream_group_id'', string_or_null (sm_stream_group_id (ds_stream d)))])]
         else [(''service'', JObject
                  [(''method'', JString (sv_method (ds_service d))),
                   (''request_schema_id'', string_or_null (sv_request_schema_id (ds_service d))),
                   (''response_schema_id'', string_or_null (sv_response_schema_id (ds_service d)))]),
               (''stream'', JNull)]))))))"

definition is_hex_lower :: "char \<Rightarrow> bool" where
  "is_hex_lower c \<longleftrightarrow> is_digit c \<or> (97 \<le> byte_of c \<and> byte_of c \<le> 102)"

definition isInstanceIdValid :: "string \<Rightarrow> bool" where
  "isInstanceIdValid value \<longleftrightarrow>
     \<not> (length value \<noteq> 39 \<or> \<not> starts_with ''vision-'' value) \<and> list_all is_hex_lower (drop 7 value)"

definition HEX_LOWER :: string where "HEX_LOWER = ''0123456789abcdef''"

text \<open>\<open>random\<close> holds the sixteen readings of \<^verbatim>\<open>std::random_device\<close>.\<close>

definition generateInstanceId :: "string option \<Rightarrow> u32 list \<Rightarrow> string result" where
  "generateInstanceId generator random = (case generator of
     Some value \<Rightarrow>
       bindE (throw_if (\<not> isInstanceIdValid value)
                (Invalid_argument ''Injected Pilot instance ID has an invalid format.'')) (\<lambda>_. Inr value)
   | None \<Rightarrow>
       Inr (''vision-'' @ concat (map (\<lambda>reading. let byte = unat (ucast reading :: u8) in
              [HEX_LOWER ! (byte div 16), HEX_LOWER ! (byte mod 16)]) (take 16 random))))"

fun has_adjacent_equal :: "'a list \<Rightarrow> bool" where
  "has_adjacent_equal (x # y # xs) \<longleftrightarrow> x = y \<or> has_adjacent_equal (y # xs)"
| "has_adjacent_equal _ \<longleftrightarrow> False"

definition serializeRegistrationRequest :: "(json \<Rightarrow> string) \<Rightarrow> PilotRegistrationRequest \<Rightarrow> string result" where
  "serializeRegistrationRequest ser request =
     bindE (validateIdentifier (rr_component_id request) ''component_id'') (\<lambda>_.
     bindE (throw_if (\<not> isInstanceIdValid (rr_instance_id request) \<or>
              rr_clock_domain request \<noteq> ''monotonic_same_host'')
            (Invalid_argument ''Pilot registration identity or clock domain is invalid.'')) (\<lambda>_.
     bindE (throw_if (\<not> sorted (rr_capabilities request) \<or> has_adjacent_equal (rr_capabilities request))
            (Invalid_argument ''Pilot registration capabilities must be stable sorted and unique.'')) (\<lambda>_.
     bindE (mapE (\<lambda>capability. bindE (validateIdentifier capability ''capability'') (\<lambda>_.
              Inr (JString capability))) (rr_capabilities request)) (\<lambda>capabilities.
     bindE (serializeCommonState (rr_initial_state request)) (\<lambda>initial_state.
     Inr (ser (JObject
       [(''component_id'', JString (rr_component_id request)),
        (''instance_id'', JString (rr_instance_id request)),
        (''component_type'', JString ''camera''),
        (''protocol_version'', JInt64 1),
        (''supported_schema_versions'', JArray [JInt64 1]),
        (''capabilities'', JArray capabilities),
        (''service_endpoints'', JObject []),
        (''initial_state'', initial_state),
        (''started_at'', JUint64 (rr_started_at_ns request)),
        (''metadata'', JObject (rr_metadata request)),
        (''clock_domain'', JString (rr_clock_domain request))])))))))"

text \<open>The loop over the descriptors, with \<open>previous_id\<close> threaded through.\<close>

fun serialize_descriptors :: "string \<Rightarrow> PilotEndpointDescriptor list \<Rightarrow> json list result" where
  "serialize_descriptors previous_id [] = Inr []"
| "serialize_descriptors previous_id (d # ds) =
     bindE (throw_if (previous_id \<noteq> [] \<and> ds_descriptor_id d \<le> previous_id)
              (Invalid_argument ''Pilot catalog descriptors must be stable sorted and unique.'')) (\<lambda>_.
     bindE (serializeDescriptor d) (\<lambda>v.
     bindE (serialize_descriptors (ds_descriptor_id d) ds) (\<lambda>vs. Inr (v # vs))))"

definition serializeCatalogPublicationRequest ::
  "(json \<Rightarrow> string) \<Rightarrow> string \<Rightarrow> u64 \<Rightarrow> PilotEndpointDescriptor list \<Rightarrow> string result"
where
  "serializeCatalogPublicationRequest ser publication_id expected_catalog_generation descriptors =
     bindE (validateIdentifier publication_id ''publication_id'') (\<lambda>_.
     bindE (throw_if (expected_catalog_generation > MAX_INT64_VALUE)
            (Invalid_argument ''Expected catalog generation exceeds the public range.'')) (\<lambda>_.
     bindE (serialize_descriptors [] descriptors) (\<lambda>values.
     Inr (ser (JObject
       [(''schema_version'', JInt64 1),
        (''publication_id'', JString publication_id),
        (''expected_catalog_generation'', JUint64 expected_catalog_generation),
        (''descriptors'', JArray values)])))))"

definition serializeHeartbeatRequest :: "(json \<Rightarrow> string) \<Rightarrow> u64 \<Rightarrow> string result" where
  "serializeHeartbeatRequest ser sequence =
     bindE (throw_if (sequence > MAX_INT64_VALUE)
              (Invalid_argument ''Heartbeat sequence exceeds the public range.'')) (\<lambda>_.
     Inr (ser (JObject [(''sequence'', JUint64 sequence)])))"

definition serializeStateUpdateRequest :: "(json \<Rightarrow> string) \<Rightarrow> u64 \<Rightarrow> PilotCommonState \<Rightarrow> string result" where
  "serializeStateUpdateRequest ser sequence state =
     bindE (throw_if (sequence > MAX_INT64_VALUE)
              (Invalid_argument ''State sequence exceeds the public range.'')) (\<lambda>_.
     bindE (serializeCommonState state) (\<lambda>s.
     Inr (ser (JObject [(''sequence'', JUint64 sequence), (''state'', s)]))))"

definition serializeDisconnectRequest :: string where
  "serializeDisconnectRequest = ''{}''"

section \<open>Responses\<close>

definition parse_object :: "(string \<Rightarrow> json option) \<Rightarrow> string \<Rightarrow> cpp_exn \<Rightarrow> jobject result" where
  "parse_object parse body e = (case parse body of Some (JObject obj) \<Rightarrow> Inr obj | _ \<Rightarrow> Inl e)"

definition schema_versions_invalid :: cpp_exn where
  "schema_versions_invalid = Invalid_argument ''Pilot accepted schema versions are invalid.''"

fun accepted_schema_loop :: "bool \<Rightarrow> json list \<Rightarrow> bool result" where
  "accepted_schema_loop accepted [] = Inr accepted"
| "accepted_schema_loop accepted (version # versions) =
     bindE (json_unsigned schema_versions_invalid schema_versions_invalid version) (\<lambda>numeric_version.
     bindE (throw_if (numeric_version > 16) schema_versions_invalid) (\<lambda>_.
     accepted_schema_loop (accepted \<or> numeric_version = 1) versions))"

definition parseRegistrationResponse ::
  "(string \<Rightarrow> json option) \<Rightarrow> string \<Rightarrow> PilotRegistrationResponse result"
where
  "parseRegistrationResponse parse response_body =
     bindE (parse_object parse response_body
              (Invalid_argument ''Pilot registration response must be a JSON object.'')) (\<lambda>obj.
     bindE (throw_if (length obj \<noteq> 7)
              (Invalid_argument ''Pilot registration response has unknown or missing fields.'')) (\<lambda>_.
     bindE (requireNonNegativeInteger obj ''accepted_protocol_version'') (\<lambda>protocol.
     bindE (throw_if (protocol \<noteq> 1) (Invalid_argument ''Pilot did not accept protocol version 1.'')) (\<lambda>_.
     bindE (case if_contains obj ''accepted_schema_versions'' of
              Some (JArray (v # vs)) \<Rightarrow> Inr (v # vs)
            | _ \<Rightarrow> Inl schema_versions_invalid) (\<lambda>versions.
     bindE (accepted_schema_loop False versions) (\<lambda>accepted_schema_one.
     bindE (requireIdentifier obj ''session_id'') (\<lambda>session_id.
     bindE (requireIdentifier obj ''server_instance_id'') (\<lambda>server_instance_id.
     bindE (requireNonNegativeInteger obj ''heartbeat_interval_ms'') (\<lambda>heartbeat_interval_ms.
     bindE (requireNonNegativeInteger obj ''lease_timeout_ms'') (\<lambda>lease_timeout_ms.
     bindE (requireNonNegativeInteger obj ''server_time'') (\<lambda>server_time_ns.
     bindE (throw_if (\<not> accepted_schema_one \<or> heartbeat_interval_ms = 0 \<or> lease_timeout_ms = 0 \<or>
              heartbeat_interval_ms \<ge> lease_timeout_ms)
            (Invalid_argument ''Pilot registration response has an invalid lease configuration.'')) (\<lambda>_.
     Inr \<lparr>rs_session_id = session_id, rs_server_instance_id = server_instance_id,
          rs_heartbeat_interval_ms = heartbeat_interval_ms, rs_lease_timeout_ms = lease_timeout_ms,
          rs_server_time_ns = server_time_ns\<rparr>))))))))))))"

definition parseCatalogAcceptedResponse ::
  "(string \<Rightarrow> json option) \<Rightarrow> string \<Rightarrow> string \<Rightarrow> string \<Rightarrow> int \<Rightarrow> PilotCatalogAcceptedResponse result"
where
  "parseCatalogAcceptedResponse parse response_body component_id server_instance_id descriptor_count =
     bindE (parse_object parse response_body
              (Invalid_argument ''Pilot catalog response must be a JSON object.'')) (\<lambda>obj.
     bindE (throw_if (length obj \<noteq> 7 \<or> if_contains obj ''status'' \<noteq> Some (JString ''accepted''))
              (Invalid_argument ''Pilot catalog response is invalid.'')) (\<lambda>_.
     bindE (requireIdentifier obj ''server_instance_id'') (\<lambda>response_server.
     bindE (requireIdentifier obj ''component_id'') (\<lambda>response_component.
     bindE (requireNonNegativeInteger obj ''catalog_generation'') (\<lambda>catalog_generation.
     bindE (requireNonNegativeInteger obj ''descriptor_count'') (\<lambda>parsed_count.
     bindE (requireNonNegativeInteger obj ''session_generation'') (\<lambda>session_generation.
     bindE (requireNonNegativeInteger obj ''catalog_revision'') (\<lambda>catalog_revision.
     bindE (throw_if (response_component \<noteq> component_id \<or> response_server \<noteq> server_instance_id \<or>
              catalog_generation = 0 \<or> session_generation = 0 \<or> catalog_revision = 0 \<or>
              parsed_count \<noteq> word_of_int descriptor_count)
            (Invalid_argument ''Pilot catalog response does not match the publication.'')) (\<lambda>_.
     Inr \<lparr>ca_server_instance_id = response_server, ca_component_id = response_component,
          ca_catalog_generation = catalog_generation, ca_descriptor_count = descriptor_count\<rparr>)))))))))"

text \<open>The checks of the lifecycle snapshot's parts; each throws at its first bad member.\<close>

fun require_each :: "(string \<Rightarrow> bool) \<Rightarrow> cpp_exn \<Rightarrow> string list \<Rightarrow> unit result" where
  "require_each ok e [] = Inr ()"
| "require_each ok e (key # keys) = bindE (throw_if (\<not> ok key) e) (\<lambda>_. require_each ok e keys)"

definition member_is :: "(json \<Rightarrow> bool) \<Rightarrow> jobject \<Rightarrow> string \<Rightarrow> bool" where
  "member_is p obj key \<longleftrightarrow> (case if_contains obj key of None \<Rightarrow> False | Some v \<Rightarrow> p v)"

definition readiness_flags :: "string list" where
  "readiness_flags = [''api_ready'', ''control_connected'', ''component_registry_ready'',
     ''active_source_ready'', ''required_observations_ready'', ''command_forwarding_enabled'']"

definition control_members :: "string list" where
  "control_members = [''gateway'', ''robot_state'', ''status'', ''last_delivery'', ''last_external_operation'']"

definition check_readiness :: "jobject \<Rightarrow> unit result" where
  "check_readiness readiness =
     bindE (throw_if (length readiness \<noteq> 7)
              (Invalid_argument ''Pilot lifecycle readiness has unknown or missing fields.'')) (\<lambda>_.
     bindE (require_each (member_is is_bool readiness)
              (Invalid_argument ''Pilot lifecycle readiness flag is invalid.'') readiness_flags) (\<lambda>_.
     bindE (case if_contains readiness ''degraded_reasons'' of
              Some (JArray reasons) \<Rightarrow> Inr reasons
            | _ \<Rightarrow> Inl (Invalid_argument ''Pilot lifecycle degraded reasons are invalid.'')) (\<lambda>reasons.
     throw_if (\<not> list_all is_string reasons)
       (Invalid_argument ''Pilot lifecycle degraded reason is invalid.''))))"

definition check_control :: "jobject \<Rightarrow> unit result" where
  "check_control control =
     bindE (throw_if (length control \<noteq> 5)
              (Invalid_argument ''Pilot lifecycle control has unknown or missing fields.'')) (\<lambda>_.
     require_each (member_is (\<lambda>v. is_null v \<or> is_object v) control)
       (Invalid_argument ''Pilot lifecycle control projection is invalid.'') control_members)"

definition parseLifecycleAcceptedResponse ::
  "(string \<Rightarrow> json option) \<Rightarrow> string \<Rightarrow> PilotLifecycleAcceptedResponse result"
where
  "parseLifecycleAcceptedResponse parse response_body =
     bindE (parse_object parse response_body
              (Invalid_argument ''Pilot lifecycle response must be a JSON object.'')) (\<lambda>obj.
     bindE (throw_if (length obj \<noteq> 2 \<or> if_contains obj ''status'' \<noteq> Some (JString ''accepted''))
              (Invalid_argument ''Pilot lifecycle response is not accepted.'')) (\<lambda>_.
     bindE (case if_contains obj ''snapshot'' of
              Some (JObject snapshot) \<Rightarrow> Inr snapshot
            | _ \<Rightarrow> Inl (Invalid_argument ''Pilot lifecycle response has no snapshot.'')) (\<lambda>snapshot.
     bindE (throw_if (length snapshot \<noteq> 6)
              (Invalid_argument ''Pilot lifecycle snapshot has unknown or missing fields.'')) (\<lambda>_.
     bindE (requireIdentifier snapshot ''server_instance_id'') (\<lambda>server_instance_id.
     bindE (requireNonNegativeInteger snapshot ''revision'') (\<lambda>_.
     bindE (requireNonNegativeInteger snapshot ''created_at_ns'') (\<lambda>_.
     bindE (case (if_contains snapshot ''readiness'', if_contains snapshot ''components'',
                  if_contains snapshot ''control'') of
              (Some (JObject readiness), Some (JArray components), Some (JObject control)) \<Rightarrow>
                Inr (readiness, control)
            | _ \<Rightarrow> Inl (Invalid_argument ''Pilot lifecycle snapshot shape is invalid.'')) (\<lambda>(readiness, control).
     bindE (check_readiness readiness) (\<lambda>_.
     bindE (check_control control) (\<lambda>_.
     Inr \<lparr>la_server_instance_id = server_instance_id\<rparr>))))))))))"

end
