(* ===== verification/PilotCodecFacts.thy ===== *)
theory PilotCodecFacts
  imports PilotCodec
begin

text \<open>
  What the Pilot codec accepts: the requests it writes are well formed, and a response is taken
  only if it has exactly the announced members with acceptable values.
\<close>

section \<open>Single fields\<close>

lemma validateIdentifier_Inr_iff [result_simps]:
  "validateIdentifier v f = Inr u \<longleftrightarrow> v \<noteq> [] \<and> length v \<le> IDENTIFIER_MAX_BYTES"
  by (auto simp: validateIdentifier_def throw_if_def)

lemma requireIdentifier_Inr_iff [result_simps]:
  "requireIdentifier obj k = Inr v \<longleftrightarrow>
     if_contains obj k = Some (JString v) \<and> v \<noteq> [] \<and> length v \<le> IDENTIFIER_MAX_BYTES"
  by (auto simp: requireIdentifier_def result_simps split: option.splits json.splits)

lemma requireNonNegativeInteger_Inr:
  assumes "requireNonNegativeInteger obj k = Inr v"
  shows "if_contains obj k \<noteq> None" and "v \<le> MAX_INT64_VALUE"
  using assms by (auto simp: requireNonNegativeInteger_def result_simps split: option.splits)


section \<open>Instance identities\<close>

lemma byte_digits: "byte div 16 < 16 \<and> byte mod 16 < (16::nat)" if "byte < 256" for byte :: nat
  using that by simp

lemma HEX_LOWER_hex: "n < 16 \<Longrightarrow> is_hex_lower (HEX_LOWER ! n)"
proof -
  have "list_all is_hex_lower HEX_LOWER" by code_simp
  then show "n < 16 \<Longrightarrow> is_hex_lower (HEX_LOWER ! n)"
    by (simp add: list_all_length HEX_LOWER_def)
qed

lemma HEX_LOWER_inject: "m < 16 \<Longrightarrow> n < 16 \<Longrightarrow> HEX_LOWER ! m = HEX_LOWER ! n \<longleftrightarrow> m = n"
proof -
  have "distinct HEX_LOWER" "length HEX_LOWER = 16" by (simp_all add: HEX_LOWER_def)
  then show "m < 16 \<Longrightarrow> n < 16 \<Longrightarrow> HEX_LOWER ! m = HEX_LOWER ! n \<longleftrightarrow> m = n"
    by (simp add: nth_eq_iff_index_eq)
qed

abbreviation random_byte :: "u32 \<Rightarrow> nat" where "random_byte reading \<equiv> unat (ucast reading :: u8)"

definition hex_text :: "u32 \<Rightarrow> string" where
  "hex_text reading = [HEX_LOWER ! (random_byte reading div 16), HEX_LOWER ! (random_byte reading mod 16)]"

lemma random_byte_less [simp]: "random_byte r < 256"
  using unsigned_less [of "ucast r :: u8"] by simp

lemma hex_text_hex: "list_all is_hex_lower (hex_text r)"
  by (simp add: hex_text_def HEX_LOWER_hex byte_digits [OF random_byte_less])

lemma hex_text_inject: "hex_text r = hex_text r' \<longleftrightarrow> (ucast r :: u8) = ucast r'"
proof
  assume "hex_text r = hex_text r'"
  then have "random_byte r div 16 = random_byte r' div 16" "random_byte r mod 16 = random_byte r' mod 16"
    by (simp_all add: hex_text_def HEX_LOWER_inject byte_digits [OF random_byte_less])
  then have "random_byte r = random_byte r'" by (metis div_mult_mod_eq)
  then show "(ucast r :: u8) = ucast r'" by (simp add: word_unat_eq_iff)
qed (simp add: hex_text_def)

lemma generated_text: "generateInstanceId None random = Inr (''vision-'' @ concat (map hex_text (take 16 random)))"
  by (simp add: generateInstanceId_def hex_text_def [abs_def] Let_def)

lemma length_hex_texts: "length (concat (map hex_text rs)) = 2 * length rs"
  by (induction rs) (simp_all add: hex_text_def)

lemma hex_texts_inject:
  "length rs = length rs' \<Longrightarrow> concat (map hex_text rs) = concat (map hex_text rs') \<Longrightarrow>
     map (\<lambda>r. ucast r :: u8) rs = map (\<lambda>r. ucast r) rs'"
proof (induction rs rs' rule: list_induct2)
  case (Cons r rs r' rs')
  then have "hex_text r @ concat (map hex_text rs) = hex_text r' @ concat (map hex_text rs')" by simp
  moreover have "length (hex_text r) = length (hex_text r')" by (simp add: hex_text_def)
  ultimately have "hex_text r = hex_text r'" "concat (map hex_text rs) = concat (map hex_text rs')" by simp_all
  with Cons.IH show ?case by (simp add: hex_text_inject)
qed simp

lemma generated_valid:
  assumes "16 \<le> length random" "generateInstanceId generator random = Inr v"
  shows "isInstanceIdValid v"
proof (cases generator)
  case None
  have "list_all is_hex_lower (concat (map hex_text rs))" for rs
    by (induction rs) (simp_all add: hex_text_hex)
  with None assms show ?thesis
    by (auto simp: generated_text isInstanceIdValid_def length_hex_texts starts_with_def)
next
  case (Some g)
  with assms(2) show ?thesis by (auto simp: generateInstanceId_def result_simps)
qed

text \<open>
  Every instance identity the process may use is well formed, whether an injected generator or
  the random device produced it, and generated identities of different random bytes differ.
\<close>

theorem instance_id_valid_and_unique:
  assumes "length random \<ge> 16" and "length random' \<ge> 16"
  shows "(\<forall>v. generateInstanceId generator random = Inr v \<longrightarrow> isInstanceIdValid v) \<and>
    (generateInstanceId None random = generateInstanceId None random' \<longrightarrow>
      map (\<lambda>r. ucast r :: u8) (take 16 random) = map (\<lambda>r. ucast r) (take 16 random'))"
proof
  show "\<forall>v. generateInstanceId generator random = Inr v \<longrightarrow> isInstanceIdValid v"
    using generated_valid [OF assms(1)] by blast
  show "generateInstanceId None random = generateInstanceId None random' \<longrightarrow>
      map (\<lambda>r. ucast r :: u8) (take 16 random) = map (\<lambda>r. ucast r) (take 16 random')"
    using assms hex_texts_inject [of "take 16 random" "take 16 random'"] by (simp add: generated_text)
qed

lemma instance_id_valid_and_unique_witness:
  "isInstanceIdValid ''vision-0102030405060708090a0b0c0d0e0f10''"
proof -
  let ?r = "[1, 2, 3, 4, 5, 6, 7, 8, 9, 10, 11, 12, 13, 14, 15, 16] :: u32 list"
  have "generateInstanceId None ?r = Inr ''vision-0102030405060708090a0b0c0d0e0f10''" by code_simp
  then show ?thesis using instance_id_valid_and_unique [of ?r ?r None] by simp
qed

section \<open>Publications\<close>

definition identifier_ok :: "string \<Rightarrow> bool" where
  "identifier_ok v \<longleftrightarrow> v \<noteq> [] \<and> length v \<le> IDENTIFIER_MAX_BYTES"

definition descriptor_ok :: "PilotEndpointDescriptor \<Rightarrow> bool" where
  "descriptor_ok d \<longleftrightarrow> identifier_ok (ds_descriptor_id d) \<and> identifier_ok (ds_capability d) \<and>
     0 < ds_contract_version d \<and> ds_contract_version d \<le> MAX_INT64_VALUE \<and>
     ds_endpoint d \<noteq> [] \<and> ds_media_type d \<noteq> [] \<and> ds_schema_id d \<noteq> []"

lemma serializeDescriptor_accepts: "(\<exists>v. serializeDescriptor d = Inr v) \<longleftrightarrow> descriptor_ok d"
  by (auto simp: serializeDescriptor_def descriptor_ok_def identifier_ok_def result_simps word_gt_0 not_less)

lemma serialize_descriptors_accepts:
  "(\<exists>vs. serialize_descriptors prev ds = Inr vs) \<longleftrightarrow>
     list_all descriptor_ok ds \<and> sorted_wrt (<) (map ds_descriptor_id ds) \<and>
     (prev \<noteq> [] \<longrightarrow> list_all (\<lambda>d. prev < ds_descriptor_id d) ds)"
proof (induction ds arbitrary: prev)
  case (Cons d ds)
  have ne: "descriptor_ok d \<Longrightarrow> ds_descriptor_id d \<noteq> []" by (simp add: descriptor_ok_def identifier_ok_def)
  have "(\<exists>vs. serialize_descriptors prev (d # ds) = Inr vs) \<longleftrightarrow>
      (prev \<noteq> [] \<longrightarrow> prev < ds_descriptor_id d) \<and> descriptor_ok d \<and>
      (\<exists>vs. serialize_descriptors (ds_descriptor_id d) ds = Inr vs)"
    using serializeDescriptor_accepts [of d] by (auto simp: result_simps not_le)
  also have "\<dots> \<longleftrightarrow> list_all descriptor_ok (d # ds) \<and> sorted_wrt (<) (map ds_descriptor_id (d # ds)) \<and>
     (prev \<noteq> [] \<longrightarrow> list_all (\<lambda>d. prev < ds_descriptor_id d) (d # ds))"
    using ne by (auto simp: Cons.IH list_all_iff dest: less_trans)
  finally show ?case .
qed simp

text \<open>
  C38: the catalog codec accepts exactly the well-formed catalogs: a publication is serialised if
  and only if its identifier and every descriptor are within the public bounds and the descriptor
  ids are strictly increasing byte by byte, hence also unique.
\<close>

theorem catalog_publication_accepts:
  "(\<exists>text. serializeCatalogPublicationRequest ser publication_id generation ds = Inr text) \<longleftrightarrow>
     identifier_ok publication_id \<and> generation \<le> MAX_INT64_VALUE \<and> list_all descriptor_ok ds \<and>
     sorted_wrt (<) (map ds_descriptor_id ds)"
  using serialize_descriptors_accepts [of "[]" ds]
  by (auto simp: serializeCatalogPublicationRequest_def result_simps identifier_ok_def not_less)

section \<open>Responses\<close>

lemma parse_object_Inr: "parse_object parse body e = Inr obj \<Longrightarrow> parse body = Some (JObject obj)"
  by (simp add: parse_object_def split: option.splits json.splits)

lemma nonempty_array_Inr:
  "(case m of Some (JArray (v # vs)) \<Rightarrow> Inr (v # vs) | _ \<Rightarrow> Inl e) = Inr xs \<Longrightarrow> m = Some (JArray xs) \<and> xs \<noteq> []"
  by (auto split: option.splits json.splits list.splits)

definition registration_members :: "string list" where
  "registration_members = [''accepted_protocol_version'', ''accepted_schema_versions'', ''session_id'',
     ''server_instance_id'', ''heartbeat_interval_ms'', ''lease_timeout_ms'', ''server_time'']"

text \<open>
  A registration response is taken only if it is a JSON object with exactly the seven announced
  members, the session and server ids are bounded identifiers, and the lease configuration is
  usable: 0 < heartbeat interval < lease timeout, all within the public integer range.
\<close>

theorem registration_response_strict:
  assumes "parseRegistrationResponse parse body = Inr r"
  shows "\<exists>obj. parse body = Some (JObject obj) \<and> length obj = 7 \<and>
    set (map fst obj) = set registration_members \<and>
    identifier_ok (rs_session_id r) \<and> identifier_ok (rs_server_instance_id r) \<and>
    0 < rs_heartbeat_interval_ms r \<and> rs_heartbeat_interval_ms r < rs_lease_timeout_ms r \<and>
    rs_lease_timeout_ms r \<le> MAX_INT64_VALUE"
proof -
  from assms obtain obj protocol versions accepted where p: "parse body = Some (JObject obj)" "length obj = 7"
    and 1: "requireNonNegativeInteger obj ''accepted_protocol_version'' = Inr protocol"
    and 2: "if_contains obj ''accepted_schema_versions'' \<noteq> None"
    and 3: "requireIdentifier obj ''session_id'' = Inr (rs_session_id r)"
    and 4: "requireIdentifier obj ''server_instance_id'' = Inr (rs_server_instance_id r)"
    and 5: "requireNonNegativeInteger obj ''heartbeat_interval_ms'' = Inr (rs_heartbeat_interval_ms r)"
    and 6: "requireNonNegativeInteger obj ''lease_timeout_ms'' = Inr (rs_lease_timeout_ms r)"
    and 7: "requireNonNegativeInteger obj ''server_time'' = Inr (rs_server_time_ns r)"
    and r: "\<not> (\<not> accepted \<or> rs_heartbeat_interval_ms r = 0 \<or> rs_lease_timeout_ms r = 0 \<or>
              rs_heartbeat_interval_ms r \<ge> rs_lease_timeout_ms r)"
    unfolding parseRegistrationResponse_def bindE_Inr_iff throw_if_Inr_iff
    by - (elim exE conjE, drule parse_object_Inr, drule nonempty_array_Inr, erule conjE,
        simp only: sum.inject, rule that, (fastforce simp del: One_nat_def; fail)+)
  have some: "if_contains obj k \<noteq> None" if "k \<in> set registration_members" for k
    using that 1 2 3 4 5 6 7 requireNonNegativeInteger_Inr(1)
    by (auto simp: registration_members_def requireIdentifier_Inr_iff)
  have "rs_lease_timeout_ms r \<le> MAX_INT64_VALUE" by (rule requireNonNegativeInteger_Inr(2) [OF 6])
  with 3 4 r have r: "identifier_ok (rs_session_id r)" "identifier_ok (rs_server_instance_id r)"
      "rs_heartbeat_interval_ms r \<noteq> 0" "rs_heartbeat_interval_ms r < rs_lease_timeout_ms r"
      "rs_lease_timeout_ms r \<le> MAX_INT64_VALUE"
    by (simp_all add: requireIdentifier_Inr_iff identifier_ok_def not_le)
  have "set (map fst obj) = set registration_members"
    by (rule closed_object_keys) (use p some in \<open>auto simp: registration_members_def\<close>)
  with p r show ?thesis by (auto simp: word_gt_0)
qed


definition sample_registration :: jobject where
  "sample_registration = [(''accepted_protocol_version'', JInt64 1),
     (''accepted_schema_versions'', JArray [JInt64 1, JUint64 2]), (''session_id'', JString ''s''),
     (''server_instance_id'', JString ''p''), (''heartbeat_interval_ms'', JInt64 500),
     (''lease_timeout_ms'', JInt64 2000), (''server_time'', JUint64 7)]"

lemma registration_response_strict_witness:
  "set (map fst sample_registration) = set registration_members \<and> (0::u64) < 500"
proof -
  have "parseRegistrationResponse (\<lambda>_. Some (JObject sample_registration)) [] =
     Inr \<lparr>rs_session_id = ''s'', rs_server_instance_id = ''p'', rs_heartbeat_interval_ms = 500,
          rs_lease_timeout_ms = 2000, rs_server_time_ns = 7\<rparr>"
    by code_simp
  from registration_response_strict [OF this] show ?thesis by auto
qed

end
