(* ===== verification/VisionCatalog.thy ===== *)
theory VisionCatalog
  imports Geometry PilotCodecFacts
begin

text \<open>
  The endpoint catalog (\<^verbatim>\<open>src/pilot/vision_endpoint_catalog.cpp\<close>): the descriptors of the provider's
  HTTP endpoints for a configuration. \<^verbatim>\<open>std::sort\<close> by identifier is \<^const>\<open>sort_key\<close>: the identifiers
  are distinct, so the order of equal keys does not matter.
\<close>

record VisionEndpointCatalog =
  ec_descriptors :: "PilotEndpointDescriptor list"
  ec_capabilities :: "string list"

definition default_PilotEndpointDescriptor :: PilotEndpointDescriptor where
  "default_PilotEndpointDescriptor = \<lparr>ds_descriptor_id = [], ds_kind = [], ds_capability = [],
     ds_contract_version = 1, ds_endpoint = [], ds_media_type = [], ds_schema_id = [], ds_metadata = [],
     ds_is_stream = False,
     ds_service = \<lparr>sv_method = [], sv_request_schema_id = [], sv_response_schema_id = []\<rparr>,
     ds_stream = \<lparr>sm_clock_domain = [], sm_stream_group_id = []\<rparr>\<rparr>"

text \<open>The base URL is not empty: \<^verbatim>\<open>back()\<close> of an empty string is undefined.\<close>

definition makeEndpoint :: "string \<Rightarrow> string \<Rightarrow> string" where
  "makeEndpoint base_url path = (if last base_url = CHR ''/'' then butlast base_url @ path else base_url @ path)"

definition buildVisionStaticMetadata :: "(f64 \<Rightarrow> f64) \<Rightarrow> (f64 \<Rightarrow> f64) \<Rightarrow> VisionConfig \<Rightarrow> jobject result" where
  "buildVisionStaticMetadata cosine sine config =
     bindE (buildCameraMountTransform cosine sine (vc_calibration config)) (\<lambda>transform.
     Inr [(''device_id'', JString (vc_device_id config)),
          (''sensor_frame'', JString (ct_sensor_frame transform)),
          (''mount_frame'', JString (ct_mount_frame transform)),
          (''calibration_id'', JString (ct_calibration_id transform)),
          (''mount_from_camera_optical_matrix4x4'', JArray (map JDouble (ct_matrix4x4 transform))),
          (''api_version'', JString ''1.3.0'')])"

text \<open>A descriptor to be made: identifier, capability, path, media type, schema, method, request schema.\<close>

definition makeService ::
  "jobject result \<Rightarrow> VisionConfig \<Rightarrow> string \<Rightarrow> string \<Rightarrow> string \<Rightarrow> string \<Rightarrow> string \<Rightarrow> string \<Rightarrow> string \<Rightarrow>
     PilotEndpointDescriptor result"
where
  "makeService static_metadata config descriptor_id capability path media_type schema_id method request_schema_id =
     bindE static_metadata (\<lambda>metadata.
     Inr (default_PilotEndpointDescriptor\<lparr>ds_descriptor_id := descriptor_id, ds_kind := ''service'',
       ds_capability := capability, ds_endpoint := makeEndpoint (pv_advertised_base_url (vc_provider config)) path,
       ds_media_type := media_type, ds_schema_id := schema_id, ds_metadata := metadata,
       ds_service := \<lparr>sv_method = method, sv_request_schema_id = request_schema_id,
                      sv_response_schema_id = schema_id\<rparr>\<rparr>))"

definition makeStream ::
  "jobject result \<Rightarrow> VisionConfig \<Rightarrow> string \<Rightarrow> string \<Rightarrow> string \<Rightarrow> string \<Rightarrow> PilotEndpointDescriptor result"
where
  "makeStream static_metadata config descriptor_id capability path schema_id =
     bindE static_metadata (\<lambda>metadata.
     Inr (default_PilotEndpointDescriptor\<lparr>ds_descriptor_id := descriptor_id, ds_kind := ''stream'',
       ds_capability := capability, ds_endpoint := makeEndpoint (pv_advertised_base_url (vc_provider config)) path,
       ds_media_type := ''multipart/x-mixed-replace'', ds_schema_id := schema_id, ds_metadata := metadata,
       ds_is_stream := True,
       ds_stream := \<lparr>sm_clock_domain = ''monotonic_same_host'',
                     sm_stream_group_id = vc_component_id config @ ''.capture''\<rparr>\<rparr>))"

definition isColorEnabled :: "VisionConfig \<Rightarrow> bool" where
  "isColorEnabled config \<longleftrightarrow> vc_adapter config = ''fake'' \<or> dc_enable_color (vc_intel_d435 config)"

text \<open>The descriptors in the order the code appends them.\<close>

definition base_endpoints :: "jobject result \<Rightarrow> VisionConfig \<Rightarrow> PilotEndpointDescriptor result list" where
  "base_endpoints meta config =
     [makeService meta config ''health'' ''camera.health.get'' ''/health'' ''application/json''
        ''nodus.vision.health.response.v1'' ''GET'' [],
      makeService meta config ''metadata'' ''camera.metadata.get'' ''/metadata'' ''application/json''
        ''nodus.vision.metadata.response.v1'' ''GET'' [],
      makeStream meta config ''depth-preview'' ''camera.stream.depth.preview'' ''/stream/depth.mjpg''
        ''nodus.vision.mjpeg.depth_part.v1'',
      makeService meta config ''depth-snapshot'' ''camera.snapshot.depth.preview'' ''/snapshot/depth'' ''image/jpeg''
        ''nodus.vision.jpeg.depth_preview.v1'' ''GET'' [],
      makeService meta config ''roi-depth'' ''camera.query.roi_depth'' ''/query/roi_depth'' ''application/json''
        ''nodus.vision.roi_depth.response.v1'' ''POST'' ''nodus.vision.roi_depth.request.v1'',
      makeService meta config ''pixel-to-point'' ''camera.query.pixel_to_point'' ''/query/pixel_to_point''
        ''application/json'' ''nodus.vision.pixel_point.response.v1'' ''POST'' ''nodus.vision.pixel_point.request.v1'',
      makeService meta config ''pointcloud-binary'' ''camera.snapshot.pointcloud'' ''/snapshot/pointcloud.bin''
        ''application/octet-stream'' ''nodus.vision.pointcloud.pcd1.v2'' ''GET'' []]"

definition color_endpoints :: "jobject result \<Rightarrow> VisionConfig \<Rightarrow> PilotEndpointDescriptor result list" where
  "color_endpoints meta config =
     [makeStream meta config ''color-preview'' ''camera.stream.color.preview'' ''/stream/color.mjpg''
        ''nodus.vision.mjpeg.color_part.v1'',
      makeService meta config ''color-snapshot'' ''camera.snapshot.color'' ''/snapshot/color'' ''image/jpeg''
        ''nodus.vision.jpeg.color.v1'' ''GET'' []]"

definition recording_endpoints :: "jobject result \<Rightarrow> VisionConfig \<Rightarrow> PilotEndpointDescriptor result list" where
  "recording_endpoints meta config =
     [makeService meta config ''recording-start'' ''camera.recording.start'' ''/recordings/start'' ''application/json''
        ''nodus.vision.recording.start.response.v1'' ''POST'' ''nodus.vision.recording.start.request.v1'',
      makeService meta config ''recording-stop'' ''camera.recording.stop'' ''/recordings/stop'' ''application/json''
        ''nodus.vision.recording.stop.response.v1'' ''POST'' ''nodus.vision.recording.stop.request.v1'',
      makeService meta config ''recording-current'' ''camera.recording.current'' ''/recordings/current''
        ''application/json'' ''nodus.vision.recording.current.response.v1'' ''GET'' []]"

definition buildCatalog :: "(f64 \<Rightarrow> f64) \<Rightarrow> (f64 \<Rightarrow> f64) \<Rightarrow> VisionConfig \<Rightarrow> VisionEndpointCatalog result" where
  "buildCatalog cosine sine config =
     (let meta = buildVisionStaticMetadata cosine sine config in
      bindE (mapE (\<lambda>r. r) (base_endpoints meta config @
        (if isColorEnabled config then color_endpoints meta config else []) @
        (if rg_enabled (vc_recording config) then recording_endpoints meta config else []))) (\<lambda>descriptors.
      let sorted_descriptors = sort_key ds_descriptor_id descriptors
      in Inr \<lparr>ec_descriptors = sorted_descriptors,
              ec_capabilities = sort (map ds_capability sorted_descriptors)\<rparr>))"

section \<open>Lemmas\<close>

lemma mapE_id_Inr: "mapE (\<lambda>r. r) rs = Inr xs \<longleftrightarrow> rs = map Inr xs"
  by (induction rs arbitrary: xs) (auto simp: result_simps)

text \<open>The descriptors of a catalog, once the static metadata is known.\<close>

definition catalog_keys :: "bool \<Rightarrow> bool \<Rightarrow> (string \<times> string) list" where
  "catalog_keys color recording =
     [(''health'', ''camera.health.get''), (''metadata'', ''camera.metadata.get''),
      (''depth-preview'', ''camera.stream.depth.preview''), (''depth-snapshot'', ''camera.snapshot.depth.preview''),
      (''roi-depth'', ''camera.query.roi_depth''), (''pixel-to-point'', ''camera.query.pixel_to_point''),
      (''pointcloud-binary'', ''camera.snapshot.pointcloud'')] @
     (if color then [(''color-preview'', ''camera.stream.color.preview''),
                     (''color-snapshot'', ''camera.snapshot.color'')] else []) @
     (if recording then [(''recording-start'', ''camera.recording.start''), (''recording-stop'', ''camera.recording.stop''),
                         (''recording-current'', ''camera.recording.current'')] else [])"

lemma catalog_keys_distinct:
  "distinct (map fst (catalog_keys c r))" "distinct (map snd (catalog_keys c r))"
  by (cases c; cases r; simp add: catalog_keys_def)+

lemma catalog_keys_bounded:
  "p \<in> set (catalog_keys c r) \<Longrightarrow> identifier_ok (fst p) \<and> identifier_ok (snd p)"
  by (auto simp: catalog_keys_def identifier_ok_def IDENTIFIER_MAX_BYTES_def split: if_splits)

lemma makeEndpoint_nonempty: "path \<noteq> [] \<Longrightarrow> makeEndpoint url path \<noteq> []"
  by (simp add: makeEndpoint_def)

lemmas endpoint_defs = base_endpoints_def color_endpoints_def recording_endpoints_def makeService_def makeStream_def
  default_PilotEndpointDescriptor_def

lemma catalog_entries:
  assumes "base_endpoints (Inr m) c @ (if col then color_endpoints (Inr m) c else []) @
      (if rec then recording_endpoints (Inr m) c else []) = map Inr ds"
  shows "map (\<lambda>d. (ds_descriptor_id d, ds_capability d)) ds = catalog_keys col rec"
    and "\<forall>d \<in> set ds. ds_contract_version d = 1 \<and> ds_endpoint d \<noteq> [] \<and> ds_media_type d \<noteq> [] \<and> ds_schema_id d \<noteq> []"
proof -
  let ?rs = "base_endpoints (Inr m) c @ (if col then color_endpoints (Inr m) c else []) @
      (if rec then recording_endpoints (Inr m) c else [])"
  have "map (\<lambda>r. case r of Inr d \<Rightarrow> (ds_descriptor_id d, ds_capability d)) ?rs = catalog_keys col rec"
    by (simp add: endpoint_defs catalog_keys_def)
  then show "map (\<lambda>d. (ds_descriptor_id d, ds_capability d)) ds = catalog_keys col rec"
    unfolding assms by (simp add: comp_def)
  have "list_all (\<lambda>r. case r of Inr d \<Rightarrow> ds_contract_version d = 1 \<and> ds_endpoint d \<noteq> [] \<and>
      ds_media_type d \<noteq> [] \<and> ds_schema_id d \<noteq> []) ?rs"
    by (simp add: endpoint_defs makeEndpoint_nonempty)
  then show "\<forall>d \<in> set ds. ds_contract_version d = 1 \<and> ds_endpoint d \<noteq> [] \<and> ds_media_type d \<noteq> [] \<and> ds_schema_id d \<noteq> []"
    unfolding assms by (simp add: list_all_iff)
qed

lemma strictly_sorted: "distinct xs \<Longrightarrow> sorted_wrt (<) (sort (xs :: 'a::linorder list))"
  by (simp add: strict_sorted_iff)

lemma buildCatalog_Inr:
  assumes "buildCatalog cosine sine config = Inr catalog"
  shows "sorted_wrt (<) (map ds_descriptor_id (ec_descriptors catalog))"
    and "sorted_wrt (<) (ec_capabilities catalog)"
    and "list_all descriptor_ok (ec_descriptors catalog)"
    and "list_all identifier_ok (ec_capabilities catalog)"
    and "mset (map (\<lambda>d. (ds_descriptor_id d, ds_capability d)) (ec_descriptors catalog)) =
      mset (catalog_keys (isColorEnabled config) (rg_enabled (vc_recording config)))"
proof -
  let ?meta = "buildVisionStaticMetadata cosine sine config"
  from assms obtain ds where ds: "base_endpoints ?meta config @
        (if isColorEnabled config then color_endpoints ?meta config else []) @
        (if rg_enabled (vc_recording config) then recording_endpoints ?meta config else []) = map Inr ds"
    and cat: "ec_descriptors catalog = sort_key ds_descriptor_id ds"
      "ec_capabilities catalog = sort (map ds_capability (sort_key ds_descriptor_id ds))"
    by (auto simp: buildCatalog_def Let_def result_simps mapE_id_Inr)
  obtain m where m: "?meta = Inr m"
    using ds by (cases ?meta; cases ds) (auto simp: endpoint_defs)
  note e = catalog_entries [OF ds [unfolded m]]
  have ids: "map ds_descriptor_id ds = map fst (catalog_keys (isColorEnabled config) (rg_enabled (vc_recording config)))"
    and caps: "map ds_capability ds = map snd (catalog_keys (isColorEnabled config) (rg_enabled (vc_recording config)))"
    using arg_cong [OF e(1), of "map fst"] arg_cong [OF e(1), of "map snd"] by (simp_all add: comp_def)
  have "map ds_descriptor_id (ec_descriptors catalog) = sort (map ds_descriptor_id ds)"
    unfolding cat by (rule properties_for_sort [symmetric]) simp_all
  then show "sorted_wrt (<) (map ds_descriptor_id (ec_descriptors catalog))"
    using strictly_sorted [of "map ds_descriptor_id ds"] catalog_keys_distinct(1) by (simp add: ids)
  have "mset (map ds_capability (sort_key ds_descriptor_id ds)) = mset (map ds_capability ds)" by simp
  then have "distinct (map ds_capability (sort_key ds_descriptor_id ds))"
    using catalog_keys_distinct(2) by (metis caps mset_eq_imp_distinct_iff)
  then show "sorted_wrt (<) (ec_capabilities catalog)"
    unfolding cat by (rule strictly_sorted)
  have ok: "\<forall>d \<in> set ds. descriptor_ok d \<and> identifier_ok (ds_capability d)"
  proof
    fix d assume d: "d \<in> set ds"
    then have "(ds_descriptor_id d, ds_capability d) \<in> set (catalog_keys (isColorEnabled config) (rg_enabled (vc_recording config)))"
      unfolding e(1) [symmetric] by auto
    from catalog_keys_bounded [OF this] e(2) d
    show "descriptor_ok d \<and> identifier_ok (ds_capability d)"
      by (simp add: descriptor_ok_def MAX_INT64_VALUE_def)
  qed
  then show "list_all descriptor_ok (ec_descriptors catalog)" "list_all identifier_ok (ec_capabilities catalog)"
    by (simp_all add: cat list_all_iff)
  show "mset (map (\<lambda>d. (ds_descriptor_id d, ds_capability d)) (ec_descriptors catalog)) =
      mset (catalog_keys (isColorEnabled config) (rg_enabled (vc_recording config)))"
    unfolding e(1) [symmetric] cat by simp
qed

end
