(* ===== verification/PilotTransport.thy ===== *)
theory PilotTransport
  imports VisionConfig
begin

text \<open>
  The HTTP transport towards the Pilot (\<^verbatim>\<open>src/pilot/pilot_http_transport.cpp\<close>): the base URL, and
  one request as the state machine its asynchronous handlers form on the single-threaded
  \<^verbatim>\<open>io_context\<close>. The network decides which handler runs next and with which error code.
\<close>

section \<open>Base URL and content type\<close>

record ParsedBaseUrl =
  bu_host :: string
  bu_port :: string
  bu_base_path :: string

definition parseBaseUrl :: "string \<Rightarrow> ParsedBaseUrl result" where
  "parseBaseUrl base_url =
     bindE (throw_if (\<not> starts_with ''http://'' base_url \<or> find_char (CHR ''@'') base_url \<noteq> None \<or>
              find_char (CHR ''?'') base_url \<noteq> None \<or> find_char (CHR ''#'') base_url \<noteq> None)
       (Invalid_argument ''Pilot base URL must be an absolute HTTP URL.'')) (\<lambda>_.
     let authority = url_authority base_url in
     case rfind_char (CHR '':'') authority of
       None \<Rightarrow> Inl (Invalid_argument ''Pilot base URL must contain a host and explicit port.'')
     | Some port_separator \<Rightarrow>
       bindE (throw_if (port_separator = 0 \<or> port_separator = length authority - 1)
         (Invalid_argument ''Pilot base URL must contain a host and explicit port.'')) (\<lambda>_.
       bindE (throw_if (\<not> list_all is_digit (drop (port_separator + 1) authority))
         (Invalid_argument ''Pilot base URL port is invalid.'')) (\<lambda>_.
       bindE (stoi (drop (port_separator + 1) authority)) (\<lambda>port.
       bindE (throw_if (port < 1 \<or> port > 65535)
         (Invalid_argument ''Pilot base URL port is outside the valid range.'')) (\<lambda>_.
       Inr \<lparr>bu_host = take port_separator authority, bu_port = drop (port_separator + 1) authority,
            bu_base_path = (case find_from (CHR ''/'') 7 base_url of None \<Rightarrow> [] | Some i \<Rightarrow> drop i base_url)\<rparr>)))))"

definition isJsonContentType :: "string \<Rightarrow> bool" where
  "isJsonContentType content_type \<longleftrightarrow> starts_with ''application/json'' content_type \<and>
     (length content_type = 16 \<or> content_type ! 16 = CHR '';'')"

section \<open>Requests and results\<close>

record PilotHttpRequest =
  hq_method :: string
  hq_target :: string
  hq_body :: string

record PilotHttpResult =
  hr_status :: int
  hr_content_type :: string
  hr_body :: string
  hr_error :: string

definition default_PilotHttpResult :: PilotHttpResult where
  "default_PilotHttpResult = \<lparr>hr_status = 0, hr_content_type = [], hr_body = [], hr_error = []\<rparr>"

definition failed_result :: "string \<Rightarrow> PilotHttpResult" where
  "failed_result error = default_PilotHttpResult\<lparr>hr_error := error\<rparr>"

definition hasResponse :: "PilotHttpResult \<Rightarrow> bool" where
  "hasResponse r \<longleftrightarrow> hr_status r > 0 \<and> hr_error r = []"

section \<open>One request\<close>

text \<open>
  \<open>rq_pending\<close> is the asynchronous operation whose handler has not run yet, \<open>rq_timer\<close> whether the
  timer's wait is outstanding, \<open>rq_results\<close> the results handed to the completion callback.
\<close>

datatype net_operation = Op_resolve | Op_connect | Op_write | Op_read

datatype net_error = Net_ok | Net_timeout | Net_aborted | Net_other

record RequestSession =
  rq_pending :: "net_operation option"
  rq_timer :: bool
  rq_finished :: bool
  rq_cancelled :: bool
  rq_timed_out :: bool
  rq_results :: "PilotHttpResult list"

text \<open>\<open>known_method\<close>: \<^verbatim>\<open>string_to_verb\<close> recognises the method.\<close>

definition RequestSession_new :: "(string \<Rightarrow> bool) \<Rightarrow> PilotHttpRequest \<Rightarrow> RequestSession result" where
  "RequestSession_new known_method request =
     bindE (throw_if (\<not> known_method (hq_method request) \<or> hq_target request = [] \<or>
              hd (hq_target request) \<noteq> CHR ''/'')
       (Invalid_argument ''Pilot HTTP request method or target is invalid.'')) (\<lambda>_.
     Inr \<lparr>rq_pending = None, rq_timer = False, rq_finished = False, rq_cancelled = False,
          rq_timed_out = False, rq_results = []\<rparr>)"

definition rq_finish :: "PilotHttpResult \<Rightarrow> RequestSession \<Rightarrow> RequestSession" where
  "rq_finish result s =
     (if rq_finished s then s else s\<lparr>rq_finished := True, rq_results := rq_results s @ [result]\<rparr>)"

definition startRequest :: "RequestSession \<Rightarrow> RequestSession" where
  "startRequest s = s\<lparr>rq_timer := True, rq_pending := Some Op_resolve\<rparr>"

text \<open>The posted body of \<^verbatim>\<open>cancelRequest\<close>; cancelling an operation makes its handler run with an error later.\<close>

definition handle_cancel :: "RequestSession \<Rightarrow> RequestSession" where
  "handle_cancel s =
     (if rq_finished s then s
      else rq_finish (failed_result ''request cancelled'') (s\<lparr>rq_cancelled := True\<rparr>))"

definition handle_timer :: "net_error \<Rightarrow> RequestSession \<Rightarrow> RequestSession" where
  "handle_timer error s0 = (let s = s0\<lparr>rq_timer := False\<rparr> in
     if error \<noteq> Net_ok \<or> rq_finished s then s
     else rq_finish (failed_result ''request deadline exceeded'') (s\<lparr>rq_timed_out := True\<rparr>))"

definition handleError :: "net_error \<Rightarrow> string \<Rightarrow> RequestSession \<Rightarrow> RequestSession" where
  "handleError error fallback s =
     (if rq_finished s then s
      else if rq_timed_out s \<or> error = Net_timeout then rq_finish (failed_result ''request deadline exceeded'') s
      else if rq_cancelled s \<or> error = Net_aborted then rq_finish (failed_result ''request cancelled'') s
      else rq_finish (failed_result fallback) s)"

definition handle_step :: "net_operation \<Rightarrow> string \<Rightarrow> net_error \<Rightarrow> RequestSession \<Rightarrow> RequestSession" where
  "handle_step next_operation fallback error s0 = (let s = s0\<lparr>rq_pending := None\<rparr> in
     if error \<noteq> Net_ok \<or> rq_finished s then handleError error fallback s
     else s\<lparr>rq_pending := Some next_operation\<rparr>)"

definition handleResolve :: "net_error \<Rightarrow> RequestSession \<Rightarrow> RequestSession" where
  "handleResolve = handle_step Op_connect ''resolve failed''"

definition handleConnect :: "net_error \<Rightarrow> RequestSession \<Rightarrow> RequestSession" where
  "handleConnect = handle_step Op_write ''connect failed''"

definition handleWrite :: "net_error \<Rightarrow> RequestSession \<Rightarrow> RequestSession" where
  "handleWrite = handle_step Op_read ''write failed''"

text \<open>\<open>status\<close>, \<open>content_type\<close> and \<open>body\<close> are those of the parsed response.\<close>

definition handleRead :: "net_error \<Rightarrow> int \<Rightarrow> string \<Rightarrow> string \<Rightarrow> RequestSession \<Rightarrow> RequestSession" where
  "handleRead error status content_type body s0 = (let s = s0\<lparr>rq_pending := None\<rparr> in
     if error \<noteq> Net_ok \<or> rq_finished s then handleError error ''read failed'' s
     else if \<not> isJsonContentType content_type
     then rq_finish \<lparr>hr_status = 0, hr_content_type = content_type, hr_body = [],
            hr_error = ''Pilot response content type is not application/json''\<rparr> s
     else rq_finish \<lparr>hr_status = status, hr_content_type = content_type, hr_body = body, hr_error = []\<rparr> s)"

text \<open>What the \<^verbatim>\<open>io_context\<close> may run next: the handler of an outstanding operation, or a posted cancel.\<close>

inductive request_step :: "RequestSession \<Rightarrow> RequestSession \<Rightarrow> bool" where
  resolve: "rq_pending s = Some Op_resolve \<Longrightarrow> request_step s (handleResolve error s)"
| connect: "rq_pending s = Some Op_connect \<Longrightarrow> request_step s (handleConnect error s)"
| "write": "rq_pending s = Some Op_write \<Longrightarrow> request_step s (handleWrite error s)"
| read: "rq_pending s = Some Op_read \<Longrightarrow> 100 \<le> status \<Longrightarrow> request_step s (handleRead error status content_type body s)"
| timer: "rq_timer s \<Longrightarrow> request_step s (handle_timer error s)"
| cancel: "request_step s (handle_cancel s)"

inductive request_reachable :: "RequestSession \<Rightarrow> bool" where
  start: "RequestSession_new known_method request = Inr s \<Longrightarrow> request_reachable (startRequest s)"
| step: "request_reachable s \<Longrightarrow> request_step s t \<Longrightarrow> request_reachable t"

section \<open>The transport\<close>

record PilotHttpTransport =
  tr_base_url :: ParsedBaseUrl
  tr_connect_timeout_ms :: int
  tr_request_timeout_ms :: int
  tr_max_response_bytes :: int

definition PilotHttpTransport_new :: "string \<Rightarrow> int \<Rightarrow> int \<Rightarrow> int \<Rightarrow> PilotHttpTransport result" where
  "PilotHttpTransport_new base_url connect_timeout_ms request_timeout_ms max_response_bytes =
     bindE (parseBaseUrl base_url) (\<lambda>url.
     bindE (throw_if (connect_timeout_ms \<le> 0 \<or> request_timeout_ms \<le> 0 \<or> max_response_bytes \<le> 0)
       (Invalid_argument ''Pilot transport bounds must be positive.'')) (\<lambda>_.
     Inr \<lparr>tr_base_url = url, tr_connect_timeout_ms = connect_timeout_ms,
          tr_request_timeout_ms = request_timeout_ms, tr_max_response_bytes = max_response_bytes\<rparr>))"

text \<open>
  \<^verbatim>\<open>executeRequest\<close>: the request runs until the context has no work left; \<open>last_state\<close> is the
  state of its session then, and the result is what the completion callback stored.
\<close>

definition executeRequest_result :: "RequestSession \<Rightarrow> PilotHttpResult" where
  "executeRequest_result last_state =
     (if rq_results last_state = [] then default_PilotHttpResult else last (rq_results last_state))"

section \<open>The life of a request\<close>

definition request_inv :: "RequestSession \<Rightarrow> bool" where
  "request_inv s \<longleftrightarrow> length (rq_results s) = (if rq_finished s then 1 else 0) \<and>
     (\<not> rq_finished s \<longrightarrow> rq_pending s \<noteq> None) \<and>
     (\<forall>r \<in> set (rq_results s). hasResponse r \<longleftrightarrow> hr_error r = [])"

lemmas handler_defs = handleResolve_def handleConnect_def handleWrite_def handle_step_def handleRead_def
  handle_timer_def handle_cancel_def handleError_def rq_finish_def failed_result_def default_PilotHttpResult_def
  hasResponse_def

lemma request_step_inv: "request_step s t \<Longrightarrow> request_inv s \<Longrightarrow> request_inv t"
  by (induction rule: request_step.induct) (auto simp: request_inv_def handler_defs Let_def)

lemma request_reachable_inv: "request_reachable s \<Longrightarrow> request_inv s"
proof (induction rule: request_reachable.induct)
  case (start known_method request s)
  then show ?case by (auto simp: RequestSession_new_def result_simps startRequest_def request_inv_def)
next
  case (step s t)
  then show ?case using request_step_inv by blast
qed

section \<open>Properties\<close>

text \<open>
  C22: a request completes exactly once, whatever the network, the timer and a cancellation do and in
  whichever order their handlers run: the callback is called at most once, and when no operation is
  outstanding it has been called; the result either has a status and no error or an error text.
\<close>

theorem request_completes_once:
  assumes "request_reachable s"
  shows "length (rq_results s) \<le> 1 \<and>
    (rq_pending s = None \<longrightarrow> length (rq_results s) = 1 \<and>
       (hasResponse (executeRequest_result s) \<longleftrightarrow> hr_error (executeRequest_result s) = []))"
proof -
  have "request_inv s" by (rule request_reachable_inv [OF assms])
  then show ?thesis
    by (cases "rq_results s") (auto simp: request_inv_def executeRequest_result_def split: if_splits)
qed

lemma request_completes_once_witness:
  "\<exists>s. request_reachable s \<and> rq_pending s = None \<and> length (rq_results s) = 1"
proof -
  let ?q = "\<lparr>hq_method = ''GET'', hq_target = ''/x'', hq_body = []\<rparr>"
  let ?n = "\<lparr>rq_pending = None, rq_timer = False, rq_finished = False, rq_cancelled = False,
    rq_timed_out = False, rq_results = []\<rparr>"
  let ?s = "handleResolve Net_aborted (handle_cancel (startRequest ?n))"
  have "RequestSession_new (\<lambda>_. True) ?q = Inr ?n" by (simp add: RequestSession_new_def)
  then have "request_reachable (startRequest ?n)" by (rule request_reachable.start)
  then have "request_reachable (handle_cancel (startRequest ?n))"
    by (rule request_reachable.step) (rule request_step.cancel)
  then have r: "request_reachable ?s"
    by (rule request_reachable.step) (rule request_step.resolve, simp add: startRequest_def handler_defs)
  moreover have "rq_pending ?s = None" by (simp add: startRequest_def handler_defs Let_def)
  ultimately show ?thesis using request_completes_once [OF r] by blast
qed

section \<open>Configured transports\<close>

text \<open>
  A URL the configuration accepts for the Pilot is one the transport accepts: constructing it with
  positive bounds does not throw once the parser has let the URL through.
\<close>

lemma configured_pilot_url_accepted:
  assumes "isAdvertisedUrlValid url = Inr True" and "0 < connect" and "0 < request" and "0 < bytes"
  shows "\<exists>t. PilotHttpTransport_new url connect request bytes = Inr t \<and>
    bu_host (tr_base_url t) \<noteq> [] \<and> list_all is_digit (bu_port (tr_base_url t)) \<and>
    getUrlPort url = Inr (int (digits_val (bu_port (tr_base_url t))))"
proof -
  from assms(1) have pre: "starts_with ''http://'' url" "find_char (CHR ''@'') url = None"
      "find_char (CHR ''?'') url = None" "find_char (CHR ''#'') url = None"
    by (auto simp: isAdvertisedUrlValid_def split: if_splits)
  from assms(1) pre obtain i where i: "rfind_char (CHR '':'') (url_authority url) = Some i"
    "i \<noteq> 0" "i \<noteq> length (url_authority url) - 1" "list_all is_digit (drop (i + 1) (url_authority url))"
    and "bindE (stoi (drop (i + 1) (url_authority url))) (\<lambda>port. Inr (port \<ge> 1 \<and> port \<le> 65535)) = Inr True"
    by (auto simp: isAdvertisedUrlValid_def Let_def split: if_splits option.splits)
  then obtain p where p: "stoi (drop (i + 1) (url_authority url)) = Inr p" "1 \<le> p" "p \<le> 65535"
    by (auto simp: result_simps)
  have ne: "take i (url_authority url) \<noteq> []"
    using i(1,2) by (cases "url_authority url") (auto simp: rfind_char_def)
  have v: "p = int (digits_val (drop (i + 1) (url_authority url)))"
    using p(1) by (auto simp: stoi_def split: if_splits)
  have g: "getUrlPort url = Inr p" using i p by (simp add: getUrlPort_def Let_def)
  show ?thesis
    using pre i p ne v g assms(2-4) by (simp add: PilotHttpTransport_new_def parseBaseUrl_def Let_def)
qed

end
