(* ===== verification/PilotClient.thy ===== *)
theory PilotClient
  imports VisionCatalog PilotTransport Effects
begin

text \<open>
  The Pilot lifecycle client (\<^verbatim>\<open>src/pilot/pilot_integration_client.cpp\<close>). The worker thread is a
  program counter with its local variables; one step of it runs from one blocking call (a request, a
  timed wait) to the next. Between two steps other threads may update the provider state or ask the
  client to stop. The results of requests and the clock are arguments of the steps.
\<close>

section \<open>Pure helpers\<close>

fun makePilotState :: "ProviderState \<Rightarrow> PilotCommonState" where
  "makePilotState PS_READY = \<lparr>cs_health = ''ready'', cs_reason = [], cs_details = []\<rparr>"
| "makePilotState PS_DEGRADED = \<lparr>cs_health = ''degraded'', cs_reason = ''camera_degraded'', cs_details = []\<rparr>"
| "makePilotState PS_STOPPING = \<lparr>cs_health = ''stopping'', cs_reason = ''provider_stopping'', cs_details = []\<rparr>"
| "makePilotState PS_STARTING = \<lparr>cs_health = ''starting'', cs_reason = [], cs_details = []\<rparr>"

definition HEX_UPPER :: string where "HEX_UPPER = ''0123456789ABCDEF''"

definition unreserved :: "char \<Rightarrow> bool" where
  "unreserved c \<longleftrightarrow> is_lower c \<or> is_upper c \<or> is_digit c \<or>
     c = CHR ''-'' \<or> c = CHR ''_'' \<or> c = CHR ''.'' \<or> c = CHR ''~''"

definition encode_char :: "char \<Rightarrow> string" where
  "encode_char c = (if unreserved c then [c]
     else [CHR ''%'', HEX_UPPER ! (byte_of c div 16), HEX_UPPER ! (byte_of c mod 16)])"

definition encodePathSegment :: "string \<Rightarrow> string" where
  "encodePathSegment input = concat (map encode_char input)"

definition isContractStatus :: "int \<Rightarrow> bool" where
  "isContractStatus status \<longleftrightarrow> status = 400 \<or> status = 413 \<or> status = 415"

datatype CatalogConflictDisposition = Conflict_REPLACE_SESSION | Conflict_CONTRACT_FAULT | Conflict_UNKNOWN

definition classifyCatalogConflict :: "string \<Rightarrow> CatalogConflictDisposition" where
  "classifyCatalogConflict error_code =
     (if error_code \<in> {''stale_catalog_generation'', ''session_expired'', ''stale_sequence''}
      then Conflict_REPLACE_SESSION
      else if error_code \<in> {''idempotency_conflict'', ''duplicate_descriptor_id'', ''undeclared_endpoint_capability''}
      then Conflict_CONTRACT_FAULT
      else Conflict_UNKNOWN)"

definition getErrorCode :: "(string \<Rightarrow> json option) \<Rightarrow> string \<Rightarrow> string" where
  "getErrorCode parse body = (case parse body of
     Some (JObject obj) \<Rightarrow>
       (case if_contains obj ''error'' of
          Some (JObject err) \<Rightarrow> (case if_contains err ''code'' of Some (JString code) \<Rightarrow> code | _ \<Rightarrow> [])
        | _ \<Rightarrow> [])
   | _ \<Rightarrow> [])"

text \<open>The delay before the next attempt, in milliseconds.\<close>

definition capped_delay :: "PilotConfig \<Rightarrow> int \<Rightarrow> int" where
  "capped_delay config retry_count =
     min (pl_retry_max_delay_ms config) (pl_retry_initial_delay_ms config * 2 ^ nat (min (retry_count - 1) 10))"

section \<open>State\<close>

text \<open>The library functions of other components' parameters.\<close>

record pilot_library =
  pb_parse :: "string \<Rightarrow> json option"
  pb_ser :: "json \<Rightarrow> string"
  pb_cosine :: "f64 \<Rightarrow> f64"
  pb_sine :: "f64 \<Rightarrow> f64"

text \<open>
  \<open>Await_\<dots>\<close>: a request is being executed; \<open>\<dots>_wait\<close>: a timed wait; \<open>Worker_crashed\<close>: an exception has
  left the thread's function, which ends the process.
\<close>

datatype worker_pc =
    No_worker
  | Loop_top | Await_registration | Retry_wait int
  | Publish_top | Await_publication | Publish_wait int
  | Session_wait | Await_lifecycle
  | After_loop | Await_disconnect
  | Worker_done | Worker_crashed

text \<open>The requests sent, with the session and the sequence number they carry.\<close>

datatype sent_request =
    Sent_registration PilotHttpRequest
  | Sent_catalog string PilotHttpRequest
  | Sent_lifecycle string u64 PilotHttpRequest
  | Sent_disconnect string PilotHttpRequest

record PilotIntegrationClient =
  pi_config :: VisionConfig
  pi_catalog :: VisionEndpointCatalog
  pi_snapshot :: PilotIntegrationSnapshot
  pi_pending_state :: "ProviderState option"
  pi_current_state :: ProviderState
  pi_last_success :: int
  pi_instance_id :: string
  pi_started_at_ns :: u64
  pi_started :: bool
  pi_stop_requested :: bool
  pi_pc :: worker_pc
  pi_session_id :: string
  pi_sequence :: u64
  pi_retry_count :: int
  pi_publication_body :: string
  pi_publish_retry :: int
  pi_server :: string
  pi_heartbeat_interval_ms :: u64
  pi_next_heartbeat :: int
  pi_sent :: "sent_request list"

definition PilotIntegrationClient_new :: "VisionConfig \<Rightarrow> PilotIntegrationClient" where
  "PilotIntegrationClient_new config =
     \<lparr>pi_config = config, pi_catalog = \<lparr>ec_descriptors = [], ec_capabilities = []\<rparr>,
      pi_snapshot = default_PilotIntegrationSnapshot, pi_pending_state = None, pi_current_state = PS_STARTING,
      pi_last_success = 0, pi_instance_id = [], pi_started_at_ns = 0, pi_started = False,
      pi_stop_requested = False, pi_pc = No_worker, pi_session_id = [], pi_sequence = 1, pi_retry_count = 0,
      pi_publication_body = [], pi_publish_retry = 0, pi_server = [], pi_heartbeat_interval_ms = 0,
      pi_next_heartbeat = 0, pi_sent = []\<rparr>"

definition setSnapshot :: "PilotIntegrationState \<Rightarrow> string \<Rightarrow> PilotIntegrationClient \<Rightarrow> PilotIntegrationClient" where
  "setSnapshot state error s = s\<lparr>pi_snapshot := (pi_snapshot s)
     \<lparr>ps_enabled := pl_enabled (vc_pilot (pi_config s)), ps_state := state, ps_last_error := error\<rparr>\<rparr>"

definition recordSuccess :: "int \<Rightarrow> PilotIntegrationClient \<Rightarrow> PilotIntegrationClient" where
  "recordSuccess now s = s\<lparr>pi_last_success := now\<rparr>"

definition updateOnlineSuccess :: "int \<Rightarrow> PilotIntegrationClient \<Rightarrow> PilotIntegrationClient" where
  "updateOnlineSuccess now s = s\<lparr>pi_snapshot := (pi_snapshot s)\<lparr>ps_state := PI_ONLINE, ps_last_error := []\<rparr>,
     pi_last_success := now\<rparr>"

definition send :: "sent_request \<Rightarrow> worker_pc \<Rightarrow> PilotIntegrationClient \<Rightarrow> PilotIntegrationClient" where
  "send request pc s = s\<lparr>pi_sent := pi_sent s @ [request], pi_pc := pc\<rparr>"

definition session_path :: "string \<Rightarrow> string" where
  "session_path session_id = ''/api/v1/components/'' @ encodePathSegment session_id"

section \<open>Registration\<close>

definition registration_body :: "pilot_library \<Rightarrow> PilotIntegrationClient \<Rightarrow> string result" where
  "registration_body lib s =
     bindE (buildVisionStaticMetadata (pb_cosine lib) (pb_sine lib) (pi_config s)) (\<lambda>metadata.
     serializeRegistrationRequest (pb_ser lib)
       \<lparr>rr_component_id = vc_component_id (pi_config s), rr_instance_id = pi_instance_id s,
        rr_capabilities = ec_capabilities (pi_catalog s), rr_initial_state = makePilotState (pi_current_state s),
        rr_started_at_ns = pi_started_at_ns s,
        rr_metadata = jput ''provider_api_version'' (JString ''1.3.0'') metadata,
        rr_clock_domain = pl_clock_domain (vc_pilot (pi_config s))\<rparr>)"

text \<open>The head of the worker's loop, up to the registration request.\<close>

definition worker_register :: "pilot_library \<Rightarrow> PilotIntegrationClient \<Rightarrow> PilotIntegrationClient" where
  "worker_register lib s =
     (if pi_stop_requested s then s\<lparr>pi_pc := After_loop\<rparr>
      else let s = setSnapshot PI_REGISTERING [] s in
        case registration_body lib s of
          Inl e \<Rightarrow> s\<lparr>pi_pc := Worker_crashed\<rparr>
        | Inr body \<Rightarrow> send (Sent_registration
            \<lparr>hq_method = ''POST'', hq_target = ''/api/v1/components/register'', hq_body = body\<rparr>) Await_registration s)"

text \<open>The tail of the loop: count the retry and wait.\<close>

definition worker_retry :: "PilotIntegrationClient \<Rightarrow> PilotIntegrationClient" where
  "worker_retry s = (let n = pi_retry_count s + 1 in
     s\<lparr>pi_retry_count := n, pi_snapshot := (pi_snapshot s)\<lparr>ps_retry_count := n\<rparr>,
       pi_pc := Retry_wait (capped_delay (vc_pilot (pi_config s)) n)\<rparr>)"

definition publication_id :: "PilotIntegrationClient \<Rightarrow> string" where
  "publication_id s = ''catalog-'' @ pi_instance_id s @ ''-1''"

text \<open>The answer to the registration; an exception of the protected block is \<open>invalid_registration_response\<close>.\<close>

definition worker_registered ::
  "pilot_library \<Rightarrow> int \<Rightarrow> PilotHttpResult \<Rightarrow> PilotIntegrationClient \<Rightarrow> PilotIntegrationClient"
where
  "worker_registered lib now result s =
     (if pi_stop_requested s then s\<lparr>pi_pc := After_loop\<rparr>
      else if hr_status result = 201 then
        (case parseRegistrationResponse (pb_parse lib) (hr_body result) of
           Inl e \<Rightarrow> worker_retry (setSnapshot PI_RECOVERING ''invalid_registration_response'' s)
         | Inr response \<Rightarrow>
             let s1 = (recordSuccess now s)
                   \<lparr>pi_session_id := rs_session_id response, pi_sequence := 1,
                    pi_snapshot := (pi_snapshot s)\<lparr>ps_server_instance_id := rs_server_instance_id response,
                      ps_retry_count := pi_retry_count s, ps_catalog_generation := 0, ps_descriptor_count := 0\<rparr>\<rparr>
             in case serializeCatalogPublicationRequest (pb_ser lib) (publication_id s) 0 (ec_descriptors (pi_catalog s)) of
                  Inl e \<Rightarrow> worker_retry (setSnapshot PI_RECOVERING ''invalid_registration_response'' s1)
                | Inr body \<Rightarrow> s1\<lparr>pi_publication_body := body, pi_publish_retry := 0,
                    pi_server := rs_server_instance_id response,
                    pi_heartbeat_interval_ms := rs_heartbeat_interval_ms response, pi_pc := Publish_top\<rparr>)
      else if isContractStatus (hr_status result)
      then (setSnapshot PI_CONTRACT_FAULT ''registration_contract_error'' s)\<lparr>pi_pc := Worker_done\<rparr>
      else worker_retry (setSnapshot PI_RECOVERING
             (if hr_error result = [] then ''registration_unavailable'' else ''registration_transport_error'') s))"

section \<open>Publication\<close>

definition worker_publish :: "PilotIntegrationClient \<Rightarrow> PilotIntegrationClient" where
  "worker_publish s =
     (if pi_stop_requested s then s\<lparr>pi_pc := After_loop\<rparr>
      else send (Sent_catalog (pi_session_id s)
        \<lparr>hq_method = ''PUT'', hq_target = session_path (pi_session_id s) @ ''/endpoint-catalog'',
         hq_body = pi_publication_body s\<rparr>) Await_publication s)"

definition replace_session :: "string \<Rightarrow> PilotIntegrationClient \<Rightarrow> PilotIntegrationClient" where
  "replace_session error s = worker_retry ((setSnapshot PI_RECOVERING error s)\<lparr>pi_session_id := []\<rparr>)"

definition contract_fault :: "string \<Rightarrow> PilotIntegrationClient \<Rightarrow> PilotIntegrationClient" where
  "contract_fault error s = (setSnapshot PI_CONTRACT_FAULT error s)\<lparr>pi_pc := Worker_done\<rparr>"

definition publish_again :: "PilotIntegrationClient \<Rightarrow> PilotIntegrationClient" where
  "publish_again s = (let n = pi_publish_retry s + 1 in
     s\<lparr>pi_publish_retry := n, pi_snapshot := (pi_snapshot s)\<lparr>ps_retry_count := n\<rparr>,
       pi_pc := Publish_wait (capped_delay (vc_pilot (pi_config s)) n)\<rparr>)"

definition heartbeat_after :: "int \<Rightarrow> PilotIntegrationClient \<Rightarrow> PilotIntegrationClient" where
  "heartbeat_after now s =
     s\<lparr>pi_next_heartbeat := now + uint (pi_heartbeat_interval_ms s) * 1000000, pi_pc := Session_wait\<rparr>"

definition worker_published ::
  "pilot_library \<Rightarrow> int \<Rightarrow> PilotHttpResult \<Rightarrow> PilotIntegrationClient \<Rightarrow> PilotIntegrationClient"
where
  "worker_published lib now result s =
     (if pi_stop_requested s then s\<lparr>pi_pc := After_loop\<rparr>
      else if hr_status result = 200 then
        (case parseCatalogAcceptedResponse (pb_parse lib) (hr_body result) (vc_component_id (pi_config s))
                (pi_server s) (int (length (ec_descriptors (pi_catalog s)))) of
           Inl e \<Rightarrow> replace_session ''invalid_catalog_response'' s
         | Inr response \<Rightarrow>
             heartbeat_after now ((updateOnlineSuccess now
               (recordSuccess now (s\<lparr>pi_snapshot := (pi_snapshot s)
                 \<lparr>ps_server_instance_id := ca_server_instance_id response,
                  ps_catalog_generation := ca_catalog_generation response,
                  ps_descriptor_count := ca_descriptor_count response\<rparr>\<rparr>)))\<lparr>pi_retry_count := 0\<rparr>))
      else let error_code = getErrorCode (pb_parse lib) (hr_body result) in
        if hr_status result = 409 then
          (case classifyCatalogConflict error_code of
             Conflict_REPLACE_SESSION \<Rightarrow> replace_session
               (if error_code = ''stale_catalog_generation'' then ''stale_catalog_generation''
                else ''catalog_session_replaced'') s
           | Conflict_CONTRACT_FAULT \<Rightarrow> contract_fault ''catalog_contract_conflict'' s
           | Conflict_UNKNOWN \<Rightarrow> contract_fault ''catalog_unknown_conflict'' s)
        else if isContractStatus (hr_status result) then contract_fault ''catalog_contract_error'' s
        else if hr_status result = 404 then replace_session ''catalog_session_replaced'' s
        else publish_again s)"

section \<open>The session\<close>

definition session_wakes :: "int \<Rightarrow> PilotIntegrationClient \<Rightarrow> bool" where
  "session_wakes now s \<longleftrightarrow> pi_stop_requested s \<or> pi_pending_state s \<noteq> None \<or> pi_next_heartbeat s \<le> now"

definition worker_session :: "pilot_library \<Rightarrow> PilotIntegrationClient \<Rightarrow> PilotIntegrationClient" where
  "worker_session lib s =
     (if pi_stop_requested s then s\<lparr>pi_pc := After_loop\<rparr>
      else let sequence = pi_sequence s; path = session_path (pi_session_id s);
          s1 = s\<lparr>pi_pending_state := None, pi_sequence := sequence + 1\<rparr>
        in case (case pi_pending_state s of
                   Some state \<Rightarrow> bindE (serializeStateUpdateRequest (pb_ser lib) sequence (makePilotState state))
                     (\<lambda>body. Inr \<lparr>hq_method = ''POST'', hq_target = path @ ''/state'', hq_body = body\<rparr>)
                 | None \<Rightarrow> bindE (serializeHeartbeatRequest (pb_ser lib) sequence)
                     (\<lambda>body. Inr \<lparr>hq_method = ''POST'', hq_target = path @ ''/heartbeat'', hq_body = body\<rparr>)) of
             Inl e \<Rightarrow> worker_retry (setSnapshot PI_RECOVERING ''invalid_registration_response'' s1)
           | Inr request \<Rightarrow> send (Sent_lifecycle (pi_session_id s) sequence request) Await_lifecycle s1)"

definition worker_answered ::
  "pilot_library \<Rightarrow> int \<Rightarrow> PilotHttpResult \<Rightarrow> PilotIntegrationClient \<Rightarrow> PilotIntegrationClient"
where
  "worker_answered lib now result s =
     (if pi_stop_requested s then s\<lparr>pi_pc := After_loop\<rparr>
      else if hr_status result \<noteq> 200
      then worker_retry (setSnapshot PI_RECOVERING
             (if hr_error result = [] then ''lifecycle_write_rejected'' else ''lifecycle_transport_error'') s)
      else case parseLifecycleAcceptedResponse (pb_parse lib) (hr_body result) of
             Inl e \<Rightarrow> worker_retry (setSnapshot PI_RECOVERING ''invalid_lifecycle_response'' s)
           | Inr response \<Rightarrow>
               (if la_server_instance_id response \<noteq> ps_server_instance_id (pi_snapshot s)
                then worker_retry (setSnapshot PI_RECOVERING ''lifecycle_server_instance_mismatch'' s)
                else heartbeat_after now (updateOnlineSuccess now s)))"

section \<open>The end\<close>

definition worker_ended :: "PilotIntegrationClient \<Rightarrow> PilotIntegrationClient" where
  "worker_ended s = (setSnapshot (if pl_enabled (vc_pilot (pi_config s)) then PI_STOPPED else PI_DISABLED) [] s)
     \<lparr>pi_pc := Worker_done\<rparr>"

definition worker_leave :: "PilotIntegrationClient \<Rightarrow> PilotIntegrationClient" where
  "worker_leave s =
     (if pi_session_id s \<noteq> [] then
        send (Sent_disconnect (pi_session_id s)
          \<lparr>hq_method = ''POST'', hq_target = session_path (pi_session_id s) @ ''/disconnect'',
           hq_body = serializeDisconnectRequest\<rparr>) Await_disconnect (setSnapshot PI_STOPPING [] s)
      else worker_ended s)"

section \<open>The interface\<close>

text \<open>\<open>generator\<close> and \<open>random\<close> are those of \<^const>\<open>generateInstanceId\<close>; \<open>now\<close> is the clock in nanoseconds.\<close>

definition startClient ::
  "pilot_library \<Rightarrow> ProviderState \<Rightarrow> string option \<Rightarrow> u32 list \<Rightarrow> int \<Rightarrow> (PilotIntegrationClient, unit) act"
where
  "startClient lib initial_state generator random now =
     bindS (getS (\<lambda>s. s)) (\<lambda>s0.
     if pi_started s0 then retS ()
     else let config = pi_config s0; pilot = vc_pilot config in
     bindS (modS (\<lambda>s. s\<lparr>pi_started := True, pi_current_state := initial_state, pi_pending_state := None,
       pi_last_success := 0, pi_snapshot := default_PilotIntegrationSnapshot\<lparr>ps_enabled := pl_enabled pilot\<rparr>\<rparr>)) (\<lambda>_.
     if \<not> pl_enabled pilot
     then modS (\<lambda>s. s\<lparr>pi_snapshot := (pi_snapshot s)\<lparr>ps_state := PI_DISABLED\<rparr>\<rparr>)
     else
     bindS (liftS (buildCatalog (pb_cosine lib) (pb_sine lib) config)) (\<lambda>catalog.
     bindS (modS (\<lambda>s. s\<lparr>pi_catalog := catalog\<rparr>)) (\<lambda>_.
     bindS (liftS (generateInstanceId generator random)) (\<lambda>instance_id.
     bindS (modS (\<lambda>s. s\<lparr>pi_instance_id := instance_id, pi_started_at_ns := word_of_int now,
       pi_stop_requested := False\<rparr>)) (\<lambda>_.
     bindS (liftS (PilotHttpTransport_new (pl_base_url pilot) (pl_connect_timeout_ms pilot)
       (min (pl_request_timeout_ms pilot) (pl_shutdown_timeout_ms pilot)) (pl_max_response_bytes pilot))) (\<lambda>_.
     modS (\<lambda>s. s\<lparr>pi_pc := Loop_top, pi_session_id := [], pi_sequence := 1, pi_retry_count := 0, pi_sent := []\<rparr>))))))))"

definition updateProviderState :: "ProviderState \<Rightarrow> PilotIntegrationClient \<Rightarrow> PilotIntegrationClient" where
  "updateProviderState state s =
     (if \<not> pi_started s \<or> \<not> pl_enabled (vc_pilot (pi_config s)) then s
      else s\<lparr>pi_current_state := state, pi_pending_state := Some state\<rparr>)"

text \<open>\<^verbatim>\<open>stopClient\<close> up to the join of the worker, and after it.\<close>

definition stop_begin :: "PilotIntegrationClient \<Rightarrow> PilotIntegrationClient" where
  "stop_begin s = (if \<not> pi_started s then s else s\<lparr>pi_stop_requested := True\<rparr>)"

definition stop_finish :: "PilotIntegrationClient \<Rightarrow> PilotIntegrationClient" where
  "stop_finish s = s\<lparr>pi_started := False\<rparr>"

definition getSnapshot_client :: "int \<Rightarrow> PilotIntegrationClient \<Rightarrow> PilotIntegrationSnapshot" where
  "getSnapshot_client now s =
     (if pi_last_success s \<noteq> 0
      then (pi_snapshot s)\<lparr>ps_last_success_age_ms := min ((now - pi_last_success s) sdiv 1000000) INT_MAX\<rparr>
      else pi_snapshot s)"

section \<open>Steps\<close>

inductive worker_step :: "pilot_library \<Rightarrow> PilotIntegrationClient \<Rightarrow> PilotIntegrationClient \<Rightarrow> bool"
  for lib :: pilot_library where
  register: "pi_pc s = Loop_top \<Longrightarrow> worker_step lib s (worker_register lib s)"
| registered: "pi_pc s = Await_registration \<Longrightarrow> worker_step lib s (worker_registered lib now result s)"
| retry: "pi_pc s = Retry_wait delay \<Longrightarrow> worker_step lib s (s\<lparr>pi_pc := Loop_top\<rparr>)"
| publish: "pi_pc s = Publish_top \<Longrightarrow> worker_step lib s (worker_publish s)"
| published: "pi_pc s = Await_publication \<Longrightarrow> worker_step lib s (worker_published lib now result s)"
| republish: "pi_pc s = Publish_wait delay \<Longrightarrow> worker_step lib s (s\<lparr>pi_pc := Publish_top\<rparr>)"
| session: "pi_pc s = Session_wait \<Longrightarrow> session_wakes now s \<Longrightarrow> worker_step lib s (worker_session lib s)"
| answered: "pi_pc s = Await_lifecycle \<Longrightarrow> worker_step lib s (worker_answered lib now result s)"
| leave: "pi_pc s = After_loop \<Longrightarrow> worker_step lib s (worker_leave s)"
| disconnected: "pi_pc s = Await_disconnect \<Longrightarrow> worker_step lib s (worker_ended s)"

definition joinable_ended :: "PilotIntegrationClient \<Rightarrow> bool" where
  "joinable_ended s \<longleftrightarrow> pi_pc s = No_worker \<or> pi_pc s = Worker_done"

inductive client_step :: "pilot_library \<Rightarrow> PilotIntegrationClient \<Rightarrow> PilotIntegrationClient \<Rightarrow> bool"
  for lib :: pilot_library where
  start: "length random = 16 \<Longrightarrow> client_step lib s (snd (startClient lib state generator random now s))"
| update: "client_step lib s (updateProviderState state s)"
| stop: "client_step lib s (stop_begin s)"
| join: "pi_stop_requested s \<Longrightarrow> joinable_ended s \<Longrightarrow> client_step lib s (stop_finish s)"

inductive pilot_reachable :: "pilot_library \<Rightarrow> VisionConfig \<Rightarrow> PilotIntegrationClient \<Rightarrow> bool"
  for lib :: pilot_library and config :: VisionConfig where
  new: "pilot_reachable lib config (PilotIntegrationClient_new config)"
| worker: "pilot_reachable lib config s \<Longrightarrow> worker_step lib s t \<Longrightarrow> pilot_reachable lib config t"
| client: "pilot_reachable lib config s \<Longrightarrow> client_step lib s t \<Longrightarrow> pilot_reachable lib config t"

end
