(* ===== verification/PilotClientFacts.thy ===== *)
theory PilotClientFacts
  imports PilotClient
begin

text \<open>
  The invariant of the Pilot client over every interleaving of its worker with the calls of other
  threads, and what a configured client needs to run: requests that can be serialised, a transport
  that can be built.
\<close>

section \<open>Serialisation never fails\<close>

lemma has_adjacent_equal_strict: "sorted_wrt (<) xs \<Longrightarrow> \<not> has_adjacent_equal (xs :: 'a::linorder list)"
  by (induction xs rule: has_adjacent_equal.induct) auto

lemma capabilities_ok:
  "list_all identifier_ok cs \<Longrightarrow>
     mapE (\<lambda>capability. bindE (validateIdentifier capability ''capability'') (\<lambda>_. Inr (JString capability))) cs =
       Inr (map JString cs)"
  by (rule mapE_all_Inr) (auto simp: validateIdentifier_def identifier_ok_def list_all_iff throw_if_def)

lemma makePilotState_ok: "\<exists>v. serializeCommonState (makePilotState state) = Inr v"
  by (cases state) (simp_all add: serializeCommonState_def)

lemma registration_ok:
  assumes "identifier_ok (rr_component_id request)" "isInstanceIdValid (rr_instance_id request)"
    and "rr_clock_domain request = ''monotonic_same_host''" "sorted_wrt (<) (rr_capabilities request)"
    and "list_all identifier_ok (rr_capabilities request)" "rr_initial_state request = makePilotState state"
  shows "is_ok (serializeRegistrationRequest ser request)"
proof -
  have "validateIdentifier (rr_component_id request) ''component_id'' = Inr ()"
    using assms(1) by (simp add: validateIdentifier_def identifier_ok_def)
  moreover have "sorted (rr_capabilities request)" using assms(4) by (simp add: strict_sorted_iff)
  ultimately show ?thesis
    using assms makePilotState_ok [of state] has_adjacent_equal_strict [OF assms(4)]
    by (auto simp: serializeRegistrationRequest_def capabilities_ok)
qed

section \<open>The invariant\<close>

definition running :: "worker_pc \<Rightarrow> bool" where
  "running pc \<longleftrightarrow> pc \<noteq> No_worker \<and> pc \<noteq> Worker_done \<and> pc \<noteq> Worker_crashed"

text \<open>The lifecycle writes since the last registration request, with their sessions.\<close>

definition current_writes :: "sent_request list \<Rightarrow> (string \<times> u64) list" where
  "current_writes sent = foldl (\<lambda>writes r. case r of
       Sent_registration _ \<Rightarrow> [] | Sent_lifecycle session sequence _ \<Rightarrow> writes @ [(session, sequence)]
     | _ \<Rightarrow> writes) [] sent"

text \<open>The writes of one session, numbered from 1 without a gap.\<close>

definition numbered :: "(string \<times> u64) list \<Rightarrow> bool" where
  "numbered writes \<longleftrightarrow> writes = map (\<lambda>k. (fst (hd writes), word_of_nat k)) [1..<Suc (length writes)]"

lemma current_writes_simps [simp]:
  "current_writes (sent @ [Sent_registration r]) = []"
  "current_writes (sent @ [Sent_catalog i r]) = current_writes sent"
  "current_writes (sent @ [Sent_disconnect i r]) = current_writes sent"
  "current_writes (sent @ [Sent_lifecycle i q r]) = current_writes sent @ [(i, q)]"
  "current_writes [] = []"
  by (simp_all add: current_writes_def)

lemma numbered_Nil [simp]: "numbered []"
  by (simp add: numbered_def)

lemma numbered_snoc:
  assumes "numbered writes" "\<forall>p \<in> set writes. fst p = session"
  shows "numbered (writes @ [(session, word_of_nat (Suc (length writes)))])"
proof (cases writes)
  case Nil
  then show ?thesis by (simp add: numbered_def)
next
  case (Cons p ps)
  then have "fst (hd writes) = session" using assms(2) by simp
  moreover from this Cons have "fst (hd (writes @ [(session, word_of_nat (Suc (length writes)))])) = session" by simp
  ultimately show ?thesis using assms(1) by (simp add: numbered_def)
qed

definition published :: "PilotIntegrationClient \<Rightarrow> bool" where
  "published s \<longleftrightarrow> ps_catalog_generation (pi_snapshot s) \<noteq> 0 \<and>
     ps_descriptor_count (pi_snapshot s) = int (length (ec_descriptors (pi_catalog s)))"

abbreviation state_of :: "PilotIntegrationClient \<Rightarrow> PilotIntegrationState" where
  "state_of s \<equiv> ps_state (pi_snapshot s)"

definition offline :: "PilotIntegrationClient \<Rightarrow> bool" where
  "offline s \<longleftrightarrow> pi_started s \<and> state_of s \<noteq> PI_ONLINE \<and> state_of s \<noteq> PI_CONTRACT_FAULT"

definition publishing :: "PilotIntegrationClient \<Rightarrow> bool" where
  "publishing s \<longleftrightarrow> offline s \<and> current_writes (pi_sent s) = [] \<and> pi_sequence s = 1"

definition in_session :: "PilotIntegrationClient \<Rightarrow> bool" where
  "in_session s \<longleftrightarrow> pi_started s \<and> state_of s \<noteq> PI_CONTRACT_FAULT \<and> published s \<and>
     (\<forall>p \<in> set (current_writes (pi_sent s)). fst p = pi_session_id s) \<and>
     pi_sequence s = word_of_nat (Suc (length (current_writes (pi_sent s))))"

text \<open>What holds at each point of the worker.\<close>

fun pc_ok :: "worker_pc \<Rightarrow> PilotIntegrationClient \<Rightarrow> bool" where
  "pc_ok No_worker s \<longleftrightarrow> state_of s \<noteq> PI_ONLINE"
| "pc_ok Loop_top s \<longleftrightarrow> offline s"
| "pc_ok Await_registration s \<longleftrightarrow> offline s \<and> current_writes (pi_sent s) = []"
| "pc_ok (Retry_wait _) s \<longleftrightarrow> offline s"
| "pc_ok Publish_top s \<longleftrightarrow> publishing s"
| "pc_ok Await_publication s \<longleftrightarrow> publishing s"
| "pc_ok (Publish_wait _) s \<longleftrightarrow> publishing s"
| "pc_ok Session_wait s \<longleftrightarrow> in_session s"
| "pc_ok Await_lifecycle s \<longleftrightarrow> in_session s"
| "pc_ok After_loop s \<longleftrightarrow> pi_started s \<and> state_of s \<noteq> PI_CONTRACT_FAULT \<and> (state_of s = PI_ONLINE \<longrightarrow> published s)"
| "pc_ok Await_disconnect s \<longleftrightarrow> offline s"
| "pc_ok Worker_done s \<longleftrightarrow> state_of s \<noteq> PI_ONLINE"
| "pc_ok Worker_crashed s \<longleftrightarrow> state_of s \<noteq> PI_ONLINE"

definition pilot_inv :: "PilotIntegrationClient \<Rightarrow> bool" where
  "pilot_inv s \<longleftrightarrow> numbered (current_writes (pi_sent s)) \<and> pc_ok (pi_pc s) s"

lemmas phase_defs = offline_def publishing_def in_session_def published_def

lemma new_pilot_inv: "pilot_inv (PilotIntegrationClient_new config)"
  by (simp add: pilot_inv_def PilotIntegrationClient_new_def default_PilotIntegrationSnapshot_def)

lemma retry_inv:
  assumes "numbered (current_writes (pi_sent s))" "state_of s = PI_RECOVERING" "pi_started s"
  shows "pilot_inv (worker_retry s)"
  using assms by (simp add: pilot_inv_def worker_retry_def Let_def offline_def)

lemma setSnapshot_simps [simp]:
  "pi_sent (setSnapshot st e s) = pi_sent s" "pi_started (setSnapshot st e s) = pi_started s"
  "ps_state (pi_snapshot (setSnapshot st e s)) = st" "pi_pc (setSnapshot st e s) = pi_pc s"
  "pi_config (setSnapshot st e s) = pi_config s" "pi_catalog (setSnapshot st e s) = pi_catalog s"
  "pi_instance_id (setSnapshot st e s) = pi_instance_id s" "pi_stop_requested (setSnapshot st e s) = pi_stop_requested s"
  "pi_session_id (setSnapshot st e s) = pi_session_id s" "pi_current_state (setSnapshot st e s) = pi_current_state s"
  "ps_catalog_generation (pi_snapshot (setSnapshot st e s)) = ps_catalog_generation (pi_snapshot s)"
  "ps_descriptor_count (pi_snapshot (setSnapshot st e s)) = ps_descriptor_count (pi_snapshot s)"
  by (simp_all add: setSnapshot_def)

text \<open>A stop seen by the worker leads to the end of the loop.\<close>

lemma after_loop_inv: "pilot_inv s \<Longrightarrow> running (pi_pc s) \<Longrightarrow> pilot_inv (s\<lparr>pi_pc := After_loop\<rparr>)"
  by (cases "pi_pc s") (simp_all add: pilot_inv_def phase_defs running_def)

lemma register_inv:
  assumes "pilot_inv s" "pi_pc s = Loop_top"
  shows "pilot_inv (worker_register lib s)"
  using assms after_loop_inv [OF assms(1)]
  by (simp add: worker_register_def Let_def send_def running_def pilot_inv_def phase_defs split: sum.split)

text \<open>The registration's answer: the three ways to go on, and the way into the publication.\<close>

lemma registered_inv:
  assumes "pilot_inv s" "pi_pc s = Await_registration"
  shows "pilot_inv (worker_registered lib now result s)"
proof -
  have w: "current_writes (pi_sent s) = []" "pi_started s" "state_of s \<noteq> PI_ONLINE" "state_of s \<noteq> PI_CONTRACT_FAULT"
    using assms by (simp_all add: pilot_inv_def offline_def)
  have stop: "pilot_inv (s\<lparr>pi_pc := After_loop\<rparr>)"
    by (rule after_loop_inv) (simp_all add: assms running_def)
  have fault: "pilot_inv ((setSnapshot PI_CONTRACT_FAULT e s)\<lparr>pi_pc := Worker_done\<rparr>)" for e
    by (simp add: pilot_inv_def w)
  have retry: "pilot_inv (worker_retry (setSnapshot PI_RECOVERING e s))" for e
    by (rule retry_inv) (simp_all add: w)
  show ?thesis
    using stop fault retry w
    by (auto simp: worker_registered_def recordSuccess_def Let_def pilot_inv_def [of "_\<lparr>pi_pc := Publish_top\<rparr>"] phase_defs
        intro!: retry_inv split: sum.split)
qed

lemma catalog_response_facts:
  "postE (parseCatalogAcceptedResponse parse body component server n)
     (\<lambda>r. ca_catalog_generation r \<noteq> 0 \<and> ca_descriptor_count r = n)"
  unfolding parseCatalogAcceptedResponse_def
  by (intro postE_bind postE_any [where m = "parse_object _ _ _"] postE_any [where m = "requireIdentifier _ _"]
      postE_any [where m = "requireNonNegativeInteger _ _"] postE_throw_if postE_Inr) simp

lemma publish_inv:
  assumes "pilot_inv s" "pi_pc s = Publish_top"
  shows "pilot_inv (worker_publish s)"
  using assms after_loop_inv [OF assms(1)]
  by (simp add: worker_publish_def send_def running_def pilot_inv_def phase_defs)

lemma replace_inv:
  assumes "current_writes (pi_sent s) = []" "pi_started s"
  shows "pilot_inv (replace_session e s)"
  unfolding replace_session_def by (rule retry_inv) (use assms in simp_all)

lemma contract_fault_inv: "current_writes (pi_sent s) = [] \<Longrightarrow> pilot_inv (contract_fault e s)"
  by (simp add: contract_fault_def pilot_inv_def)

lemma published_inv:
  assumes "pilot_inv s" "pi_pc s = Await_publication"
  shows "pilot_inv (worker_published lib now result s)"
proof -
  have p: "publishing s" using assms by (simp add: pilot_inv_def)
  then have w: "current_writes (pi_sent s) = []" "pi_started s" by (simp_all add: phase_defs)
  have stop: "pilot_inv (s\<lparr>pi_pc := After_loop\<rparr>)"
    by (rule after_loop_inv) (simp_all add: assms running_def)
  have again: "pilot_inv (publish_again s)"
    using p by (simp add: publish_again_def Let_def pilot_inv_def phase_defs)
  show ?thesis
  proof (cases "parseCatalogAcceptedResponse (pb_parse lib) (hr_body result) (vc_component_id (pi_config s))
      (pi_server s) (int (length (ec_descriptors (pi_catalog s))))")
    case (Inl e)
    with stop again replace_inv [OF w] contract_fault_inv [OF w(1)] show ?thesis
      by (simp add: worker_published_def Let_def split: CatalogConflictDisposition.split)
  next
    case (Inr r)
    from postED [OF catalog_response_facts Inr]
    have "ca_catalog_generation r \<noteq> 0" "ca_descriptor_count r = int (length (ec_descriptors (pi_catalog s)))"
      by simp_all
    then have "pilot_inv (heartbeat_after now ((updateOnlineSuccess now
               (recordSuccess now (s\<lparr>pi_snapshot := (pi_snapshot s)
                 \<lparr>ps_server_instance_id := ca_server_instance_id r,
                  ps_catalog_generation := ca_catalog_generation r,
                  ps_descriptor_count := ca_descriptor_count r\<rparr>\<rparr>)))\<lparr>pi_retry_count := 0\<rparr>))"
      using p by (simp add: heartbeat_after_def updateOnlineSuccess_def recordSuccess_def pilot_inv_def phase_defs)
    with Inr stop again replace_inv [OF w] contract_fault_inv [OF w(1)] show ?thesis
      by (simp add: worker_published_def Let_def split: CatalogConflictDisposition.split)
  qed
qed

lemma session_inv:
  assumes "pilot_inv s" "pi_pc s = Session_wait"
  shows "pilot_inv (worker_session lib s)"
proof -
  have p: "in_session s" "numbered (current_writes (pi_sent s))" using assms by (simp_all add: pilot_inv_def)
  let ?s1 = "s\<lparr>pi_pending_state := None, pi_sequence := pi_sequence s + 1\<rparr>"
  have stop: "pilot_inv (s\<lparr>pi_pc := After_loop\<rparr>)"
    by (rule after_loop_inv) (simp_all add: assms running_def)
  have retry: "pilot_inv (worker_retry (setSnapshot PI_RECOVERING e ?s1))" for e
    by (rule retry_inv) (use p in \<open>simp_all add: phase_defs\<close>)
  have "numbered (current_writes (pi_sent s) @ [(pi_session_id s, pi_sequence s)])"
    using numbered_snoc [OF p(2), of "pi_session_id s"] p(1) by (simp add: phase_defs)
  then have "pilot_inv (send (Sent_lifecycle (pi_session_id s) (pi_sequence s) r) Await_lifecycle ?s1)" for r
    using p by (simp add: send_def pilot_inv_def phase_defs)
  with stop retry show ?thesis
    by (simp add: worker_session_def Let_def split: sum.split)
qed

lemma answered_inv:
  assumes "pilot_inv s" "pi_pc s = Await_lifecycle"
  shows "pilot_inv (worker_answered lib now result s)"
proof -
  have p: "in_session s" "numbered (current_writes (pi_sent s))" using assms by (simp_all add: pilot_inv_def)
  have stop: "pilot_inv (s\<lparr>pi_pc := After_loop\<rparr>)"
    by (rule after_loop_inv) (simp_all add: assms running_def)
  have retry: "pilot_inv (worker_retry (setSnapshot PI_RECOVERING e s))" for e
    by (rule retry_inv) (use p in \<open>simp_all add: phase_defs\<close>)
  have "pilot_inv (heartbeat_after now (updateOnlineSuccess now s))"
    using p by (simp add: heartbeat_after_def updateOnlineSuccess_def pilot_inv_def phase_defs)
  with stop retry show ?thesis
    by (simp add: worker_answered_def split: sum.split)
qed

lemma leave_inv: "pilot_inv s \<Longrightarrow> pi_pc s = After_loop \<Longrightarrow> pilot_inv (worker_leave s)"
  by (simp add: worker_leave_def worker_ended_def send_def pilot_inv_def phase_defs)

lemma ended_inv: "pilot_inv s \<Longrightarrow> pilot_inv (worker_ended s)"
  by (simp add: worker_ended_def pilot_inv_def)

lemma worker_step_inv: "worker_step lib s t \<Longrightarrow> pilot_inv s \<Longrightarrow> pilot_inv t"
proof (induction rule: worker_step.induct)
  case (retry s delay)
  then show ?case by (simp add: pilot_inv_def phase_defs)
next
  case (republish s delay)
  then show ?case by (simp add: pilot_inv_def phase_defs)
qed (simp_all add: register_inv registered_inv publish_inv published_inv session_inv answered_inv leave_inv ended_inv)

text \<open>Starting: only a client without a worker is touched, and it gets one only at the end.\<close>

lemma not_started_ended: "pilot_inv s \<Longrightarrow> \<not> pi_started s \<Longrightarrow> \<not> running (pi_pc s)"
  by (cases "pi_pc s") (simp_all add: pilot_inv_def phase_defs running_def)

lemma ended_pc_ok: "\<not> running pc \<Longrightarrow> pc_ok pc s \<longleftrightarrow> state_of s \<noteq> PI_ONLINE"
  by (cases pc) (simp_all add: running_def)

lemma client_start_inv:
  assumes "pilot_inv s"
  shows "pilot_inv (snd (startClient lib state generator random now s))"
proof (cases "pi_started s")
  case True
  with assms show ?thesis by (simp add: startClient_def act_simps)
next
  case False
  have w: "numbered (current_writes (pi_sent s))" using assms by (simp add: pilot_inv_def)
  show ?thesis
    using False w ended_pc_ok [OF not_started_ended [OF assms False]]
    by (simp add: startClient_def act_simps Let_def default_PilotIntegrationSnapshot_def pilot_inv_def offline_def
        bindS_def split: sum.split)
qed

lemma client_step_inv: "client_step lib s t \<Longrightarrow> pilot_inv s \<Longrightarrow> pilot_inv t"
proof (induction rule: client_step.induct)
  case (start random s state generator now)
  then show ?case by (simp add: client_start_inv)
next
  case (update s state)
  then show ?case by (cases "pi_pc s") (simp_all add: updateProviderState_def pilot_inv_def phase_defs)
next
  case (stop s)
  then show ?case by (cases "pi_pc s") (simp_all add: stop_begin_def pilot_inv_def phase_defs)
next
  case (join s)
  then show ?case by (auto simp: stop_finish_def joinable_ended_def pilot_inv_def)
qed

lemma pilot_reachable_inv: "pilot_reachable lib config s \<Longrightarrow> pilot_inv s"
  by (induction rule: pilot_reachable.induct) (blast intro: new_pilot_inv worker_step_inv client_step_inv)+

end
