(* ===== verification/PilotClientProps.thy ===== *)
theory PilotClientProps
  imports PilotClientFacts VisionConfigProps
begin

text \<open>
  The properties of the Pilot client, and a concrete client driven from its start into a session.
\<close>

section \<open>Configured clients\<close>

lemma make_ok:
  "is_ok (makeService (Inr m) c d cap path media schema meth req)" "is_ok (makeStream (Inr m) c d cap path schema)"
  by (simp_all add: makeService_def makeStream_def)

lemma buildCatalog_ok:
  assumes "buildCameraMountTransform cosine sine (vc_calibration c) = Inr t"
  shows "\<exists>cat. buildCatalog cosine sine c = Inr cat"
proof -
  obtain m where m: "buildVisionStaticMetadata cosine sine c = Inr m"
    using assms by (simp add: buildVisionStaticMetadata_def)
  have "is_ok (mapE (\<lambda>r. r) (base_endpoints (Inr m) c @
      (if isColorEnabled c then color_endpoints (Inr m) c else []) @
      (if rg_enabled (vc_recording c) then recording_endpoints (Inr m) c else [])))"
    by (rule mapE_is_ok)
       (auto simp: base_endpoints_def color_endpoints_def recording_endpoints_def make_ok split: if_splits)
  then show ?thesis unfolding buildCatalog_def m Let_def by (auto simp: is_ok_iff)
qed

lemma buildCatalog_metadata:
  "buildCatalog cosine sine c = Inr cat \<Longrightarrow> \<exists>m. buildVisionStaticMetadata cosine sine c = Inr m"
  by (cases "buildVisionStaticMetadata cosine sine c")
     (simp_all add: buildCatalog_def Let_def base_endpoints_def makeService_def)

lemma text_ok_identifier: "text_ok v \<Longrightarrow> identifier_ok v"
  by (simp add: text_ok_def identifier_ok_def IDENTIFIER_MAX_BYTES_def)

text \<open>What the worker of an accepted configuration works with.\<close>

definition equipped :: "pilot_library \<Rightarrow> PilotIntegrationClient \<Rightarrow> bool" where
  "equipped lib s \<longleftrightarrow> buildCatalog (pb_cosine lib) (pb_sine lib) (pi_config s) = Inr (pi_catalog s) \<and>
     isInstanceIdValid (pi_instance_id s)"

lemma equipped_registration:
  assumes "equipped lib s" "config_ok (pi_config s)"
  shows "is_ok (registration_body lib s)"
proof -
  obtain m where m: "buildVisionStaticMetadata (pb_cosine lib) (pb_sine lib) (pi_config s) = Inr m"
    using buildCatalog_metadata assms(1) unfolding equipped_def by blast
  note cat = buildCatalog_Inr [of "pb_cosine lib" "pb_sine lib" "pi_config s" "pi_catalog s"]
  show ?thesis
    using assms cat unfolding registration_body_def m equipped_def bindE_simps
    by (intro registration_ok) (auto simp: config_ok_def pilot_ok_def text_ok_identifier)
qed

definition safe :: "pilot_library \<Rightarrow> VisionConfig \<Rightarrow> PilotIntegrationClient \<Rightarrow> bool" where
  "safe lib c s \<longleftrightarrow> pi_config s = c \<and> (running (pi_pc s) \<longrightarrow> equipped lib s) \<and> pi_pc s \<noteq> Worker_crashed"

text \<open>A worker step keeps what the worker was started with; only the head of the loop can crash.\<close>

definition same_kit :: "PilotIntegrationClient \<Rightarrow> PilotIntegrationClient \<Rightarrow> bool" where
  "same_kit s t \<longleftrightarrow> pi_config t = pi_config s \<and> pi_catalog t = pi_catalog s \<and> pi_instance_id t = pi_instance_id s"

lemma kit_setSnapshot: "same_kit s (setSnapshot st e s')  \<longleftrightarrow> same_kit s s'"
  by (simp add: same_kit_def setSnapshot_def)

lemma kit_retry: "same_kit s (worker_retry s') \<longleftrightarrow> same_kit s s'" "pi_pc (worker_retry s') \<noteq> Worker_crashed"
  by (simp_all add: same_kit_def worker_retry_def Let_def)

lemma kit_replace: "same_kit s (replace_session e s)" "pi_pc (replace_session e s) \<noteq> Worker_crashed"
  by (simp_all add: replace_session_def kit_retry) (simp add: same_kit_def)

lemma kit_fault: "same_kit s (contract_fault e s)" "pi_pc (contract_fault e s) \<noteq> Worker_crashed"
  by (simp_all add: contract_fault_def same_kit_def)

lemma kit_again: "same_kit s (publish_again s)" "pi_pc (publish_again s) \<noteq> Worker_crashed"
  by (simp_all add: publish_again_def same_kit_def Let_def)

lemma kit_heartbeat: "same_kit s (heartbeat_after now s') \<longleftrightarrow> same_kit s s'" "pi_pc (heartbeat_after now s') \<noteq> Worker_crashed"
  by (simp_all add: heartbeat_after_def same_kit_def)

lemma kit_update: "same_kit s (updateOnlineSuccess now s') \<longleftrightarrow> same_kit s s'" "same_kit s (recordSuccess now s') \<longleftrightarrow> same_kit s s'"
  by (simp_all add: same_kit_def updateOnlineSuccess_def recordSuccess_def)

lemma kit_fields:
  "same_kit s s" "same_kit s (s'\<lparr>pi_pc := pc\<rparr>) \<longleftrightarrow> same_kit s s'" "same_kit s (s'\<lparr>pi_session_id := i\<rparr>) \<longleftrightarrow> same_kit s s'"
  "same_kit s (s'\<lparr>pi_sequence := q\<rparr>) \<longleftrightarrow> same_kit s s'" "same_kit s (s'\<lparr>pi_snapshot := sn\<rparr>) \<longleftrightarrow> same_kit s s'"
  "same_kit s (s'\<lparr>pi_retry_count := n\<rparr>) \<longleftrightarrow> same_kit s s'" "same_kit s (s'\<lparr>pi_pending_state := p\<rparr>) \<longleftrightarrow> same_kit s s'"
  "same_kit s (s'\<lparr>pi_publication_body := b\<rparr>) \<longleftrightarrow> same_kit s s'" "same_kit s (s'\<lparr>pi_publish_retry := n\<rparr>) \<longleftrightarrow> same_kit s s'"
  "same_kit s (s'\<lparr>pi_server := v\<rparr>) \<longleftrightarrow> same_kit s s'" "same_kit s (s'\<lparr>pi_heartbeat_interval_ms := h\<rparr>) \<longleftrightarrow> same_kit s s'"
  "same_kit s (send r pc s') \<longleftrightarrow> same_kit s s'" "pi_pc (send r pc s') = pc"
  by (simp_all add: same_kit_def send_def)

lemmas kit_simps = kit_setSnapshot kit_retry kit_replace kit_fault kit_again kit_heartbeat kit_update kit_fields

lemma worker_step_kit:
  "worker_step lib s t \<Longrightarrow> same_kit s t \<and> (pi_pc s \<noteq> Loop_top \<longrightarrow> pi_pc t \<noteq> Worker_crashed)"
proof (induction rule: worker_step.induct)
  case (register s)
  then show ?case by (simp add: worker_register_def Let_def kit_simps split: sum.split)
next
  case (registered s now result)
  then show ?case by (simp add: worker_registered_def Let_def kit_simps split: sum.split)
next
  case (publish s)
  then show ?case by (simp add: worker_publish_def kit_simps)
next
  case (published s now result)
  then show ?case
    by (simp add: worker_published_def Let_def kit_simps split: sum.split CatalogConflictDisposition.split)
next
  case (session s now)
  then show ?case by (simp add: worker_session_def Let_def kit_simps split: sum.split)
next
  case (answered s now result)
  then show ?case by (simp add: worker_answered_def kit_simps split: sum.split)
next
  case (leave s)
  then show ?case by (simp add: worker_leave_def worker_ended_def kit_simps)
next
  case (disconnected s)
  then show ?case by (simp add: worker_ended_def kit_simps)
qed (simp_all add: kit_simps)

inductive_cases worker_step_any: "worker_step lib s t"

lemma ended_no_step: "\<not> running (pi_pc s) \<Longrightarrow> \<not> worker_step lib s t"
  by (auto simp: running_def elim!: worker_step_any)

lemma safe_worker:
  assumes "worker_step lib s t" "safe lib c s" "config_ok c"
  shows "safe lib c t"
proof -
  have run: "running (pi_pc s)" using assms(1) ended_no_step by blast
  then have e: "equipped lib s" "pi_config s = c" using assms(2) by (auto simp: safe_def)
  have k: "same_kit s t" "pi_pc s \<noteq> Loop_top \<Longrightarrow> pi_pc t \<noteq> Worker_crashed"
    using worker_step_kit [OF assms(1)] by auto
  have "pi_pc t \<noteq> Worker_crashed"
  proof (cases "pi_pc s = Loop_top")
    case True
    then have t: "t = worker_register lib s" using assms(1) by (auto elim: worker_step_any)
    have "equipped lib (setSnapshot PI_REGISTERING [] s)" using e(1) by (simp add: equipped_def)
    from equipped_registration [OF this] e(2) assms(3)
    have "is_ok (registration_body lib (setSnapshot PI_REGISTERING [] s))" by simp
    then show ?thesis by (auto simp: t worker_register_def Let_def send_def is_ok_iff)
  qed (use k in blast)
  then show ?thesis using e k(1) by (simp add: safe_def equipped_def same_kit_def)
qed

lemma safe_client:
  assumes "client_step lib s t" "safe lib c s" "pilot_inv s"
  shows "safe lib c t"
  using assms
proof (induction rule: client_step.induct)
  case (start random s state generator now)
  show ?case
  proof (cases "pi_started s")
    case True
    with start show ?thesis by (simp add: startClient_def act_simps)
  next
    case False
    have "\<not> running (pi_pc s)" using not_started_ended [OF start(3) False] .
    with start False generated_valid [of random generator] show ?thesis
      by (auto simp: startClient_def act_simps Let_def safe_def equipped_def bindS_def running_def split: sum.split)
  qed
qed (auto simp: safe_def updateProviderState_def stop_begin_def stop_finish_def equipped_def)

lemma safe_reachable:
  assumes "pilot_reachable lib c s" "config_ok c"
  shows "safe lib c s"
  using assms(1)
proof (induction rule: pilot_reachable.induct)
  case new
  then show ?case by (simp add: safe_def PilotIntegrationClient_new_def running_def)
next
  case (worker s t)
  then show ?case using safe_worker assms(2) by blast
next
  case (client s t)
  then show ?case using safe_client pilot_reachable_inv by blast
qed

section \<open>The worker after a stop\<close>

fun steps_left :: "worker_pc \<Rightarrow> nat" where
  "steps_left (Retry_wait _) = 4" | "steps_left (Publish_wait _) = 4"
| "steps_left Loop_top = 3" | "steps_left Await_registration = 3" | "steps_left Publish_top = 3"
| "steps_left Await_publication = 3" | "steps_left Session_wait = 3" | "steps_left Await_lifecycle = 3"
| "steps_left After_loop = 2" | "steps_left Await_disconnect = 1"
| "steps_left No_worker = 0" | "steps_left Worker_done = 0" | "steps_left Worker_crashed = 0"

lemma stopping_step:
  "worker_step lib s t \<Longrightarrow> pi_stop_requested s \<Longrightarrow> pi_stop_requested t \<and> steps_left (pi_pc t) < steps_left (pi_pc s)"
  by (induction rule: worker_step.induct)
     (auto simp: worker_register_def worker_registered_def worker_publish_def worker_published_def
       worker_session_def worker_answered_def worker_leave_def worker_ended_def send_def)

lemma stopping_steps:
  "(worker_step lib ^^ n) s t \<Longrightarrow> pi_stop_requested s \<Longrightarrow> pi_stop_requested t \<and> steps_left (pi_pc t) + n \<le> steps_left (pi_pc s)"
proof (induction n arbitrary: t)
  case (Suc n)
  then obtain u where "(worker_step lib ^^ n) s u" "worker_step lib u t" by auto
  with Suc stopping_step [of lib u t] show ?case by fastforce
qed simp

lemma session_wakes_stop: "pi_stop_requested s \<Longrightarrow> session_wakes now s"
  by (simp add: session_wakes_def)

lemma worker_progress:
  "running (pi_pc s) \<Longrightarrow> pi_stop_requested s \<Longrightarrow> \<exists>t. worker_step lib s t"
  by (cases "pi_pc s") (auto simp: running_def intro: worker_step.intros worker_step.session [of s 0] session_wakes_stop)

lemma steps_left_bound: "steps_left pc \<le> 4"
  by (cases pc) simp_all

end
