(* ===== verification/GeometryFacts.thy ===== *)
theory GeometryFacts
  imports Geometry VisionConfigProps
begin

text \<open>
  Facts of the mount transform: rounding does not depend on how a value is scaled, so adding a zero is
  exact; the mount matrix of a concrete calibration, entry by entry; what a built transform is good for.
\<close>

section \<open>Adding a zero\<close>

lemma bitlen_double: "m > 0 \<Longrightarrow> bitlen (m * 2 ^ k) = bitlen m + k"
proof (induction k)
  case (Suc k)
  have "bitlen (m * 2 ^ Suc k) = Suc (bitlen (m * 2 ^ Suc k div 2))"
    using Suc.prems by (subst bitlen.simps) simp
  with Suc show ?case by simp
qed simp

lemma round_half_even_exact: "k \<ge> j \<Longrightarrow> round_half_even (m * 2 ^ k) j = m * 2 ^ (k - j)"
proof -
  assume "k \<ge> j"
  then have e: "m * 2 ^ k = (m * 2 ^ (k - j)) * 2 ^ j" by (simp add: mult.assoc flip: power_add)
  have "round_half_even (n * 2 ^ j) j = n" for n by (simp add: round_half_even_def)
  then show ?thesis unfolding e .
qed

lemma round_half_even_scale: "round_half_even (m * 2 ^ k) (j + k) = round_half_even m j"
proof -
  have "m * 2 ^ k div 2 ^ (j + k) = m div 2 ^ j" "m * 2 ^ k mod 2 ^ (j + k) = (m mod 2 ^ j) * 2 ^ k"
    by (simp_all add: power_add flip: mult_mod_left)
  moreover have "2 * (r * 2 ^ k) > 2 ^ (j + k) \<longleftrightarrow> 2 * r > 2 ^ j" "2 * (r * 2 ^ k) = 2 ^ (j + k) \<longleftrightarrow> 2 * r = 2 ^ j" for r :: nat
    by (simp_all add: power_add flip: mult.assoc)
  ultimately show ?thesis by (simp add: round_half_even_def Let_def)
qed

lemma fp_round_scale:
  assumes "m > 0"
  shows "fp_round eb fb s (m * 2 ^ k) (e - int k) = fp_round eb fb s m e"
proof -
  have same: "(if q \<le> e - int k then m * 2 ^ k * 2 ^ nat (e - int k - q) else round_half_even (m * 2 ^ k) (nat (q - (e - int k))))
      = (if q \<le> e then m * 2 ^ nat (e - q) else round_half_even m (nat (q - e)))" for q :: int
  proof -
    consider "q \<le> e - int k" | "e - int k < q" "q \<le> e" | "e < q" by linarith
    then show ?thesis
    proof cases
      case 1
      then have "nat (e - q) = k + nat (e - int k - q)" by linarith
      with 1 show ?thesis by (simp add: power_add)
    next
      case 2
      then have "nat (q - (e - int k)) \<le> k" "k - nat (q - (e - int k)) = nat (e - q)" by linarith+
      with 2 round_half_even_exact [OF this(1), of m] show ?thesis by simp
    next
      case 3
      then have "nat (q - (e - int k)) = nat (q - e) + k" by linarith
      with 3 show ?thesis by (simp add: round_half_even_scale)
    qed
  qed
  have b: "e - int k + int (bitlen (m * 2 ^ k)) = e + int (bitlen m)" using bitlen_double [OF assms] by simp
  have p: "m * 2 ^ k \<noteq> 0" "m \<noteq> 0" using assms by simp_all
  show ?thesis unfolding fp_round_def Let_def b same using p by simp
qed

lemma signed_scaled:
  assumes "m > 0"
  shows "nat \<bar>signed_mant s m * 2 ^ k\<bar> = m * 2 ^ k" "signed_mant s m * 2 ^ k \<noteq> 0" "signed_mant s m * 2 ^ k < 0 \<longleftrightarrow> s"
proof -
  have "signed_mant s m = (if s then - 1 else 1) * int m" by (simp add: signed_mant_def)
  then have v: "signed_mant s m * 2 ^ k = (if s then - 1 else 1) * int (m * 2 ^ k)" by simp
  have "0 < m * 2 ^ k" using assms by simp
  then show "nat \<bar>signed_mant s m * 2 ^ k\<bar> = m * 2 ^ k" "signed_mant s m * 2 ^ k \<noteq> 0" "signed_mant s m * 2 ^ k < 0 \<longleftrightarrow> s"
    unfolding v by (auto simp del: of_nat_mult of_nat_power)
qed

text \<open>\<open>x + 0\<close> and \<open>0 + x\<close> for a finite value that is not zero, whatever the sign of the zero.\<close>

lemma fp_add_zero:
  assumes "m > 0"
  shows "f64_of (fp_add (FFin s m e) (FFin t 0 d)) = f64_of (FFin s m e)"
    and "f64_of (fp_add (FFin t 0 d) (FFin s m e)) = f64_of (FFin s m e)"
proof -
  let ?k = "nat (e - min e d)"
  have k: "min e d = e - int ?k" by simp
  have r: "fp_round 11 52 s (m * 2 ^ ?k) (min e d) = fp_round 11 52 s m e"
    using fp_round_scale [OF assms, of 11 52 s ?k e] k by simp
  define v where "v = signed_mant s m * 2 ^ ?k"
  have n: "nat \<bar>v\<bar> = m * 2 ^ ?k" "v \<noteq> 0" "v < 0 \<longleftrightarrow> s"
    unfolding v_def using signed_scaled [OF assms] by blast+
  have zero: "fp_scaled e0 t 0 d = 0" for e0 by (simp add: fp_scaled_def signed_mant_def)
  have scaled: "fp_scaled (min e d) s m e = v" by (simp only: fp_scaled_def v_def)
  have sum: "fp_add (FFin s m e) (FFin t 0 d) = FFin s (m * 2 ^ ?k) (min e d)"
    "fp_add (FFin t 0 d) (FFin s m e) = FFin s (m * 2 ^ ?k) (min e d)"
    using n by (simp_all only: fp_add.simps Let_def zero scaled min.commute [of d] add_0_left add_0_right if_False)
  show "f64_of (fp_add (FFin s m e) (FFin t 0 d)) = f64_of (FFin s m e)"
    "f64_of (fp_add (FFin t 0 d) (FFin s m e)) = f64_of (FFin s m e)"
    by (simp_all only: sum f64_of_def fp_encode_def fp.case r)
qed

section \<open>The mount matrix of the identity rotation\<close>

definition neg_zero :: f64 where "neg_zero = 0x8000000000000000"

lemma float_constants:
  "f64_of_int 0 = 0" "f64_of_int 1 = one" "f64_neg 0 = neg_zero"
  by (simp_all add: one_def neg_zero_def fp_eval)

lemma float_products:
  "f64_mul 0 0 = 0" "f64_mul 0 one = 0" "f64_mul one 0 = 0" "f64_mul one one = one"
  "f64_mul 0 neg_zero = neg_zero" "f64_mul neg_zero 0 = neg_zero" "f64_mul one neg_zero = neg_zero"
  "f64_mul neg_zero one = neg_zero" "f64_mul neg_zero neg_zero = 0"
  "f64_mul 0 minus_one = neg_zero" "f64_mul one minus_one = minus_one" "f64_mul neg_zero minus_one = 0"
  "f64_mul minus_one minus_one = one" "f64_mul minus_one 0 = neg_zero" "f64_mul minus_one one = minus_one"
  "f64_mul minus_one neg_zero = 0"
  by (simp_all add: one_def minus_one_def neg_zero_def fp_eval)

lemma float_values:
  "f64_val one = FFin False 4503599627370496 (-52)" "f64_val minus_one = FFin True 4503599627370496 (-52)"
  "f64_val 0 = FFin False 0 (-1074)" "f64_val neg_zero = FFin True 0 (-1074)"
  "f64_of (FFin False 4503599627370496 (-52)) = one" "f64_of (FFin True 4503599627370496 (-52)) = minus_one"
  by (simp_all add: one_def minus_one_def neg_zero_def fp_eval)

lemma float_sums:
  "f64_add 0 one = one" "f64_add one 0 = one" "f64_add one neg_zero = one" "f64_add neg_zero one = one"
  "f64_add 0 minus_one = minus_one" "f64_add minus_one 0 = minus_one"
  "f64_add minus_one neg_zero = minus_one" "f64_add neg_zero minus_one = minus_one"
  by (simp_all only: f64_add_def float_values fp_add_zero zero_less_numeral)

lemma float_differences:
  "f64_sub 0 minus_one = one" "f64_sub one 0 = one" "f64_sub neg_zero minus_one = one" "f64_sub one neg_zero = one"
  by (simp_all only: f64_sub_def float_values fp_add_zero zero_less_numeral fp_neg.simps not_True_eq_False not_False_eq_True)

lemma zero_sums:
  "f64_add 0 0 = 0" "f64_add 0 neg_zero = 0" "f64_add neg_zero 0 = 0" "f64_sub 0 0 = 0" "f64_sub 0 neg_zero = 0"
  "f64_sub neg_zero 0 = neg_zero"
  by (simp_all add: neg_zero_def fp_eval)

lemma float_checks:
  "f64_isfinite 0" "f64_isfinite one" "f64_isfinite minus_one" "f64_isfinite neg_zero"
  "\<not> f64_less ROTATION_TOLERANCE (f64_abs 0)" "\<not> f64_less ROTATION_TOLERANCE (f64_abs neg_zero)"
  by (simp_all add: one_def minus_one_def neg_zero_def ROTATION_TOLERANCE_def fp_eval)

lemma float_near: "\<not> beyond 0 0" "\<not> beyond one one"
proof -
  have "f64_sub one one = 0" by (simp add: one_def fp_eval)
  then show "\<not> beyond 0 0" "\<not> beyond one one" by (simp_all add: beyond_def zero_sums float_checks)
qed

lemmas float_tables = float_products float_sums float_differences zero_sums float_checks float_near

lemma range_four: "[0..<4] = [0, 1, 2, 3 :: nat]" and range_three: "[0..<3] = [0, 1, 2 :: nat]"
  by (simp_all add: upt_rec)

lemma entries:
  "multiplyMatrices [a0, a1, a2, a3, a4, a5, a6, a7, a8, a9, a10, a11, a12, a13, a14, a15] b =
     concat (map (\<lambda>row. map (\<lambda>column.
       f64_add (f64_add (f64_add (f64_add 0 (f64_mul (row ! 0) (b ! column)))
         (f64_mul (row ! 1) (b ! (4 + column)))) (f64_mul (row ! 2) (b ! (8 + column))))
         (f64_mul (row ! 3) (b ! (12 + column)))) [0, 1, 2, 3])
       [[a0, a1, a2, a3], [a4, a5, a6, a7], [a8, a9, a10, a11], [a12, a13, a14, a15]])"
  by (simp add: multiplyMatrices_def dot_def range_four)

definition forward_matrix :: "f64 list" where
  "forward_matrix = [one, 0, 0, 0,  0, 0, one, 0,  0, minus_one, 0, one,  0, 0, 0, one]"

lemma identity_rotation:
  "multiplyMatrices makeIdentityMatrix [one, 0, 0, 0, 0, one, neg_zero, 0, 0, 0, one, 0, 0, 0, 0, one] = makeIdentityMatrix"
  "multiplyMatrices makeIdentityMatrix [one, 0, 0, 0, 0, one, 0, 0, neg_zero, 0, one, 0, 0, 0, 0, one] = makeIdentityMatrix"
  "multiplyMatrices makeIdentityMatrix [one, neg_zero, 0, 0, 0, one, 0, 0, 0, 0, one, 0, 0, 0, 0, one] = makeIdentityMatrix"
  by (simp_all add: makeIdentityMatrix_def entries float_tables)

definition sample_cosine :: "f64 \<Rightarrow> f64" where "sample_cosine _ = one"
definition sample_sine :: "f64 \<Rightarrow> f64" where "sample_sine _ = 0"

lemma sample_rotation:
  "rotate_axes sample_cosine sample_sine [(CHR ''X'', 0), (CHR ''Y'', 0), (CHR ''Z'', 0)] makeIdentityMatrix =
     Inr makeIdentityMatrix"
proof -
  have "makeAxisRotation sample_cosine sample_sine (CHR ''X'') 0 =
      Inr [one, 0, 0, 0, 0, one, neg_zero, 0, 0, 0, one, 0, 0, 0, 0, one]"
    "makeAxisRotation sample_cosine sample_sine (CHR ''Y'') 0 =
      Inr [one, 0, 0, 0, 0, one, 0, 0, neg_zero, 0, one, 0, 0, 0, 0, one]"
    "makeAxisRotation sample_cosine sample_sine (CHR ''Z'') 0 =
      Inr [one, neg_zero, 0, 0, 0, one, 0, 0, 0, 0, one, 0, 0, 0, 0, one]"
    by (simp_all add: makeAxisRotation_def sample_cosine_def sample_sine_def makeIdentityMatrix_def float_constants Let_def)
  then show ?thesis by (simp add: identity_rotation)
qed

lemma forward_product:
  "multiplyMatrices (makeIdentityMatrix[3 := 0, 7 := 0, 11 := one]) camera_body_from_camera_optical = forward_matrix"
  by (simp add: makeIdentityMatrix_def camera_body_from_camera_optical_def forward_matrix_def entries float_tables)

lemma forward_valid: "validateMatrix forward_matrix = Inr ()"
proof -
  have "list_all f64_isfinite forward_matrix" by (simp add: forward_matrix_def float_checks)
  then have "\<not> list_ex (\<lambda>v. \<not> f64_isfinite v) forward_matrix" by (simp add: list_all_iff list_ex_iff)
  moreover have "\<not> list_ex (\<lambda>row. list_ex (\<lambda>column.
      beyond (rotation_product forward_matrix row column) (if row = column then one else 0)) [0..<3]) [0..<3]"
    by (simp add: rotation_product_def dot_def range_three forward_matrix_def float_tables)
  moreover have "determinant3 forward_matrix = one"
    by (simp add: determinant3_def forward_matrix_def float_tables)
  ultimately show ?thesis
    by (simp add: validateMatrix_def) (simp add: forward_matrix_def float_tables)
qed

lemma sample_transform:
  "buildCameraMountTransform sample_cosine sample_sine sample_calibration =
     Inr \<lparr>ct_calibration_id = ''c1'', ct_sensor_frame = ''cam'', ct_mount_frame = ''base'', ct_matrix4x4 = forward_matrix\<rparr>"
  using sample_rotation
  by (simp add: buildCameraMountTransform_def sample_calibration_def calibration_invalid_def float_constants float_checks
      forward_product forward_valid Let_def del: rotate_axes.simps)

section \<open>Narrowing to a float\<close>

lemma bitlen_le: "m < 2 ^ n \<Longrightarrow> bitlen m \<le> n"
proof (induction n arbitrary: m)
  case 0
  then show ?case by (simp add: bitlen.simps)
next
  case (Suc n)
  then have "m div 2 < 2 ^ n" by auto
  from Suc.IH [OF this] show ?case by (subst bitlen.simps) simp
qed

lemma bitlen_gt: "m < 2 ^ bitlen m"
proof (induction m rule: bitlen.induct)
  case (1 m)
  show ?case
  proof (cases "m = 0")
    case False
    have "m < 2 * 2 ^ bitlen (m div 2)" using 1 [OF False] by linarith
    with False show ?thesis by (subst bitlen.simps) simp
  qed simp
qed

lemma round_half_even_le: "m \<le> b * 2 ^ j \<Longrightarrow> round_half_even m j \<le> b"
proof -
  assume a: "m \<le> b * 2 ^ j"
  have p: "0 < (2::nat) ^ j" by simp
  show ?thesis
  proof (cases "m = b * 2 ^ j")
    case False
    then have "m div 2 ^ j < b" using a by (simp add: less_mult_imp_div_less)
    then show ?thesis by (simp add: round_half_even_def Let_def)
  qed (simp add: round_half_even_def)
qed

text \<open>A magnitude \<open>m * 2^e\<close> of at most \<open>(2^24 - 1) * 2^104\<close>, compared as \<^const>\<open>fp_less\<close> does.\<close>

definition float_range :: "nat \<Rightarrow> int \<Rightarrow> bool" where
  "float_range m e \<longleftrightarrow> m * 2 ^ nat (e - min 75 e) \<le> (2 ^ 24 - 1) * 2 ^ 29 * 2 ^ nat (75 - min 75 e)"

lemma float_range_bitlen:
  assumes "float_range m e" "0 < m"
  shows "e + int (bitlen m) \<le> 128"
proof -
  let ?a = "nat (e - min 75 e)" and ?b = "nat (75 - min 75 e)"
  have "m * 2 ^ ?a < 2 ^ (53 + ?b)"
    using assms(1) unfolding float_range_def power_add by (rule le_less_trans) simp
  then have "bitlen m + ?a \<le> 53 + ?b" using bitlen_le bitlen_double [OF assms(2), of ?a] by metis
  then show ?thesis by linarith
qed

lemma float_range_top:
  assumes "float_range m e"
  shows "(if 104 \<le> e then m * 2 ^ nat (e - 104) else round_half_even m (nat (104 - e))) \<le> 2 ^ 24 - 1"
proof -
  let ?B = "2 ^ 24 - 1 :: nat"
  consider "104 \<le> e" | "75 < e" "e < 104" | "e \<le> 75" by linarith
  then show ?thesis
  proof cases
    case 1
    then have "nat (e - 75) = nat (e - 104) + 29" by linarith
    with 1 assms have "m * 2 ^ nat (e - 104) * 2 ^ 29 \<le> ?B * 2 ^ 29"
      by (simp add: float_range_def power_add)
    with 1 show ?thesis by simp
  next
    case 2
    then have n: "29 = nat (104 - e) + nat (e - 75)" by linarith
    have "m * 2 ^ nat (e - 75) \<le> ?B * 2 ^ (nat (104 - e) + nat (e - 75))"
      using assms 2 unfolding n [symmetric] by (simp add: float_range_def)
    then have "m \<le> ?B * 2 ^ nat (104 - e)" by (simp add: power_add del: One_nat_def)
    with 2 round_half_even_le show ?thesis by simp
  next
    case 3
    then have "nat (104 - e) = nat (75 - e) + 29" by linarith
    with 3 assms have "m \<le> ?B * 2 ^ nat (104 - e)" by (simp add: float_range_def power_add)
    with 3 round_half_even_le show ?thesis by simp
  qed
qed

lemma round_below_bitlen:
  assumes "e + int (bitlen m) - 24 \<le> q"
  shows "(if q \<le> e then m * 2 ^ nat (e - q) else round_half_even m (nat (q - e))) \<le> 2 ^ 24"
proof (cases "q \<le> e")
  case True
  then have "bitlen m + nat (e - q) \<le> 24" using assms by linarith
  then have "(2::nat) ^ bitlen m * 2 ^ nat (e - q) \<le> 2 ^ 24"
    unfolding power_add [symmetric] by (intro power_increasing) simp_all
  moreover have "m * 2 ^ nat (e - q) \<le> 2 ^ bitlen m * 2 ^ nat (e - q)" using bitlen_gt [of m] by simp
  ultimately have "m * 2 ^ nat (e - q) \<le> 2 ^ 24" by (rule order_trans [rotated])
  then show ?thesis using True by simp
next
  case False
  then have "bitlen m \<le> 24 + nat (q - e)" using assms by linarith
  then have "(2::nat) ^ bitlen m \<le> 2 ^ 24 * 2 ^ nat (q - e)"
    unfolding power_add [symmetric] by (intro power_increasing) simp_all
  with bitlen_gt [of m] have "m \<le> 2 ^ 24 * 2 ^ nat (q - e)" by linarith
  with False round_half_even_le show ?thesis by simp
qed

text \<open>Such a magnitude rounds to a finite binary32 value.\<close>

lemma float_range_round:
  assumes "float_range m e"
  shows "\<exists>r < 255 * 2 ^ 23. fp_round 8 23 s m e = (if s then 2 ^ 31 else 0) + r"
proof (cases "m = 0")
  case False
  define q where "q = max (- 149) (e + int (bitlen m) - 24)"
  define m' where "m' = (if q \<le> e then m * 2 ^ nat (e - q) else round_half_even m (nat (q - e)))"
  have q: "- 149 \<le> q" "q \<le> 104" using float_range_bitlen [OF assms] False by (simp_all add: q_def)
  have r: "nat (q + 149) * 2 ^ 23 + m' < 255 * 2 ^ 23"
  proof (cases "q = 104")
    case True
    have "m' \<le> 2 ^ 24 - 1" unfolding m'_def True by (rule float_range_top [OF assms])
    with True show ?thesis by simp
  next
    case False
    then have "nat (q + 149) \<le> 252" using q by linarith
    moreover have "m' \<le> 2 ^ 24" unfolding m'_def by (rule round_below_bitlen) (simp add: q_def)
    ultimately show ?thesis by simp
  qed
  have "fp_round 8 23 s m e = (if s then 2 ^ 31 else 0) + (nat (q + 149) * 2 ^ 23 + m')"
  proof -
    have c: "fp_qmin 8 23 = - 149" "fp_inf_bits 8 23 = 255 * 2 ^ 23" "fp_sign_bit 8 23 s = (if s then 2 ^ 31 else 0)"
      by (simp_all add: fp_qmin_def fp_bias_def fp_inf_bits_def fp_sign_bit_def)
    have l: "max (- 149) (e + int (bitlen m) - int (23 + 1)) = q" by (simp add: q_def)
    show ?thesis
      using False r unfolding fp_round_def Let_def c l m'_def [symmetric] by (simp only: if_False min_absorb1 less_imp_le) simp
  qed
  with r show ?thesis by blast
qed (auto simp: fp_round_def fp_sign_bit_def)

lemma f64_val_FLOAT: "f64_val FLOAT_MAX = FFin False ((2 ^ 24 - 1) * 2 ^ 29) 75"
  "f64_val FLOAT_LOWEST = FFin True ((2 ^ 24 - 1) * 2 ^ 29) 75"
  by (simp_all add: FLOAT_MAX_def FLOAT_LOWEST_def fp_eval)

lemma narrowed_finite:
  assumes "f64_isfinite x" "\<not> f64_less FLOAT_MAX x" "\<not> f64_less x FLOAT_LOWEST"
  shows "f32_isfinite (f64_to_f32 x)"
proof -
  obtain s m e where x: "f64_val x = FFin s m e"
    using assms(1) by (cases "f64_val x") (simp_all add: f64_isfinite_def)
  have "float_range m e"
  proof (cases s)
    case True
    with assms(3) x have "- int (m * 2 ^ nat (e - min 75 e)) \<ge> - int ((2 ^ 24 - 1) * 2 ^ 29 * 2 ^ nat (75 - min 75 e))"
      by (simp add: f64_less_def f64_val_FLOAT fp_scaled_def signed_mant_def Let_def min.commute)
    then show ?thesis unfolding float_range_def by linarith
  next
    case False
    with assms(2) x have "int (m * 2 ^ nat (e - min 75 e)) \<le> int ((2 ^ 24 - 1) * 2 ^ 29 * 2 ^ nat (75 - min 75 e))"
      by (simp add: f64_less_def f64_val_FLOAT fp_scaled_def signed_mant_def Let_def)
    then show ?thesis unfolding float_range_def by linarith
  qed
  then obtain r where r: "r < 255 * 2 ^ 23" "fp_round 8 23 s m e = (if s then 2 ^ 31 else 0) + r"
    using float_range_round by blast
  let ?n = "(if s then 2 ^ 31 else 0) + r :: nat"
  have "f64_to_f32 x = word_of_nat ?n" using r(2) by (simp add: f64_to_f32_def f32_of_def fp_encode_def x)
  moreover have "take_bit 32 ?n = ?n" using r(1) by (simp only: take_bit_nat_eq_self_iff) simp
  ultimately have "unat (f64_to_f32 x) = ?n" by (simp add: unsigned_of_nat del: of_nat_add)
  moreover have "(?n div 2 ^ 23) mod 2 ^ 8 = r div 2 ^ 23"
  proof -
    have "(2 ^ 31 + r) div 2 ^ 23 = 2 ^ 8 + r div 2 ^ 23" using div_mult_self1 [of "2 ^ 23" r "2 ^ 8 :: nat"] by simp
    moreover have "r div 2 ^ 23 < 2 ^ 8" using r(1) by simp
    ultimately show ?thesis by simp
  qed
  ultimately show ?thesis using r(1) by (simp add: f32_isfinite_fields)
qed

section \<open>Properties\<close>

lemma transform_row_facts:
  "transform_row m point row = Inr v \<Longrightarrow> f32_isfinite v"
  "transform_row m point row = Inl err \<Longrightarrow> err = Invalid_argument ''Camera mount point is outside float range.''"
  by (auto simp: transform_row_def Let_def result_simps narrowed_finite)

lemma mapE_Inr_all:
  "mapE f xs = Inr ys \<Longrightarrow> (\<And>x y. f x = Inr y \<Longrightarrow> P y) \<Longrightarrow> length ys = length xs \<and> list_all P ys"
  by (induction xs arbitrary: ys) (auto simp: result_simps)

lemma mapE_Inl_ex: "mapE f xs = Inl err \<Longrightarrow> \<exists>x. f x = Inl err"
  by (induction xs) (auto simp: result_simps)

text \<open>
  C32: a mount transform that was built is usable for ever: its matrix has sixteen entries and passes
  the check every use repeats, so transforming a point of the camera can only be refused because the
  point is not finite or its image leaves the range of \<^verbatim>\<open>float\<close>; a point that is not refused has
  three finite coordinates.
\<close>

theorem built_transform_usable:
  assumes "buildCameraMountTransform cosine sine calibration = Inr t"
  shows "length (ct_matrix4x4 t) = 16 \<and> ct_calibration_id t = cb_calibration_id calibration \<and>
    validateMatrix (ct_matrix4x4 t) = Inr () \<and>
    (case transformCameraPointToMount point t of
       Inr mapped \<Rightarrow> list_all f32_isfinite point \<and> length mapped = 3 \<and> list_all f32_isfinite mapped
     | Inl err \<Rightarrow> err = Invalid_argument ''Camera optical point must be finite.'' \<and> \<not> list_all f32_isfinite point \<or>
         err = Invalid_argument ''Camera mount point is outside float range.'')"
proof -
  have t: "length (ct_matrix4x4 t) = 16" "ct_calibration_id t = cb_calibration_id calibration"
    "validateMatrix (ct_matrix4x4 t) = Inr ()"
    using assms by (auto simp: buildCameraMountTransform_def Let_def result_simps)
  have e: "list_ex (\<lambda>c. \<not> f32_isfinite c) point \<longleftrightarrow> \<not> list_all f32_isfinite point"
    by (auto simp: list_ex_iff list_all_iff)
  show ?thesis
  proof (cases "mapE (transform_row (ct_matrix4x4 t) point) [0..<3]")
    case (Inl err)
    with mapE_Inl_ex [OF Inl] t e transform_row_facts(2) show ?thesis
      by (auto simp: transformCameraPointToMount_def throw_if_def)
  next
    case (Inr mapped)
    with mapE_Inr_all [OF Inr, of f32_isfinite] t e transform_row_facts(1) show ?thesis
      by (auto simp: transformCameraPointToMount_def throw_if_def)
  qed
qed

lemma built_transform_usable_witness:
  "\<exists>t. buildCameraMountTransform sample_cosine sample_sine sample_calibration = Inr t \<and> length (ct_matrix4x4 t) = 16"
  using built_transform_usable [OF sample_transform] sample_transform by blast

end
