(* ===== verification/PilotClientRuns.thy ===== *)
theory PilotClientRuns
  imports PilotClientProps GeometryFacts
begin

text \<open>
  The properties of the Pilot client, with a concrete client that starts from the sample configuration,
  registers, publishes its catalog and works in its session until it is stopped.
\<close>

section \<open>What a configured client sends\<close>

lemma publication_ok:
  assumes "equipped lib s"
  shows "is_ok (serializeCatalogPublicationRequest ser (publication_id s) 0 (ec_descriptors (pi_catalog s)))"
proof -
  have "buildCatalog (pb_cosine lib) (pb_sine lib) (pi_config s) = Inr (pi_catalog s)" and
    id: "isInstanceIdValid (pi_instance_id s)" using assms by (simp_all add: equipped_def)
  note cat = buildCatalog_Inr [OF this(1)]
  have "identifier_ok (publication_id s)"
    using id by (simp add: publication_id_def identifier_ok_def IDENTIFIER_MAX_BYTES_def isInstanceIdValid_def)
  with cat(1,3) serialize_descriptors_accepts [of "[]" "ec_descriptors (pi_catalog s)"] show ?thesis
    by (auto simp: serializeCatalogPublicationRequest_def validateIdentifier_def identifier_ok_def is_ok_iff
        MAX_INT64_VALUE_def)
qed

lemma startClient_ok:
  assumes "config_ok (pi_config s)" "pl_enabled (vc_pilot (pi_config s))" "\<not> pi_started s" "length random = 16"
    and "buildCatalog (pb_cosine lib) (pb_sine lib) (pi_config s) = Inr cat"
  shows "\<exists>t. startClient lib state None random now s = (Inr (), t) \<and> pi_pc t = Loop_top \<and> pi_started t \<and>
    \<not> pi_stop_requested t \<and> equipped lib t \<and> pi_config t = pi_config s \<and> pi_catalog t = cat \<and> pi_sent t = []"
proof -
  have p: "pilot_ok (vc_pilot (pi_config s))" using assms(1) by (simp add: config_ok_def)
  then obtain tr where tr: "PilotHttpTransport_new (pl_base_url (vc_pilot (pi_config s)))
      (pl_connect_timeout_ms (vc_pilot (pi_config s)))
      (min (pl_request_timeout_ms (vc_pilot (pi_config s))) (pl_shutdown_timeout_ms (vc_pilot (pi_config s))))
      (pl_max_response_bytes (vc_pilot (pi_config s))) = Inr tr"
    using configured_pilot_url_accepted [of "pl_base_url (vc_pilot (pi_config s))" "pl_connect_timeout_ms (vc_pilot (pi_config s))"
        "min (pl_request_timeout_ms (vc_pilot (pi_config s))) (pl_shutdown_timeout_ms (vc_pilot (pi_config s)))"
        "pl_max_response_bytes (vc_pilot (pi_config s))"]
    by (auto simp: pilot_ok_def)
  obtain i where i: "generateInstanceId None random = Inr i" by (simp add: generateInstanceId_def)
  then have "isInstanceIdValid i" using generated_valid [of random None i] assms(4) by simp
  with assms tr i show ?thesis by (simp add: startClient_def act_simps Let_def equipped_def)
qed

text \<open>
  A client of an accepted configuration with an enabled Pilot and a valid mount starts: neither the
  catalog nor the instance id nor the transport is refused, the worker is at the head of its loop, and
  both its requests, the registration and the catalog publication, can be serialised.
\<close>

theorem configured_client_starts:
  assumes "parseVisionConfig parse json_text = Inr config" and "pl_enabled (vc_pilot config)"
    and "buildCameraMountTransform (pb_cosine lib) (pb_sine lib) (vc_calibration config) = Inr transform"
    and "length random = 16"
  shows "\<exists>t. startClient lib state None random now (PilotIntegrationClient_new config) = (Inr (), t) \<and>
    pi_pc t = Loop_top \<and> is_ok (registration_body lib t) \<and>
    is_ok (serializeCatalogPublicationRequest (pb_ser lib) (publication_id t) 0 (ec_descriptors (pi_catalog t)))"
proof -
  let ?s = "PilotIntegrationClient_new config"
  have c: "config_ok config" using post_parseVisionConfig assms(1) by (rule postED)
  obtain cat where "buildCatalog (pb_cosine lib) (pb_sine lib) config = Inr cat" using buildCatalog_ok [OF assms(3)] ..
  then obtain t where "startClient lib state None random now ?s = (Inr (), t)" "pi_pc t = Loop_top" "equipped lib t"
    "pi_config t = config"
    using startClient_ok [of ?s random lib cat state now] c assms(2,4) by (auto simp: PilotIntegrationClient_new_def)
  with equipped_registration [of lib t] publication_ok c show ?thesis by auto
qed

section \<open>A concrete client\<close>

definition registration_reply :: json where
  "registration_reply = JObject [(''accepted_protocol_version'', JInt64 1),
     (''accepted_schema_versions'', JArray [JInt64 1]), (''session_id'', JString ''s1''),
     (''server_instance_id'', JString ''p1''), (''heartbeat_interval_ms'', JInt64 1000),
     (''lease_timeout_ms'', JInt64 3000), (''server_time'', JInt64 0)]"

definition catalog_reply :: "string \<Rightarrow> nat \<Rightarrow> json" where
  "catalog_reply component n = JObject [(''status'', JString ''accepted''), (''server_instance_id'', JString ''p1''),
     (''component_id'', JString component), (''catalog_generation'', JInt64 1), (''descriptor_count'', JInt64 (int n)),
     (''session_generation'', JInt64 1), (''catalog_revision'', JInt64 1)]"

definition sample_library :: "string \<Rightarrow> nat \<Rightarrow> pilot_library" where
  "sample_library component n = \<lparr>pb_parse = (\<lambda>body. if body = ''r'' then Some registration_reply
       else if body = ''c'' then Some (catalog_reply component n) else None),
     pb_ser = (\<lambda>_. []), pb_cosine = sample_cosine, pb_sine = sample_sine\<rparr>"

definition reply :: "int \<Rightarrow> string \<Rightarrow> PilotHttpResult" where
  "reply status body = \<lparr>hr_status = status, hr_content_type = ''application/json'', hr_body = body, hr_error = []\<rparr>"

lemma parse_registration_reply:
  "parseRegistrationResponse (pb_parse (sample_library component n)) ''r'' =
     Inr \<lparr>rs_session_id = ''s1'', rs_server_instance_id = ''p1'', rs_heartbeat_interval_ms = 1000,
          rs_lease_timeout_ms = 3000, rs_server_time_ns = 0\<rparr>"
  by (simp add: parseRegistrationResponse_def sample_library_def registration_reply_def parse_object_def
      requireNonNegativeInteger_def requireIdentifier_def validateIdentifier_def json_unsigned_def IDENTIFIER_MAX_BYTES_def
      MAX_INT64_VALUE_def)

lemma small_count: "n \<le> 100 \<Longrightarrow> \<not> (9223372036854775807 :: u64) < word_of_nat n"
  by (simp add: word_less_nat_alt unsigned_of_nat take_bit_nat_eq_self)

lemma parse_catalog_reply:
  assumes "text_ok component" "n \<le> 100"
  shows "parseCatalogAcceptedResponse (pb_parse (sample_library component n)) ''c'' component ''p1'' (int n) =
     Inr \<lparr>ca_server_instance_id = ''p1'', ca_component_id = component, ca_catalog_generation = 1,
          ca_descriptor_count = int n\<rparr>"
  using text_ok_identifier [OF assms(1)] small_count [OF assms(2)]
  by (simp add: parseCatalogAcceptedResponse_def sample_library_def catalog_reply_def parse_object_def
      requireNonNegativeInteger_def requireIdentifier_def validateIdentifier_def json_unsigned_def identifier_ok_def
      IDENTIFIER_MAX_BYTES_def MAX_INT64_VALUE_def)

text \<open>A started client gets through the registration and the publication.\<close>

definition kept :: "VisionConfig \<Rightarrow> VisionEndpointCatalog \<Rightarrow> PilotIntegrationClient \<Rightarrow> bool" where
  "kept c cat s \<longleftrightarrow> pi_config s = c \<and> pi_catalog s = cat \<and> \<not> pi_stop_requested s \<and> pi_started s"

lemma sample_registers:
  assumes "pi_pc s = Loop_top" "equipped lib s" "kept c cat s" "config_ok c"
  shows "\<exists>t. worker_step lib s t \<and> pi_pc t = Await_registration \<and> equipped lib t \<and> kept c cat t \<and>
    current_writes (pi_sent t) = []"
proof -
  have "equipped lib (setSnapshot PI_REGISTERING [] s)" using assms(2) by (simp add: equipped_def)
  from equipped_registration [OF this] assms(3,4) obtain body where
    "registration_body lib (setSnapshot PI_REGISTERING [] s) = Inr body" by (auto simp: is_ok_iff kept_def)
  with assms have "pi_pc (worker_register lib s) = Await_registration \<and> equipped lib (worker_register lib s) \<and>
      kept c cat (worker_register lib s) \<and> current_writes (pi_sent (worker_register lib s)) = []"
    by (simp add: worker_register_def Let_def send_def kept_def equipped_def)
  with worker_step.register [OF assms(1)] show ?thesis by blast
qed

lemma sample_registered:
  assumes "pi_pc s = Await_registration" "equipped lib s" "kept c cat s" "current_writes (pi_sent s) = []"
    and "lib = sample_library component n"
  shows "\<exists>t. worker_step lib s t \<and> pi_pc t = Publish_top \<and> kept c cat t \<and> current_writes (pi_sent t) = [] \<and>
    pi_session_id t = ''s1'' \<and> pi_sequence t = 1 \<and> pi_server t = ''p1''"
proof -
  let ?t = "worker_registered lib 5 (reply 201 ''r'') s"
  from publication_ok [OF assms(2), of "pb_ser lib"] obtain publication where
    "serializeCatalogPublicationRequest (pb_ser lib) (publication_id s) 0 (ec_descriptors (pi_catalog s)) = Inr publication"
    by (auto simp: is_ok_iff)
  then have "pi_pc ?t = Publish_top \<and> kept c cat ?t \<and> current_writes (pi_sent ?t) = [] \<and>
      pi_session_id ?t = ''s1'' \<and> pi_sequence ?t = 1 \<and> pi_server ?t = ''p1''"
    using assms parse_registration_reply
    by (simp add: worker_registered_def reply_def recordSuccess_def Let_def kept_def)
  with worker_step.registered [OF assms(1), of lib 5 "reply 201 ''r''"] show ?thesis by blast
qed

lemma sample_publishes:
  assumes "pi_pc s = Publish_top" "kept c cat s" "current_writes (pi_sent s) = []" "pi_session_id s = ''s1''"
    "pi_sequence s = 1" "pi_server s = ''p1''"
  shows "\<exists>t. worker_step lib s t \<and> pi_pc t = Await_publication \<and> kept c cat t \<and> current_writes (pi_sent t) = [] \<and>
    pi_session_id t = ''s1'' \<and> pi_sequence t = 1 \<and> pi_server t = ''p1''"
proof -
  let ?t = "worker_publish s"
  have "pi_pc ?t = Await_publication \<and> kept c cat ?t \<and> current_writes (pi_sent ?t) = [] \<and>
      pi_session_id ?t = ''s1'' \<and> pi_sequence ?t = 1 \<and> pi_server ?t = ''p1''"
    using assms by (simp add: worker_publish_def send_def kept_def)
  with worker_step.publish [OF assms(1)] show ?thesis by blast
qed

lemma sample_published:
  assumes "pi_pc s = Await_publication" "kept c cat s" "current_writes (pi_sent s) = []" "pi_session_id s = ''s1''"
    "pi_sequence s = 1" "pi_server s = ''p1''" "lib = sample_library (vc_component_id c) (length (ec_descriptors cat))"
    "length (ec_descriptors cat) \<le> 100" "config_ok c"
  shows "\<exists>t. worker_step lib s t \<and> pi_pc t = Session_wait \<and> kept c cat t \<and> current_writes (pi_sent t) = [] \<and>
    pi_session_id t = ''s1'' \<and> pi_sequence t = 1 \<and> state_of t = PI_ONLINE"
proof -
  let ?t = "worker_published lib 6 (reply 200 ''c'') s"
  have "text_ok (vc_component_id c)" using assms(9) by (simp add: config_ok_def)
  from parse_catalog_reply [OF this assms(8)] have
    "pi_pc ?t = Session_wait \<and> kept c cat ?t \<and> current_writes (pi_sent ?t) = [] \<and>
     pi_session_id ?t = ''s1'' \<and> pi_sequence ?t = 1 \<and> state_of ?t = PI_ONLINE"
    using assms
    by (simp add: worker_published_def reply_def recordSuccess_def updateOnlineSuccess_def heartbeat_after_def Let_def kept_def)
  with worker_step.published [OF assms(1), of lib 6 "reply 200 ''c''"] show ?thesis by blast
qed

text \<open>The first lifecycle write of the session, and a refused publication.\<close>

lemma sample_writes:
  assumes "pi_pc s = Session_wait" "kept c cat s" "current_writes (pi_sent s) = []" "pi_session_id s = ''s1''"
    "pi_sequence s = 1"
  shows "\<exists>t. worker_step lib s t \<and> pi_pc t = Await_lifecycle \<and> kept c cat t \<and>
    current_writes (pi_sent t) = [(''s1'', 1)]"
proof -
  let ?t = "worker_session lib s"
  obtain v where "serializeCommonState (makePilotState (the (pi_pending_state s))) = Inr v" using makePilotState_ok ..
  then have "pi_pc ?t = Await_lifecycle \<and> kept c cat ?t \<and> current_writes (pi_sent ?t) = [(''s1'', 1)]"
    using assms
    by (auto simp: worker_session_def Let_def serializeHeartbeatRequest_def serializeStateUpdateRequest_def
        MAX_INT64_VALUE_def send_def kept_def split: option.split)
  moreover have "session_wakes (pi_next_heartbeat s) s" by (simp add: session_wakes_def)
  ultimately show ?thesis using worker_step.session [OF assms(1)] by blast
qed

lemma sample_refused:
  assumes "pi_pc s = Await_publication" "kept c cat s"
  shows "\<exists>t. worker_step lib s t \<and> pi_pc t = Worker_done \<and> state_of t = PI_CONTRACT_FAULT"
proof -
  let ?t = "worker_published lib 6 (reply 400 []) s"
  have "pi_pc ?t = Worker_done \<and> state_of ?t = PI_CONTRACT_FAULT"
    using assms by (simp add: worker_published_def reply_def Let_def isContractStatus_def contract_fault_def kept_def)
  with worker_step.published [OF assms(1), of lib 6 "reply 400 []"] show ?thesis by blast
qed

definition sample_client :: "pilot_library \<Rightarrow> VisionConfig \<Rightarrow> worker_pc \<Rightarrow> (PilotIntegrationClient \<Rightarrow> bool) \<Rightarrow> bool" where
  "sample_client lib c pc p \<longleftrightarrow> (\<exists>s. pilot_reachable lib c s \<and> pi_pc s = pc \<and> p s)"

lemma sample_clients:
  "\<exists>lib json c. parseVisionConfig (\<lambda>_. Some json) [] = Inr c \<and> pl_enabled (vc_pilot c) \<and>
     (\<exists>tr. buildCameraMountTransform (pb_cosine lib) (pb_sine lib) (vc_calibration c) = Inr tr) \<and>
     sample_client lib c Loop_top (\<lambda>_. True) \<and>
     sample_client lib c Session_wait (\<lambda>s. state_of s = PI_ONLINE) \<and>
     sample_client lib c Await_lifecycle (\<lambda>s. current_writes (pi_sent s) = [(''s1'', 1)]) \<and>
     sample_client lib c Worker_done (\<lambda>s. state_of s = PI_CONTRACT_FAULT)"
proof -
  obtain c where parsed: "parseVisionConfig (\<lambda>_. Some (sample_document sample_fake_device)) [] = Inr c"
    and c: "vc_calibration c = sample_calibration" "pl_enabled (vc_pilot c)" using sample_fake_accepted by blast
  have ok: "config_ok c" using post_parseVisionConfig parsed by (rule postED)
  obtain cat where cat: "buildCatalog sample_cosine sample_sine c = Inr cat"
    using buildCatalog_ok [of sample_cosine sample_sine c] sample_transform c(1) by auto
  have "length (ec_descriptors cat) = size (mset (map (\<lambda>d. (ds_descriptor_id d, ds_capability d)) (ec_descriptors cat)))"
    by simp
  also have "\<dots> \<le> 100" unfolding buildCatalog_Inr(5) [OF cat] by (simp add: catalog_keys_def)
  finally have n: "length (ec_descriptors cat) \<le> 100" .
  define lib where "lib = sample_library (vc_component_id c) (length (ec_descriptors cat))"
  have maths: "pb_cosine lib = sample_cosine" "pb_sine lib = sample_sine" by (simp_all add: lib_def sample_library_def)
  let ?new = "PilotIntegrationClient_new c"
  obtain s where s: "startClient lib PS_READY None (replicate 16 0) 5 ?new = (Inr (), s)" "pi_pc s = Loop_top"
      "equipped lib s" and k: "kept c cat s"
    using startClient_ok [of ?new "replicate 16 0" lib cat PS_READY 5] ok c(2) cat maths
    by (auto simp: PilotIntegrationClient_new_def kept_def)
  have "client_step lib ?new (snd (startClient lib PS_READY None (replicate 16 0) 5 ?new))"
    by (rule client_step.start) simp
  then have r: "pilot_reachable lib c s" using s(1) by (auto intro: pilot_reachable.new pilot_reachable.client)
  obtain s1 where s1: "worker_step lib s s1" "pi_pc s1 = Await_registration" "equipped lib s1" "kept c cat s1"
    "current_writes (pi_sent s1) = []" using sample_registers [OF s(2,3) k ok] by blast
  obtain s2 where s2: "worker_step lib s1 s2" "pi_pc s2 = Publish_top" "kept c cat s2" "current_writes (pi_sent s2) = []"
    "pi_session_id s2 = ''s1''" "pi_sequence s2 = 1" "pi_server s2 = ''p1''"
    using sample_registered [OF s1(2-5) lib_def] by blast
  obtain s3 where s3: "worker_step lib s2 s3" "pi_pc s3 = Await_publication" "kept c cat s3" "current_writes (pi_sent s3) = []"
    "pi_session_id s3 = ''s1''" "pi_sequence s3 = 1" "pi_server s3 = ''p1''"
    using sample_publishes [OF s2(2-7)] by blast
  obtain s4 where s4: "worker_step lib s3 s4" "pi_pc s4 = Session_wait" "kept c cat s4" "current_writes (pi_sent s4) = []"
    "pi_session_id s4 = ''s1''" "pi_sequence s4 = 1" "state_of s4 = PI_ONLINE"
    using sample_published [OF s3(2-7) lib_def n ok] by blast
  obtain s5 where s5: "worker_step lib s4 s5" "pi_pc s5 = Await_lifecycle" "kept c cat s5"
    "current_writes (pi_sent s5) = [(''s1'', 1)]" using sample_writes [OF s4(2-6)] by blast
  obtain f where f: "worker_step lib s3 f" "pi_pc f = Worker_done" "state_of f = PI_CONTRACT_FAULT"
    using sample_refused [OF s3(2,3)] by blast
  note step = pilot_reachable.worker
  have w3: "pilot_reachable lib c s3" by (rule step [OF step [OF step [OF r s1(1)] s2(1)] s3(1)])
  note w = step [OF w3 s4(1)] step [OF step [OF w3 s4(1)] s5(1)] step [OF w3 f(1)]
  have runs: "sample_client lib c Loop_top (\<lambda>_. True)" "sample_client lib c Session_wait (\<lambda>s. state_of s = PI_ONLINE)"
    "sample_client lib c Await_lifecycle (\<lambda>s. current_writes (pi_sent s) = [(''s1'', 1)])"
    "sample_client lib c Worker_done (\<lambda>s. state_of s = PI_CONTRACT_FAULT)"
    unfolding sample_client_def using r s(2) w s4(2,7) s5(2,4) f(2,3) by blast+
  show ?thesis
    by (rule exI [of _ lib], rule exI [of _ "sample_document sample_fake_device"], rule exI [of _ c], intro conjI)
       (simp_all only: parsed c maths sample_transform runs sum.inject simp_thms)
qed

section \<open>Properties\<close>

text \<open>
  C20: the worker of an accepted configuration never dies of an exception: in every state the client
  can reach, whatever the Pilot answers and other threads ask, the worker has not crashed, and at the
  head of its loop the registration request can be serialised.
\<close>

theorem client_never_crashes:
  assumes "parseVisionConfig parse json_text = Inr config" and "pilot_reachable lib config s"
  shows "pi_pc s \<noteq> Worker_crashed \<and>
    (pi_pc s = Loop_top \<longrightarrow> is_ok (registration_body lib (setSnapshot PI_REGISTERING [] s)))"
proof -
  have c: "config_ok config" using post_parseVisionConfig assms(1) by (rule postED)
  from safe_reachable [OF assms(2) c] have s: "safe lib config s" .
  moreover have "is_ok (registration_body lib (setSnapshot PI_REGISTERING [] s))" if "pi_pc s = Loop_top"
  proof (rule equipped_registration)
    show "equipped lib (setSnapshot PI_REGISTERING [] s)" using s that by (auto simp: safe_def running_def equipped_def)
    show "config_ok (pi_config (setSnapshot PI_REGISTERING [] s))" using s c by (simp add: safe_def)
  qed
  ultimately show ?thesis by (simp add: safe_def)
qed

lemma client_never_crashes_witness:
  "\<exists>lib c s. pilot_reachable lib c s \<and> pi_pc s = Loop_top \<and> is_ok (registration_body lib (setSnapshot PI_REGISTERING [] s))"
proof -
  obtain lib json c s where "parseVisionConfig (\<lambda>_. Some json) [] = Inr c" "pilot_reachable lib c s" "pi_pc s = Loop_top"
    using sample_clients unfolding sample_client_def by metis
  with client_never_crashes [of "\<lambda>_. Some json" "[]" c lib s] show ?thesis by blast
qed

lemma configured_client_starts_witness:
  "\<exists>lib c t. startClient lib PS_READY None (replicate 16 0) 5 (PilotIntegrationClient_new c) = (Inr (), t) \<and>
     pi_pc t = Loop_top \<and> is_ok (registration_body lib t)"
proof -
  obtain lib :: pilot_library and json c tr where c: "parseVisionConfig (\<lambda>_. Some json) [] = Inr c" "pl_enabled (vc_pilot c)"
    "buildCameraMountTransform (pb_cosine lib) (pb_sine lib) (vc_calibration c) = Inr tr"
    using sample_clients by blast
  show ?thesis
    using configured_client_starts [OF c, of "replicate 16 0" PS_READY 5] by auto
qed

text \<open>
  C34: the client reports \<^verbatim>\<open>ONLINE\<close> only inside a session, or just behind it on the way out, and only
  once its whole catalog has been accepted there under a generation the Pilot assigned.
\<close>

theorem online_means_published:
  assumes "pilot_reachable lib config s" and "ps_state (pi_snapshot s) = PI_ONLINE"
  shows "pi_pc s \<in> {Session_wait, Await_lifecycle, After_loop} \<and> ps_catalog_generation (pi_snapshot s) \<noteq> 0 \<and>
    ps_descriptor_count (pi_snapshot s) = int (length (ec_descriptors (pi_catalog s)))"
  using pilot_reachable_inv [OF assms(1)] assms(2)
  by (cases "pi_pc s") (simp_all add: pilot_inv_def phase_defs)

lemma online_means_published_witness:
  "\<exists>lib c s. pilot_reachable lib c s \<and> ps_state (pi_snapshot s) = PI_ONLINE \<and> ps_catalog_generation (pi_snapshot s) \<noteq> 0"
proof -
  obtain lib c s where "pilot_reachable lib c s" "state_of s = PI_ONLINE"
    using sample_clients unfolding sample_client_def by blast
  with online_means_published [of lib c s] show ?thesis by blast
qed

text \<open>
  C9: the lifecycle writes since the last registration all go to one session and carry the sequence
  numbers 1, 2, 3, \<dots> without a gap or a repetition, whatever answers, state updates and stops come in
  between; while the session waits, the next number is the one after them.
\<close>

theorem lifecycle_writes_numbered:
  assumes "pilot_reachable lib config s"
  shows "\<exists>session. current_writes (pi_sent s) =
      map (\<lambda>k. (session, word_of_nat k)) [1..<Suc (length (current_writes (pi_sent s)))] \<and>
    (pi_pc s = Session_wait \<longrightarrow> pi_sequence s = word_of_nat (Suc (length (current_writes (pi_sent s)))))"
  using pilot_reachable_inv [OF assms] by (auto simp: pilot_inv_def numbered_def in_session_def)

lemma lifecycle_writes_numbered_witness:
  "\<exists>lib c s session. pilot_reachable lib c s \<and> length (current_writes (pi_sent s)) = 1 \<and>
     current_writes (pi_sent s) = map (\<lambda>k. (session, word_of_nat k)) [1..<2]"
proof -
  obtain lib c s where r: "pilot_reachable lib c s" "current_writes (pi_sent s) = [(''s1'', 1)]"
    using sample_clients unfolding sample_client_def by blast
  from lifecycle_writes_numbered [OF r(1)] obtain session where
    "current_writes (pi_sent s) = map (\<lambda>k. (session, word_of_nat k)) [1..<Suc (length (current_writes (pi_sent s)))]" by blast
  moreover have n: "length (current_writes (pi_sent s)) = 1" using r(2) by simp
  ultimately have "current_writes (pi_sent s) = map (\<lambda>k. (session, word_of_nat k)) [1..<2]"
    by (metis Suc_1)
  with r(1) n show ?thesis by blast
qed

text \<open>
  A contract fault is final: the worker takes no further step, so nothing is sent any more, and no
  call of another thread changes the reported state while the client is started.
\<close>

theorem contract_fault_final:
  assumes "pilot_reachable lib config s" and "ps_state (pi_snapshot s) = PI_CONTRACT_FAULT"
  shows "\<not> worker_step lib s t \<and>
    (client_step lib s t \<and> pi_started s \<longrightarrow> ps_state (pi_snapshot t) = PI_CONTRACT_FAULT \<and> pi_sent t = pi_sent s)"
proof -
  have "\<not> running (pi_pc s)"
    using pilot_reachable_inv [OF assms(1)] assms(2) by (cases "pi_pc s") (simp_all add: pilot_inv_def phase_defs running_def)
  then have "\<not> worker_step lib s t" by (rule ended_no_step)
  moreover have "client_step lib s t \<Longrightarrow> pi_started s \<Longrightarrow> state_of t = state_of s \<and> pi_sent t = pi_sent s"
    by (induction rule: client_step.induct)
       (simp_all add: startClient_def act_simps updateProviderState_def stop_begin_def stop_finish_def)
  ultimately show ?thesis using assms(2) by simp
qed

lemma contract_fault_final_witness:
  "\<exists>lib c s. pilot_reachable lib c s \<and> ps_state (pi_snapshot s) = PI_CONTRACT_FAULT \<and> (\<forall>t. \<not> worker_step lib s t)"
proof -
  obtain lib c s where "pilot_reachable lib c s" "state_of s = PI_CONTRACT_FAULT"
    using sample_clients unfolding sample_client_def by blast
  with contract_fault_final [of lib c s] show ?thesis by blast
qed

text \<open>
  C25: a stop is never lost: once it is requested, the worker takes at most four more steps, whatever
  the answers are, and as long as it has not ended it can take one; so the join in \<^verbatim>\<open>stopClient\<close>
  returns once the requests it meets have been answered.
\<close>

theorem stop_terminates:
  assumes "pi_stop_requested s" and "(worker_step lib ^^ n) s t"
  shows "n \<le> 4 \<and> (pi_pc t \<in> {No_worker, Worker_done, Worker_crashed} \<or> (\<exists>u. worker_step lib t u))"
proof -
  from stopping_steps [OF assms(2,1)] have "n \<le> 4" "pi_stop_requested t" using steps_left_bound [of "pi_pc s"] by auto
  with worker_progress [of t lib] show ?thesis by (auto simp: running_def)
qed

lemma stop_terminates_witness:
  "\<exists>lib c s t. pilot_reachable lib c s \<and> pi_stop_requested s \<and> (worker_step lib ^^ 1) s t \<and> (\<exists>u. worker_step lib t u)"
proof -
  obtain lib c s where s: "pilot_reachable lib c s" "pi_pc s = Loop_top"
    using sample_clients unfolding sample_client_def by blast
  let ?s = "s\<lparr>pi_stop_requested := True\<rparr>"
  have "pi_started s" using pilot_reachable_inv [OF s(1)] s(2) by (simp add: pilot_inv_def phase_defs)
  then have "client_step lib s ?s" using client_step.stop [of lib s] by (simp add: stop_begin_def)
  with s(1) have r: "pilot_reachable lib c ?s" by (rule pilot_reachable.client)
  have "worker_step lib ?s (worker_register lib ?s)" using s(2) by (intro worker_step.register) simp
  then have step: "(worker_step lib ^^ 1) ?s (?s\<lparr>pi_pc := After_loop\<rparr>)"
    by (simp add: worker_register_def relcompp_apply)
  from stop_terminates [OF _ step] have "\<exists>u. worker_step lib (?s\<lparr>pi_pc := After_loop\<rparr>) u" by simp
  with r step show ?thesis by fastforce
qed

end
