(* ===== verification/QuerySerializer.thy ===== *)
theory QuerySerializer
  imports GeometryFacts FakeCameraFacts
begin

text \<open>
  The JSON responses of the frame queries (\<^verbatim>\<open>src/provider/http/query_serializer.cpp\<close>) and the checks around
  the JPEG encoder (\<^verbatim>\<open>src/provider/http/jpeg_encoder.cpp\<close>). The serializer of \<^verbatim>\<open>boost::json\<close> and libjpeg
  are arguments. A \<^verbatim>\<open>float\<close> assigned to a JSON value is widened to \<^verbatim>\<open>double\<close>.
\<close>

section \<open>Query responses\<close>

definition jfloat :: "f32 \<Rightarrow> json" where "jfloat x = JDouble (f32_to_f64 x)"

definition makeFrameIdentity :: "FrameIdentity \<Rightarrow> json" where
  "makeFrameIdentity identity = JObject
     [(''capture_generation'', JUint64 (capture_generation identity)), (''frame_number'', JUint64 (frame_number identity)),
      (''capture_timestamp_ns'', JInt64 (capture_timestamp_ns identity)),
      (''capture_unix_epoch_ns'', JInt64 (capture_unix_epoch_ns identity))]"

definition makePixelRoi :: "PixelRoi \<Rightarrow> json" where
  "makePixelRoi roi = JObject
     [(''x'', JInt64 (roi_x roi)), (''y'', JInt64 (roi_y roi)), (''width'', JInt64 (roi_width roi)),
      (''height'', JInt64 (roi_height roi))]"

text \<open>A \<^verbatim>\<open>std::array<float, 3>\<close> is the list of its components.\<close>

definition makePoint :: "f32 list \<Rightarrow> json" where
  "makePoint point = JObject [(''x'', jfloat (point ! 0)), (''y'', jfloat (point ! 1)), (''z'', jfloat (point ! 2))]"

definition makeGeometry :: "CameraMountTransform \<Rightarrow> json" where
  "makeGeometry transform = JObject
     [(''calibration_id'', JString (ct_calibration_id transform)), (''sensor_frame'', JString (ct_sensor_frame transform)),
      (''mount_frame'', JString (ct_mount_frame transform)),
      (''mount_from_camera_optical_matrix4x4'', JArray (map JDouble (ct_matrix4x4 transform)))]"

fun components :: "f32 \<times> f32 \<times> f32 \<Rightarrow> f32 list" where
  "components (x, y, z) = [x, y, z]"

definition serializePixelPointResult ::
  "(json \<Rightarrow> string) \<Rightarrow> PixelPointResult \<Rightarrow> CameraMountTransform \<Rightarrow> string result"
where
  "serializePixelPointResult ser r transform =
     (let point = components (pp_optical_point_m r);
          root = [(''schema_version'', JInt64 1), (''frame'', makeFrameIdentity (pp_identity r)),
            (''geometry'', makeGeometry transform),
            (''pixel'', JObject [(''x'', JInt64 (pp_pixel_x r)), (''y'', JInt64 (pp_pixel_y r))]),
            (''valid'', JBool (pp_valid r))]
      in if pp_valid r
         then bindE (transformCameraPointToMount point transform) (\<lambda>mounted.
           Inr (ser (JObject (root @ [(''depth_m'', jfloat (pp_depth_m r)), (''point_camera_m'', makePoint point),
             (''point_mount_m'', makePoint mounted)]))))
         else Inr (ser (JObject (root @ [(''reason'', JString (pp_invalid_reason r))]))))"

definition serializeRoiDepthResult ::
  "(json \<Rightarrow> string) \<Rightarrow> RoiDepthResult \<Rightarrow> CameraMountTransform \<Rightarrow> string result"
where
  "serializeRoiDepthResult ser r transform =
     (let stats = JObject
            [(''valid'', JBool (rd_valid r)), (''pixel_count'', JUint64 (rd_pixel_count r)),
             (''valid_pixel_count'', JUint64 (rd_valid_pixel_count r)), (''fill_rate'', jfloat (rd_fill_rate r)),
             (''min_depth_m'', jfloat (rd_min_depth_m r)), (''max_depth_m'', jfloat (rd_max_depth_m r)),
             (''mean_depth_m'', jfloat (rd_mean_depth_m r)), (''median_depth_m'', jfloat (rd_median_depth_m r))];
          median_pixel = JObject [(''x'', JInt64 (rd_median_pixel_x r)), (''y'', JInt64 (rd_median_pixel_y r))];
          point = components (rd_median_optical_point_m r)
      in bindE (transformCameraPointToMount point transform) (\<lambda>mounted.
         Inr (ser (JObject
           [(''schema_version'', JInt64 1), (''frame'', makeFrameIdentity (rd_identity r)),
            (''geometry'', makeGeometry transform), (''requested_roi'', makePixelRoi (rd_requested_roi r)),
            (''roi'', makePixelRoi (rd_clamped_roi r)), (''stats'', stats), (''median_pixel'', median_pixel),
            (''median_point_camera_m'', makePoint point), (''median_point_mount_m'', makePoint mounted)]))))"

section \<open>JPEG previews\<close>

definition JDIMENSION_MAX :: int where "JDIMENSION_MAX = 4294967295"

definition jpeg_rejected :: "VideoFrameView \<Rightarrow> int \<Rightarrow> bool" where
  "jpeg_rejected frame quality \<longleftrightarrow>
     vf_format frame \<noteq> PF_RGB8 \<or> vf_data frame = None \<or> vf_width frame \<le> 0 \<or> vf_height frame \<le> 0 \<or>
     vf_stride_bytes frame < vf_width frame * 3 \<or> quality < 1 \<or> quality > 100 \<or>
     vf_width frame > JDIMENSION_MAX \<or> vf_height frame > JDIMENSION_MAX"

text \<open>
  The loop over the scanlines hands libjpeg the first \<open>3 * width\<close> bytes at each multiple of the stride. The
  compressor takes the width, the height, the quality and these rows; \<^const>\<open>Inl\<close> is its error message.
\<close>

definition scanlines :: "VideoFrameView \<Rightarrow> u8 list list" where
  "scanlines frame =
     (case vf_data frame of None \<Rightarrow> []
      | Some bytes \<Rightarrow> map (\<lambda>row. take (nat (vf_width frame * 3)) (drop (row * nat (vf_stride_bytes frame)) bytes))
                        [0..<nat (vf_height frame)])"

type_synonym compressor = "int \<Rightarrow> int \<Rightarrow> int \<Rightarrow> u8 list list \<Rightarrow> string + u8 list"

definition encodeRgbJpeg :: "compressor \<Rightarrow> VideoFrameView \<Rightarrow> int \<Rightarrow> u8 list result" where
  "encodeRgbJpeg compress frame quality =
     bindE (throw_if (jpeg_rejected frame quality)
       (Invalid_argument ''JPEG requires a bounded RGB8 frame, stride, and quality.'')) (\<lambda>_.
     case compress (vf_width frame) (vf_height frame) quality (scanlines frame) of
       Inl message \<Rightarrow> Inl (Runtime_error (''JPEG encoding failed: '' @ message))
     | Inr bytes \<Rightarrow>
         bindE (throw_if (bytes = []) (Runtime_error ''JPEG encoding returned an empty payload.'')) (\<lambda>_. Inr bytes))"

text \<open>No scanline reaches behind the last byte of the frame.\<close>

definition scanlines_inside :: "VideoFrameView \<Rightarrow> bool" where
  "scanlines_inside frame \<longleftrightarrow> list_all (\<lambda>row. length row = nat (vf_width frame * 3)) (scanlines frame)"

lemma encoded_nonempty: "encodeRgbJpeg compress frame quality = Inr bytes \<Longrightarrow> bytes \<noteq> []"
  by (auto simp: encodeRgbJpeg_def result_simps split: sum.splits)

text \<open>Tightly packed rows lie inside.\<close>

lemma packed_scanlines:
  assumes "vf_data frame = Some bytes" "0 \<le> vf_width frame" "0 \<le> vf_height frame"
    and "vf_stride_bytes frame = vf_width frame * 3" "int (length bytes) = vf_width frame * 3 * vf_height frame"
  shows "scanlines_inside frame"
proof -
  obtain w h where wh: "vf_width frame = int w" "vf_height frame = int h" using assms(2,3) nonneg_int_cases by metis
  have len: "length bytes = w * 3 * h" using assms(5) wh by (metis of_nat_eq_iff of_nat_mult of_nat_numeral)
  have "w * 3 + row * (w * 3) \<le> length bytes" if "row < h" for row
  proof -
    have "w * 3 * (row + 1) \<le> w * 3 * h" by (rule mult_le_mono2) (use that in simp)
    then show ?thesis by (simp add: len algebra_simps)
  qed
  moreover have "nat (int w * 3) = w * 3" by simp
  ultimately show ?thesis
    using assms(1,4) wh by (fastforce simp: scanlines_inside_def scanlines_def list_all_iff)
qed

text \<open>The views of a fake-camera frame: both previews pass the checks and stay inside the frame.\<close>

lemma fake_views_encodable:
  assumes "frame_wf f" "fake_getColorFrameView f = Some view \<or> fake_getDepthPreviewFrameView f = Some view"
    and "sp_height (fs_color_profile (fk_snapshot f)) = fk_height f"
    and "fk_width f \<le> 4096" "fk_height f \<le> 4096" "1 \<le> quality" "quality \<le> 100"
  shows "\<not> jpeg_rejected view quality" and "scanlines_inside view"
proof -
  have v: "vf_format view = PF_RGB8" "vf_data view \<noteq> None" "vf_width view = fk_width f" "vf_height view = fk_height f"
    "vf_stride_bytes view = vf_width view * 3" "0 < fk_width f" "0 < fk_height f"
    using assms(1-3) by (auto simp: fake_getColorFrameView_def fake_getDepthPreviewFrameView_def frame_wf_def split: if_splits)
  then show "\<not> jpeg_rejected view quality" using assms(4-7) by (auto simp: jpeg_rejected_def JDIMENSION_MAX_def)
  obtain bytes where "vf_data view = Some bytes" "int (length bytes) = vf_width view * 3 * vf_height view"
    using assms(1,2) v(3,4)
    by (auto simp: fake_getColorFrameView_def fake_getDepthPreviewFrameView_def frame_wf_def split: if_splits)
  then show "scanlines_inside view" using v by (intro packed_scanlines) simp_all
qed

end
