(* ===== verification/HttpServer.thy ===== *)
theory HttpServer
  imports Contracts Effects
begin

text \<open>
  The HTTP provider (\<^verbatim>\<open>src/provider/http/provider_http_server.cpp\<close>). Everything a session does
  runs in handlers on the single-threaded \<^verbatim>\<open>io_context\<close>, so each handler is one step. The routes
  are actions on the state \<open>'w\<close> of whatever owns the server. Asio and Beast decide which handler
  runs next and with which error. This theory holds requests, routing and responses; the sessions and the
  listener are in \<^verbatim>\<open>HttpSessions\<close>.
\<close>

section \<open>Responses, requests and routes\<close>

record ProviderHttpResponse =
  rp_status :: int
  rp_content_type :: string
  rp_body :: string
  rp_headers :: "(string \<times> string) list"

datatype ProviderStreamKind = SK_COLOR | SK_DEPTH

text \<open>\<open>sf_jpeg_data\<close> is \<^const>\<open>None\<close> for a null pointer.\<close>

record ProviderStreamFrame =
  sf_identity :: FrameIdentity
  sf_jpeg_data :: "u8 list option"
  sf_headers :: "(string \<times> string) list"

text \<open>
  A route is called on the state of the server's owner; \<^const>\<open>None\<close> is a call that never returns. A route that
  is not set is an empty \<^verbatim>\<open>std::function\<close>.
\<close>

type_synonym 'w route = "'w \<Rightarrow> (ProviderHttpResponse result \<times> 'w) option"

record 'w ProviderHttpRoutes =
  get_health :: "'w route option"
  get_metadata :: "'w route option"
  get_color_snapshot :: "'w route option"
  get_depth_snapshot :: "'w route option"
  get_pointcloud_snapshot :: "'w route option"
  post_roi_depth :: "(string \<Rightarrow> 'w route) option"
  post_pixel_point :: "(string \<Rightarrow> 'w route) option"
  post_recording_start :: "(string \<Rightarrow> 'w route) option"
  post_recording_stop :: "(string \<Rightarrow> 'w route) option"
  get_recording_current :: "'w route option"
  get_color_stream_frame :: "('w, ProviderStreamFrame option) act option"
  get_depth_stream_frame :: "('w, ProviderStreamFrame option) act option"

datatype http_verb = Verb_get | Verb_post | Verb_options | Verb_other

record HttpRequest =
  hrq_verb :: http_verb
  hrq_target :: string
  hrq_origin :: "string option"
  hrq_body :: string

definition MJPEG_BOUNDARY :: string where "MJPEG_BOUNDARY = ''nodus_frame''"
definition CORS_ALLOW_HEADERS :: string where "CORS_ALLOW_HEADERS = ''Accept, Content-Type''"
definition CORS_ALLOW_METHODS :: string where "CORS_ALLOW_METHODS = ''GET, POST, OPTIONS''"
definition CORS_EXPOSE_HEADERS :: string where
  "CORS_EXPOSE_HEADERS = ''X-Nodus-Capture-Generation, X-Nodus-Frame-Number, '' @
     ''X-Nodus-Capture-Timestamp-Ns, X-Nodus-Capture-Unix-Epoch-Ns, '' @
     ''X-Nodus-Sensor-Frame, X-Nodus-Mount-Frame, X-Nodus-Calibration-Id''"

definition quote :: string where "quote = [char_of (34 :: nat)]"
definition CRLF :: string where "CRLF = [char_of (13 :: nat), char_of (10 :: nat)]"

definition http_makeErrorResponse :: "int \<Rightarrow> string \<Rightarrow> string \<Rightarrow> bool \<Rightarrow> ProviderHttpResponse" where
  "http_makeErrorResponse status code message retryable =
     \<lparr>rp_status = status, rp_content_type = ''application/json'',
      rp_body = concat [''{'', quote, ''schema_version'', quote, '':1,'', quote, ''error'', quote, '':{'',
        quote, ''code'', quote, '':'', quote, code, quote, '','', quote, ''message'', quote, '':'', quote, message, quote, '','',
        quote, ''retryable'', quote, '':'', (if retryable then ''true'' else ''false''), ''}}''],
      rp_headers = []\<rparr>"

text \<open>One MJPEG part; the bytes of the image are kept as they are.\<close>

definition buildMjpegPart :: "ProviderStreamFrame \<Rightarrow> u8 list \<Rightarrow> string" where
  "buildMjpegPart frame jpeg =
     concat [''--'', MJPEG_BOUNDARY, CRLF, ''Content-Type: image/jpeg'', CRLF,
       ''Content-Length: '', nat_str (length jpeg), CRLF] @
     concat (map (\<lambda>item. concat [fst item, '': '', snd item, CRLF]) (sf_headers frame)) @ CRLF @
     map (\<lambda>byte. char_of (unat byte)) jpeg @ CRLF"

section \<open>A request\<close>

text \<open>What a request leads to, before anything is written.\<close>

datatype request_decision =
    Respond ProviderHttpResponse
  | Respond_preflight
  | Start_stream ProviderStreamKind

text \<open>The origin taken over (empty without the header), or \<^const>\<open>None\<close> if it is refused.\<close>

definition check_origin :: "string list \<Rightarrow> HttpRequest \<Rightarrow> string option" where
  "check_origin allowed request = (case hrq_origin request of
     None \<Rightarrow> Some []
   | Some origin \<Rightarrow> if origin \<in> set allowed then Some origin else None)"

definition method_not_allowed :: ProviderHttpResponse where
  "method_not_allowed = http_makeErrorResponse 405 ''method_not_allowed'' ''Method is not allowed.'' False"

definition is_post_route :: "string \<Rightarrow> bool" where
  "is_post_route target \<longleftrightarrow>
     target \<in> {''/query/roi_depth'', ''/query/pixel_to_point'', ''/recordings/start'', ''/recordings/stop''}"

text \<open>The route of a target, with the body passed to it.\<close>

definition find_route :: "'w ProviderHttpRoutes \<Rightarrow> string \<Rightarrow> string \<Rightarrow> 'w route option" where
  "find_route routes target body =
     (let call = map_option (\<lambda>f. f body); is_target = (\<lambda>t. target = t) in
      if is_target ''/query/roi_depth'' \<and> post_roi_depth routes \<noteq> None then call (post_roi_depth routes)
      else if is_target ''/query/pixel_to_point'' \<and> post_pixel_point routes \<noteq> None then call (post_pixel_point routes)
      else if is_target ''/recordings/start'' \<and> post_recording_start routes \<noteq> None then call (post_recording_start routes)
      else if is_target ''/recordings/stop'' \<and> post_recording_stop routes \<noteq> None then call (post_recording_stop routes)
      else if is_target ''/recordings/current'' \<and> get_recording_current routes \<noteq> None then get_recording_current routes
      else if is_target ''/health'' \<and> get_health routes \<noteq> None then get_health routes
      else if is_target ''/metadata'' \<and> get_metadata routes \<noteq> None then get_metadata routes
      else if is_target ''/snapshot/color'' \<and> get_color_snapshot routes \<noteq> None then get_color_snapshot routes
      else if is_target ''/snapshot/depth'' \<and> get_depth_snapshot routes \<noteq> None then get_depth_snapshot routes
      else if is_target ''/snapshot/pointcloud.bin'' \<and> get_pointcloud_snapshot routes \<noteq> None
      then get_pointcloud_snapshot routes
      else None)"

definition call_route :: "'w route option \<Rightarrow> 'w \<Rightarrow> (ProviderHttpResponse \<times> 'w) option" where
  "call_route route w = (case route of
     None \<Rightarrow> Some (http_makeErrorResponse 404 ''route_not_found'' ''Route is not available.'' False, w)
   | Some call \<Rightarrow> (case call w of
        None \<Rightarrow> None
      | Some (Inr response, w') \<Rightarrow> Some (response, w')
      | Some (Inl e, w') \<Rightarrow>
          Some (http_makeErrorResponse 500 ''provider_failure'' ''Provider request failed.'' True, w')))"

definition decide_request ::
  "'w ProviderHttpRoutes \<Rightarrow> string list \<Rightarrow> HttpRequest \<Rightarrow> 'w \<Rightarrow> ((request_decision \<times> string) \<times> 'w) option"
where
  "decide_request routes allowed request w =
     (let target = hrq_target request; verb = hrq_verb request in
      case check_origin allowed request of
        None \<Rightarrow> Some ((Respond (http_makeErrorResponse 403 ''cors_origin_denied''
                        ''Browser origin is not allowed.'' False), []), w)
      | Some origin \<Rightarrow>
          if verb = Verb_options
          then Some ((if origin = []
                      then Respond (http_makeErrorResponse 403 ''cors_origin_required''
                                      ''Browser preflight origin is required.'' False)
                      else Respond_preflight, origin), w)
          else if target = ''/stream/color.mjpg'' \<or> target = ''/stream/depth.mjpg''
          then Some ((if verb \<noteq> Verb_get then Respond method_not_allowed
                      else Start_stream (if target = ''/stream/color.mjpg'' then SK_COLOR else SK_DEPTH), origin), w)
          else if is_post_route target \<and> verb \<noteq> Verb_post \<or> \<not> is_post_route target \<and> verb \<noteq> Verb_get
          then Some ((Respond method_not_allowed, origin), w)
          else (case call_route (find_route routes target (hrq_body request)) w of
                  None \<Rightarrow> None
                | Some (response, w') \<Rightarrow> Some ((Respond response, origin), w')))"

section \<open>Header fields\<close>

text \<open>\<^verbatim>\<open>fields::set\<close>: the name is compared without regard to case; earlier fields of that name go.\<close>

definition lower :: "char \<Rightarrow> char" where
  "lower c = (if is_upper c then char_of (byte_of c + 32) else c)"

definition same_name :: "string \<Rightarrow> string \<Rightarrow> bool" where
  "same_name a b \<longleftrightarrow> map lower a = map lower b"

definition set_field :: "string \<times> string \<Rightarrow> (string \<times> string) list \<Rightarrow> (string \<times> string) list" where
  "set_field field old = filter (\<lambda>f. \<not> same_name (fst f) (fst field)) old @ [field]"

definition set_fields :: "(string \<times> string) list \<Rightarrow> (string \<times> string) list \<Rightarrow> (string \<times> string) list" where
  "set_fields new old = foldl (\<lambda>acc field. set_field field acc) old new"

definition setCorsHeaders :: "string \<Rightarrow> (string \<times> string) list \<Rightarrow> (string \<times> string) list" where
  "setCorsHeaders allowed_origin old =
     (if allowed_origin = [] then old
      else set_fields [(''Access-Control-Allow-Origin'', allowed_origin), (''Vary'', ''Origin''),
             (''Access-Control-Expose-Headers'', CORS_EXPOSE_HEADERS)] old)"

text \<open>The fields of a response before Beast adds its framing (\<^verbatim>\<open>Connection\<close>, \<^verbatim>\<open>Content-Length\<close>).\<close>

definition response_fields :: "string \<Rightarrow> ProviderHttpResponse \<Rightarrow> (string \<times> string) list" where
  "response_fields allowed_origin payload =
     set_fields (rp_headers payload) (setCorsHeaders allowed_origin
       (set_fields [(''Content-Type'', rp_content_type payload), (''Cache-Control'', ''no-store'')] []))"

definition preflight_fields :: "string \<Rightarrow> (string \<times> string) list" where
  "preflight_fields allowed_origin =
     set_fields [(''Access-Control-Allow-Methods'', CORS_ALLOW_METHODS),
       (''Access-Control-Allow-Headers'', CORS_ALLOW_HEADERS), (''Access-Control-Max-Age'', ''600'')]
       (setCorsHeaders allowed_origin [])"

definition stream_fields :: "string \<Rightarrow> (string \<times> string) list" where
  "stream_fields allowed_origin =
     setCorsHeaders allowed_origin
       (set_fields [(''Content-Type'', ''multipart/x-mixed-replace; boundary='' @ MJPEG_BOUNDARY),
         (''Cache-Control'', ''no-store''), (''Connection'', ''close'')] [])"

end
