(* ===== verification/AppRequests.thy ===== *)
theory AppRequests
  imports QuerySerializer HttpServer RecordingManager PilotClient
begin

text \<open>
  The requests and responses of the application (\<^verbatim>\<open>src/runtime/vision_application.cpp\<close>, up to the class):
  parsing of request bodies, validation against the frame, and the JSON bodies of the status routes.
  \<open>parse\<close> is \<^verbatim>\<open>boost::json::parse\<close>, which throws on malformed text; \<open>ser\<close> is its serializer.
\<close>

section \<open>JSON access\<close>

definition json_parse :: "(string \<Rightarrow> json option) \<Rightarrow> string \<Rightarrow> json result" where
  "json_parse parse body = (case parse body of None \<Rightarrow> Inl (System_error ''syntax error'') | Some v \<Rightarrow> Inr v)"

text \<open>\<^verbatim>\<open>value.to_number<int>()\<close>: only an exact value in range.\<close>

definition to_number_int :: "json \<Rightarrow> int result" where
  "to_number_int v = (case v of
     JInt64 i \<Rightarrow> if int32_ok i then Inr i else Inl (System_error ''not exact'')
   | JUint64 w \<Rightarrow> if int32_ok (uint w) then Inr (uint w) else Inl (System_error ''not exact'')
   | JDouble d \<Rightarrow> (case fp_trunc (f64_val d) of
        None \<Rightarrow> Inl (System_error ''not exact'')
      | Some i \<Rightarrow> if int32_ok i \<and> fp_eq (fp_of_int i) (f64_val d) then Inr i else Inl (System_error ''not exact''))
   | _ \<Rightarrow> Inl (System_error ''not a number''))"

definition member_int :: "jobject \<Rightarrow> string \<Rightarrow> int result" where
  "member_int obj key = bindE (jat obj key) to_number_int"

definition member_string :: "jobject \<Rightarrow> string \<Rightarrow> string result" where
  "member_string obj key = bindE (jat obj key) jas_string"

text \<open>A disjunction of tests that may throw, evaluated from the left.\<close>

fun any_of :: "bool result list \<Rightarrow> bool result" where
  "any_of [] = Inr False"
| "any_of (test # tests) = bindE test (\<lambda>b. if b then Inr True else any_of tests)"

text \<open>The body as an object.\<close>

definition parse_body :: "(string \<Rightarrow> json option) \<Rightarrow> string \<Rightarrow> string \<Rightarrow> jobject result" where
  "parse_body parse message body =
     bindE (json_parse parse body) (\<lambda>parsed.
     bindE (throw_if (\<not> is_object parsed) (Invalid_argument message)) (\<lambda>_.
     jas_object parsed))"

section \<open>Recording requests\<close>

definition parseRecordingStartRequest ::
  "(string \<Rightarrow> json option) \<Rightarrow> string \<Rightarrow> VisionConfig \<Rightarrow> RecordingStartRequest result"
where
  "parseRecordingStartRequest parse body config =
     bindE (parse_body parse ''Recording start request must be an object.'' body) (\<lambda>request.
     bindE (any_of
       [Inr (length request \<noteq> 6),
        bindE (member_int request ''schema_version'') (\<lambda>v. Inr (v \<noteq> 1)),
        bindE (member_string request ''expected_device_id'') (\<lambda>v. Inr (v \<noteq> vc_device_id config)),
        bindE (member_string request ''expected_calibration_id'') (\<lambda>v.
          Inr (v \<noteq> cb_calibration_id (vc_calibration config))),
        bindE (jat request ''expected_profile'') (\<lambda>v. Inr (\<not> is_object v))]) (\<lambda>bad_shape.
     bindE (throw_if bad_shape (Invalid_argument ''Recording start request shape is invalid.'')) (\<lambda>_.
     bindE (bindE (jat request ''expected_profile'') jas_object) (\<lambda>profile.
     let is_fake = vc_adapter config = ''fake'';
         width = (if is_fake then fc_width (vc_fake config) else dc_color_width (vc_intel_d435 config));
         height = (if is_fake then fc_height (vc_fake config) else dc_color_height (vc_intel_d435 config));
         fps = (if is_fake then fc_fps (vc_fake config) else dc_color_fps (vc_intel_d435 config))
     in
     bindE (any_of
       [Inr (length profile \<noteq> 4),
        bindE (member_int profile ''width'') (\<lambda>v. Inr (v \<noteq> width)),
        bindE (member_int profile ''height'') (\<lambda>v. Inr (v \<noteq> height)),
        bindE (member_int profile ''fps'') (\<lambda>v. Inr (v \<noteq> fps)),
        bindE (member_string profile ''pixel_format'') (\<lambda>v. Inr (v \<noteq> ''rgb24''))]) (\<lambda>bad_profile.
     bindE (throw_if bad_profile (Invalid_argument ''Recording expected profile does not match Vision.'')) (\<lambda>_.
     bindE (member_string request ''request_id'') (\<lambda>request_id.
     bindE (member_string request ''recording_id'') (\<lambda>recording_id.
     Inr \<lparr>rq_request_id = request_id, rq_recording_id = recording_id, rq_canonical_json = body\<rparr>))))))))"

definition parseRecordingStopRequest :: "(string \<Rightarrow> json option) \<Rightarrow> string \<Rightarrow> RecordingStartRequest result" where
  "parseRecordingStopRequest parse body =
     bindE (parse_body parse ''Recording stop request must be an object.'' body) (\<lambda>request.
     bindE (any_of
       [Inr (length request \<noteq> 3),
        bindE (member_int request ''schema_version'') (\<lambda>v. Inr (v \<noteq> 1))]) (\<lambda>bad_shape.
     bindE (throw_if bad_shape (Invalid_argument ''Recording stop request shape is invalid.'')) (\<lambda>_.
     bindE (member_string request ''request_id'') (\<lambda>request_id.
     bindE (member_string request ''recording_id'') (\<lambda>recording_id.
     Inr \<lparr>rq_request_id = request_id, rq_recording_id = recording_id, rq_canonical_json = body\<rparr>)))))"

fun toString_RecordingState :: "RecordingState \<Rightarrow> string" where
  "toString_RecordingState RS_DISABLED = ''disabled''"
| "toString_RecordingState RS_IDLE = ''idle''"
| "toString_RecordingState RS_PREPARING = ''preparing''"
| "toString_RecordingState RS_RECORDING = ''recording''"
| "toString_RecordingState RS_FINALIZING = ''finalizing''"
| "toString_RecordingState RS_FINALIZED = ''finalized''"
| "toString_RecordingState RS_FAULTED = ''faulted''"

definition int_or_null :: "int \<Rightarrow> json" where
  "int_or_null i = (if i = 0 then JNull else JInt64 i)"

definition makeRecordingCurrentJson :: "(json \<Rightarrow> string) \<Rightarrow> RecordingStatus \<Rightarrow> string" where
  "makeRecordingCurrentJson ser status = ser (JObject
     [(''schema_version'', JInt64 1), (''state'', JString (toString_RecordingState (st_state status))),
      (''recording_id'', string_or_null (st_recording_id status)),
      (''admitted_frame_count'', JUint64 (st_admitted_frame_count status)),
      (''submitted_frame_count'', JUint64 (st_submitted_frame_count status)),
      (''recording_drop_count'', JUint64 (st_recording_drop_count status)),
      (''started_monotonic_ns'', int_or_null (st_started_monotonic_ns status)),
      (''started_unix_epoch_ns'', int_or_null (st_started_unix_epoch_ns status)),
      (''stopped_monotonic_ns'', int_or_null (st_stopped_monotonic_ns status)),
      (''stopped_unix_epoch_ns'', int_or_null (st_stopped_unix_epoch_ns status)),
      (''artifact_reference'', string_or_null (st_finalized_artifact_reference status)),
      (''last_error'', JNull)])"

section \<open>Responses\<close>

definition makeErrorResponse :: "(json \<Rightarrow> string) \<Rightarrow> int \<Rightarrow> string \<Rightarrow> string \<Rightarrow> bool \<Rightarrow> ProviderHttpResponse" where
  "makeErrorResponse ser status code message retryable =
     \<lparr>rp_status = status, rp_content_type = ''application/json'',
      rp_body = ser (JObject [(''schema_version'', JInt64 1), (''error'', JObject
        [(''code'', JString code), (''message'', JString message), (''retryable'', JBool retryable)])]),
      rp_headers = []\<rparr>"

definition makeIdentityHeaders :: "FrameIdentity \<Rightarrow> CameraMountTransform \<Rightarrow> (string \<times> string) list" where
  "makeIdentityHeaders identity transform =
     [(''X-Nodus-Capture-Generation'', nat_str (unat (capture_generation identity))),
      (''X-Nodus-Frame-Number'', nat_str (unat (frame_number identity))),
      (''X-Nodus-Capture-Timestamp-Ns'', int_str (capture_timestamp_ns identity)),
      (''X-Nodus-Capture-Unix-Epoch-Ns'', int_str (capture_unix_epoch_ns identity)),
      (''X-Nodus-Sensor-Frame'', ct_sensor_frame transform),
      (''X-Nodus-Mount-Frame'', ct_mount_frame transform),
      (''X-Nodus-Calibration-Id'', ct_calibration_id transform)]"

definition app_isColorEnabled :: "VisionConfig \<Rightarrow> bool" where
  "app_isColorEnabled config \<longleftrightarrow> vc_adapter config = ''fake'' \<or> dc_enable_color (vc_intel_d435 config)"

section \<open>Region and pixel requests\<close>

record RoiRequest =
  rr_x :: int
  rr_y :: int
  rr_width :: int
  rr_height :: int

record PixelRequest =
  px_x :: int
  px_y :: int

definition parseRoiRequest :: "(string \<Rightarrow> json option) \<Rightarrow> string \<Rightarrow> RoiRequest result" where
  "parseRoiRequest parse body =
     bindE (parse_body parse ''ROI request must be an object.'' body) (\<lambda>input.
     bindE (throw_if (length input \<noteq> 4) (Invalid_argument ''ROI request field count is invalid.'')) (\<lambda>_.
     bindE (member_int input ''x'') (\<lambda>x.
     bindE (member_int input ''y'') (\<lambda>y.
     bindE (member_int input ''width'') (\<lambda>width.
     bindE (member_int input ''height'') (\<lambda>height.
     Inr \<lparr>rr_x = x, rr_y = y, rr_width = width, rr_height = height\<rparr>))))))"

definition parsePixelRequest :: "(string \<Rightarrow> json option) \<Rightarrow> string \<Rightarrow> PixelRequest result" where
  "parsePixelRequest parse body =
     bindE (parse_body parse ''Pixel request must be an object.'' body) (\<lambda>input.
     bindE (throw_if (length input \<noteq> 2) (Invalid_argument ''Pixel request field count is invalid.'')) (\<lambda>_.
     bindE (member_int input ''x'') (\<lambda>x.
     bindE (member_int input ''y'') (\<lambda>y.
     Inr \<lparr>px_x = x, px_y = y\<rparr>))))"

definition isRoiRequestValid :: "RoiRequest \<Rightarrow> StreamProfile \<Rightarrow> bool" where
  "isRoiRequestValid request profile \<longleftrightarrow>
     \<not> (rr_x request < 0 \<or> rr_y request < 0 \<or> rr_width request \<le> 0 \<or> rr_height request \<le> 0 \<or>
        rr_x request \<ge> sp_width profile \<or> rr_y request \<ge> sp_height profile) \<and>
     rr_width request * rr_height request \<le> sp_width profile * sp_height profile"

definition isPixelRequestValid :: "PixelRequest \<Rightarrow> StreamProfile \<Rightarrow> bool" where
  "isPixelRequestValid request profile \<longleftrightarrow>
     px_x request \<ge> 0 \<and> px_y request \<ge> 0 \<and> px_x request < sp_width profile \<and> px_y request < sp_height profile"

section \<open>Health and metadata\<close>

definition server_json :: "ProviderHealthSnapshot \<Rightarrow> json" where
  "server_json health = JObject
     [(''listening'', JBool (ph_listening health)), (''active_connections'', JInt64 (ph_active_connections health)),
      (''max_connections'', JInt64 (ph_max_connections health)),
      (''active_stream_clients'', JInt64 (ph_active_stream_clients health)),
      (''max_stream_clients'', JInt64 (ph_max_stream_clients health))]"

definition camera_json :: "CameraHealthSnapshot \<Rightarrow> json" where
  "camera_json camera = JObject
     [(''state'', JString (toString_CameraLifecycle (ch_lifecycle camera))),
      (''capture_generation'', JUint64 (capture_generation (ch_latest_identity camera))),
      (''latest_frame_number'', JUint64 (frame_number (ch_latest_identity camera))),
      (''latest_frame_age_ms'', JInt64 (ch_latest_frame_age_ms camera)),
      (''timeout_count'', JUint64 (ch_timeout_count camera)), (''drop_count'', JUint64 (ch_drop_count camera))]"

definition pilot_json :: "PilotIntegrationSnapshot \<Rightarrow> json" where
  "pilot_json pilot = JObject
     [(''enabled'', JBool (ps_enabled pilot)), (''state'', JString (toString_PilotIntegrationState (ps_state pilot))),
      (''server_instance_id'', string_or_null (ps_server_instance_id pilot)),
      (''catalog_generation'', JUint64 (ps_catalog_generation pilot)),
      (''descriptor_count'', JInt64 (ps_descriptor_count pilot)), (''retry_count'', JInt64 (ps_retry_count pilot)),
      (''last_success_age_ms'', (if ps_last_success_age_ms pilot < 0 then JNull else JInt64 (ps_last_success_age_ms pilot))),
      (''last_error'', string_or_null (ps_last_error pilot))]"

definition recording_json :: "bool \<Rightarrow> RecordingStatus option \<Rightarrow> json" where
  "recording_json enabled recording = JObject ((''enabled'', JBool enabled) # (case recording of
       None \<Rightarrow>
         [(''state'', JString ''disabled''), (''recording_id'', JNull), (''queue_depth'', JInt64 0),
          (''queue_capacity'', JInt64 0), (''admitted_frame_count'', JInt64 0), (''submitted_frame_count'', JInt64 0),
          (''recording_drop_count'', JInt64 0), (''orphan_staging_count'', JInt64 0)]
     | Some status \<Rightarrow>
         [(''state'', JString (toString_RecordingState (st_state status))),
          (''recording_id'', string_or_null (st_recording_id status)),
          (''queue_depth'', JUint64 (word_of_nat (st_queue_depth status))),
          (''queue_capacity'', JUint64 (word_of_nat (st_queue_capacity status))),
          (''admitted_frame_count'', JUint64 (st_admitted_frame_count status)),
          (''submitted_frame_count'', JUint64 (st_submitted_frame_count status)),
          (''recording_drop_count'', JUint64 (st_recording_drop_count status)),
          (''orphan_staging_count'', JUint64 (word_of_nat (st_orphan_staging_count status)))]) @ [(''last_error'', JNull)])"

definition makeHealthJson ::
  "(json \<Rightarrow> string) \<Rightarrow> ProviderHealthSnapshot \<Rightarrow> bool \<Rightarrow> RecordingStatus option \<Rightarrow> string"
where
  "makeHealthJson ser health recording_enabled recording = ser (JObject
     [(''schema_version'', JInt64 1), (''state'', JString (toString_ProviderState (ph_state health))),
      (''server'', server_json health), (''camera'', camera_json (ph_camera health)),
      (''pilot'', pilot_json (ph_pilot health)), (''recording'', recording_json recording_enabled recording),
      (''last_error'', string_or_null (ph_last_error health))])"

definition metadata_endpoints :: "VisionConfig \<Rightarrow> string list" where
  "metadata_endpoints config =
     [''/health'', ''/metadata'', ''/stream/depth.mjpg'', ''/snapshot/depth'', ''/query/roi_depth'',
      ''/query/pixel_to_point'', ''/snapshot/pointcloud.bin''] @
     (if app_isColorEnabled config then [''/stream/color.mjpg'', ''/snapshot/color''] else []) @
     (if rg_enabled (vc_recording config) then [''/recordings/start'', ''/recordings/stop'', ''/recordings/current'']
      else [])"

definition makeMetadataJson :: "(json \<Rightarrow> string) \<Rightarrow> VisionConfig \<Rightarrow> CameraMountTransform \<Rightarrow> string" where
  "makeMetadataJson ser config transform = ser (JObject
     [(''schema_version'', JInt64 1), (''api_version'', JString ''1.3.0''), (''device_id'', JString (vc_device_id config)),
      (''adapter'', JString (vc_adapter config)),
      (''advertised_base_url'', JString (pv_advertised_base_url (vc_provider config))),
      (''calibration'', JObject
        [(''calibration_id'', JString (ct_calibration_id transform)), (''sensor_frame'', JString (ct_sensor_frame transform)),
         (''mount_frame'', JString (ct_mount_frame transform)),
         (''mount_from_camera_optical_matrix4x4'', JArray (map JDouble (ct_matrix4x4 transform)))]),
      (''endpoints'', JArray (map JString (metadata_endpoints config)))])"

definition makeStreamFrame :: "EncodedPreview option \<Rightarrow> CameraMountTransform \<Rightarrow> ProviderStreamFrame option" where
  "makeStreamFrame preview transform = (case preview of
     None \<Rightarrow> None
   | Some p \<Rightarrow> if ep_jpeg p = [] then None
       else Some \<lparr>sf_identity = ep_identity p, sf_jpeg_data = Some (ep_jpeg p),
                  sf_headers = makeIdentityHeaders (ep_identity p) transform\<rparr>)"

end
