(* ===== verification/HttpSessions.thy ===== *)
theory HttpSessions
  imports HttpServer
begin

text \<open>
  The sessions and the listener of the HTTP provider. A closed session stays in \<open>hs_sessions\<close> with
  \<open>ss_finished\<close> set, because handlers that still hold it run later; the code's map \<^verbatim>\<open>m_sessions\<close> is the
  unfinished ones. A session's outstanding asynchronous operation is \<open>ss_op\<close>; \<open>ss_idle_live\<close> says that the
  idle timer runs, and \<open>ss_idle_stale\<close> counts its cancelled waits whose handlers are still to run. Every handler is a function on the server and the state \<open>'w\<close> of its routes.
\<close>

section \<open>State\<close>

datatype session_op = Sop_read | Sop_response | Sop_header | Sop_part

text \<open>What a session has handed to an asynchronous write, in order.\<close>

datatype http_message =
    Msg_response int "(string \<times> string) list" string
  | Msg_preflight "(string \<times> string) list"
  | Msg_stream_header "(string \<times> string) list"
  | Msg_part FrameIdentity string

record HttpSession =
  ss_allowed_origin :: string
  ss_stream_kind :: ProviderStreamKind
  ss_streaming :: bool
  ss_finished :: bool
  ss_write_in_progress :: bool
  ss_refresh_pending :: bool
  ss_has_sent_frame :: bool
  ss_last_sent_identity :: FrameIdentity
  ss_initial_stream_frame :: "ProviderStreamFrame option"
  ss_pending_stream_frame :: "ProviderStreamFrame option"
  ss_op :: "session_op option"
  ss_idle_live :: bool
  ss_idle_stale :: nat
  ss_sent :: "http_message list"

text \<open>A session just after \<^verbatim>\<open>runSession\<close>: it reads its request.\<close>

definition runSession :: HttpSession where
  "runSession = \<lparr>ss_allowed_origin = [], ss_stream_kind = SK_COLOR, ss_streaming = False, ss_finished = False,
     ss_write_in_progress = False, ss_refresh_pending = False, ss_has_sent_frame = False,
     ss_last_sent_identity = default_FrameIdentity, ss_initial_stream_frame = None,
     ss_pending_stream_frame = None, ss_op = Some Sop_read, ss_idle_live = False, ss_idle_stale = 0, ss_sent = []\<rparr>"

record ProviderHttpServer =
  hs_port :: int
  hs_max_connections :: int
  hs_max_stream_clients :: int
  hs_allowed_origins :: "string list"
  hs_sessions :: "nat \<rightharpoonup> HttpSession"
  hs_active_connections :: int
  hs_active_stream_clients :: int
  hs_next_session_id :: nat
  hs_acceptor_open :: bool
  hs_accept_pending :: bool
  hs_bound_port :: int
  hs_started :: bool
  hs_stop_posted :: bool

definition ProviderHttpServer_new :: "int \<Rightarrow> int \<Rightarrow> int \<Rightarrow> string list \<Rightarrow> ProviderHttpServer" where
  "ProviderHttpServer_new port max_connections max_stream_clients allowed_origins =
     \<lparr>hs_port = port, hs_max_connections = max_connections, hs_max_stream_clients = max_stream_clients,
      hs_allowed_origins = allowed_origins, hs_sessions = Map.empty, hs_active_connections = 0,
      hs_active_stream_clients = 0, hs_next_session_id = 0, hs_acceptor_open = False, hs_accept_pending = False,
      hs_bound_port = 0, hs_started = False, hs_stop_posted = False\<rparr>"

definition session_of :: "ProviderHttpServer \<Rightarrow> nat \<Rightarrow> HttpSession" where
  "session_of sv i = (case hs_sessions sv i of None \<Rightarrow> runSession | Some s \<Rightarrow> s)"

definition on_session :: "nat \<Rightarrow> (HttpSession \<Rightarrow> HttpSession) \<Rightarrow> ProviderHttpServer \<Rightarrow> ProviderHttpServer" where
  "on_session i f sv = sv\<lparr>hs_sessions := (hs_sessions sv)(i \<mapsto> f (session_of sv i))\<rparr>"

section \<open>Sessions\<close>

definition admitStream :: "ProviderHttpServer \<Rightarrow> bool \<times> ProviderHttpServer" where
  "admitStream sv =
     (if hs_active_stream_clients sv \<ge> hs_max_stream_clients sv then (False, sv)
      else (True, sv\<lparr>hs_active_stream_clients := hs_active_stream_clients sv + 1\<rparr>))"

text \<open>\<^verbatim>\<open>closeSession\<close>: the erased entry is the session whose \<open>ss_finished\<close> is set.\<close>

definition closeSession :: "bool \<Rightarrow> ProviderHttpServer \<Rightarrow> ProviderHttpServer" where
  "closeSession was_streaming sv =
     sv\<lparr>hs_active_connections := (if hs_active_connections sv > 0 then hs_active_connections sv - 1
                                  else hs_active_connections sv),
        hs_active_stream_clients := (if was_streaming \<and> hs_active_stream_clients sv > 0
                                     then hs_active_stream_clients sv - 1 else hs_active_stream_clients sv)\<rparr>"

text \<open>
  Cancelling the idle timer: the handler of the wait still runs later, with an error unless it was queued
  already. So is the wait before when the timer is set anew.
\<close>

definition cancel_timer :: "HttpSession \<Rightarrow> HttpSession" where
  "cancel_timer s = (if ss_idle_live s then s\<lparr>ss_idle_live := False, ss_idle_stale := ss_idle_stale s + 1\<rparr> else s)"

definition cancelSession :: "nat \<Rightarrow> ProviderHttpServer \<Rightarrow> ProviderHttpServer" where
  "cancelSession i sv =
     (let s = session_of sv i in
      if ss_finished s then sv
      else closeSession (ss_streaming s) (on_session i (\<lambda>s. (cancel_timer s)\<lparr>ss_finished := True\<rparr>) sv))"

definition sendResponse :: "nat \<Rightarrow> ProviderHttpResponse \<Rightarrow> ProviderHttpServer \<Rightarrow> ProviderHttpServer" where
  "sendResponse i payload = on_session i (\<lambda>s. s\<lparr>ss_op := Some Sop_response,
     ss_sent := ss_sent s @ [Msg_response (rp_status payload) (response_fields (ss_allowed_origin s) payload)
                               (rp_body payload)]\<rparr>)"

definition sendPreflightResponse :: "nat \<Rightarrow> ProviderHttpServer \<Rightarrow> ProviderHttpServer" where
  "sendPreflightResponse i = on_session i (\<lambda>s. s\<lparr>ss_op := Some Sop_response,
     ss_sent := ss_sent s @ [Msg_preflight (preflight_fields (ss_allowed_origin s))]\<rparr>)"

definition stream_getter :: "'w ProviderHttpRoutes \<Rightarrow> ProviderStreamKind \<Rightarrow> ('w, ProviderStreamFrame option) act option" where
  "stream_getter routes kind = (case kind of SK_COLOR \<Rightarrow> get_color_stream_frame routes | SK_DEPTH \<Rightarrow> get_depth_stream_frame routes)"

text \<open>The image of a frame, unless the frame, its data or its bytes are missing.\<close>

definition usable_jpeg :: "ProviderStreamFrame option \<Rightarrow> u8 list option" where
  "usable_jpeg frame = (case frame of
     None \<Rightarrow> None
   | Some f \<Rightarrow> (case sf_jpeg_data f of None \<Rightarrow> None | Some jpeg \<Rightarrow> if jpeg = [] then None else Some jpeg))"

definition startStream ::
  "'w ProviderHttpRoutes \<Rightarrow> nat \<Rightarrow> ProviderStreamKind \<Rightarrow> ProviderHttpServer \<times> 'w \<Rightarrow> ProviderHttpServer \<times> 'w"
where
  "startStream routes i kind = (\<lambda>(sv, w). case stream_getter routes kind of
     None \<Rightarrow> (sendResponse i (http_makeErrorResponse 409 ''stream_disabled'' ''Stream is disabled.'' False) sv, w)
   | Some acquire_frame \<Rightarrow> (case acquire_frame w of
       (Inl e, w') \<Rightarrow> (sendResponse i (http_makeErrorResponse 500 ''provider_failure'' ''Provider stream failed.'' True) sv, w')
     | (Inr frame, w') \<Rightarrow>
         (if usable_jpeg frame = None
          then (sendResponse i (http_makeErrorResponse 503 ''no_fresh_frame'' ''No captured frame is available.'' True) sv, w')
          else case admitStream sv of
              (False, sv1) \<Rightarrow> (sendResponse i (http_makeErrorResponse 429 ''stream_limit_reached''
                                 ''Stream client limit is reached.'' True) sv1, w')
            | (True, sv1) \<Rightarrow> (on_session i (\<lambda>s. s\<lparr>ss_streaming := True, ss_stream_kind := kind,
                  ss_initial_stream_frame := frame, ss_write_in_progress := True, ss_op := Some Sop_header,
                  ss_sent := ss_sent s @ [Msg_stream_header (stream_fields (ss_allowed_origin s))]\<rparr>) sv1, w'))))"

text \<open>\<^const>\<open>None\<close>: the route called never returns.\<close>

definition handleRequest ::
  "'w ProviderHttpRoutes \<Rightarrow> nat \<Rightarrow> HttpRequest option \<Rightarrow> ProviderHttpServer \<times> 'w \<Rightarrow> (ProviderHttpServer \<times> 'w) option"
where
  "handleRequest routes i outcome = (\<lambda>(sv0, w).
     let sv = on_session i (\<lambda>s. s\<lparr>ss_op := None\<rparr>) sv0 in
     case outcome of
       None \<Rightarrow> Some (cancelSession i sv, w)
     | Some request \<Rightarrow> (case decide_request routes (hs_allowed_origins sv) request w of
         None \<Rightarrow> None
       | Some ((decision, origin), w') \<Rightarrow>
           let sv1 = on_session i (\<lambda>s. s\<lparr>ss_allowed_origin := origin\<rparr>) sv in
           case decision of
             Respond response \<Rightarrow> Some (sendResponse i response sv1, w')
           | Respond_preflight \<Rightarrow> Some (sendPreflightResponse i sv1, w')
           | Start_stream kind \<Rightarrow> Some (startStream routes i kind (sv1, w'))))"

section \<open>Streams\<close>

definition waitForStreamFrame :: "nat \<Rightarrow> ProviderHttpServer \<Rightarrow> ProviderHttpServer" where
  "waitForStreamFrame i sv =
     (if ss_finished (session_of sv i) then sv
      else on_session i (\<lambda>s. (cancel_timer s)\<lparr>ss_idle_live := True\<rparr>) sv)"

text \<open>A frame that is missing, empty or not newer than the last one sent is waited for.\<close>

definition sendable :: "HttpSession \<Rightarrow> ProviderStreamFrame option \<Rightarrow> (ProviderStreamFrame \<times> u8 list) option" where
  "sendable s frame = (case (frame, usable_jpeg frame) of
     (Some f, Some jpeg) \<Rightarrow>
       if ss_has_sent_frame s \<and> \<not> http_isNewerIdentity (sf_identity f) (ss_last_sent_identity s) then None
       else Some (f, jpeg)
   | _ \<Rightarrow> None)"

definition write_frame :: "nat \<Rightarrow> ProviderStreamFrame option \<Rightarrow> ProviderHttpServer \<Rightarrow> ProviderHttpServer" where
  "write_frame i frame sv = (case sendable (session_of sv i) frame of
     None \<Rightarrow> waitForStreamFrame i sv
   | Some (f, jpeg) \<Rightarrow> on_session i (\<lambda>s. s\<lparr>ss_pending_stream_frame := Some f, ss_write_in_progress := True,
       ss_refresh_pending := False, ss_op := Some Sop_part,
       ss_sent := ss_sent s @ [Msg_part (sf_identity f) (buildMjpegPart f jpeg)]\<rparr>) sv)"

definition writeLatestStreamFrame ::
  "'w ProviderHttpRoutes \<Rightarrow> nat \<Rightarrow> ProviderHttpServer \<times> 'w \<Rightarrow> ProviderHttpServer \<times> 'w"
where
  "writeLatestStreamFrame routes i = (\<lambda>(sv0, w).
     let s = session_of sv0 i in
     if ss_finished s \<or> ss_write_in_progress s then (sv0, w)
     else let sv = on_session i (\<lambda>s. s\<lparr>ss_initial_stream_frame := None\<rparr>) sv0 in
       case ss_initial_stream_frame s of
         Some frame \<Rightarrow> (write_frame i (Some frame) sv, w)
       | None \<Rightarrow> (case stream_getter routes (ss_stream_kind s) of
           None \<Rightarrow> (cancelSession i sv, w)
         | Some acquire_frame \<Rightarrow> (case acquire_frame w of
             (Inl e, w') \<Rightarrow> (cancelSession i sv, w')
           | (Inr frame, w') \<Rightarrow> (write_frame i frame sv, w'))))"

definition handleStreamHeaderWritten ::
  "'w ProviderHttpRoutes \<Rightarrow> nat \<Rightarrow> bool \<Rightarrow> ProviderHttpServer \<times> 'w \<Rightarrow> ProviderHttpServer \<times> 'w"
where
  "handleStreamHeaderWritten routes i error = (\<lambda>(sv0, w).
     let sv = on_session i (\<lambda>s. s\<lparr>ss_op := None, ss_write_in_progress := False\<rparr>) sv0 in
     if error \<or> ss_finished (session_of sv i) then (cancelSession i sv, w)
     else writeLatestStreamFrame routes i (sv, w))"

definition handleStreamPartWritten ::
  "'w ProviderHttpRoutes \<Rightarrow> nat \<Rightarrow> bool \<Rightarrow> ProviderHttpServer \<times> 'w \<Rightarrow> ProviderHttpServer \<times> 'w"
where
  "handleStreamPartWritten routes i error = (\<lambda>(sv0, w).
     let sv = on_session i (\<lambda>s. s\<lparr>ss_op := None, ss_write_in_progress := False\<rparr>) sv0; s = session_of sv i in
     if error \<or> ss_finished s then (cancelSession i sv, w)
     else let sv1 = on_session i (\<lambda>s. s\<lparr>ss_last_sent_identity := (case ss_pending_stream_frame s of
                  None \<Rightarrow> ss_last_sent_identity s | Some f \<Rightarrow> sf_identity f),
                ss_has_sent_frame := True, ss_pending_stream_frame := None\<rparr>) sv
       in if ss_refresh_pending s
          then writeLatestStreamFrame routes i (on_session i (\<lambda>s. s\<lparr>ss_refresh_pending := False\<rparr>) sv1, w)
          else (waitForStreamFrame i sv1, w))"

definition session_notifyStreamFrame ::
  "'w ProviderHttpRoutes \<Rightarrow> ProviderStreamKind \<Rightarrow> nat \<Rightarrow> ProviderHttpServer \<times> 'w \<Rightarrow> ProviderHttpServer \<times> 'w"
where
  "session_notifyStreamFrame routes kind i = (\<lambda>(sv, w).
     let s = session_of sv i in
     if ss_finished s \<or> \<not> ss_streaming s \<or> kind \<noteq> ss_stream_kind s then (sv, w)
     else if ss_write_in_progress s then (on_session i (\<lambda>s. s\<lparr>ss_refresh_pending := True\<rparr>) sv, w)
     else writeLatestStreamFrame routes i (on_session i cancel_timer sv, w))"

text \<open>
  \<^verbatim>\<open>notifySessions\<close> visits the map in its own order, \<open>order\<close>. A session that closes while it is being
  notified erases its own entry, and the loop then increments an iterator to it: undefined, \<^const>\<open>None\<close>.
\<close>

fun notifySessions ::
  "'w ProviderHttpRoutes \<Rightarrow> ProviderStreamKind \<Rightarrow> nat list \<Rightarrow> ProviderHttpServer \<times> 'w \<Rightarrow> (ProviderHttpServer \<times> 'w) option"
where
  "notifySessions routes kind [] st = Some st"
| "notifySessions routes kind (i # order) st =
     (let st' = session_notifyStreamFrame routes kind i st in
      if \<not> ss_finished (session_of (fst st) i) \<and> ss_finished (session_of (fst st') i) then None
      else notifySessions routes kind order st')"

section \<open>The listener\<close>

text \<open>The handler of an accept; \<open>error\<close> also stands for the abort of a closed acceptor.\<close>

definition acceptNext :: "bool \<Rightarrow> ProviderHttpServer \<Rightarrow> ProviderHttpServer" where
  "acceptNext error sv0 =
     (let sv = sv0\<lparr>hs_accept_pending := False\<rparr>;
          sv1 = (if error \<or> hs_active_connections sv \<ge> hs_max_connections sv then sv
                 else let id = hs_next_session_id sv + 1 in
                   sv\<lparr>hs_next_session_id := id, hs_active_connections := hs_active_connections sv + 1,
                      hs_sessions := (hs_sessions sv)(id \<mapsto> runSession)\<rparr>)
      in sv1\<lparr>hs_accept_pending := hs_acceptor_open sv1\<rparr>)"

definition stopOnIoThread :: "nat list \<Rightarrow> ProviderHttpServer \<Rightarrow> ProviderHttpServer" where
  "stopOnIoThread ids sv =
     foldl (\<lambda>sv i. cancelSession i sv) (sv\<lparr>hs_acceptor_open := False, hs_stop_posted := False\<rparr>) ids"

text \<open>The results of \<^verbatim>\<open>make_address\<close>, \<^verbatim>\<open>open\<close>, \<^verbatim>\<open>set_option\<close>, \<^verbatim>\<open>bind\<close> and \<^verbatim>\<open>listen\<close> are arguments.\<close>

record listen_outcome =
  lo_address :: bool
  lo_open :: bool
  lo_option :: bool
  lo_bind :: bool
  lo_listen :: bool
  lo_port :: int

definition startServer :: "listen_outcome \<Rightarrow> (ProviderHttpServer, unit) act" where
  "startServer outcome =
     bindS (getS hs_started) (\<lambda>started.
     if started then retS ()
     else
     bindS (throw_ifS (\<not> lo_address outcome) (Invalid_argument ''Provider bind_host is not a valid IP address.'')) (\<lambda>_.
     bindS (throw_ifS (\<not> lo_open outcome) (Runtime_error ''Provider acceptor open failed.'')) (\<lambda>_.
     bindS (modS (\<lambda>s. s\<lparr>hs_acceptor_open := True\<rparr>)) (\<lambda>_.
     bindS (throw_ifS (\<not> lo_option outcome) (Runtime_error ''Provider acceptor option failed.'')) (\<lambda>_.
     bindS (throw_ifS (\<not> lo_bind outcome) (Runtime_error ''Provider bind failed.'')) (\<lambda>_.
     bindS (throw_ifS (\<not> lo_listen outcome) (Runtime_error ''Provider listen failed.'')) (\<lambda>_.
     modS (\<lambda>s. s\<lparr>hs_bound_port := lo_port outcome, hs_active_connections := 0, hs_active_stream_clients := 0,
       hs_started := True, hs_accept_pending := True\<rparr>))))))))"

text \<open>\<^verbatim>\<open>stopServer\<close> up to the join of the worker thread, and after it.\<close>

definition stopServer_begin :: "ProviderHttpServer \<Rightarrow> ProviderHttpServer" where
  "stopServer_begin sv = (if \<not> hs_started sv then sv else sv\<lparr>hs_started := False, hs_stop_posted := True\<rparr>)"

definition stopServer_finish :: "ProviderHttpServer \<Rightarrow> ProviderHttpServer" where
  "stopServer_finish sv = sv\<lparr>hs_sessions := Map.empty, hs_active_connections := 0, hs_active_stream_clients := 0,
     hs_bound_port := 0\<rparr>"

definition getBoundPort :: "ProviderHttpServer \<Rightarrow> int" where "getBoundPort sv = hs_bound_port sv"
definition getActiveConnectionCount :: "ProviderHttpServer \<Rightarrow> int" where
  "getActiveConnectionCount sv = hs_active_connections sv"
definition getActiveStreamClientCount :: "ProviderHttpServer \<Rightarrow> int" where
  "getActiveStreamClientCount sv = hs_active_stream_clients sv"

section \<open>Steps\<close>

definition open_session :: "ProviderHttpServer \<Rightarrow> nat \<Rightarrow> bool" where
  "open_session sv i \<longleftrightarrow> (\<exists>s. hs_sessions sv i = Some s \<and> \<not> ss_finished s)"

definition pending_op :: "ProviderHttpServer \<Rightarrow> nat \<Rightarrow> session_op \<Rightarrow> bool" where
  "pending_op sv i op \<longleftrightarrow> (\<exists>s. hs_sessions sv i = Some s \<and> ss_op s = Some op)"

text \<open>
  One handler of the \<^verbatim>\<open>io_context\<close>, or the first part of \<^verbatim>\<open>stopServer\<close>. A cancelled or timed-out
  operation is a handler that runs with an error.
\<close>

inductive server_step ::
  "'w ProviderHttpRoutes \<Rightarrow> ProviderHttpServer \<times> 'w \<Rightarrow> ProviderHttpServer \<times> 'w \<Rightarrow> bool"
  for routes :: "'w ProviderHttpRoutes" where
  accept: "hs_accept_pending sv \<Longrightarrow> server_step routes (sv, w) (acceptNext error sv, w)"
| read: "pending_op sv i Sop_read \<Longrightarrow> handleRequest routes i outcome (sv, w) = Some st \<Longrightarrow> server_step routes (sv, w) st"
| response: "pending_op sv i Sop_response \<Longrightarrow>
    server_step routes (sv, w) (cancelSession i (on_session i (\<lambda>s. s\<lparr>ss_op := None\<rparr>) sv), w)"
| header: "pending_op sv i Sop_header \<Longrightarrow> server_step routes (sv, w) (handleStreamHeaderWritten routes i error (sv, w))"
| part: "pending_op sv i Sop_part \<Longrightarrow> server_step routes (sv, w) (handleStreamPartWritten routes i error (sv, w))"
| idle: "hs_sessions sv i = Some s \<Longrightarrow> ss_idle_live s \<Longrightarrow>
    server_step routes (sv, w) (cancelSession i (on_session i (\<lambda>s. s\<lparr>ss_idle_live := False\<rparr>) sv), w)"
| stale: "hs_sessions sv i = Some s \<Longrightarrow> ss_idle_stale s = Suc n \<Longrightarrow>
    server_step routes (sv, w)
      ((if error then id else cancelSession i) (on_session i (\<lambda>s. s\<lparr>ss_idle_stale := n\<rparr>) sv), w)"
| notify: "set order = {i. open_session sv i} \<Longrightarrow> distinct order \<Longrightarrow>
    notifySessions routes kind order (sv, w) = Some st \<Longrightarrow> server_step routes (sv, w) st"
| stop_io: "hs_stop_posted sv \<Longrightarrow> set ids = {i. open_session sv i} \<Longrightarrow> distinct ids \<Longrightarrow>
    server_step routes (sv, w) (stopOnIoThread ids sv, w)"
| stop: "server_step routes (sv, w) (stopServer_begin sv, w)"

text \<open>
  A server object is started once: the application builds a new one for each start. Between two handlers
  the owner's state may change in any way (\<open>owner\<close>).
\<close>

inductive server_reachable :: "'w ProviderHttpRoutes \<Rightarrow> ProviderHttpServer \<Rightarrow> ProviderHttpServer \<times> 'w \<Rightarrow> bool"
  for routes :: "'w ProviderHttpRoutes" and new :: ProviderHttpServer where
  start: "startServer outcome new = (Inr (), sv) \<Longrightarrow> server_reachable routes new (sv, w)"
| step: "server_reachable routes new st \<Longrightarrow> server_step routes st st' \<Longrightarrow> server_reachable routes new st'"
| owner: "server_reachable routes new (sv, w) \<Longrightarrow> server_reachable routes new (sv, w')"

end
