(* ===== verification/Application.thy ===== *)
theory Application
  imports AppRequests HttpSessions RecordingRuns PcdFormat
begin

text \<open>
  The application (\<^verbatim>\<open>src/runtime/vision_application.cpp\<close>): it owns every other component. Its threads are the
  main thread, which starts and stops it, the capture and the encoder thread, the \<^verbatim>\<open>io_context\<close> of the HTTP
  server and the workers of the recording manager and of the Pilot client. Each is a program counter here; a
  step runs from one blocking call or unlocked access to the next. \<open>m_mutex\<close> is held by the main thread through
  \<^verbatim>\<open>startApplication\<close>, so it is free exactly when the main thread is elsewhere.
\<close>

section \<open>State\<close>

datatype camera = Cam_fake FakeCameraAdapter | Cam_d435 IntelD435Adapter

datatype main_pc =
    Main_idle | Start_camera | Start_pilot
  | Stop_pilot | Join_pilot | Join_server | Join_threads | Join_recording

datatype capture_pc = Cap_none | Cap_loop | Cap_submit CapturedFrame | Cap_failed | Cap_degrade | Cap_publish | Cap_done

datatype encoder_pc =
    Enc_none | Enc_wait FrameIdentity | Enc_preview PreviewKind FrameIdentity CapturedFrame
  | Enc_failed PreviewKind FrameIdentity CapturedFrame | Enc_done

text \<open>What the coming calls find in the world: the steady clock, the file system and the answers of the system.\<close>

record environment =
  en_now :: int
  en_world :: world
  en_start :: start_env
  en_stop_now :: "int \<times> int"
  en_listing :: "string list"

record Application =
  ap_config :: VisionConfig
  ap_transform :: CameraMountTransform
  ap_adapter :: "camera option"
  ap_server :: "ProviderHttpServer option"
  ap_pilot :: "PilotIntegrationClient option"
  ap_recording :: "manager option"
  ap_frame_store :: FrameStore
  ap_preview_cache :: EncodedPreviewCache
  ap_capture :: capture_pc
  ap_encoder :: encoder_pc
  ap_stop_requested :: bool
  ap_health :: ProviderHealthSnapshot
  ap_started :: bool
  ap_main :: main_pc
  ap_env :: environment

text \<open>The code outside the repository.\<close>

record app_library =
  al_pilot :: pilot_library
  al_recording :: library
  al_compress :: compressor
  al_sort :: "sample list \<Rightarrow> sample list"
  al_deproject :: "sdk_intrinsics \<Rightarrow> f32 \<times> f32 \<Rightarrow> f32 \<Rightarrow> f32 \<times> f32 \<times> f32"

abbreviation al_parse :: "app_library \<Rightarrow> string \<Rightarrow> json option" where "al_parse lib \<equiv> pb_parse (al_pilot lib)"
abbreviation al_serialize :: "app_library \<Rightarrow> json \<Rightarrow> string" where "al_serialize lib \<equiv> pb_ser (al_pilot lib)"

definition POINTCLOUD_MAX_POINTS :: nat where "POINTCLOUD_MAX_POINTS = 100000"
definition POINTCLOUD_STRIDE_PIXELS :: int where "POINTCLOUD_STRIDE_PIXELS = 1"
definition JPEG_QUALITY :: int where "JPEG_QUALITY = 90"
definition CAPTURE_TIMEOUT_MS :: int where "CAPTURE_TIMEOUT_MS = 100"

definition default_CameraMountTransform :: CameraMountTransform where
  "default_CameraMountTransform = \<lparr>ct_calibration_id = [], ct_sensor_frame = [], ct_mount_frame = [],
     ct_matrix4x4 = replicate 16 0\<rparr>"

definition VisionApplication_new :: "VisionConfig \<Rightarrow> environment \<Rightarrow> Application" where
  "VisionApplication_new config env =
     \<lparr>ap_config = config, ap_transform = default_CameraMountTransform, ap_adapter = None, ap_server = None,
      ap_pilot = None, ap_recording = None, ap_frame_store = FrameStore_new,
      ap_preview_cache = EncodedPreviewCache_new, ap_capture = Cap_none, ap_encoder = Enc_none,
      ap_stop_requested = False, ap_health = default_ProviderHealthSnapshot, ap_started = False,
      ap_main = Main_idle, ap_env = env\<rparr>"

definition mutex_free :: "Application \<Rightarrow> bool" where
  "mutex_free a \<longleftrightarrow> ap_main a \<noteq> Start_camera \<and> ap_main a \<noteq> Start_pilot"

section \<open>The camera behind its interface\<close>

definition on_fake :: "(FakeCameraAdapter, 'a) act \<Rightarrow> FakeCameraAdapter \<Rightarrow> 'a result \<times> camera" where
  "on_fake m c = (case m c of (r, c') \<Rightarrow> (r, Cam_fake c'))"

definition on_d435 :: "(IntelD435Adapter, 'a) act \<Rightarrow> IntelD435Adapter \<Rightarrow> 'a result \<times> camera" where
  "on_d435 m c = (case m c of (r, c') \<Rightarrow> (r, Cam_d435 c'))"

definition on_camera ::
  "(FakeCameraAdapter, 'a) act \<Rightarrow> (IntelD435Adapter, 'a) act \<Rightarrow> (camera, 'a) act"
where
  "on_camera fake d435 camera = (case camera of Cam_fake c \<Rightarrow> on_fake fake c | Cam_d435 c \<Rightarrow> on_d435 d435 c)"

text \<open>The devices found and the outcome of the pipeline's start are the SDK's answers.\<close>

definition connectCamera :: "(string \<times> string) list \<Rightarrow> (camera, unit) act" where
  "connectCamera devices = on_camera fake_connectCamera (d435_connectCamera devices)"

definition startStream_camera :: "string option \<Rightarrow> (camera, unit) act" where
  "startStream_camera start_error = on_camera fake_startStream (d435_startStream start_error)"

definition stopStream :: "(camera, unit) act" where
  "stopStream = on_camera fake_stopStream d435_stopStream"

definition disconnectCamera :: "(camera, unit) act" where
  "disconnectCamera = on_camera fake_disconnectCamera d435_disconnectCamera"

definition readFrame :: "app_library \<Rightarrow> sdk_read \<Rightarrow> (camera, CapturedFrame) act" where
  "readFrame lib answer = on_camera
     (bindS (fake_readFrame CAPTURE_TIMEOUT_MS) (\<lambda>f. retS (as_captured (al_sort lib) f)))
     (bindS (d435_readFrame answer) (\<lambda>d. retS (d435_as_captured (al_deproject lib) d)))"

definition camera_health :: "camera \<Rightarrow> CameraHealthSnapshot" where
  "camera_health camera = (case camera of
     Cam_fake c \<Rightarrow> fake_getHealthSnapshot c | Cam_d435 c \<Rightarrow> d435_getHealthSnapshot c)"

text \<open>A call through \<^verbatim>\<open>m_p_adapter\<close>, made only while it is set.\<close>

definition on_adapter :: "(camera, 'a) act \<Rightarrow> (Application, 'a) act" where
  "on_adapter m = zoomS (\<lambda>a. the (ap_adapter a)) (\<lambda>c a. a\<lparr>ap_adapter := Some c\<rparr>) m"

section \<open>Routes\<close>

definition json_response :: "int \<Rightarrow> string \<Rightarrow> ProviderHttpResponse" where
  "json_response status body =
     \<lparr>rp_status = status, rp_content_type = ''application/json'', rp_body = body, rp_headers = []\<rparr>"

definition bytes_string :: "u8 list \<Rightarrow> string" where
  "bytes_string = map (\<lambda>byte. char_of (unat byte))"

definition no_fresh_frame :: "app_library \<Rightarrow> ProviderHttpResponse" where
  "no_fresh_frame lib =
     makeErrorResponse (al_serialize lib) 503 ''no_fresh_frame'' ''No captured frame is available.'' True"

definition invalid_request :: "app_library \<Rightarrow> string \<Rightarrow> ProviderHttpResponse" where
  "invalid_request lib message = makeErrorResponse (al_serialize lib) 400 ''invalid_request'' message False"

definition query_failed :: "app_library \<Rightarrow> string \<Rightarrow> ProviderHttpResponse" where
  "query_failed lib message = makeErrorResponse (al_serialize lib) 409 ''query_failed'' message True"

definition fresh_frame :: "Application \<Rightarrow> CapturedFrame option" where
  "fresh_frame a = acquireFreshFrame (en_now (ap_env a)) (pv_max_frame_age_ms (vc_provider (ap_config a))) (ap_frame_store a)"

definition fresh_preview :: "PreviewKind \<Rightarrow> Application \<Rightarrow> EncodedPreview option" where
  "fresh_preview kind a =
     acquireFreshPreview kind (en_now (ap_env a)) (pv_max_frame_age_ms (vc_provider (ap_config a))) (ap_preview_cache a)"

text \<open>A route that only reads the application.\<close>

definition reading :: "(Application \<Rightarrow> ProviderHttpResponse result) \<Rightarrow> Application route" where
  "reading f a = Some (f a, a)"

definition getHealthSnapshot :: "Application \<Rightarrow> ProviderHealthSnapshot" where
  "getHealthSnapshot a =
     (let h = ap_health a;
          h1 = (case ap_adapter a of None \<Rightarrow> h | Some c \<Rightarrow> h\<lparr>ph_camera := camera_health c\<rparr>);
          h2 = (case ap_server a of None \<Rightarrow> h1
                | Some sv \<Rightarrow> h1\<lparr>ph_active_connections := getActiveConnectionCount sv,
                                ph_active_stream_clients := getActiveStreamClientCount sv\<rparr>)
      in case ap_pilot a of None \<Rightarrow> h2 | Some p \<Rightarrow> h2\<lparr>ph_pilot := getSnapshot_client (en_now (ap_env a)) p\<rparr>)"

definition app_getBoundPort :: "Application \<Rightarrow> int" where
  "app_getBoundPort a = (case ap_server a of None \<Rightarrow> 0 | Some sv \<Rightarrow> getBoundPort sv)"

text \<open>The status of the recording manager; reading it counts the staging directories, which may throw.\<close>

definition recording_status :: "Application \<Rightarrow> manager \<Rightarrow> RecordingStatus result \<times> Application" where
  "recording_status a r = (case getStatus (en_listing (ap_env a)) r of (status, r') \<Rightarrow> (status, a\<lparr>ap_recording := Some r'\<rparr>))"

definition route_health :: "app_library \<Rightarrow> Application route" where
  "route_health lib a =
     (if \<not> mutex_free a then None
      else let respond = (\<lambda>enabled recording b.
             json_response 200 (makeHealthJson (al_serialize lib) (getHealthSnapshot b) enabled recording))
      in case ap_recording a of
           None \<Rightarrow> Some (Inr (respond False None a), a)
         | Some r \<Rightarrow> (case recording_status a r of
             (Inl e, b) \<Rightarrow> Some (Inl e, b)
           | (Inr status, b) \<Rightarrow> Some (Inr (respond True (Some status) b), b)))"

definition route_metadata :: "app_library \<Rightarrow> Application route" where
  "route_metadata lib = reading (\<lambda>a. Inr (json_response 200 (makeMetadataJson (al_serialize lib) (ap_config a) (ap_transform a))))"

definition recording_disabled :: "app_library \<Rightarrow> ProviderHttpResponse" where
  "recording_disabled lib = makeErrorResponse (al_serialize lib) 503 ''recording_disabled'' ''Recording is disabled.'' False"

text \<open>\<open>{"schema_version":1}\<close>.\<close>

definition accepted_body :: string where
  "accepted_body = ''{'' @ quoted ''schema_version'' @ '':1}''"

definition start_refused :: "app_library \<Rightarrow> cpp_exn \<Rightarrow> ProviderHttpResponse" where
  "start_refused lib e = (case e of
     Invalid_argument _ \<Rightarrow> invalid_request lib ''Recording request is invalid.''
   | _ \<Rightarrow> makeErrorResponse (al_serialize lib) 409 ''recording_conflict'' ''Recording request conflicts.'' False)"

definition stop_refused :: "app_library \<Rightarrow> cpp_exn \<Rightarrow> ProviderHttpResponse" where
  "stop_refused lib e = (case e of
     Invalid_argument _ \<Rightarrow> invalid_request lib ''Recording request is invalid.''
   | Recording_not_found _ \<Rightarrow> makeErrorResponse (al_serialize lib) 404 ''recording_not_found'' ''Recording is unknown.'' False
   | _ \<Rightarrow> makeErrorResponse (al_serialize lib) 409 ''recording_conflict'' ''Recording cannot stop.'' False)"

definition route_recording_start :: "app_library \<Rightarrow> string \<Rightarrow> Application route" where
  "route_recording_start lib body a = (case ap_recording a of
     None \<Rightarrow> Some (Inr (recording_disabled lib), a)
   | Some r \<Rightarrow> (case parseRecordingStartRequest (al_parse lib) body (ap_config a) of
       Inl e \<Rightarrow> Some (Inr (start_refused lib e), a)
     | Inr request \<Rightarrow> (case startOrReplay (al_recording lib) (en_start (ap_env a)) request r of
         None \<Rightarrow> None
       | Some (outcome, r') \<Rightarrow> Some (Inr (case outcome of
             Inl e \<Rightarrow> start_refused lib e
           | Inr result \<Rightarrow> json_response (if result = SRES_STARTED then 201 else 200) accepted_body),
           a\<lparr>ap_recording := Some r'\<rparr>))))"

definition route_recording_stop :: "app_library \<Rightarrow> string \<Rightarrow> Application route" where
  "route_recording_stop lib body a = (case ap_recording a of
     None \<Rightarrow> Some (Inr (recording_disabled lib), a)
   | Some r \<Rightarrow> (case parseRecordingStopRequest (al_parse lib) body of
       Inl e \<Rightarrow> Some (Inr (stop_refused lib e), a)
     | Inr request \<Rightarrow> (case finalizeOrReplay (fst (en_stop_now (ap_env a))) (snd (en_stop_now (ap_env a))) request r of
         (outcome, r') \<Rightarrow> Some (Inr (case outcome of
             Inl e \<Rightarrow> stop_refused lib e
           | Inr result \<Rightarrow> json_response (if result = STOP_ACCEPTED then 202 else 200) accepted_body),
           a\<lparr>ap_recording := Some r'\<rparr>))))"

definition route_recording_current :: "app_library \<Rightarrow> Application route" where
  "route_recording_current lib a = (case ap_recording a of
     None \<Rightarrow> Some (Inr (json_response 200 (''{'' @ quoted ''schema_version'' @ '':1,'' @ quoted ''state'' @ '':'' @
               quoted ''disabled'' @ ''}'')), a)
   | Some r \<Rightarrow> (case recording_status a r of
       (Inl e, b) \<Rightarrow> Some (Inl e, b)
     | (Inr status, b) \<Rightarrow> Some (Inr (json_response 200 (makeRecordingCurrentJson (al_serialize lib) status)), b)))"

definition route_snapshot :: "app_library \<Rightarrow> PreviewKind \<Rightarrow> Application route" where
  "route_snapshot lib kind = reading (\<lambda>a. Inr (case fresh_preview kind a of
     None \<Rightarrow> no_fresh_frame lib
   | Some preview \<Rightarrow> \<lparr>rp_status = 200, rp_content_type = ''image/jpeg'', rp_body = bytes_string (ep_jpeg preview),
       rp_headers = makeIdentityHeaders (ep_identity preview) (ap_transform a)\<rparr>))"

definition route_stream :: "PreviewKind \<Rightarrow> (Application, ProviderStreamFrame option) act" where
  "route_stream kind = getS (\<lambda>a. makeStreamFrame (fresh_preview kind a) (ap_transform a))"

definition route_pointcloud :: "app_library \<Rightarrow> Application route" where
  "route_pointcloud lib = reading (\<lambda>a. case fresh_frame a of
     None \<Rightarrow> Inr (no_fresh_frame lib)
   | Some frame \<Rightarrow>
       bindE (buildPointCloudSnapshot frame POINTCLOUD_MAX_POINTS POINTCLOUD_STRIDE_PIXELS) (\<lambda>cloud.
       bindE (buildMountFromCameraMatrix3x4 (ap_transform a)) (\<lambda>matrix.
       bindE (writePcd1V2 (cloud\<lparr>pc_matrix3x4 := matrix\<rparr>)) (\<lambda>bytes.
       Inr \<lparr>rp_status = 200, rp_content_type = ''application/octet-stream'', rp_body = bytes_string bytes,
            rp_headers = makeIdentityHeaders (pc_identity cloud) (ap_transform a)\<rparr>))))"

definition query_response :: "FrameIdentity \<Rightarrow> Application \<Rightarrow> string \<Rightarrow> ProviderHttpResponse" where
  "query_response identity a body = (json_response 200 body)\<lparr>rp_headers := makeIdentityHeaders identity (ap_transform a)\<rparr>"

definition route_roi :: "app_library \<Rightarrow> string \<Rightarrow> Application route" where
  "route_roi lib body = reading (\<lambda>a. Inr (case parseRoiRequest (al_parse lib) body of
     Inl e \<Rightarrow> invalid_request lib ''ROI request is invalid.''
   | Inr request \<Rightarrow> (case fresh_frame a of
       None \<Rightarrow> no_fresh_frame lib
     | Some frame \<Rightarrow>
         (if \<not> isRoiRequestValid request (fs_depth_profile (getSnapshot frame))
          then invalid_request lib ''ROI request is outside the allowed bounds.''
          else (case
              bindE (queryDepthInRoi frame (rr_x request) (rr_y request) (rr_width request) (rr_height request)) (\<lambda>result.
              bindE (serializeRoiDepthResult (al_serialize lib) result (ap_transform a)) (\<lambda>text.
              Inr (query_response (rd_identity result) a text))) of
            Inl e \<Rightarrow> query_failed lib ''ROI query failed.''
          | Inr response \<Rightarrow> response)))))"

definition invalid_pixel :: "CapturedFrame \<Rightarrow> PixelRequest \<Rightarrow> PixelPointResult" where
  "invalid_pixel frame request = default_PixelPointResult\<lparr>pp_identity := frame_identity frame, pp_pixel_x := px_x request,
     pp_pixel_y := px_y request, pp_invalid_reason := ''invalid_depth''\<rparr>"

definition route_pixel :: "app_library \<Rightarrow> string \<Rightarrow> Application route" where
  "route_pixel lib body = reading (\<lambda>a. Inr (case parsePixelRequest (al_parse lib) body of
     Inl e \<Rightarrow> invalid_request lib ''Pixel request is invalid.''
   | Inr request \<Rightarrow> (case fresh_frame a of
       None \<Rightarrow> no_fresh_frame lib
     | Some frame \<Rightarrow>
         (if \<not> isPixelRequestValid request (fs_depth_profile (getSnapshot frame))
          then invalid_request lib ''Pixel request is outside the image.''
          else (case
              bindE (queryPixelPoint frame (px_x request) (px_y request)) (\<lambda>found.
              let result = (case found of None \<Rightarrow> invalid_pixel frame request | Some r \<Rightarrow> r) in
              bindE (serializePixelPointResult (al_serialize lib) result (ap_transform a)) (\<lambda>text.
              Inr (query_response (pp_identity result) a text))) of
            Inl e \<Rightarrow> query_failed lib ''Pixel query failed.''
          | Inr response \<Rightarrow> response)))))"

definition application_routes :: "app_library \<Rightarrow> VisionConfig \<Rightarrow> Application ProviderHttpRoutes" where
  "application_routes lib config =
     (let color = app_isColorEnabled config in
      \<lparr>get_health = Some (route_health lib), get_metadata = Some (route_metadata lib),
       get_color_snapshot = (if color then Some (route_snapshot lib Preview_COLOR) else None),
       get_depth_snapshot = Some (route_snapshot lib Preview_DEPTH),
       get_pointcloud_snapshot = Some (route_pointcloud lib),
       post_roi_depth = Some (route_roi lib), post_pixel_point = Some (route_pixel lib),
       post_recording_start = Some (route_recording_start lib), post_recording_stop = Some (route_recording_stop lib),
       get_recording_current = Some (route_recording_current lib),
       get_color_stream_frame = (if color then Some (route_stream Preview_COLOR) else None),
       get_depth_stream_frame = Some (route_stream Preview_DEPTH)\<rparr>)"

end
