(* ===== verification/AppThreads.thy ===== *)
theory AppThreads
  imports Application
begin

text \<open>
  The lifecycle and the threads of the application (\<^verbatim>\<open>src/runtime/vision_application.cpp\<close>): \<^verbatim>\<open>startApplication\<close> and
  \<^verbatim>\<open>stopApplication\<close> in the sections between which other threads can run, the bodies of the encoder and the
  capture loop, and the steps of the whole program.
\<close>

section \<open>Start\<close>

definition make_adapter :: "VisionConfig \<Rightarrow> camera result" where
  "make_adapter config =
     (if vc_adapter config = ''fake''
      then bindE (FakeCameraAdapter_new (vc_fake config)) (\<lambda>c. Inr (Cam_fake c))
      else bindE (IntelD435Adapter_new (vc_intel_d435 config)) (\<lambda>c. Inr (Cam_d435 c)))"

definition color_profile_of :: "VisionConfig \<Rightarrow> StreamProfile" where
  "color_profile_of config =
     (if vc_adapter config = ''fake''
      then \<lparr>sp_width = fc_width (vc_fake config), sp_height = fc_height (vc_fake config), sp_fps = fc_fps (vc_fake config),
            sp_format = PF_RGB8\<rparr>
      else \<lparr>sp_width = dc_color_width (vc_intel_d435 config), sp_height = dc_color_height (vc_intel_d435 config),
            sp_fps = dc_color_fps (vc_intel_d435 config), sp_format = PF_RGB8\<rparr>)"

definition manager_config :: "VisionConfig \<Rightarrow> nat \<Rightarrow> RecordingManagerConfig" where
  "manager_config config pid =
     (let recording = vc_recording config; calibration = vc_calibration config; profile = color_profile_of config in
      \<lparr>rc_root = rg_root recording, rc_queue_capacity_frames = nat (rg_queue_capacity_frames recording),
       rc_width = sp_width profile, rc_height = sp_height profile, rc_fps = sp_fps profile,
       rc_bit_rate_bps = rg_bit_rate_bps recording, rc_max_duration_ms = rg_max_duration_ms recording,
       rc_minimum_free_bytes = unat (rg_minimum_free_bytes recording),
       rc_finalize_timeout_ms = rg_finalize_timeout_ms recording, rc_preset = rg_preset recording,
       rc_tune = rg_tune recording, rc_sensor_frame = cb_sensor_frame calibration,
       rc_calibration_id = cb_calibration_id calibration, rc_component_id = vc_component_id config,
       rc_device_id = vc_device_id config, rc_instance_id = ''vision-'' @ nat_str pid\<rparr>)"

definition make_recording :: "nat \<Rightarrow> (Application, unit) act" where
  "make_recording pid =
     bindS (getS (\<lambda>a. rg_enabled (vc_recording (ap_config a)))) (\<lambda>enabled.
     if \<not> enabled then retS ()
     else bindS (\<lambda>a. liftS (RecordingManager_new (manager_config (ap_config a) pid) (en_world (ap_env a))) a) (\<lambda>r.
       modS (\<lambda>a. a\<lparr>ap_recording := Some r\<rparr>)))"

definition make_server :: "VisionConfig \<Rightarrow> ProviderHttpServer" where
  "make_server config = (let provider = vc_provider config in
     ProviderHttpServer_new (pv_port provider) (pv_max_connections provider) (pv_max_stream_clients provider)
       (pv_allowed_origins provider))"

definition on_server :: "(ProviderHttpServer, 'a) act \<Rightarrow> (Application, 'a) act" where
  "on_server m = zoomS (\<lambda>a. the (ap_server a)) (\<lambda>sv a. a\<lparr>ap_server := Some sv\<rparr>) m"

text \<open>\<^verbatim>\<open>startApplication\<close> until its server listens, from where on routes may be called.\<close>

definition app_prepare :: "app_library \<Rightarrow> nat \<Rightarrow> listen_outcome \<Rightarrow> (Application, unit) act" where
  "app_prepare lib pid outcome =
     bindS (modS (\<lambda>a. a\<lparr>ap_stop_requested := False, ap_frame_store := FrameStore_clear (ap_frame_store a),
       ap_preview_cache := EncodedPreviewCache_clear (ap_preview_cache a),
       ap_health := default_ProviderHealthSnapshot\<lparr>ph_state := PS_STARTING,
         ph_max_connections := pv_max_connections (vc_provider (ap_config a)),
         ph_max_stream_clients := pv_max_stream_clients (vc_provider (ap_config a))\<rparr>\<rparr>)) (\<lambda>_.
     bindS (\<lambda>a. liftS (buildCameraMountTransform (pb_cosine (al_pilot lib)) (pb_sine (al_pilot lib))
       (vc_calibration (ap_config a))) a) (\<lambda>transform.
     bindS (modS (\<lambda>a. a\<lparr>ap_transform := transform\<rparr>)) (\<lambda>_.
     bindS (\<lambda>a. liftS (make_adapter (ap_config a)) a) (\<lambda>adapter.
     bindS (modS (\<lambda>a. a\<lparr>ap_adapter := Some adapter\<rparr>)) (\<lambda>_.
     bindS (make_recording pid) (\<lambda>_.
     bindS (modS (\<lambda>a. a\<lparr>ap_server := Some (make_server (ap_config a))\<rparr>)) (\<lambda>_.
     bindS (on_server (startServer outcome)) (\<lambda>_.
     modS (\<lambda>a. a\<lparr>ap_health := (ap_health a)\<lparr>ph_listening := True\<rparr>, ap_started := True, ap_main := Start_camera\<rparr>)))))))))"

definition startApplication_begin :: "app_library \<Rightarrow> nat \<Rightarrow> listen_outcome \<Rightarrow> (Application, unit) act" where
  "startApplication_begin lib pid outcome =
     bindS (getS ap_started) (\<lambda>started. if started then retS () else app_prepare lib pid outcome)"

text \<open>
  The \<^verbatim>\<open>try\<close> block: connecting, starting the stream and the two threads, whose creation may fail.
\<close>

definition start_streaming ::
  "(string \<times> string) list \<Rightarrow> string option \<Rightarrow> bool \<Rightarrow> bool \<Rightarrow> (Application, unit) act"
where
  "start_streaming devices start_error encoder_ok capture_ok =
     bindS (on_adapter (connectCamera devices)) (\<lambda>_.
     bindS (on_adapter (startStream_camera start_error)) (\<lambda>_.
     bindS (modS (\<lambda>a. a\<lparr>ap_health := (ap_health a)\<lparr>ph_state := PS_READY\<rparr>\<rparr>)) (\<lambda>_.
     bindS (throw_ifS (\<not> encoder_ok) (System_error ''thread'')) (\<lambda>_.
     bindS (modS (\<lambda>a. a\<lparr>ap_encoder := Enc_wait default_FrameIdentity\<rparr>)) (\<lambda>_.
     bindS (throw_ifS (\<not> capture_ok) (System_error ''thread'')) (\<lambda>_.
     modS (\<lambda>a. a\<lparr>ap_capture := Cap_loop\<rparr>)))))))"

definition startApplication_camera ::
  "(string \<times> string) list \<Rightarrow> string option \<Rightarrow> bool \<Rightarrow> bool \<Rightarrow> Application \<Rightarrow> Application"
where
  "startApplication_camera devices start_error encoder_ok capture_ok a =
     (snd (catchS (start_streaming devices start_error encoder_ok capture_ok)
       (\<lambda>_. modS (\<lambda>a. a\<lparr>ap_health := (ap_health a)\<lparr>ph_state := PS_DEGRADED,
          ph_last_error := ''Camera adapter connection or stream start failed.''\<rparr>\<rparr>)) a))\<lparr>ap_main := Start_pilot\<rparr>"

definition on_pilot :: "(PilotIntegrationClient, 'a) act \<Rightarrow> (Application, 'a) act" where
  "on_pilot m = zoomS (\<lambda>a. the (ap_pilot a)) (\<lambda>p a. a\<lparr>ap_pilot := Some p\<rparr>) m"

text \<open>\<open>random\<close> are the bytes of the random device, \<open>now\<close> is the system clock.\<close>

definition startApplication_pilot :: "app_library \<Rightarrow> u32 list \<Rightarrow> int \<Rightarrow> (Application, unit) act" where
  "startApplication_pilot lib random now =
     bindS (modS (\<lambda>a. a\<lparr>ap_pilot := Some (PilotIntegrationClient_new (ap_config a)), ap_main := Main_idle\<rparr>)) (\<lambda>_.
     bindS (getS (\<lambda>a. ph_state (ap_health a))) (\<lambda>state.
     on_pilot (startClient (al_pilot lib) state None random now)))"

section \<open>Stop\<close>

definition stopApplication_begin :: "Application \<Rightarrow> Application" where
  "stopApplication_begin a =
     (if \<not> ap_started a then a
      else a\<lparr>ap_started := False, ap_health := (ap_health a)\<lparr>ph_state := PS_STOPPING\<rparr>, ap_stop_requested := True,
             ap_main := Stop_pilot\<rparr>)"

text \<open>\<^verbatim>\<open>updateProviderState\<close> and \<^verbatim>\<open>stopClient\<close> up to its join.\<close>

definition stop_pilot :: "Application \<Rightarrow> Application" where
  "stop_pilot a = a\<lparr>ap_pilot := map_option (\<lambda>p. stop_begin (updateProviderState PS_STOPPING p)) (ap_pilot a),
     ap_main := Join_pilot\<rparr>"

text \<open>After the join of the Pilot worker: \<^verbatim>\<open>stopServer\<close> up to its join.\<close>

definition pilot_joinable :: "Application \<Rightarrow> bool" where
  "pilot_joinable a \<longleftrightarrow> (case ap_pilot a of None \<Rightarrow> True | Some p \<Rightarrow> \<not> pi_started p \<or> joinable_ended p)"

definition join_pilot :: "Application \<Rightarrow> Application" where
  "join_pilot a = a\<lparr>ap_pilot := map_option (\<lambda>p. if pi_started p then stop_finish p else p) (ap_pilot a),
     ap_server := map_option stopServer_begin (ap_server a), ap_main := Join_server\<rparr>"

text \<open>
  \<^verbatim>\<open>stopServer\<close> runs the handlers that are left itself, so no posted stop and no accept is pending at its end.
\<close>

definition server_joinable :: "Application \<Rightarrow> bool" where
  "server_joinable a \<longleftrightarrow> (case ap_server a of None \<Rightarrow> True | Some sv \<Rightarrow> \<not> hs_stop_posted sv \<and> \<not> hs_accept_pending sv)"

definition join_server :: "Application \<Rightarrow> Application" where
  "join_server a = a\<lparr>ap_server := map_option stopServer_finish (ap_server a), ap_main := Join_threads\<rparr>"

definition threads_joinable :: "Application \<Rightarrow> bool" where
  "threads_joinable a \<longleftrightarrow> ap_capture a \<in> {Cap_none, Cap_done} \<and> ap_encoder a \<in> {Enc_none, Enc_done}"

text \<open>After the joins: the critical section of \<^verbatim>\<open>RecordingManager::finalize\<close>.\<close>

definition join_threads :: "Application \<Rightarrow> Application" where
  "join_threads a = a\<lparr>ap_capture := Cap_none, ap_encoder := Enc_none,
     ap_recording := map_option (finalize_request (fst (en_stop_now (ap_env a))) (snd (en_stop_now (ap_env a)))) (ap_recording a),
     ap_main := Join_recording\<rparr>"

definition recording_joinable :: "Application \<Rightarrow> bool" where
  "recording_joinable a \<longleftrightarrow> (case ap_recording a of None \<Rightarrow> True
     | Some r \<Rightarrow> m_worker r = None \<or> m_worker r = Some worker_pc.W_returned)"

definition stopApplication_end :: "Application \<Rightarrow> Application" where
  "stopApplication_end a =
     (let b = (if ap_adapter a = None then a
               else snd (on_adapter (bindS stopStream (\<lambda>_. disconnectCamera)) a))
      in b\<lparr>ap_frame_store := FrameStore_clear (ap_frame_store b),
           ap_preview_cache := EncodedPreviewCache_clear (ap_preview_cache b),
           ap_health := (ap_health b)\<lparr>ph_listening := False\<rparr>, ap_main := Main_idle\<rparr>)"

section \<open>The encoder thread\<close>

text \<open>The head of the loop: the wait ends with a newer frame or without one.\<close>

definition encoder_wait :: "FrameIdentity \<Rightarrow> Application \<Rightarrow> Application" where
  "encoder_wait seen a =
     (if ap_stop_requested a then a\<lparr>ap_encoder := Enc_done\<rparr>
      else case waitForFrameAfter seen [ap_frame_store a] of
        None \<Rightarrow> a
      | Some frame \<Rightarrow> a\<lparr>ap_preview_cache := invalidateGeneration (capture_generation (frame_identity frame)) (ap_preview_cache a),
          ap_encoder := Enc_preview Preview_COLOR (frame_identity frame) frame\<rparr>)"

fun encoder_next :: "PreviewKind \<Rightarrow> FrameIdentity \<Rightarrow> CapturedFrame \<Rightarrow> encoder_pc" where
  "encoder_next Preview_COLOR seen frame = Enc_preview Preview_DEPTH seen frame"
| "encoder_next Preview_DEPTH seen frame = Enc_wait seen"

fun view_of :: "PreviewKind \<Rightarrow> CapturedFrame \<Rightarrow> VideoFrameView option" where
  "view_of Preview_COLOR frame = getColorFrameView frame"
| "view_of Preview_DEPTH frame = getDepthPreviewFrameView frame"

text \<open>A published preview is also announced to the server, whose \<^const>\<open>notifySessions\<close> then runs as one of its steps.\<close>

definition encoder_preview :: "app_library \<Rightarrow> PreviewKind \<Rightarrow> FrameIdentity \<Rightarrow> CapturedFrame \<Rightarrow> Application \<Rightarrow> Application" where
  "encoder_preview lib kind seen frame a = (case view_of kind frame of
     None \<Rightarrow> a\<lparr>ap_encoder := encoder_next kind seen frame\<rparr>
   | Some view \<Rightarrow> (case encodeRgbJpeg (al_compress lib) view JPEG_QUALITY of
       Inl e \<Rightarrow> a\<lparr>ap_encoder := Enc_failed kind seen frame\<rparr>
     | Inr jpeg \<Rightarrow> a\<lparr>ap_preview_cache := snd (publishPreview kind (en_now (ap_env a))
           (Some \<lparr>ep_identity = vf_identity view, ep_jpeg = jpeg\<rparr>) (ap_preview_cache a)),
         ap_encoder := encoder_next kind seen frame\<rparr>))"

definition encoder_failed :: "PreviewKind \<Rightarrow> FrameIdentity \<Rightarrow> CapturedFrame \<Rightarrow> Application \<Rightarrow> Application" where
  "encoder_failed kind seen frame a = a\<lparr>ap_health := (ap_health a)\<lparr>ph_last_error :=
     (if kind = Preview_COLOR then ''Color preview JPEG encoding failed.'' else ''Depth preview JPEG encoding failed.'')\<rparr>,
     ap_encoder := encoder_next kind seen frame\<rparr>"

section \<open>The capture thread\<close>

text \<open>\<open>readFrame\<close> and the publication; the handler leaves at once when a stop was requested.\<close>

definition capture_read :: "app_library \<Rightarrow> sdk_read \<Rightarrow> Application \<Rightarrow> Application" where
  "capture_read lib answer a =
     (if ap_stop_requested a then a\<lparr>ap_capture := Cap_done\<rparr>
      else case on_adapter (readFrame lib answer) a of
        (Inl e, b) \<Rightarrow> b\<lparr>ap_capture := Cap_failed\<rparr>
      | (Inr frame, b) \<Rightarrow> b\<lparr>ap_frame_store := snd (publishFrame (en_now (ap_env b)) (Some frame) (ap_frame_store b)),
                           ap_capture := Cap_submit frame\<rparr>)"

definition capture_submit :: "bool \<Rightarrow> CapturedFrame \<Rightarrow> Application \<Rightarrow> Application" where
  "capture_submit owns_lock frame a =
     a\<lparr>ap_recording := map_option (\<lambda>r. snd (trySubmitFrame owns_lock (Some frame) r)) (ap_recording a),
       ap_capture := Cap_loop\<rparr>"

definition capture_failed :: "Application \<Rightarrow> Application" where
  "capture_failed a = a\<lparr>ap_capture := (if ap_stop_requested a then Cap_loop else Cap_degrade)\<rparr>"

definition capture_degrade :: "Application \<Rightarrow> Application" where
  "capture_degrade a =
     (let h = (ap_health a)\<lparr>ph_last_error := ''Camera frame capture failed; retrying.''\<rparr> in
      if ph_state h \<noteq> PS_DEGRADED
      then a\<lparr>ap_health := h\<lparr>ph_state := PS_DEGRADED\<rparr>, ap_capture := Cap_publish\<rparr>
      else a\<lparr>ap_health := h, ap_capture := Cap_loop\<rparr>)"

definition capture_publish :: "Application \<Rightarrow> Application" where
  "capture_publish a = a\<lparr>ap_pilot := map_option (updateProviderState PS_DEGRADED) (ap_pilot a), ap_capture := Cap_loop\<rparr>"

section \<open>Steps\<close>

inductive app_step :: "app_library \<Rightarrow> Application \<Rightarrow> Application \<Rightarrow> bool" for lib :: app_library where
  start: "ap_main a = Main_idle \<Longrightarrow> app_step lib a (snd (startApplication_begin lib pid outcome a))"
| start_camera: "ap_main a = Start_camera \<Longrightarrow>
    app_step lib a (startApplication_camera devices start_error encoder_ok capture_ok a)"
| start_pilot: "ap_main a = Start_pilot \<Longrightarrow> length random = 16 \<Longrightarrow>
    app_step lib a (snd (startApplication_pilot lib random now a))"
| stop: "ap_main a = Main_idle \<Longrightarrow> app_step lib a (stopApplication_begin a)"
| stop_pilot: "ap_main a = Stop_pilot \<Longrightarrow> app_step lib a (stop_pilot a)"
| join_pilot: "ap_main a = Join_pilot \<Longrightarrow> pilot_joinable a \<Longrightarrow> app_step lib a (join_pilot a)"
| join_server: "ap_main a = Join_server \<Longrightarrow> server_joinable a \<Longrightarrow> app_step lib a (join_server a)"
| join_threads: "ap_main a = Join_threads \<Longrightarrow> threads_joinable a \<Longrightarrow> app_step lib a (join_threads a)"
| join_recording: "ap_main a = Join_recording \<Longrightarrow> recording_joinable a \<Longrightarrow> app_step lib a (stopApplication_end a)"
| encoder_wait: "ap_encoder a = Enc_wait seen \<Longrightarrow> app_step lib a (encoder_wait seen a)"
| encoder_preview: "ap_encoder a = Enc_preview kind seen frame \<Longrightarrow> app_step lib a (encoder_preview lib kind seen frame a)"
| encoder_failed: "ap_encoder a = Enc_failed kind seen frame \<Longrightarrow> mutex_free a \<Longrightarrow>
    app_step lib a (encoder_failed kind seen frame a)"
| capture_read: "ap_capture a = Cap_loop \<Longrightarrow> app_step lib a (capture_read lib answer a)"
| capture_submit: "ap_capture a = Cap_submit frame \<Longrightarrow> app_step lib a (capture_submit owns_lock frame a)"
| capture_failed: "ap_capture a = Cap_failed \<Longrightarrow> app_step lib a (capture_failed a)"
| capture_degrade: "ap_capture a = Cap_degrade \<Longrightarrow> mutex_free a \<Longrightarrow> app_step lib a (capture_degrade a)"
| capture_publish: "ap_capture a = Cap_publish \<Longrightarrow> app_step lib a (capture_publish a)"
| http: "ap_server a = Some sv \<Longrightarrow> server_step (application_routes lib (ap_config a)) (sv, a) (sv', a') \<Longrightarrow>
    app_step lib a (a'\<lparr>ap_server := Some sv'\<rparr>)"
| pilot: "ap_pilot a = Some p \<Longrightarrow> worker_step (al_pilot lib) p p' \<Longrightarrow> app_step lib a (a\<lparr>ap_pilot := Some p'\<rparr>)"
| recording: "ap_recording a = Some r \<Longrightarrow> manager_thread (al_recording lib) r r' \<Longrightarrow>
    app_step lib a (a\<lparr>ap_recording := Some r'\<rparr>)"
| environment: "app_step lib a (a\<lparr>ap_env := env\<rparr>)"

inductive app_reachable :: "app_library \<Rightarrow> VisionConfig \<Rightarrow> Application \<Rightarrow> bool"
  for lib :: app_library and config :: VisionConfig where
  new: "app_reachable lib config (VisionApplication_new config env)"
| step: "app_reachable lib config a \<Longrightarrow> app_step lib a b \<Longrightarrow> app_reachable lib config b"

end
