(* ===== verification/HttpFacts.thy ===== *)
theory HttpFacts
  imports HttpSessions
begin

text \<open>
  The invariant of the HTTP provider. Every handler touches one session: \<open>session_ok\<close> says what holds of
  a session between two handlers, by its outstanding operation, and \<open>counts_ok\<close> ties the two counters to
  the open sessions.
\<close>

section \<open>One session\<close>

fun is_part :: "http_message \<Rightarrow> bool" where
  "is_part (Msg_part _ _) = True" | "is_part _ = False"

fun part_key :: "http_message \<Rightarrow> frame_key" where
  "part_key (Msg_part identity _) = key_of identity" | "part_key _ = key_of default_FrameIdentity"

text \<open>Nothing, one answer, or a stream header with parts of strictly newer and newer frames.\<close>

fun protocol :: "http_message list \<Rightarrow> bool" where
  "protocol (Msg_stream_header h # ps) \<longleftrightarrow> list_all is_part ps \<and> sorted_wrt (<) (map part_key ps)"
| "protocol (Msg_part i p # ms) \<longleftrightarrow> False"
| "protocol (m # ms) \<longleftrightarrow> ms = []"
| "protocol [] \<longleftrightarrow> True"

definition parts_of :: "HttpSession \<Rightarrow> http_message list" where
  "parts_of s = tl (ss_sent s)"

definition streams :: "HttpSession \<Rightarrow> bool" where
  "streams s \<longleftrightarrow> ss_streaming s \<and> (\<exists>h ps. ss_sent s = Msg_stream_header h # ps)"

text \<open>Between two parts: what was sent last is remembered.\<close>

definition between :: "HttpSession \<Rightarrow> bool" where
  "between s \<longleftrightarrow> streams s \<and> \<not> ss_write_in_progress s \<and> (ss_has_sent_frame s \<longleftrightarrow> parts_of s \<noteq> []) \<and>
     (parts_of s \<noteq> [] \<longrightarrow> part_key (last (parts_of s)) = key_of (ss_last_sent_identity s))"

fun phase_ok :: "session_op option \<Rightarrow> HttpSession \<Rightarrow> bool" where
  "phase_ok (Some Sop_read) s \<longleftrightarrow> ss_sent s = [] \<and> \<not> ss_streaming s \<and> \<not> ss_write_in_progress s \<and> \<not> ss_has_sent_frame s \<and>
     \<not> ss_idle_live s \<and> ss_idle_stale s = 0"
| "phase_ok (Some Sop_response) s \<longleftrightarrow> ss_sent s \<noteq> [] \<and> \<not> ss_streaming s"
| "phase_ok (Some Sop_header) s \<longleftrightarrow> streams s \<and> ss_write_in_progress s \<and> parts_of s = [] \<and> \<not> ss_has_sent_frame s"
| "phase_ok (Some Sop_part) s \<longleftrightarrow> streams s \<and> ss_write_in_progress s \<and> parts_of s \<noteq> [] \<and>
     (case ss_pending_stream_frame s of None \<Rightarrow> False | Some f \<Rightarrow> part_key (last (parts_of s)) = key_of (sf_identity f))"
| "phase_ok None s \<longleftrightarrow> between s \<and> ss_idle_live s"

definition session_ok :: "HttpSession \<Rightarrow> bool" where
  "session_ok s \<longleftrightarrow> protocol (ss_sent s) \<and> (ss_finished s \<and> ss_op s \<noteq> Some Sop_read \<or> phase_ok (ss_op s) s)"

lemma protocol_snoc:
  "protocol (Msg_stream_header h # ps) \<Longrightarrow> (ps \<noteq> [] \<Longrightarrow> part_key (last ps) < key_of i) \<Longrightarrow>
     protocol (Msg_stream_header h # ps @ [Msg_part i p])"
proof (induction ps rule: rev_induct)
  case (snoc q qs)
  have "part_key x < key_of i" if "x \<in> set (qs @ [q])" for x
    using that snoc.prems by (auto simp: sorted_wrt_append)
  with snoc.prems show ?case by (auto simp: sorted_wrt_append)
qed simp

lemma session_simps [simp]:
  "session_of (on_session i f sv) i = f (session_of sv i)"
  "j \<noteq> i \<Longrightarrow> session_of (on_session i f sv) j = session_of sv j"
  "session_of (closeSession b sv) j = session_of sv j"
  by (simp_all add: session_of_def on_session_def closeSession_def)

lemma cancel_timer_simps [simp]:
  "ss_sent (cancel_timer s) = ss_sent s" "ss_finished (cancel_timer s) = ss_finished s" "ss_op (cancel_timer s) = ss_op s"
  "ss_streaming (cancel_timer s) = ss_streaming s" "ss_write_in_progress (cancel_timer s) = ss_write_in_progress s"
  "ss_has_sent_frame (cancel_timer s) = ss_has_sent_frame s" "ss_stream_kind (cancel_timer s) = ss_stream_kind s"
  "ss_last_sent_identity (cancel_timer s) = ss_last_sent_identity s" "\<not> ss_idle_live (cancel_timer s)"
  "ss_pending_stream_frame (cancel_timer s) = ss_pending_stream_frame s"
  "ss_initial_stream_frame (cancel_timer s) = ss_initial_stream_frame s"
  by (simp_all add: cancel_timer_def)

lemma cancelled_session:
  "ss_finished (session_of (cancelSession i sv) i)" "ss_sent (session_of (cancelSession i sv) i) = ss_sent (session_of sv i)"
  "ss_op (session_of (cancelSession i sv) i) = ss_op (session_of sv i)"
  by (simp_all add: cancelSession_def Let_def)

lemma cancelled_ok:
  "protocol (ss_sent (session_of sv i)) \<Longrightarrow> ss_op (session_of sv i) \<noteq> Some Sop_read \<Longrightarrow>
     session_ok (session_of (cancelSession i sv) i)"
  by (simp add: session_ok_def cancelled_session)

lemma cancel_keeps_ok: "session_ok (session_of sv i) \<Longrightarrow> session_ok (session_of (cancelSession i sv) i)"
  by (cases "ss_op (session_of sv i) = Some Sop_read")
     (auto simp: session_ok_def cancelled_session cancelSession_def Let_def cancel_timer_def)

text \<open>Where a frame may be written, the session is sound again after \<^const>\<open>write_frame\<close>.\<close>

definition may_write :: "HttpSession \<Rightarrow> bool" where
  "may_write s \<longleftrightarrow> protocol (ss_sent s) \<and> between s \<and> ss_op s = None"

lemma may_write_update [simp]:
  "may_write (s\<lparr>ss_initial_stream_frame := f\<rparr>) = may_write s" "may_write (s\<lparr>ss_refresh_pending := b\<rparr>) = may_write s"
  "may_write (cancel_timer s) = may_write s"
  by (simp_all add: may_write_def between_def streams_def parts_of_def)

lemma wait_ok: "may_write (session_of sv i) \<Longrightarrow> session_ok (session_of (waitForStreamFrame i sv) i)"
  by (auto simp: waitForStreamFrame_def session_ok_def may_write_def between_def streams_def parts_of_def)

lemma sendable_newer:
  "sendable s frame = Some (f, jpeg) \<Longrightarrow> ss_has_sent_frame s \<Longrightarrow> key_of (ss_last_sent_identity s) < key_of (sf_identity f)"
  by (auto simp: sendable_def http_isNewerIdentity_key split: option.splits if_splits)

lemma write_frame_ok:
  assumes "may_write (session_of sv i)"
  shows "session_ok (session_of (write_frame i frame sv) i)"
proof (cases "sendable (session_of sv i) frame")
  case None
  then show ?thesis using wait_ok [OF assms] by (simp add: write_frame_def)
next
  case (Some p)
  obtain f jpeg where p: "p = (f, jpeg)" by fastforce
  let ?s = "session_of sv i"
  from assms obtain h ps where sent: "ss_sent ?s = Msg_stream_header h # ps" "protocol (Msg_stream_header h # ps)"
    by (auto simp: may_write_def between_def streams_def)
  have "ps \<noteq> [] \<Longrightarrow> part_key (last ps) < key_of (sf_identity f)"
    using assms sent(1) sendable_newer [of ?s frame f jpeg] Some p
    by (auto simp: may_write_def between_def parts_of_def)
  with protocol_snoc [OF sent(2)] show ?thesis
    using assms Some p sent(1)
    by (auto simp: write_frame_def session_ok_def may_write_def between_def streams_def parts_of_def)
qed

lemma write_latest_ok:
  assumes "may_write (session_of sv i)"
  shows "session_ok (session_of (fst (writeLatestStreamFrame routes i (sv, w))) i) \<or>
    ss_finished (session_of sv i)"
proof -
  let ?sv = "on_session i (\<lambda>s. s\<lparr>ss_initial_stream_frame := None\<rparr>) sv"
  have m: "may_write (session_of ?sv i)" using assms by simp
  then have "protocol (ss_sent (session_of ?sv i))" "ss_op (session_of ?sv i) \<noteq> Some Sop_read"
    by (simp_all add: may_write_def)
  note c = cancelled_ok [OF this] and w = write_frame_ok [OF m]
  have "\<not> ss_write_in_progress (session_of sv i)" using assms by (simp add: may_write_def between_def)
  with c w show ?thesis
    by (auto simp: writeLatestStreamFrame_def Let_def split: option.split prod.split sum.split)
qed

section \<open>The counters\<close>

definition open_set :: "ProviderHttpServer \<Rightarrow> nat set" where
  "open_set sv = {i. open_session sv i}"

definition stream_set :: "ProviderHttpServer \<Rightarrow> nat set" where
  "stream_set sv = {i. open_session sv i \<and> ss_streaming (session_of sv i)}"

definition counts_ok :: "ProviderHttpServer \<Rightarrow> bool" where
  "counts_ok sv \<longleftrightarrow> finite (dom (hs_sessions sv)) \<and> hs_active_connections sv = int (card (open_set sv)) \<and>
     int (card (stream_set sv)) \<le> hs_active_stream_clients sv \<and>
     (hs_acceptor_open sv \<longrightarrow> hs_active_stream_clients sv = int (card (stream_set sv))) \<and>
     hs_active_connections sv \<le> max 0 (hs_max_connections sv) \<and>
     hs_active_stream_clients sv \<le> max 0 (hs_max_stream_clients sv)"

text \<open>A change of one session and the counters only.\<close>

definition touches :: "nat \<Rightarrow> ProviderHttpServer \<Rightarrow> ProviderHttpServer \<Rightarrow> bool" where
  "touches i sv sv' \<longleftrightarrow> (\<forall>j. j \<noteq> i \<longrightarrow> hs_sessions sv' j = hs_sessions sv j) \<and> hs_sessions sv' i \<noteq> None \<and>
     hs_max_connections sv' = hs_max_connections sv \<and> hs_max_stream_clients sv' = hs_max_stream_clients sv \<and>
     hs_next_session_id sv' = hs_next_session_id sv \<and> hs_acceptor_open sv' = hs_acceptor_open sv \<and>
     hs_allowed_origins sv' = hs_allowed_origins sv"

definition good_step :: "nat \<Rightarrow> ProviderHttpServer \<Rightarrow> ProviderHttpServer \<Rightarrow> bool" where
  "good_step i sv sv' \<longleftrightarrow> (hs_sessions sv i \<noteq> None \<longrightarrow> touches i sv sv' \<and> (counts_ok sv \<longrightarrow> counts_ok sv'))"

lemma good_refl: "good_step i sv sv"
  by (simp add: good_step_def touches_def)

lemma good_trans: "good_step i sv sv' \<Longrightarrow> good_step i sv' sv'' \<Longrightarrow> good_step i sv sv''"
  by (simp add: good_step_def touches_def)

lemma sets_on_session:
  assumes "hs_sessions sv i \<noteq> None" "\<And>s. ss_finished (f s) = ss_finished s" "\<And>s. ss_streaming (f s) = ss_streaming s"
  shows "open_set (on_session i f sv) = open_set sv" "stream_set (on_session i f sv) = stream_set sv"
proof -
  obtain s where "hs_sessions sv i = Some s" using assms(1) by blast
  then have o: "open_session (on_session i f sv) j \<longleftrightarrow> open_session sv j" for j
    by (simp add: open_session_def on_session_def session_of_def assms(2))
  then show "open_set (on_session i f sv) = open_set sv" by (simp add: open_set_def)
  have "ss_streaming (session_of (on_session i f sv) j) = ss_streaming (session_of sv j)" for j
    by (cases "j = i") (simp_all add: assms(3))
  with o show "stream_set (on_session i f sv) = stream_set sv" by (simp add: stream_set_def)
qed

lemma on_session_frame [simp]:
  "hs_active_connections (on_session i f sv) = hs_active_connections sv"
  "hs_active_stream_clients (on_session i f sv) = hs_active_stream_clients sv"
  "hs_max_connections (on_session i f sv) = hs_max_connections sv"
  "hs_max_stream_clients (on_session i f sv) = hs_max_stream_clients sv"
  "hs_acceptor_open (on_session i f sv) = hs_acceptor_open sv"
  "hs_allowed_origins (on_session i f sv) = hs_allowed_origins sv"
  "dom (hs_sessions (on_session i f sv)) = insert i (dom (hs_sessions sv))"
  by (simp_all add: on_session_def)

lemma touches_on_session: "touches i sv (on_session i f sv)"
  by (simp add: touches_def on_session_def)

lemma good_on_session:
  "(\<And>s. ss_finished (f s) = ss_finished s) \<Longrightarrow> (\<And>s. ss_streaming (f s) = ss_streaming s) \<Longrightarrow> good_step i sv (on_session i f sv)"
  by (simp add: good_step_def touches_on_session counts_ok_def sets_on_session)

lemma finite_sets: "counts_ok sv \<Longrightarrow> finite (open_set sv) \<and> finite (stream_set sv)"
proof -
  assume "counts_ok sv"
  then have f: "finite (dom (hs_sessions sv))" by (simp add: counts_ok_def)
  moreover have "open_set sv \<subseteq> dom (hs_sessions sv)" "stream_set sv \<subseteq> dom (hs_sessions sv)"
    by (auto simp: open_set_def stream_set_def open_session_def)
  ultimately show ?thesis by (blast intro: finite_subset)
qed

lemma cancel_sets:
  assumes "hs_sessions sv i \<noteq> None"
  shows "open_set (cancelSession i sv) = open_set sv - {i}" "stream_set (cancelSession i sv) = stream_set sv - {i}"
proof -
  have o: "open_session (cancelSession i sv) j \<longleftrightarrow> open_session sv j \<and> j \<noteq> i" for j
    using assms by (auto simp: open_session_def cancelSession_def closeSession_def on_session_def session_of_def Let_def)
  then show "open_set (cancelSession i sv) = open_set sv - {i}" by (auto simp: open_set_def)
  have "j \<noteq> i \<Longrightarrow> session_of (cancelSession i sv) j = session_of sv j" for j
    by (simp add: cancelSession_def Let_def)
  with o show "stream_set (cancelSession i sv) = stream_set sv - {i}" by (auto simp: stream_set_def)
qed

lemma good_cancel: "good_step i sv (cancelSession i sv)"
proof (cases "ss_finished (session_of sv i)")
  case True
  then show ?thesis by (simp add: cancelSession_def good_refl)
next
  case False
  let ?t = "cancelSession i sv"
  have "touches i sv ?t" using touches_on_session [of i sv] False
    by (simp add: cancelSession_def closeSession_def touches_def Let_def)
  moreover have "counts_ok ?t" if c: "counts_ok sv" and i: "hs_sessions sv i \<noteq> None"
  proof -
    have io: "i \<in> open_set sv" using i False by (auto simp: open_set_def open_session_def session_of_def)
    have ist: "i \<in> stream_set sv \<longleftrightarrow> ss_streaming (session_of sv i)" using io by (simp add: open_set_def stream_set_def)
    note f = finite_sets [OF c] and s = cancel_sets [OF i]
    have co: "card (open_set ?t) = card (open_set sv) - 1" "0 < card (open_set sv)"
      using io f by (auto simp: s card_gt_0_iff)
    have cs: "card (stream_set ?t) = (if ss_streaming (session_of sv i) then card (stream_set sv) - 1 else card (stream_set sv))"
      "ss_streaming (session_of sv i) \<Longrightarrow> 0 < card (stream_set sv)"
      using ist f by (auto simp: s card_gt_0_iff)
    have t: "hs_active_connections ?t = (if hs_active_connections sv > 0 then hs_active_connections sv - 1 else hs_active_connections sv)"
      "hs_active_stream_clients ?t = (if ss_streaming (session_of sv i) \<and> hs_active_stream_clients sv > 0
         then hs_active_stream_clients sv - 1 else hs_active_stream_clients sv)"
      "dom (hs_sessions ?t) = dom (hs_sessions sv)" "hs_max_connections ?t = hs_max_connections sv"
      "hs_max_stream_clients ?t = hs_max_stream_clients sv" "hs_acceptor_open ?t = hs_acceptor_open sv"
      using False i by (simp_all add: cancelSession_def closeSession_def Let_def on_session_def insert_absorb domI domIff)
    show ?thesis
      using c co cs unfolding counts_ok_def t by (cases "ss_streaming (session_of sv i)") auto
  qed
  ultimately show ?thesis by (simp add: good_step_def)
qed

section \<open>Every handler\<close>

lemma good_wait: "good_step i sv (waitForStreamFrame i sv)"
  by (simp add: waitForStreamFrame_def good_refl good_on_session)

lemma good_write_frame: "good_step i sv (write_frame i frame sv)"
  by (simp add: write_frame_def good_wait good_on_session split: option.split)

lemma good_send: "good_step i sv (sendResponse i r sv)" "good_step i sv (sendPreflightResponse i sv)"
  by (simp_all add: sendResponse_def sendPreflightResponse_def good_on_session)

lemma good_latest: "good_step i sv (fst (writeLatestStreamFrame routes i (sv, w)))"
proof -
  let ?sv = "on_session i (\<lambda>s. s\<lparr>ss_initial_stream_frame := None\<rparr>) sv"
  have a: "good_step i sv ?sv" by (simp add: good_on_session)
  show ?thesis
    using good_refl [of i sv] good_trans [OF a good_cancel] good_trans [OF a good_write_frame]
    by (simp add: writeLatestStreamFrame_def Let_def split: option.split prod.split sum.split)
qed

lemma good_header: "good_step i sv (fst (handleStreamHeaderWritten routes i error (sv, w)))"
proof -
  let ?sv = "on_session i (\<lambda>s. s\<lparr>ss_op := None, ss_write_in_progress := False\<rparr>) sv"
  have a: "good_step i sv ?sv" by (simp add: good_on_session)
  show ?thesis
    using good_trans [OF a good_cancel] good_trans [OF a good_latest [of i _ routes w]]
    by (simp add: handleStreamHeaderWritten_def Let_def)
qed

definition remember_sent :: "HttpSession \<Rightarrow> HttpSession" where
  "remember_sent s = s\<lparr>ss_last_sent_identity := (case ss_pending_stream_frame s of
     None \<Rightarrow> ss_last_sent_identity s | Some f \<Rightarrow> sf_identity f), ss_has_sent_frame := True, ss_pending_stream_frame := None\<rparr>"

lemma good_part: "good_step i sv (fst (handleStreamPartWritten routes i error (sv, w)))"
proof -
  let ?sv = "on_session i (\<lambda>s. s\<lparr>ss_op := None, ss_write_in_progress := False\<rparr>) sv"
  let ?sv1 = "on_session i remember_sent ?sv"
  let ?sv2 = "on_session i (\<lambda>s. s\<lparr>ss_refresh_pending := False\<rparr>) ?sv1"
  have a: "good_step i sv ?sv" by (simp add: good_on_session)
  have b: "good_step i sv ?sv1" by (rule good_trans [OF a]) (simp add: remember_sent_def good_on_session)
  have c: "good_step i sv ?sv2" by (rule good_trans [OF b]) (simp add: good_on_session)
  show ?thesis
    using good_trans [OF a good_cancel] good_trans [OF b good_wait] good_trans [OF c good_latest [of i _ routes w]]
    by (simp add: handleStreamPartWritten_def Let_def remember_sent_def [abs_def])
qed

lemma good_notify: "good_step i sv (fst (session_notifyStreamFrame routes kind i (sv, w)))"
proof -
  have a: "good_step i sv (on_session i cancel_timer sv)" by (simp add: good_on_session)
  have b: "good_step i sv (on_session i (\<lambda>s. s\<lparr>ss_refresh_pending := True\<rparr>) sv)" by (simp add: good_on_session)
  show ?thesis
    using good_refl [of i sv] good_trans [OF a good_latest [of i _ routes w]] b by (simp add: session_notifyStreamFrame_def Let_def)
qed

text \<open>Admission: the session must not have been closed behind the server's back.\<close>

lemma good_admit:
  assumes "admitStream sv = (True, sv1)" "\<not> ss_streaming (session_of sv i)" "hs_acceptor_open sv \<longrightarrow> \<not> ss_finished (session_of sv i)"
    and "\<And>s. ss_finished (f s) = ss_finished s" "\<And>s. ss_streaming (f s)"
  shows "good_step i sv (on_session i f sv1)"
proof -
  from assms(1) have sv1: "sv1 = sv\<lparr>hs_active_stream_clients := hs_active_stream_clients sv + 1\<rparr>"
    and room: "hs_active_stream_clients sv < hs_max_stream_clients sv" by (auto simp: admitStream_def split: if_splits)
  let ?t = "on_session i f sv1"
  have eq: "session_of sv1 j = session_of sv j" for j by (simp add: sv1 session_of_def)
  have t: "touches i sv ?t" using touches_on_session [of i sv1 f] by (simp add: touches_def sv1)
  have "counts_ok ?t" if c: "counts_ok sv" and i: "hs_sessions sv i \<noteq> None"
  proof -
    obtain s where s: "hs_sessions sv i = Some s" using i by blast
    then have o: "open_session ?t j \<longleftrightarrow> open_session sv j" for j
      by (simp add: open_session_def on_session_def session_of_def sv1 assms(4))
    have st: "ss_streaming (session_of ?t j) \<longleftrightarrow> j = i \<or> ss_streaming (session_of sv j)" for j
      by (cases "j = i") (simp_all add: eq assms(5))
    have os: "open_set ?t = open_set sv" by (simp add: open_set_def o)
    have ss: "stream_set ?t = (if open_session sv i then insert i (stream_set sv) else stream_set sv)"
      by (auto simp: stream_set_def o st)
    have n: "i \<notin> stream_set sv" using assms(2) by (simp add: stream_set_def)
    have op: "hs_acceptor_open sv \<longrightarrow> open_session sv i" using assms(3) s by (simp add: open_session_def session_of_def)
    have cs: "card (stream_set ?t) = (if open_session sv i then card (stream_set sv) + 1 else card (stream_set sv))"
      using finite_sets [OF c] n by (simp add: ss)
    have fr: "hs_active_connections ?t = hs_active_connections sv" "hs_active_stream_clients ?t = hs_active_stream_clients sv + 1"
      "hs_max_connections ?t = hs_max_connections sv" "hs_max_stream_clients ?t = hs_max_stream_clients sv"
      "hs_acceptor_open ?t = hs_acceptor_open sv" "dom (hs_sessions ?t) = dom (hs_sessions sv)"
      using i by (simp_all add: sv1 on_session_def insert_absorb domIff)
    show ?thesis using c cs op room unfolding counts_ok_def fr os by (cases "open_session sv i") auto
  qed
  with t show ?thesis by (simp add: good_step_def)
qed

lemma good_start_stream:
  assumes "\<not> ss_streaming (session_of sv i)" "hs_acceptor_open sv \<longrightarrow> \<not> ss_finished (session_of sv i)"
  shows "good_step i sv (fst (startStream routes i kind (sv, w)))"
proof -
  have f: "good_step i sv (sendResponse i r sv1)" if "admitStream sv = (False, sv1)" for r sv1
    using that by (auto simp: admitStream_def good_send split: if_splits)
  show ?thesis
    using good_send(1) [of i sv] f good_admit [OF _ assms]
    by (simp add: startStream_def split: option.split prod.split sum.split bool.split)
qed

lemma good_request:
  fixes w :: 'a
  assumes "handleRequest routes i outcome (sv, w) = Some (sv', w')"
    and "\<not> ss_streaming (session_of sv i)" "hs_acceptor_open sv \<longrightarrow> \<not> ss_finished (session_of sv i)"
  shows "good_step i sv sv'"
proof -
  let ?sv = "on_session i (\<lambda>s. s\<lparr>ss_op := None\<rparr>) sv"
  let ?sv1 = "\<lambda>origin. on_session i (\<lambda>s. s\<lparr>ss_allowed_origin := origin\<rparr>) ?sv"
  have a: "good_step i sv ?sv" by (simp add: good_on_session)
  have b: "good_step i sv (?sv1 origin)" for origin by (rule good_trans [OF a]) (simp add: good_on_session)
  have c: "good_step i (?sv1 origin) (fst (startStream routes i kind (?sv1 origin, v)))" for origin kind and v :: 'a
    by (rule good_start_stream) (use assms(2,3) in simp_all)
  show ?thesis
    using assms(1) good_trans [OF a good_cancel] good_trans [OF b good_send(1)] good_trans [OF b good_send(2)]
      good_trans [OF b c]
    by (auto simp: handleRequest_def Let_def split: option.splits request_decision.splits dest!: arg_cong [of _ _ fst])
qed

section \<open>The session after its handler\<close>

lemma write_latest_sound:
  assumes "may_write (session_of sv i)" "\<not> ss_finished (session_of sv i)"
  shows "session_ok (session_of (fst (writeLatestStreamFrame routes i (sv, w))) i)"
  using write_latest_ok [OF assms(1), of routes w] assms(2) by blast

lemma session_protocol: "session_ok s \<Longrightarrow> protocol (ss_sent s)"
  by (simp add: session_ok_def)

lemma header_sound:
  assumes "session_ok (session_of sv i)" "ss_op (session_of sv i) = Some Sop_header"
  shows "session_ok (session_of (fst (handleStreamHeaderWritten routes i error (sv, w))) i)"
proof -
  let ?sv = "on_session i (\<lambda>s. s\<lparr>ss_op := None, ss_write_in_progress := False\<rparr>) sv"
  have c: "session_ok (session_of (cancelSession i ?sv) i)"
    by (rule cancelled_ok) (simp_all add: session_protocol [OF assms(1)])
  have "may_write (session_of ?sv i)" if "\<not> ss_finished (session_of sv i)"
    using assms that by (simp add: session_ok_def may_write_def between_def streams_def parts_of_def)
  with c write_latest_sound [of ?sv i routes w] show ?thesis by (auto simp: handleStreamHeaderWritten_def Let_def)
qed

lemma part_sound:
  assumes "session_ok (session_of sv i)" "ss_op (session_of sv i) = Some Sop_part"
  shows "session_ok (session_of (fst (handleStreamPartWritten routes i error (sv, w))) i)"
proof -
  let ?sv = "on_session i (\<lambda>s. s\<lparr>ss_op := None, ss_write_in_progress := False\<rparr>) sv"
  let ?sv1 = "on_session i remember_sent ?sv"
  let ?sv2 = "on_session i (\<lambda>s. s\<lparr>ss_refresh_pending := False\<rparr>) ?sv1"
  have c: "session_ok (session_of (cancelSession i ?sv) i)"
    by (rule cancelled_ok) (simp_all add: session_protocol [OF assms(1)])
  have "may_write (session_of ?sv1 i)" if "\<not> ss_finished (session_of sv i)"
    using assms that
    by (auto simp: session_ok_def may_write_def between_def streams_def parts_of_def remember_sent_def split: option.splits)
  then have "\<not> ss_finished (session_of sv i) \<Longrightarrow> session_ok (session_of (waitForStreamFrame i ?sv1) i)"
    "\<not> ss_finished (session_of sv i) \<Longrightarrow> session_ok (session_of (fst (writeLatestStreamFrame routes i (?sv2, w))) i)"
    by (simp_all add: wait_ok write_latest_sound remember_sent_def)
  with c show ?thesis by (auto simp: handleStreamPartWritten_def Let_def remember_sent_def [abs_def])
qed

lemma idle_stream: "session_ok s \<Longrightarrow> \<not> ss_finished s \<Longrightarrow> ss_streaming s \<Longrightarrow> \<not> ss_write_in_progress s \<Longrightarrow> may_write s"
proof (cases "ss_op s")
  case (Some op)
  assume "session_ok s" "\<not> ss_finished s" "ss_streaming s" "\<not> ss_write_in_progress s"
  with Some show ?thesis by (cases op) (simp_all add: session_ok_def)
qed (simp add: session_ok_def may_write_def)

lemma refresh_sound: "session_ok s \<Longrightarrow> session_ok (s\<lparr>ss_refresh_pending := True\<rparr>)"
proof (cases "ss_op s")
  case (Some op)
  assume "session_ok s"
  with Some show ?thesis by (cases op) (auto simp: session_ok_def streams_def parts_of_def split: option.splits)
qed (auto simp: session_ok_def between_def streams_def parts_of_def)

lemma notify_sound:
  assumes "session_ok (session_of sv i)"
  shows "session_ok (session_of (fst (session_notifyStreamFrame routes kind i (sv, w))) i)"
proof -
  let ?s = "session_of sv i"
  have "session_ok (session_of (fst (writeLatestStreamFrame routes i (on_session i cancel_timer sv, w))) i)"
    if "\<not> ss_finished ?s" "ss_streaming ?s" "\<not> ss_write_in_progress ?s"
    using idle_stream [OF assms that] that by (intro write_latest_sound) simp_all
  then show ?thesis using assms refresh_sound [OF assms] by (simp add: session_notifyStreamFrame_def Let_def)
qed

lemma start_stream_sound:
  assumes "ss_sent (session_of sv i) = []" "\<not> ss_streaming (session_of sv i)" "\<not> ss_has_sent_frame (session_of sv i)"
  shows "session_ok (session_of (fst (startStream routes i kind (sv, w))) i) \<and>
    ss_op (session_of (fst (startStream routes i kind (sv, w))) i) \<noteq> Some Sop_read"
proof -
  have r: "session_ok (session_of (sendResponse i r sv1) i) \<and> ss_op (session_of (sendResponse i r sv1) i) \<noteq> Some Sop_read"
    if "session_of sv1 i = session_of sv i" for r sv1
    using assms that by (simp add: sendResponse_def session_ok_def)
  have a: "session_of (snd (admitStream sv)) i = session_of sv i" by (simp add: admitStream_def session_of_def)
  let ?f = "\<lambda>frame s. s\<lparr>ss_streaming := True, ss_stream_kind := kind,
    ss_initial_stream_frame := frame, ss_write_in_progress := True, ss_op := Some Sop_header,
    ss_sent := ss_sent s @ [Msg_stream_header (stream_fields (ss_allowed_origin s))]\<rparr>"
  have h: "session_ok (?f frame (session_of sv i))" for frame
    using assms by (simp add: session_ok_def streams_def parts_of_def)
  have "\<And>b sv1. admitStream sv = (b, sv1) \<Longrightarrow> session_of sv1 i = session_of sv i" using a by simp
  with r h show ?thesis by (simp add: startStream_def split: option.split prod.split sum.split bool.split)
qed

lemma request_sound:
  assumes "handleRequest routes i outcome (sv, w) = Some (sv', w')"
    and "session_ok (session_of sv i)" "ss_op (session_of sv i) = Some Sop_read"
  shows "session_ok (session_of sv' i) \<and> ss_op (session_of sv' i) \<noteq> Some Sop_read"
proof -
  let ?sv = "on_session i (\<lambda>s. s\<lparr>ss_op := None\<rparr>) sv"
  have p: "ss_sent (session_of sv i) = []" "\<not> ss_streaming (session_of sv i)" "\<not> ss_has_sent_frame (session_of sv i)"
    using assms(2,3) by (simp_all add: session_ok_def)
  have c: "session_ok (session_of (cancelSession i ?sv) i) \<and> ss_op (session_of (cancelSession i ?sv) i) \<noteq> Some Sop_read"
    using p by (simp add: cancelled_ok cancelled_session)
  have st: "startStream routes i kind (on_session i (\<lambda>s. s\<lparr>ss_allowed_origin := x\<rparr>) ?sv, v) = (sv', w') \<Longrightarrow>
      session_ok (session_of sv' i) \<and> ss_op (session_of sv' i) \<noteq> Some Sop_read" for kind x v
    using start_stream_sound [of "on_session i (\<lambda>s. s\<lparr>ss_allowed_origin := x\<rparr>) ?sv" i routes kind v] p by simp
  show ?thesis
    using assms(1) c st p
    by (auto simp: handleRequest_def Let_def sendResponse_def sendPreflightResponse_def session_ok_def
        split: option.splits request_decision.splits)
qed

section \<open>The invariant\<close>

definition sess_inv :: "ProviderHttpServer \<Rightarrow> nat \<Rightarrow> bool" where
  "sess_inv sv i \<longleftrightarrow> session_ok (session_of sv i) \<and> i \<le> hs_next_session_id sv \<and>
     (hs_acceptor_open sv \<and> ss_op (session_of sv i) = Some Sop_read \<longrightarrow> \<not> ss_finished (session_of sv i))"

definition server_inv :: "ProviderHttpServer \<Rightarrow> bool" where
  "server_inv sv \<longleftrightarrow> counts_ok sv \<and> (\<forall>i. hs_sessions sv i \<noteq> None \<longrightarrow> sess_inv sv i)"

lemma server_inv_step:
  assumes "good_step i sv sv'" "server_inv sv" "hs_sessions sv i \<noteq> None" "session_ok (session_of sv' i)"
    and "hs_acceptor_open sv' \<and> ss_op (session_of sv' i) = Some Sop_read \<longrightarrow> \<not> ss_finished (session_of sv' i)"
  shows "server_inv sv'"
proof -
  have t: "touches i sv sv'" "counts_ok sv'" using assms(1-3) by (auto simp: good_step_def server_inv_def)
  have "sess_inv sv' j" if "hs_sessions sv' j \<noteq> None" for j
  proof (cases "j = i")
    case True
    with assms(2-5) t(1) show ?thesis by (auto simp: sess_inv_def server_inv_def touches_def)
  next
    case False
    then have e: "hs_sessions sv' j = hs_sessions sv j" using t(1) by (simp add: touches_def)
    then have "session_of sv' j = session_of sv j" by (simp add: session_of_def)
    with e that assms(2) t(1) show ?thesis by (auto simp: sess_inv_def server_inv_def touches_def)
  qed
  with t(2) show ?thesis by (simp add: server_inv_def)
qed

lemma pending_session:
  "pending_op sv i op \<Longrightarrow> server_inv sv \<Longrightarrow>
     hs_sessions sv i \<noteq> None \<and> ss_op (session_of sv i) = Some op \<and> sess_inv sv i"
  by (auto simp: pending_op_def session_of_def server_inv_def)

lemma good_keeps: "good_step i sv sv' \<Longrightarrow> hs_sessions sv i \<noteq> None \<Longrightarrow> hs_acceptor_open sv' = hs_acceptor_open sv"
  by (simp add: good_step_def touches_def)

lemma handler_inv:
  assumes "server_inv sv" "hs_sessions sv i \<noteq> None" "good_step i sv sv'" "session_ok (session_of sv' i)"
    and "ss_op (session_of sv' i) \<noteq> Some Sop_read"
  shows "server_inv sv'"
  by (rule server_inv_step [OF assms(3) assms(1,2,4)]) (simp add: assms(5))

lemma cancel_inv:
  assumes "server_inv sv" "hs_sessions sv i \<noteq> None" "ss_op (session_of sv i) \<noteq> Some Sop_read \<or> \<not> hs_acceptor_open sv"
  shows "server_inv (cancelSession i sv)"
proof (rule server_inv_step [OF good_cancel assms(1,2)])
  have "session_ok (session_of sv i)" using assms(1,2) by (simp add: server_inv_def sess_inv_def)
  then show "session_ok (session_of (cancelSession i sv) i)" by (rule cancel_keeps_ok)
qed (use assms(3) good_keeps [OF good_cancel assms(2)] in \<open>auto simp: cancelled_session\<close>)

lemma cancelled_inv:
  assumes "server_inv sv" "hs_sessions sv i \<noteq> None" "\<And>s. ss_finished (f s) = ss_finished s"
    "\<And>s. ss_streaming (f s) = ss_streaming s" "\<And>s. ss_sent (f s) = ss_sent s" "ss_op (f (session_of sv i)) \<noteq> Some Sop_read"
  shows "server_inv (cancelSession i (on_session i f sv))"
proof (rule handler_inv [OF assms(1,2)])
  show "good_step i sv (cancelSession i (on_session i f sv))"
    by (rule good_trans [OF good_on_session good_cancel]) (simp_all add: assms(3,4))
  have "protocol (ss_sent (session_of sv i))" using assms(1,2) session_protocol by (auto simp: server_inv_def sess_inv_def)
  then show "session_ok (session_of (cancelSession i (on_session i f sv)) i)"
    using assms(5,6) by (intro cancelled_ok) simp_all
qed (simp add: cancelled_session assms(6))

lemma op_none_read [simp]: "ss_op (session_of sv i) = None \<Longrightarrow> ss_op (session_of sv i) \<noteq> Some Sop_read"
  by simp

lemma latest_not_read:
  "ss_op (session_of sv i) \<noteq> Some Sop_read \<Longrightarrow> ss_op (session_of (fst (writeLatestStreamFrame routes i (sv, w))) i) \<noteq> Some Sop_read"
  by (auto simp: writeLatestStreamFrame_def write_frame_def waitForStreamFrame_def Let_def cancelled_session
      split: option.split prod.split sum.split)

lemma read_inv:
  assumes "pending_op sv i Sop_read" "server_inv sv" "handleRequest routes i outcome (sv, w) = Some st"
  shows "server_inv (fst st)"
proof -
  from pending_session [OF assms(1,2)] have i: "hs_sessions sv i \<noteq> None" "ss_op (session_of sv i) = Some Sop_read"
    and inv: "sess_inv sv i" by simp_all
  then have s: "session_ok (session_of sv i)" "hs_acceptor_open sv \<longrightarrow> \<not> ss_finished (session_of sv i)"
    by (simp_all add: sess_inv_def)
  then have "\<not> ss_streaming (session_of sv i)" using i(2) by (simp add: session_ok_def)
  obtain sv' w' where st: "st = (sv', w')" by fastforce
  have r: "handleRequest routes i outcome (sv, w) = Some (sv', w')" using assms(3) st by simp
  note q = request_sound [OF r s(1) i(2)] and g = good_request [OF r \<open>\<not> ss_streaming (session_of sv i)\<close> s(2)]
  show ?thesis using handler_inv [OF assms(2) i(1) g] q st by simp
qed

lemma header_inv:
  assumes "pending_op sv i Sop_header" "server_inv sv"
  shows "server_inv (fst (handleStreamHeaderWritten routes i error (sv, w)))"
proof -
  from pending_session [OF assms] have i: "hs_sessions sv i \<noteq> None" "ss_op (session_of sv i) = Some Sop_header"
    and "session_ok (session_of sv i)" by (simp_all add: sess_inv_def)
  note header_sound [OF this(3,2), of routes error w]
  moreover have "ss_op (session_of (fst (handleStreamHeaderWritten routes i error (sv, w))) i) \<noteq> Some Sop_read"
    by (simp add: handleStreamHeaderWritten_def Let_def cancelled_session latest_not_read)
  ultimately show ?thesis by (rule handler_inv [OF assms(2) i(1) good_header])
qed

lemma part_inv:
  assumes "pending_op sv i Sop_part" "server_inv sv"
  shows "server_inv (fst (handleStreamPartWritten routes i error (sv, w)))"
proof -
  from pending_session [OF assms] have i: "hs_sessions sv i \<noteq> None" "ss_op (session_of sv i) = Some Sop_part"
    and "session_ok (session_of sv i)" by (simp_all add: sess_inv_def)
  note part_sound [OF this(3,2), of routes error w]
  moreover have "ss_op (session_of (fst (handleStreamPartWritten routes i error (sv, w))) i) \<noteq> Some Sop_read"
    by (simp add: handleStreamPartWritten_def Let_def cancelled_session latest_not_read waitForStreamFrame_def)
  ultimately show ?thesis by (rule handler_inv [OF assms(2) i(1) good_part])
qed

lemma notify_inv:
  assumes "server_inv sv" "hs_sessions sv i \<noteq> None"
  shows "server_inv (fst (session_notifyStreamFrame routes kind i (sv, w)))"
proof (cases "ss_op (session_of sv i) = Some Sop_read")
  case True
  then have "\<not> ss_streaming (session_of sv i)"
    using assms by (auto simp: server_inv_def sess_inv_def session_ok_def)
  then show ?thesis using assms(1) by (simp add: session_notifyStreamFrame_def)
next
  case False
  have "session_ok (session_of sv i)" using assms by (auto simp: server_inv_def sess_inv_def)
  note notify_sound [OF this, of routes kind w]
  moreover have "ss_op (session_of (fst (session_notifyStreamFrame routes kind i (sv, w))) i) \<noteq> Some Sop_read"
    using False by (simp add: session_notifyStreamFrame_def Let_def latest_not_read)
  ultimately show ?thesis by (rule handler_inv [OF assms good_notify])
qed

lemma good_dom: "good_step i sv sv' \<Longrightarrow> hs_sessions sv i \<noteq> None \<Longrightarrow> hs_sessions sv' j \<noteq> None \<longleftrightarrow> hs_sessions sv j \<noteq> None"
  by (cases "j = i") (auto simp: good_step_def touches_def)

lemma notify_all_inv:
  "notifySessions routes kind order (sv, w) = Some st \<Longrightarrow> server_inv sv \<Longrightarrow> (\<forall>i \<in> set order. hs_sessions sv i \<noteq> None) \<Longrightarrow>
     server_inv (fst st)"
proof (induction order arbitrary: sv w)
  case (Cons i order)
  let ?st = "session_notifyStreamFrame routes kind i (sv, w)"
  have i: "hs_sessions sv i \<noteq> None" using Cons.prems(3) by simp
  have r: "notifySessions routes kind order (fst ?st, snd ?st) = Some st"
    using Cons.prems(1) by (simp add: Let_def split: if_splits)
  have d: "\<forall>j \<in> set order. hs_sessions (fst ?st) j \<noteq> None"
    using Cons.prems(3) good_dom [OF good_notify [of i sv routes kind w] i] by simp
  show ?case by (rule Cons.IH [OF r notify_inv [OF Cons.prems(2) i] d])
qed auto

lemma stop_all_inv:
  "server_inv sv \<Longrightarrow> \<not> hs_acceptor_open sv \<Longrightarrow> (\<forall>i \<in> set ids. hs_sessions sv i \<noteq> None) \<Longrightarrow>
     server_inv (foldl (\<lambda>sv i. cancelSession i sv) sv ids)"
proof (induction ids arbitrary: sv)
  case (Cons i ids)
  have i: "hs_sessions sv i \<noteq> None" using Cons.prems(3) by simp
  have "server_inv (cancelSession i sv)" using Cons.prems i by (simp add: cancel_inv)
  moreover have "\<not> hs_acceptor_open (cancelSession i sv)" using good_keeps [OF good_cancel i] Cons.prems(2) by simp
  moreover have "\<forall>j \<in> set ids. hs_sessions (cancelSession i sv) j \<noteq> None"
    using Cons.prems(3) good_dom [OF good_cancel i] by simp
  ultimately show ?case using Cons.IH by simp
qed simp

section \<open>The listener\<close>

lemma accept_inv:
  assumes "server_inv sv"
  shows "server_inv (acceptNext error sv)"
proof (cases "error \<or> hs_active_connections sv \<ge> hs_max_connections sv")
  case True
  then have "acceptNext error sv = sv\<lparr>hs_accept_pending := hs_acceptor_open sv\<rparr>" by (auto simp: acceptNext_def Let_def)
  with assms show ?thesis
    by (simp add: server_inv_def sess_inv_def counts_ok_def open_set_def stream_set_def open_session_def session_of_def)
next
  case False
  let ?n = "hs_next_session_id sv + 1" and ?t = "acceptNext error sv"
  from False have t: "?t = sv\<lparr>hs_next_session_id := ?n, hs_active_connections := hs_active_connections sv + 1,
      hs_sessions := (hs_sessions sv)(?n \<mapsto> runSession), hs_accept_pending := hs_acceptor_open sv\<rparr>"
    by (auto simp: acceptNext_def Let_def)
  have c: "counts_ok sv" and inv: "\<And>i. hs_sessions sv i \<noteq> None \<Longrightarrow> sess_inv sv i" using assms by (auto simp: server_inv_def)
  have fresh: "hs_sessions sv ?n = None" using inv [of ?n] by (cases "hs_sessions sv ?n") (auto simp: sess_inv_def)
  have n: "session_of ?t ?n = runSession" "\<And>i. i \<noteq> ?n \<Longrightarrow> session_of ?t i = session_of sv i"
    by (simp_all add: t session_of_def)
  have o: "open_set ?t = insert ?n (open_set sv)" "?n \<notin> open_set sv"
    using fresh by (auto simp: open_set_def open_session_def t runSession_def)
  have s: "stream_set ?t = stream_set sv"
    using fresh n by (auto simp: stream_set_def open_session_def t runSession_def session_of_def)
  have fr: "hs_active_connections ?t = hs_active_connections sv + 1" "hs_active_stream_clients ?t = hs_active_stream_clients sv"
    "hs_max_connections ?t = hs_max_connections sv" "hs_max_stream_clients ?t = hs_max_stream_clients sv"
    "hs_acceptor_open ?t = hs_acceptor_open sv" "dom (hs_sessions ?t) = insert ?n (dom (hs_sessions sv))"
    by (simp_all add: t)
  have "card (open_set ?t) = card (open_set sv) + 1" using o finite_sets [OF c] by simp
  then have "counts_ok ?t" using c False unfolding counts_ok_def fr s by auto
  moreover have "sess_inv ?t i" if "hs_sessions ?t i \<noteq> None" for i
  proof (cases "i = ?n")
    case True
    then have r: "session_of ?t i = runSession" using n(1) by simp
    have "hs_next_session_id ?t = i" using True by (simp add: t)
    then show ?thesis unfolding sess_inv_def r by (simp add: session_ok_def runSession_def)
  next
    case False
    then show ?thesis using inv [of i] that n(2) [OF False] by (auto simp: sess_inv_def t)
  qed
  ultimately show ?thesis by (simp add: server_inv_def)
qed

lemma server_inv_cong:
  assumes "server_inv sv" "hs_sessions sv' = hs_sessions sv" "hs_active_connections sv' = hs_active_connections sv"
    "hs_active_stream_clients sv' = hs_active_stream_clients sv" "hs_max_connections sv' = hs_max_connections sv"
    "hs_max_stream_clients sv' = hs_max_stream_clients sv" "hs_next_session_id sv' = hs_next_session_id sv"
    "hs_acceptor_open sv' \<longrightarrow> hs_acceptor_open sv"
  shows "server_inv sv'"
  using assms by (auto simp: server_inv_def sess_inv_def counts_ok_def open_set_def stream_set_def open_session_def session_of_def)

lemma idle_inv:
  assumes "server_inv sv" "hs_sessions sv i = Some s" "ss_idle_live s \<or> ss_idle_stale s \<noteq> 0"
  shows "ss_op (session_of sv i) \<noteq> Some Sop_read" and "session_ok (session_of sv i)"
proof -
  from assms(1,2) show ok: "session_ok (session_of sv i)" by (auto simp: server_inv_def sess_inv_def)
  have "session_of sv i = s" using assms(2) by (simp add: session_of_def)
  with ok assms(3) show "ss_op (session_of sv i) \<noteq> Some Sop_read" by (auto simp: session_ok_def)
qed

lemma stale_sound: "session_ok s \<Longrightarrow> ss_op s \<noteq> Some Sop_read \<Longrightarrow> session_ok (s\<lparr>ss_idle_stale := n\<rparr>)"
proof (cases "ss_op s")
  case (Some op)
  assume "session_ok s" "ss_op s \<noteq> Some Sop_read"
  with Some show ?thesis by (cases op) (auto simp: session_ok_def streams_def parts_of_def split: option.splits)
qed (auto simp: session_ok_def between_def streams_def parts_of_def)

lemma server_step_inv: "server_step routes st st' \<Longrightarrow> server_inv (fst st) \<Longrightarrow> server_inv (fst st')"
proof (induction rule: server_step.induct)
  case (accept sv w error)
  then show ?case by (simp add: accept_inv)
next
  case (read sv i outcome w st)
  then show ?case using read_inv by (simp add: read_inv)
next
  case (response sv i w)
  then have "hs_sessions sv i \<noteq> None" "server_inv sv" using pending_session by auto
  then show ?case by (simp add: cancelled_inv)
next
  case (header sv i w error)
  then show ?case using header_inv by simp
next
  case (part sv i w error)
  then show ?case using part_inv by simp
next
  case (idle sv i s w)
  then show ?case using idle_inv [of sv i s] by (simp add: cancelled_inv)
next
  case (stale sv i s n w error)
  then have i: "ss_op (session_of sv i) \<noteq> Some Sop_read" "session_ok (session_of sv i)" "hs_sessions sv i \<noteq> None" "server_inv sv"
    using idle_inv [of sv i s] by auto
  let ?sv = "on_session i (\<lambda>s. s\<lparr>ss_idle_stale := n\<rparr>) sv"
  have "server_inv ?sv"
    by (rule handler_inv [OF i(4,3) good_on_session]) (use i stale_sound in simp_all)
  moreover have "server_inv (cancelSession i ?sv)" using i by (intro cancelled_inv) simp_all
  ultimately show ?case by simp
next
  case (notify order sv kind w st)
  then show ?case by (auto intro!: notify_all_inv [of routes kind order sv w st] simp: open_session_def)
next
  case (stop_io sv ids w)
  have "server_inv (sv\<lparr>hs_acceptor_open := False, hs_stop_posted := False\<rparr>)"
    by (rule server_inv_cong [of sv]) (use stop_io in simp_all)
  then show ?case using stop_io by (auto simp: stopOnIoThread_def open_session_def intro!: stop_all_inv)
next
  case (stop sv w)
  then show ?case by (auto intro: server_inv_cong [of sv] simp: stopServer_begin_def)
qed

lemma started_inv:
  assumes "startServer outcome (ProviderHttpServer_new port connections clients origins) = (Inr (), sv)"
  shows "server_inv sv"
proof -
  let ?n = "ProviderHttpServer_new port connections clients origins"
  have "sv = ?n\<lparr>hs_acceptor_open := True, hs_bound_port := lo_port outcome, hs_active_connections := 0,
      hs_active_stream_clients := 0, hs_started := True, hs_accept_pending := True\<rparr>"
    using assms by (simp add: startServer_def run_simps ProviderHttpServer_new_def split: if_splits)
  then show ?thesis
    by (simp add: server_inv_def counts_ok_def open_set_def stream_set_def open_session_def ProviderHttpServer_new_def)
qed

lemma server_reachable_inv:
  "server_reachable routes (ProviderHttpServer_new port connections clients origins) st \<Longrightarrow> server_inv (fst st)"
proof (induction rule: server_reachable.induct)
  case (start outcome sv w)
  then show ?case using started_inv by simp
next
  case (step st st')
  then show ?case using server_step_inv by blast
next
  case (owner sv w w')
  then show ?case by simp
qed

end
