(* ===== verification/HttpProps.thy ===== *)
theory HttpProps
  imports HttpFacts
begin

text \<open>
  What the HTTP provider promises to the owner of its routes, as locales the application instantiates, and the
  properties of the provider with a concrete run of it.
\<close>

section \<open>What handlers do to the owner\<close>

text \<open>
  \<open>allowed w w'\<close>: what a route or a stream getter may do to its owner. Then no handler does more.
\<close>

locale served_routes =
  fixes routes :: "'w ProviderHttpRoutes"
    and allowed :: "'w \<Rightarrow> 'w \<Rightarrow> bool"
  assumes allowed_refl: "allowed w w"
    and allowed_trans: "allowed u v \<Longrightarrow> allowed v w \<Longrightarrow> allowed u w"
    and route_allowed: "find_route routes target body = Some call \<Longrightarrow> call w = Some (r, w') \<Longrightarrow> allowed w w'"
    and stream_allowed: "stream_getter routes kind = Some get \<Longrightarrow> get w = (f, w') \<Longrightarrow> allowed w w'"
begin

lemma decided: "decide_request routes origins request w = Some (d, w') \<Longrightarrow> allowed w w'"
  using route_allowed [of "hrq_target request" "hrq_body request"]
  by (auto simp: decide_request_def call_route_def Let_def allowed_refl
      split: option.splits if_splits prod.splits sum.splits)

lemma started: "startStream routes i kind (sv, w) = (sv', w') \<Longrightarrow> allowed w w'"
  by (auto simp: startStream_def allowed_refl dest: stream_allowed split: option.splits prod.splits sum.splits if_splits bool.splits)

lemma requested:
  assumes "handleRequest routes i outcome (sv, w) = Some (sv', w')"
  shows "allowed w w'"
proof (cases outcome)
  case None
  with assms show ?thesis by (simp add: handleRequest_def Let_def allowed_refl)
next
  case (Some request)
  with assms obtain d origin v where d: "decide_request routes
      (hs_allowed_origins (on_session i (\<lambda>s. s\<lparr>ss_op := None\<rparr>) sv)) request w = Some ((d, origin), v)"
    by (auto simp: handleRequest_def Let_def split: option.splits)
  from decided [OF this] have "allowed w v" .
  moreover have "allowed v w'"
    using assms Some d by (cases d) (auto simp: handleRequest_def Let_def allowed_refl dest: started)
  ultimately show ?thesis by (rule allowed_trans)
qed

lemma latest: "writeLatestStreamFrame routes i (sv, w) = (sv', w') \<Longrightarrow> allowed w w'"
  by (auto simp: writeLatestStreamFrame_def Let_def allowed_refl dest: stream_allowed
      split: option.splits prod.splits sum.splits if_splits)

lemma header_allowed: "handleStreamHeaderWritten routes i error (sv, w) = (sv', w') \<Longrightarrow> allowed w w'"
  by (auto simp: handleStreamHeaderWritten_def Let_def allowed_refl dest: latest split: if_splits)

lemma part_allowed: "handleStreamPartWritten routes i error (sv, w) = (sv', w') \<Longrightarrow> allowed w w'"
  by (auto simp: handleStreamPartWritten_def Let_def allowed_refl dest: latest split: if_splits)

lemma notified: "session_notifyStreamFrame routes kind i (sv, w) = (sv', w') \<Longrightarrow> allowed w w'"
  by (auto simp: session_notifyStreamFrame_def Let_def allowed_refl dest: latest split: if_splits)

lemma all_notified: "notifySessions routes kind order st = Some st' \<Longrightarrow> allowed (snd st) (snd st')"
proof (induction order arbitrary: st)
  case (Cons i order)
  obtain sv w where st: "st = (sv, w)" by fastforce
  obtain sv1 w1 where n: "session_notifyStreamFrame routes kind i (sv, w) = (sv1, w1)" by fastforce
  have "notifySessions routes kind order (sv1, w1) = Some st'"
    using Cons.prems st n by (simp add: Let_def split: if_splits)
  from Cons.IH [OF this] notified [OF n] show ?case using st allowed_trans by auto
qed (simp add: allowed_refl)

lemma stepped: "server_step routes st st' \<Longrightarrow> allowed (snd st) (snd st')"
proof (induction rule: server_step.induct)
  case (read sv i outcome w st)
  then show ?case using requested [of i outcome sv w "fst st" "snd st"] by simp
next
  case (header sv i w error)
  then show ?case using header_allowed [of i error sv w] by (cases "handleStreamHeaderWritten routes i error (sv, w)") auto
next
  case (part sv i w error)
  then show ?case using part_allowed [of i error sv w] by (cases "handleStreamPartWritten routes i error (sv, w)") auto
next
  case (notify order sv kind w st)
  then show ?case using all_notified [of kind order "(sv, w)" st] by simp
qed (simp_all add: allowed_refl)

end

section \<open>Streams whose frames can always be fetched\<close>

text \<open>
  A notified session closes only if its getter is missing or throws. \<open>kinds_ok\<close> says that no stream is open
  whose getter is missing.
\<close>

definition kinds_ok :: "'w ProviderHttpRoutes \<Rightarrow> ProviderHttpServer \<Rightarrow> bool" where
  "kinds_ok routes sv \<longleftrightarrow> (\<forall>i. ss_streaming (session_of sv i) \<longrightarrow> stream_getter routes (ss_stream_kind (session_of sv i)) \<noteq> None)"

lemma kinds_ok_on_session:
  "kinds_ok routes sv \<Longrightarrow> ss_streaming (f (session_of sv i)) \<longrightarrow>
     stream_getter routes (ss_stream_kind (f (session_of sv i))) \<noteq> None \<Longrightarrow> kinds_ok routes (on_session i f sv)"
  unfolding kinds_ok_def by (metis session_simps(1,2))

lemma kinds_ok_same:
  "kinds_ok routes sv \<Longrightarrow> (\<And>s. ss_streaming (f s) = ss_streaming s) \<Longrightarrow> (\<And>s. ss_stream_kind (f s) = ss_stream_kind s) \<Longrightarrow>
     kinds_ok routes (on_session i f sv)"
  by (rule kinds_ok_on_session) (simp_all add: kinds_ok_def)

lemma kinds_ok_cong: "kinds_ok routes sv \<Longrightarrow> hs_sessions sv' = hs_sessions sv \<Longrightarrow> kinds_ok routes sv'"
  by (simp add: kinds_ok_def session_of_def)

lemma kinds_ok_close [simp]: "kinds_ok routes (closeSession b sv) = kinds_ok routes sv"
  by (simp add: kinds_ok_def)

lemma kinds_ok_cancel: "kinds_ok routes sv \<Longrightarrow> kinds_ok routes (cancelSession i sv)"
  by (auto simp: cancelSession_def Let_def intro: kinds_ok_same)

lemma kinds_ok_write: "kinds_ok routes sv \<Longrightarrow> kinds_ok routes (write_frame i frame sv)"
  by (auto simp: write_frame_def waitForStreamFrame_def intro!: kinds_ok_same split: option.split)

lemma kinds_ok_send:
  "kinds_ok routes sv \<Longrightarrow> kinds_ok routes (sendResponse i r sv)" "kinds_ok routes sv \<Longrightarrow> kinds_ok routes (sendPreflightResponse i sv)"
  by (auto simp: sendResponse_def sendPreflightResponse_def intro!: kinds_ok_same)

lemma kinds_ok_latest: "kinds_ok routes sv \<Longrightarrow> kinds_ok routes (fst (writeLatestStreamFrame routes i (sv, w)))"
  by (auto simp: writeLatestStreamFrame_def Let_def intro!: kinds_ok_cancel kinds_ok_write kinds_ok_same
      split: option.split prod.split sum.split)

lemma kinds_ok_notify: "kinds_ok routes sv \<Longrightarrow> kinds_ok routes (fst (session_notifyStreamFrame routes kind i (sv, w)))"
  by (auto simp: session_notifyStreamFrame_def Let_def intro!: kinds_ok_latest kinds_ok_same)

lemma kinds_ok_start: "kinds_ok routes sv \<Longrightarrow> kinds_ok routes (fst (startStream routes i kind (sv, w)))"
  by (auto simp: startStream_def admitStream_def intro!: kinds_ok_send kinds_ok_on_session intro: kinds_ok_cong
      split: option.split prod.split sum.split bool.split if_splits)

lemma kinds_ok_request:
  assumes "kinds_ok routes sv" "handleRequest routes i outcome (sv, w) = Some st"
  shows "kinds_ok routes (fst st)"
proof -
  let ?sv = "on_session i (\<lambda>s. s\<lparr>ss_op := None\<rparr>) sv"
  have a: "kinds_ok routes ?sv" using assms(1) by (rule kinds_ok_same) simp_all
  have b: "kinds_ok routes (on_session i (\<lambda>s. s\<lparr>ss_allowed_origin := x\<rparr>) ?sv)" for x
    using a by (rule kinds_ok_same) simp_all
  show ?thesis
    using assms(2) kinds_ok_cancel [OF a] kinds_ok_send [OF b] kinds_ok_start [OF b]
    by (auto simp: handleRequest_def Let_def split: option.splits request_decision.splits)
qed

lemma kinds_ok_header: "kinds_ok routes sv \<Longrightarrow> kinds_ok routes (fst (handleStreamHeaderWritten routes i error (sv, w)))"
  by (auto simp: handleStreamHeaderWritten_def Let_def intro!: kinds_ok_cancel kinds_ok_latest kinds_ok_same)

lemma kinds_ok_part: "kinds_ok routes sv \<Longrightarrow> kinds_ok routes (fst (handleStreamPartWritten routes i error (sv, w)))"
  by (auto simp: handleStreamPartWritten_def Let_def waitForStreamFrame_def
      intro!: kinds_ok_cancel kinds_ok_latest kinds_ok_same)

lemma kinds_ok_notify_all:
  "notifySessions routes kind order st = Some st' \<Longrightarrow> kinds_ok routes (fst st) \<Longrightarrow> kinds_ok routes (fst st')"
proof (induction order arbitrary: st)
  case (Cons i order)
  then show ?case using kinds_ok_notify [of routes "fst st" kind i "snd st"] by (simp add: Let_def split: if_splits)
qed auto

lemma kinds_ok_stop: "kinds_ok routes sv \<Longrightarrow> kinds_ok routes (foldl (\<lambda>sv i. cancelSession i sv) sv ids)"
  by (induction ids arbitrary: sv) (simp_all add: kinds_ok_cancel)

lemma kinds_ok_accept: "kinds_ok routes sv \<Longrightarrow> kinds_ok routes (acceptNext error sv)"
  by (auto simp: kinds_ok_def acceptNext_def Let_def session_of_def runSession_def)

lemma kinds_ok_step: "server_step routes st st' \<Longrightarrow> kinds_ok routes (fst st) \<Longrightarrow> kinds_ok routes (fst st')"
proof (induction rule: server_step.induct)
  case (stop sv w)
  then show ?case by (auto simp: stopServer_begin_def intro: kinds_ok_cong)
next
  case (stop_io sv ids w)
  then show ?case by (auto simp: stopOnIoThread_def intro!: kinds_ok_stop intro: kinds_ok_cong)
next
  case (notify order sv kind w st)
  then show ?case using kinds_ok_notify_all [of routes kind order "(sv, w)" st] by simp
next
  case (read sv i outcome w st)
  then show ?case using kinds_ok_request [of routes sv i outcome w st] by simp
qed (auto intro!: kinds_ok_accept kinds_ok_cancel kinds_ok_header kinds_ok_part kinds_ok_same)

lemma kinds_ok_started:
  assumes "startServer outcome (ProviderHttpServer_new port connections clients origins) = (r, sv)"
  shows "kinds_ok routes sv"
proof -
  have "hs_sessions sv = Map.empty"
    using assms by (auto simp: startServer_def run_simps ProviderHttpServer_new_def split: if_splits)
  then show ?thesis by (simp add: kinds_ok_def session_of_def runSession_def)
qed

lemma kinds_ok_reachable:
  "server_reachable routes (ProviderHttpServer_new port connections clients origins) st \<Longrightarrow> kinds_ok routes (fst st)"
proof (induction rule: server_reachable.induct)
  case (start outcome sv w)
  then show ?case using kinds_ok_started by simp
next
  case (step st st')
  then show ?case using kinds_ok_step by blast
qed simp

text \<open>Getters that never throw: the loop over the sessions never closes one.\<close>

locale calm_streams = served_routes +
  assumes stream_calm: "stream_getter routes kind = Some get \<Longrightarrow> \<exists>f. fst (get w) = Inr f"
begin

lemma latest_open:
  assumes "kinds_ok routes sv" "ss_streaming (session_of sv i)" "\<not> ss_finished (session_of sv i)"
  shows "\<not> ss_finished (session_of (fst (writeLatestStreamFrame routes i (sv, w))) i)"
proof -
  obtain get where g: "stream_getter routes (ss_stream_kind (session_of sv i)) = Some get"
    using assms(1,2) by (auto simp: kinds_ok_def)
  obtain f w' where "get w = (Inr f, w')" using stream_calm [OF g, of w] by (cases "get w") auto
  with g assms(3) show ?thesis
    by (simp add: writeLatestStreamFrame_def write_frame_def waitForStreamFrame_def Let_def split: option.split)
qed

lemma notify_open:
  assumes "kinds_ok routes sv" "\<not> ss_finished (session_of sv i)"
  shows "\<not> ss_finished (session_of (fst (session_notifyStreamFrame routes kind i (sv, w))) i)"
proof -
  have "kinds_ok routes (on_session i cancel_timer sv)" using assms(1) by (rule kinds_ok_same) simp_all
  from latest_open [OF this, of i w] assms(2) show ?thesis by (simp add: session_notifyStreamFrame_def Let_def)
qed

lemma notify_defined: "kinds_ok routes (fst st) \<Longrightarrow> notifySessions routes kind order st \<noteq> None"
proof (induction order arbitrary: st)
  case (Cons i order)
  from Cons.prems have "kinds_ok routes (fst (session_notifyStreamFrame routes kind i st))"
    using kinds_ok_notify [of routes "fst st" kind i "snd st"] by simp
  note rest = Cons.IH [OF this]
  have "\<not> ss_finished (session_of (fst st) i) \<Longrightarrow> \<not> ss_finished (session_of (fst (session_notifyStreamFrame routes kind i st)) i)"
    using notify_open [OF Cons.prems, of i kind "snd st"] by simp
  with rest show ?case by (auto simp: Let_def)
qed simp

end

section \<open>The fixed of a server never change\<close>

definition limits :: "ProviderHttpServer \<Rightarrow> int \<times> int \<times> string list" where
  "limits sv = (hs_max_connections sv, hs_max_stream_clients sv, hs_allowed_origins sv)"

text \<open>Handlers of sessions leave the listener as it is, too.\<close>

definition listener :: "ProviderHttpServer \<Rightarrow> bool \<times> bool \<times> bool \<times> bool" where
  "listener sv = (hs_started sv, hs_stop_posted sv, hs_accept_pending sv, hs_acceptor_open sv)"

definition fixed :: "ProviderHttpServer \<Rightarrow> (int \<times> int \<times> string list) \<times> bool \<times> bool \<times> bool \<times> bool" where
  "fixed sv = (limits sv, listener sv)"

lemmas fixed_defs = fixed_def limits_def listener_def

lemma fixed_session [simp]:
  "fixed (on_session i f sv) = fixed sv" "fixed (cancelSession i sv) = fixed sv" "fixed (closeSession b sv) = fixed sv"
  "fixed (sendResponse i r sv) = fixed sv" "fixed (sendPreflightResponse i sv) = fixed sv"
  "fixed (waitForStreamFrame i sv) = fixed sv" "fixed (write_frame i frame sv) = fixed sv" "fixed (snd (admitStream sv)) = fixed sv"
  by (simp_all add: fixed_defs on_session_def cancelSession_def closeSession_def sendResponse_def sendPreflightResponse_def
      waitForStreamFrame_def write_frame_def admitStream_def Let_def split: option.split)

lemma fixed_stream [simp]:
  "fixed (fst (writeLatestStreamFrame routes i (sv, w))) = fixed sv"
  "fixed (fst (handleStreamHeaderWritten routes i error (sv, w))) = fixed sv"
  "fixed (fst (handleStreamPartWritten routes i error (sv, w))) = fixed sv"
  "fixed (fst (session_notifyStreamFrame routes kind i (sv, w))) = fixed sv"
proof -
  show l: "fixed (fst (writeLatestStreamFrame routes i (sv, w))) = fixed sv" for sv w
    by (simp add: writeLatestStreamFrame_def Let_def split: option.split prod.split sum.split)
  show "fixed (fst (handleStreamHeaderWritten routes i error (sv, w))) = fixed sv"
    "fixed (fst (handleStreamPartWritten routes i error (sv, w))) = fixed sv"
    "fixed (fst (session_notifyStreamFrame routes kind i (sv, w))) = fixed sv"
    by (simp_all add: handleStreamHeaderWritten_def handleStreamPartWritten_def session_notifyStreamFrame_def Let_def l)
qed

lemma fixed_start [simp]: "fixed (fst (startStream routes i kind (sv, w))) = fixed sv"
proof -
  have "admitStream sv = (b, sv1) \<Longrightarrow> fixed sv1 = fixed sv" for b sv1 using fixed_session(8) [of sv] by simp
  then show ?thesis by (simp add: startStream_def split: option.split prod.split sum.split bool.split)
qed

lemma fixed_request: "handleRequest routes i outcome (sv, w) = Some st \<Longrightarrow> fixed (fst st) = fixed sv"
  by (auto simp: handleRequest_def Let_def split: option.splits request_decision.splits)

lemma fixed_notify_all: "notifySessions routes kind order st = Some st' \<Longrightarrow> fixed (fst st') = fixed (fst st)"
proof (induction order arbitrary: st)
  case (Cons i order)
  obtain sv w where st: "st = (sv, w)" by fastforce
  have "notifySessions routes kind order (session_notifyStreamFrame routes kind i (sv, w)) = Some st'"
    using Cons.prems st by (simp add: Let_def split: if_splits)
  from Cons.IH [OF this] show ?case by (simp add: st)
qed simp

lemma fixed_stop: "fixed (stopOnIoThread ids sv) = fixed (sv\<lparr>hs_acceptor_open := False, hs_stop_posted := False\<rparr>)"
proof -
  have "fixed (foldl (\<lambda>sv i. cancelSession i sv) sv ids) = fixed sv" for sv by (induction ids arbitrary: sv) simp_all
  then show ?thesis by (simp add: stopOnIoThread_def)
qed

definition listener_move :: "ProviderHttpServer \<Rightarrow> ProviderHttpServer \<Rightarrow> bool" where
  "listener_move sv sv' \<longleftrightarrow> fixed sv' \<in> {fixed sv, fixed (stopServer_begin sv)} \<or>
     hs_accept_pending sv \<and> fixed sv' = fixed (sv\<lparr>hs_accept_pending := hs_acceptor_open sv\<rparr>) \<or>
     hs_stop_posted sv \<and> fixed sv' = fixed (sv\<lparr>hs_acceptor_open := False, hs_stop_posted := False\<rparr>)"

lemma fixed_step: "server_step routes st st' \<Longrightarrow> listener_move (fst st) (fst st')"
proof (induction rule: server_step.induct)
  case (accept sv w error)
  then show ?case by (simp add: listener_move_def fixed_defs acceptNext_def Let_def)
next
  case (read sv i outcome w st)
  then show ?case using fixed_request [of routes i outcome sv w st] by (simp add: listener_move_def)
next
  case (notify order sv kind w st)
  then show ?case using fixed_notify_all [of routes kind order "(sv, w)" st] by (simp add: listener_move_def)
qed (simp_all add: fixed_stop listener_move_def)

lemma limits_step:
  "server_step routes st st' \<Longrightarrow> limits (fst st') = limits (fst st) \<and> (hs_started (fst st') \<longrightarrow> hs_started (fst st))"
  using fixed_step [of routes st st'] by (auto simp: listener_move_def fixed_defs stopServer_begin_def split: if_splits)

lemma limits_started:
  "startServer outcome new = (r, sv) \<Longrightarrow> limits sv = limits new"
  by (auto simp: startServer_def run_simps limits_def split: if_splits)

lemma limits_reachable: "server_reachable routes new st \<Longrightarrow> limits (fst st) = limits new"
proof (induction rule: server_reachable.induct)
  case (start outcome sv w)
  then show ?case using limits_started by simp
next
  case (step st st')
  then show ?case using limits_step [of routes st st'] by argo
qed simp

section \<open>A concrete server\<close>

text \<open>Depth frames whose number is the owner's state, and a session that streams.\<close>

definition sample_stream_frame :: "nat \<Rightarrow> ProviderStreamFrame" where
  "sample_stream_frame n = \<lparr>sf_identity = default_FrameIdentity\<lparr>frame_number := word_of_nat n\<rparr>, sf_jpeg_data = Some [1], sf_headers = []\<rparr>"

definition sample_routes :: "nat ProviderHttpRoutes" where
  "sample_routes = \<lparr>get_health = None, get_metadata = None, get_color_snapshot = None, get_depth_snapshot = None,
     get_pointcloud_snapshot = None, post_roi_depth = None, post_pixel_point = None, post_recording_start = None,
     post_recording_stop = None, get_recording_current = None, get_color_stream_frame = None,
     get_depth_stream_frame = Some (\<lambda>n. (Inr (Some (sample_stream_frame n)), n))\<rparr>"

definition sample_new :: ProviderHttpServer where
  "sample_new = ProviderHttpServer_new 8080 2 1 [''http://a'']"

definition sample_listening :: ProviderHttpServer where
  "sample_listening = snd (startServer \<lparr>lo_address = True, lo_open = True, lo_option = True, lo_bind = True, lo_listen = True,
     lo_port = 8080\<rparr> sample_new)"

definition sample_accepted :: ProviderHttpServer where
  "sample_accepted = acceptNext False sample_listening"

definition sample_request :: HttpRequest where
  "sample_request = \<lparr>hrq_verb = Verb_get, hrq_target = ''/stream/depth.mjpg'', hrq_origin = None, hrq_body = []\<rparr>"

definition sample_headed :: "ProviderHttpServer \<times> nat" where
  "sample_headed = the (handleRequest sample_routes 1 (Some sample_request) (sample_accepted, 7))"

definition sample_streaming :: "ProviderHttpServer \<times> nat" where
  "sample_streaming = handleStreamHeaderWritten sample_routes 1 False sample_headed"

lemma sample_accepted_eq: "sample_accepted = sample_new\<lparr>hs_acceptor_open := True, hs_bound_port := 8080, hs_started := True,
    hs_accept_pending := True, hs_next_session_id := 1, hs_active_connections := 1, hs_sessions := [1 \<mapsto> runSession]\<rparr>"
  by (simp add: sample_accepted_def sample_listening_def sample_new_def startServer_def run_simps ProviderHttpServer_new_def
      acceptNext_def Let_def)

lemma sample_headed_eq: "sample_headed = (sample_accepted\<lparr>hs_active_stream_clients := 1, hs_sessions := [1 \<mapsto> runSession
    \<lparr>ss_op := Some Sop_header, ss_streaming := True, ss_stream_kind := SK_DEPTH,
     ss_initial_stream_frame := Some (sample_stream_frame 7), ss_write_in_progress := True,
     ss_sent := [Msg_stream_header (stream_fields [])]\<rparr>]\<rparr>, 7)"
  by (simp add: sample_headed_def sample_accepted_eq handleRequest_def decide_request_def check_origin_def sample_request_def
      startStream_def stream_getter_def sample_routes_def usable_jpeg_def sample_stream_frame_def admitStream_def
      on_session_def session_of_def runSession_def sample_new_def ProviderHttpServer_new_def Let_def)

lemma sample_streaming_eq: "sample_streaming = ((fst sample_headed)\<lparr>hs_sessions := [1 \<mapsto> runSession
    \<lparr>ss_op := Some Sop_part, ss_streaming := True, ss_stream_kind := SK_DEPTH,
     ss_pending_stream_frame := Some (sample_stream_frame 7), ss_write_in_progress := True,
     ss_sent := [Msg_stream_header (stream_fields []),
       Msg_part (sf_identity (sample_stream_frame 7)) (buildMjpegPart (sample_stream_frame 7) [1])]\<rparr>]\<rparr>, 7)"
  by (simp add: sample_streaming_def sample_headed_eq handleStreamHeaderWritten_def writeLatestStreamFrame_def write_frame_def
      sendable_def usable_jpeg_def sample_stream_frame_def on_session_def session_of_def runSession_def Let_def)

lemma sample_reachable: "server_reachable sample_routes sample_new sample_streaming"
proof -
  have 1: "server_reachable sample_routes sample_new (sample_listening, 7)"
    by (rule server_reachable.start [of \<open>\<lparr>lo_address = True, lo_open = True, lo_option = True, lo_bind = True, lo_listen = True,
         lo_port = 8080\<rparr>\<close>])
       (simp add: sample_listening_def startServer_def run_simps sample_new_def ProviderHttpServer_new_def)
  have "hs_accept_pending sample_listening"
    by (simp add: sample_listening_def startServer_def run_simps sample_new_def ProviderHttpServer_new_def)
  note 2 = server_reachable.step [OF 1 server_step.accept [OF this, of _ _ False], folded sample_accepted_def]
  have "pending_op sample_accepted 1 Sop_read" by (simp add: pending_op_def sample_accepted_eq runSession_def)
  moreover have "handleRequest sample_routes 1 (Some sample_request) (sample_accepted, 7) = Some sample_headed"
    by (simp add: sample_headed_eq)
       (simp add: sample_accepted_eq handleRequest_def decide_request_def check_origin_def sample_request_def
      startStream_def stream_getter_def sample_routes_def usable_jpeg_def sample_stream_frame_def admitStream_def
      on_session_def session_of_def runSession_def sample_new_def ProviderHttpServer_new_def Let_def)
  ultimately have 3: "server_reachable sample_routes sample_new sample_headed"
    using server_reachable.step [OF 2 server_step.read] by blast
  have "pending_op (fst sample_headed) 1 Sop_header" by (simp add: pending_op_def sample_headed_eq)
  from server_step.header [OF this, of sample_routes "snd sample_headed" False]
  show ?thesis using server_reachable.step [OF 3] by (simp add: sample_streaming_def)
qed

section \<open>Properties\<close>



text \<open>
  C8: every session sends nothing, or one response, or one preflight answer, or a stream header followed by
  parts of strictly newer and newer frames; and an open session always has an operation or its idle timer
  outstanding, so it cannot be forgotten.
\<close>

theorem session_follows_protocol:
  assumes "server_reachable routes (ProviderHttpServer_new port connections clients origins) (sv, w)"
    and "hs_sessions sv i = Some s"
  shows "protocol (ss_sent s) \<and> (\<not> ss_finished s \<longrightarrow> ss_op s \<noteq> None \<or> ss_idle_live s)"
proof -
  have "server_inv sv" using server_reachable_inv [OF assms(1)] by simp
  then have "session_ok s" using assms(2) by (auto simp: server_inv_def sess_inv_def session_of_def)
  then show ?thesis by (cases "ss_op s") (auto simp: session_ok_def)
qed

lemma session_follows_protocol_witness:
  "\<exists>s. hs_sessions (fst sample_streaming) 1 = Some s \<and> length (ss_sent s) = 2 \<and> protocol (ss_sent s) \<and> \<not> ss_finished s"
proof -
  have "server_reachable sample_routes (ProviderHttpServer_new 8080 2 1 [''http://a'']) (fst sample_streaming, snd sample_streaming)"
    using sample_reachable by (simp add: sample_new_def)
  moreover obtain s where s: "hs_sessions (fst sample_streaming) 1 = Some s" "length (ss_sent s) = 2" "\<not> ss_finished s"
    by (simp add: sample_streaming_eq runSession_def)
  ultimately show ?thesis using session_follows_protocol by fast
qed

text \<open>A field that lets a browser read the response.\<close>

definition grants_origin :: "(string \<times> string) list \<Rightarrow> bool" where
  "grants_origin fs \<longleftrightarrow> (\<exists>f \<in> set fs. same_name (fst f) ''Access-Control-Allow-Origin'')"

text \<open>
  C31: a request whose origin is not allowed is answered 403 without calling any route: the owner's state is
  untouched, and no field of the response grants the origin.
\<close>

theorem foreign_origin_denied:
  assumes "hrq_origin request = Some origin" and "origin \<notin> set (hs_allowed_origins sv)"
  shows "\<exists>sv' fs body. handleRequest routes i (Some request) (sv, w) = Some (sv', w) \<and>
    ss_sent (session_of sv' i) = ss_sent (session_of sv i) @ [Msg_response 403 fs body] \<and> \<not> grants_origin fs"
proof -
  have f: "set_fields [] old = old" for old by (simp add: set_fields_def)
  have "\<not> grants_origin (response_fields [] (http_makeErrorResponse 403 code message False))" for code message
    by (simp add: grants_origin_def response_fields_def http_makeErrorResponse_def f setCorsHeaders_def set_fields_def
        set_field_def same_name_def)
  moreover have "rp_status (http_makeErrorResponse 403 code message False) = 403" for code message
    by (simp add: http_makeErrorResponse_def)
  moreover have "hs_allowed_origins (on_session i f sv) = hs_allowed_origins sv" for f by simp
  ultimately show ?thesis using assms
    by (simp add: handleRequest_def decide_request_def check_origin_def Let_def sendResponse_def)
qed

lemma foreign_origin_denied_witness:
  "\<exists>sv' fs body. handleRequest sample_routes 1 (Some (sample_request\<lparr>hrq_origin := Some ''http://b''\<rparr>)) (sample_accepted, 7) =
     Some (sv', 7) \<and> ss_sent (session_of sv' 1) = [Msg_response 403 fs body] \<and> \<not> grants_origin fs"
  using foreign_origin_denied [of "sample_request\<lparr>hrq_origin := Some ''http://b''\<rparr>" "''http://b''" sample_accepted
      sample_routes 1 7]
  by (simp add: sample_accepted_eq sample_new_def ProviderHttpServer_new_def session_of_def runSession_def)

end
