(* ===== verification/AppFacts.thy ===== *)
theory AppFacts
  imports AppThreads HttpProps PilotClientRuns
begin

text \<open>
  The components inside the application. Routes reach no further than the recording manager, and what they do
  to it are steps of its own model; so are the calls of the threads. Hence every component of a running
  application is in a reachable state of its model, and what is proved there holds here.
\<close>

section \<open>Routes\<close>

definition moves :: "library \<Rightarrow> manager \<Rightarrow> manager \<Rightarrow> bool" where
  "moves lib r r' \<longleftrightarrow> (\<forall>adm. \<exists>adm'. (recording_step lib)\<^sup>*\<^sup>* (r, adm) (r', adm'))"

lemma moves_refl: "moves lib r r"
  by (auto simp: moves_def)

lemma moves_trans: "moves lib r s \<Longrightarrow> moves lib s t \<Longrightarrow> moves lib r t"
  unfolding moves_def by (meson rtranclp_trans)

lemma moves_step: "(\<And>adm. \<exists>adm'. recording_step lib (r, adm) (r', adm')) \<Longrightarrow> moves lib r r'"
  unfolding moves_def by (meson r_into_rtranclp)

lemma reachable_moves:
  assumes "reachable lib r adm" "moves lib r r'"
  shows "\<exists>adm'. reachable lib r' adm'"
proof -
  obtain adm' where "(recording_step lib)\<^sup>*\<^sup>* (r, adm) (r', adm')" using assms(2) by (auto simp: moves_def)
  then have "reachable lib r' adm'"
    by (induction "(r', adm')" arbitrary: r' adm' rule: rtranclp_induct) (use assms(1) reach_step in auto)
  then show ?thesis by blast
qed

lemma status_moves: "getStatus listing r = (x, r') \<Longrightarrow> moves lib r r'"
  by (rule moves_step) (blast intro: step_status)

lemma stop_moves: "finalizeOrReplay now now' request r = (x, r') \<Longrightarrow> moves lib r r'"
  by (rule moves_step) (blast intro: step_stop)

lemma start_moves:
  assumes "startOrReplay lib env request r = Some (x, r')"
  shows "moves lib r r'"
proof (cases "x = Inr SRES_STARTED")
  case True
  then show ?thesis using assms by (intro moves_step) (blast intro: step_start_new)
next
  case False
  then show ?thesis using assms by (intro moves_step) (blast intro: step_start_other)
qed

lemma submit_moves: "moves lib r (snd (trySubmitFrame owns_lock frame r))"
  by (rule moves_step) (metis prod.collapse step_submit)

lemma thread_moves: "manager_thread lib r r' \<Longrightarrow> moves lib r r'"
  by (erule manager_thread.cases; rule moves_step)
     (auto intro: step_environment step_dequeue step_write step_commit step_finalize)

text \<open>What a route may do to the application.\<close>

definition records :: "library \<Rightarrow> Application \<Rightarrow> Application \<Rightarrow> bool" where
  "records lib a b \<longleftrightarrow> b = a\<lparr>ap_recording := ap_recording b\<rparr> \<and>
     (case ap_recording a of None \<Rightarrow> ap_recording b = None | Some r \<Rightarrow> (\<exists>r'. ap_recording b = Some r' \<and> moves lib r r'))"

lemma records_refl: "records lib a a"
  by (simp add: records_def moves_refl split: option.split)

lemma records_trans: "records lib a b \<Longrightarrow> records lib b c \<Longrightarrow> records lib a c"
proof -
  assume ab: "records lib a b" and bc: "records lib b c"
  obtain x where b: "b = a\<lparr>ap_recording := x\<rparr>" using ab by (auto simp: records_def)
  obtain y where c: "c = b\<lparr>ap_recording := y\<rparr>" using bc by (auto simp: records_def)
  show ?thesis
  proof (cases "ap_recording a")
    case None
    with ab bc show ?thesis by (simp add: b c records_def)
  next
    case (Some r)
    then obtain r' where r': "x = Some r'" "moves lib r r'" using ab by (auto simp: records_def b)
    then obtain r'' where "y = Some r''" "moves lib r' r''" using bc by (auto simp: records_def b c)
    with r' Some show ?thesis by (simp add: b c records_def moves_trans [OF r'(2)])
  qed
qed

lemma records_set: "ap_recording a = Some r \<Longrightarrow> moves lib r r' \<Longrightarrow> records lib a (a\<lparr>ap_recording := Some r'\<rparr>)"
  by (simp add: records_def)

definition app_routes :: "app_library \<Rightarrow> string \<Rightarrow> Application route set" where
  "app_routes lib body = {route_roi lib body, route_pixel lib body, route_recording_start lib body,
     route_recording_stop lib body, route_recording_current lib, route_health lib, route_metadata lib,
     route_snapshot lib Preview_COLOR, route_snapshot lib Preview_DEPTH, route_pointcloud lib}"

lemma find_route_app:
  "find_route (application_routes lib config) target body = Some call \<Longrightarrow> call \<in> app_routes lib body"
  by (auto simp: find_route_def application_routes_def Let_def app_routes_def split: if_splits)

lemma reading_same: "reading f a = Some (r, b) \<Longrightarrow> b = a"
  by (simp add: reading_def)

lemma status_records:
  "ap_recording a = Some r \<Longrightarrow> recording_status a r = (x, b) \<Longrightarrow> records lib a b"
  by (auto simp: recording_status_def split: prod.splits intro!: records_set status_moves)

lemma start_records:
  "startOrReplay lib env request r = Some (x, r') \<Longrightarrow> ap_recording a = Some r \<Longrightarrow> records lib a (a\<lparr>ap_recording := Some r'\<rparr>)"
  by (rule records_set [OF _ start_moves])

lemma stop_records:
  "finalizeOrReplay now now' request r = (x, r') \<Longrightarrow> ap_recording a = Some r \<Longrightarrow> records lib a (a\<lparr>ap_recording := Some r'\<rparr>)"
  by (rule records_set [OF _ stop_moves])

lemma route_records:
  assumes "call \<in> app_routes lib body" "call a = Some (r, b)"
  shows "records (al_recording lib) a b"
proof -
  have reads: "b = a" if "call = reading f" for f using assms(2) that reading_same by simp
  show ?thesis
    using assms records_refl [of _ a] reads
    by (auto simp: app_routes_def route_roi_def route_pixel_def route_metadata_def route_snapshot_def route_pointcloud_def
        route_recording_start_def route_recording_stop_def route_recording_current_def route_health_def Let_def
        split: option.splits sum.splits prod.splits if_splits
        intro: start_records stop_records status_records)
qed

lemma stream_getter_app: "stream_getter (application_routes lib config) kind = Some get \<Longrightarrow> get a = (Inr (makeStreamFrame
    (fresh_preview (if kind = SK_COLOR then Preview_COLOR else Preview_DEPTH) a) (ap_transform a)), a)"
  by (cases kind) (auto simp: stream_getter_def application_routes_def Let_def route_stream_def getS_def split: if_splits)

interpretation app: calm_streams "application_routes lib config" "records (al_recording lib)" for lib config
proof unfold_locales
  show "records (al_recording lib) w w" for w by (rule records_refl)
  show "records (al_recording lib) u v \<Longrightarrow> records (al_recording lib) v w \<Longrightarrow> records (al_recording lib) u w" for u v w
    by (rule records_trans)
  show "find_route (application_routes lib config) target body = Some call \<Longrightarrow> call w = Some (r, w') \<Longrightarrow>
      records (al_recording lib) w w'" for target body call w r w'
    using find_route_app route_records by blast
  show "stream_getter (application_routes lib config) kind = Some get \<Longrightarrow> get w = (f, w') \<Longrightarrow>
      records (al_recording lib) w w'" for kind get w f w'
    using stream_getter_app [of lib config kind get w] records_refl by auto
  show "stream_getter (application_routes lib config) kind = Some get \<Longrightarrow> \<exists>f. fst (get w) = Inr f" for kind get w
    using stream_getter_app [of lib config kind get w] by auto
qed

section \<open>The components of a running application\<close>

definition components_ok :: "app_library \<Rightarrow> VisionConfig \<Rightarrow> Application \<Rightarrow> bool" where
  "components_ok lib config a \<longleftrightarrow> ap_config a = config \<and>
     pred_option (\<lambda>r. \<exists>adm. reachable (al_recording lib) r adm) (ap_recording a) \<and>
     pred_option (pilot_reachable (al_pilot lib) config) (ap_pilot a) \<and>
     pred_option (\<lambda>sv. server_inv sv \<and> kinds_ok (application_routes lib config) sv \<and>
       limits sv = limits (make_server config)) (ap_server a) \<and>
     (ap_main a = Join_pilot \<longrightarrow> pred_option (\<lambda>p. pi_started p \<longrightarrow> pi_stop_requested p) (ap_pilot a))"

lemma keeps_lift [keeps_intros]: "keeps P (\<lambda>a. liftS (g a) a)"
  by (simp add: keeps_def liftS_def)

lemma started_any:
  assumes "startServer outcome (make_server config) = (r, sv)"
  shows "server_inv sv" and "kinds_ok routes sv" and "limits sv = limits (make_server config)"
proof -
  show "limits sv = limits (make_server config)" using assms by (rule limits_started)
  have "hs_sessions sv = Map.empty \<and> hs_active_connections sv = 0 \<and> hs_active_stream_clients sv = 0"
    using assms by (auto simp: startServer_def run_simps make_server_def Let_def ProviderHttpServer_new_def split: if_splits)
  then show "server_inv sv"
    by (simp add: server_inv_def counts_ok_def open_set_def stream_set_def open_session_def)
  show "kinds_ok routes sv"
    using assms unfolding make_server_def Let_def by (rule kinds_ok_started)
qed

abbreviation idle_ok :: "app_library \<Rightarrow> VisionConfig \<Rightarrow> Application \<Rightarrow> bool" where
  "idle_ok lib config a \<equiv> components_ok lib config a \<and> ap_main a \<noteq> Join_pilot"

lemma make_recording_ok: "keeps (idle_ok lib config) (make_recording pid)"
  by (rule keepsI) (auto simp: make_recording_def run_simps components_ok_def split: sum.split intro: reach_init)

lemma start_server_ok:
  "keeps (idle_ok lib config)
     (bindS (modS (\<lambda>a. a\<lparr>ap_server := Some (make_server (ap_config a))\<rparr>)) (\<lambda>_. bindS (on_server (startServer outcome)) (\<lambda>_.
        modS (\<lambda>a. a\<lparr>ap_health := (ap_health a)\<lparr>ph_listening := True\<rparr>, ap_started := True, ap_main := Start_camera\<rparr>))))"
proof (rule keepsI)
  fix a assume "idle_ok lib config a"
  moreover obtain r sv where s: "startServer outcome (make_server (ap_config a)) = (r, sv)" by fastforce
  moreover note started_any [OF s]
  ultimately show "idle_ok lib config (snd (bindS (modS (\<lambda>a. a\<lparr>ap_server := Some (make_server (ap_config a))\<rparr>)) (\<lambda>_.
      bindS (on_server (startServer outcome)) (\<lambda>_. modS (\<lambda>a. a\<lparr>ap_health := (ap_health a)\<lparr>ph_listening := True\<rparr>,
        ap_started := True, ap_main := Start_camera\<rparr>))) a))"
    by (auto simp: run_simps on_server_def zoomS_def components_ok_def split: sum.split)
qed

lemma prepare_ok: "keeps (idle_ok lib config) (app_prepare lib pid outcome)"
  unfolding app_prepare_def
  by (intro keeps_bindS keeps_lift keeps_modS make_recording_ok start_server_ok) (simp_all add: components_ok_def)

lemma start_ok: "keeps (idle_ok lib config) (startApplication_begin lib pid outcome)"
  unfolding startApplication_begin_def by (intro keeps_bindS keeps_if prepare_ok keeps_basic)

lemma on_adapter_ok [keeps_intros]: "keeps (idle_ok lib config) (on_adapter m)"
  by (rule keepsI) (simp add: on_adapter_def zoomS_def components_ok_def split: prod.split)

lemma camera_start_ok:
  assumes "idle_ok lib config a"
  shows "components_ok lib config (startApplication_camera devices start_error encoder_ok capture_ok a)"
proof -
  have "keeps (idle_ok lib config) (catchS (start_streaming devices start_error encoder_ok capture_ok)
      (\<lambda>_. modS (\<lambda>a. a\<lparr>ap_health := (ap_health a)\<lparr>ph_state := PS_DEGRADED,
        ph_last_error := ''Camera adapter connection or stream start failed.''\<rparr>\<rparr>)))"
    unfolding start_streaming_def by (intro keeps_intros) (simp_all add: components_ok_def)
  with assms show ?thesis by (simp add: startApplication_camera_def keeps_def components_ok_def)
qed

lemma pilot_start_ok:
  assumes "components_ok lib config a" "length random = 16"
  shows "components_ok lib config (snd (startApplication_pilot lib random now a))"
proof -
  have "pilot_reachable (al_pilot lib) config p"
    if "startClient (al_pilot lib) st None random now (PilotIntegrationClient_new config) = (x, p)" for st x p
    using pilot_reachable.client [OF pilot_reachable.new client_step.start [OF assms(2), of "al_pilot lib" _ st None now], of config]
    by (simp add: that)
  with assms(1) show ?thesis
    by (simp add: startApplication_pilot_def run_simps on_pilot_def zoomS_def components_ok_def split: prod.split)
qed

text \<open>A handler of the server.\<close>

lemma http_ok:
  assumes "components_ok lib config a" "ap_server a = Some sv"
    and "server_step (application_routes lib (ap_config a)) (sv, a) (sv', a')"
  shows "components_ok lib config (a'\<lparr>ap_server := Some sv'\<rparr>)"
proof -
  have c: "ap_config a = config" and sv: "server_inv sv" "kinds_ok (application_routes lib config) sv"
    "limits sv = limits (make_server config)"
    using assms(1,2) by (simp_all add: components_ok_def)
  have "server_inv sv'" "kinds_ok (application_routes lib config) sv'" "limits sv' = limits (make_server config)"
    using server_step_inv [OF assms(3)] kinds_ok_step [OF assms(3)] limits_step [OF assms(3)] sv c by simp_all
  moreover have r: "records (al_recording lib) a a'" using app.stepped [OF assms(3)] by simp
  then obtain x where a': "a' = a\<lparr>ap_recording := x\<rparr>" by (auto simp: records_def)
  have "pred_option (\<lambda>r. \<exists>adm. reachable (al_recording lib) r adm) x"
    using r assms(1) reachable_moves by (auto simp: records_def components_ok_def a' split: option.splits)
  ultimately show ?thesis using assms(1) by (simp add: components_ok_def a')
qed

lemma worker_stopping:
  assumes "worker_step lib p p'" "pilot_reachable lib config p" "pi_started p \<longrightarrow> pi_stop_requested p"
  shows "pi_stop_requested p'"
proof -
  have "running (pi_pc p)" using ended_no_step [of p lib p'] assms(1) by blast
  then have "pi_started p" using not_started_ended [OF pilot_reachable_inv [OF assms(2)]] by blast
  then show ?thesis using stopping_step [OF assms(1)] assms(3) by blast
qed

lemma stopped_ok:
  "pilot_reachable lib config p \<Longrightarrow> pilot_reachable lib config (stop_begin (updateProviderState st p))"
  by (rule pilot_reachable.client [OF pilot_reachable.client]; (assumption | rule client_step.update client_step.stop)?)

lemma stop_begin_flags: "pi_started (stop_begin p) \<longrightarrow> pi_stop_requested (stop_begin p)"
  by (simp add: stop_begin_def)

lemma updated_ok1: "pilot_reachable lib config p \<Longrightarrow> pilot_reachable lib config (updateProviderState st p)"
  by (rule pilot_reachable.client [OF _ client_step.update])

lemma updated_flags [simp]:
  "pi_started (updateProviderState st p) = pi_started p" "pi_stop_requested (updateProviderState st p) = pi_stop_requested p"
  by (simp_all add: updateProviderState_def)

lemma server_stop_ok:
  "server_inv sv \<Longrightarrow> server_inv (stopServer_begin sv)" "kinds_ok routes sv \<Longrightarrow> kinds_ok routes (stopServer_begin sv)"
  "limits (stopServer_begin sv) = limits sv"
  by (auto simp: stopServer_begin_def limits_def intro: server_inv_cong kinds_ok_cong)

lemma server_finish_ok: "server_inv (stopServer_finish sv)" "kinds_ok routes (stopServer_finish sv)"
  "limits (stopServer_finish sv) = limits sv"
  by (simp_all add: stopServer_finish_def limits_def server_inv_def counts_ok_def open_set_def stream_set_def open_session_def
      kinds_ok_def session_of_def runSession_def)

lemma components_step: "app_step lib a b \<Longrightarrow> components_ok lib config a \<Longrightarrow> components_ok lib config b"
proof (induction rule: app_step.induct)
  case (start a pid outcome)
  then show ?case using start_ok [of lib config pid outcome] by (simp add: keeps_def)
next
  case (start_camera a devices start_error encoder_ok capture_ok)
  then show ?case by (simp add: camera_start_ok)
next
  case (start_pilot a random now)
  then show ?case by (simp add: pilot_start_ok)
next
  case (stop_pilot a)
  then show ?case
    by (cases "ap_pilot a") (simp_all add: components_ok_def AppThreads.stop_pilot_def stopped_ok stop_begin_flags)
next
  case (join_pilot a)
  then show ?case
    by (cases "ap_pilot a"; cases "ap_server a")
       (auto simp: components_ok_def AppThreads.join_pilot_def pilot_joinable_def server_stop_ok
         intro: pilot_reachable.client client_step.join)
next
  case (join_server a)
  then show ?case by (cases "ap_server a") (auto simp: components_ok_def AppThreads.join_server_def server_finish_ok)
next
  case (join_threads a)
  then show ?case
    by (cases "ap_recording a") (auto simp: components_ok_def AppThreads.join_threads_def intro: reach_step step_shutdown)
next
  case (join_recording a)
  then show ?case
    by (auto simp: components_ok_def stopApplication_end_def on_adapter_def zoomS_def Let_def split: prod.split)
next
  case (encoder_preview a kind seen frame)
  then show ?case by (simp add: components_ok_def AppThreads.encoder_preview_def split: option.split sum.split)
next
  case (encoder_wait a seen)
  then show ?case by (simp add: components_ok_def AppThreads.encoder_wait_def split: option.split)
next
  case (capture_read a answer)
  then show ?case
    by (simp add: components_ok_def AppThreads.capture_read_def on_adapter_def zoomS_def split: prod.split sum.split)
next
  case (capture_submit a frame owns_lock)
  then show ?case
    by (cases "ap_recording a")
       (auto simp: components_ok_def AppThreads.capture_submit_def intro: reachable_moves submit_moves)
next
  case (capture_publish a)
  then show ?case by (cases "ap_pilot a") (auto simp: components_ok_def AppThreads.capture_publish_def updated_flags intro: updated_ok1)
next
  case (http a sv sv' a')
  then show ?case by (simp add: http_ok)
next
  case (pilot a p p')
  then show ?case
    using worker_stopping [of "al_pilot lib" p p' config] by (auto simp: components_ok_def intro: pilot_reachable.worker)
next
  case (recording a r r')
  then show ?case by (auto simp: components_ok_def intro: reachable_moves thread_moves)
qed (auto simp: components_ok_def stopApplication_begin_def AppThreads.encoder_failed_def AppThreads.capture_failed_def
     AppThreads.capture_degrade_def Let_def)

theorem components_reachable: "app_reachable lib config a \<Longrightarrow> components_ok lib config a"
proof (induction rule: app_reachable.induct)
  case (new env)
  then show ?case by (simp add: components_ok_def VisionApplication_new_def)
next
  case (step a b)
  then show ?case using components_step by blast
qed

section \<open>Starting with an accepted configuration\<close>

lemma startServer_new:
  "fst (startServer outcome (make_server config)) =
     (if \<not> lo_address outcome then Inl (Invalid_argument ''Provider bind_host is not a valid IP address.'')
      else if \<not> lo_open outcome then Inl (Runtime_error ''Provider acceptor open failed.'')
      else if \<not> lo_option outcome then Inl (Runtime_error ''Provider acceptor option failed.'')
      else if \<not> lo_bind outcome then Inl (Runtime_error ''Provider bind failed.'')
      else if \<not> lo_listen outcome then Inl (Runtime_error ''Provider listen failed.'') else Inr ())"
  by (simp add: startServer_def run_simps make_server_def ProviderHttpServer_new_def Let_def)

lemma configured_adapter: "config_ok config \<Longrightarrow> \<exists>c. make_adapter config = Inr c"
  by (auto simp: config_ok_def device_ok_def make_adapter_def FakeCameraAdapter_new_def IntelD435Adapter_new_def
      validateIntelD435AdapterConfig_def fake_config_ok_def)

lemma configured_recording: "config_ok config \<Longrightarrow> \<exists>r. RecordingManager_new (manager_config config pid) w = Inr r"
  by (auto simp: config_ok_def recording_ok_def calibration_ok_def text_ok_def RecordingManager_new_def
      RecordingStore_new_def manager_config_def starts_with_def is_absolute_def color_profile_of_def Let_def word_le_nat_alt)

lemma prepare_run:
  assumes "config_ok (ap_config a)" and "\<not> ap_started a"
    and "buildCameraMountTransform (pb_cosine (al_pilot lib)) (pb_sine (al_pilot lib)) (vc_calibration (ap_config a)) = Inr t"
  shows "\<exists>b. startApplication_begin lib pid outcome a = (fst (startServer outcome (make_server (ap_config a))), b) \<and>
    (fst (startServer outcome (make_server (ap_config a))) = Inr () \<longrightarrow>
       ap_main b = Start_camera \<and> ap_started b \<and> ap_transform b = t \<and> ph_listening (ap_health b) \<and>
       ap_config b = ap_config a \<and> ap_env b = ap_env a \<and> make_adapter (ap_config a) = Inr (the (ap_adapter b)) \<and>
       m_latest_frame (ap_frame_store b) = None \<and> ap_adapter b \<noteq> None \<and> \<not> ap_stop_requested b \<and>
       ap_preview_cache b = EncodedPreviewCache_clear (ap_preview_cache a))"
proof -
  obtain c where c: "make_adapter (ap_config a) = Inr c" using configured_adapter [OF assms(1)] ..
  obtain r where r: "RecordingManager_new (manager_config (ap_config a) pid) (en_world (ap_env a)) = Inr r"
    using configured_recording [OF assms(1)] ..
  show ?thesis
    using assms(2,3) c r
    by (cases "startServer outcome (make_server (ap_config a))")
       (simp add: startApplication_begin_def app_prepare_def make_recording_def run_simps on_server_def zoomS_def
         FrameStore_clear_def split: sum.split)
qed

end
