(* ===== verification/AppRuns.thy ===== *)
theory AppRuns
  imports AppFacts
begin

text \<open>
  A concrete application: the accepted sample configuration with the fake camera, started, with a first frame
  captured and its colour preview encoded.
\<close>

definition sample_app_library :: app_library where
  "sample_app_library = \<lparr>al_pilot = \<lparr>pb_parse = (\<lambda>_. None), pb_ser = (\<lambda>_. []), pb_cosine = sample_cosine, pb_sine = sample_sine\<rparr>,
     al_recording = RecordingRuns.sample_library, al_compress = (\<lambda>_ _ _ _. Inr [1]), al_sort = sort_key fst,
     al_deproject = (\<lambda>_ _ d. (0, 0, d))\<rparr>"

definition sample_environment :: environment where
  "sample_environment = \<lparr>en_now = 0, en_world = sample_world, en_start = sample_env, en_stop_now = (0, 0), en_listing = []\<rparr>"

definition listening :: listen_outcome where
  "listening = \<lparr>lo_address = True, lo_open = True, lo_option = True, lo_bind = True, lo_listen = True, lo_port = 8080\<rparr>"

lemma sample_config_exists:
  "\<exists>c. parseVisionConfig (\<lambda>_. Some (sample_document sample_fake_device)) [] = Inr c \<and> config_ok c \<and> vc_adapter c = ''fake'' \<and>
     vc_calibration c = sample_calibration"
  using sample_fake_accepted post_parseVisionConfig [of "\<lambda>_. Some (sample_document sample_fake_device)" "[]"]
  by (auto dest: postED)

definition sample_vision :: VisionConfig where
  "sample_vision = projr (parseVisionConfig (\<lambda>_. Some (sample_document sample_fake_device)) [])"

lemma sample_vision:
  "parseVisionConfig (\<lambda>_. Some (sample_document sample_fake_device)) [] = Inr sample_vision" "config_ok sample_vision"
  "vc_adapter sample_vision = ''fake''" "vc_calibration sample_vision = sample_calibration"
  using sample_config_exists by (auto simp: sample_vision_def)

section \<open>The run\<close>

definition started_app :: "Application \<Rightarrow> bool" where
  "started_app a \<longleftrightarrow> app_step sample_app_library (VisionApplication_new sample_vision sample_environment) a \<and>
     ap_main a = Start_camera \<and> ap_config a = sample_vision \<and> ap_env a = sample_environment \<and>
     make_adapter sample_vision = Inr (the (ap_adapter a)) \<and> ap_adapter a \<noteq> None \<and>
     m_latest_frame (ap_frame_store a) = None \<and> \<not> ap_stop_requested a \<and>
     ap_preview_cache a = EncodedPreviewCache_clear EncodedPreviewCache_new"

lemma sample_listens: "fst (startServer listening (make_server config)) = Inr ()"
  by (simp add: startServer_new listening_def)

lemma sample_started: "\<exists>a. started_app a"
proof -
  let ?a = "VisionApplication_new sample_vision sample_environment"
  have n: "ap_config ?a = sample_vision" "\<not> ap_started ?a" "ap_main ?a = Main_idle" "ap_env ?a = sample_environment"
    "ap_preview_cache ?a = EncodedPreviewCache_new" by (simp_all add: VisionApplication_new_def)
  have t: "buildCameraMountTransform (pb_cosine (al_pilot sample_app_library)) (pb_sine (al_pilot sample_app_library))
      (vc_calibration (ap_config ?a)) = Inr \<lparr>ct_calibration_id = ''c1'', ct_sensor_frame = ''cam'',
        ct_mount_frame = ''base'', ct_matrix4x4 = forward_matrix\<rparr>"
    using sample_transform by (simp add: n sample_vision(4) sample_app_library_def)
  have "config_ok (ap_config ?a)" by (simp add: n sample_vision(2))
  from prepare_run [OF this n(2) t, of 1 listening] obtain b where
    b: "startApplication_begin sample_app_library 1 listening ?a = (Inr (), b)"
    "ap_main b = Start_camera" "ap_config b = sample_vision" "ap_env b = sample_environment"
    "make_adapter sample_vision = Inr (the (ap_adapter b))" "ap_adapter b \<noteq> None" "m_latest_frame (ap_frame_store b) = None"
    "\<not> ap_stop_requested b" "ap_preview_cache b = EncodedPreviewCache_clear EncodedPreviewCache_new"
    by (auto simp: sample_listens n)
  with app_step.start [OF n(3), of sample_app_library 1 listening] show ?thesis by (auto simp: started_app_def)
qed

text \<open>The camera streams.\<close>

definition streaming_camera :: "FakeCameraAdapter \<Rightarrow> bool" where
  "streaming_camera c \<longleftrightarrow> fa_config c = vc_fake sample_vision \<and> fa_streaming c \<and> fa_capture_generation c = 1"

definition streaming_app :: "Application \<Rightarrow> Application \<Rightarrow> bool" where
  "streaming_app a b \<longleftrightarrow> app_step sample_app_library a b \<and> ap_main b = Start_pilot \<and> ap_config b = sample_vision \<and>
     ap_env b = sample_environment \<and> (\<exists>c. ap_adapter b = Some (Cam_fake c) \<and> streaming_camera c) \<and>
     m_latest_frame (ap_frame_store b) = None \<and> \<not> ap_stop_requested b \<and> ap_capture b = Cap_loop \<and>
     ap_encoder b = Enc_wait default_FrameIdentity \<and> ph_state (ap_health b) = PS_READY \<and>
     ap_preview_cache b = EncodedPreviewCache_clear EncodedPreviewCache_new"

lemma sample_streams:
  assumes "started_app a"
  shows "\<exists>b. streaming_app a b"
proof -
  obtain c where c: "ap_adapter a = Some (Cam_fake c)" "FakeCameraAdapter_new (vc_fake sample_vision) = Inr c"
    using assms sample_vision(3) by (cases "ap_adapter a") (auto simp: started_app_def make_adapter_def result_simps)
  then have "fa_config c = vc_fake sample_vision" "fa_capture_generation c = 0"
    by (auto simp: FakeCameraAdapter_new_def result_simps)
  then have "streaming_app a (startApplication_camera [] None True True a)"
    using assms c(1) app_step.start_camera [of a sample_app_library "[]" None True True]
    by (simp add: streaming_app_def started_app_def startApplication_camera_def start_streaming_def catchS_def run_simps
        on_adapter_def zoomS_def connectCamera_def startStream_camera_def on_camera_def on_fake_def fake_connectCamera_def
        fake_startStream_def streaming_camera_def)
  then show ?thesis by blast
qed

text \<open>A first frame.\<close>

definition captured_frame :: "FakeCapturedFrame \<Rightarrow> bool" where
  "captured_frame f \<longleftrightarrow> frame_wf f \<and> (\<exists>n. fk_snapshot f = fake_snapshot (vc_fake sample_vision) 1 n)"

lemma sample_fake_ok: "fake_config_ok (vc_fake sample_vision)"
  using sample_vision(2,3) by (auto simp: config_ok_def device_ok_def)

lemma sample_reads:
  assumes "streaming_camera c"
  shows "\<exists>f c'. readFrame sample_app_library answer (Cam_fake c) = (Inr (as_captured (sort_key fst) f), c') \<and> captured_frame f"
proof -
  let ?c = "c\<lparr>fa_manual_frame_ready := False\<rparr>"
  obtain r b where m: "makeFrame ?c = (r, b)" by fastforce
  then obtain f where r: "r = Inr f" by (auto simp: makeFrame_def act_simps Let_def)
  have "0 < fc_width (fa_config ?c)" "0 < fc_height (fa_config ?c)"
    using assms sample_fake_ok by (simp_all add: streaming_camera_def fake_config_ok_def)
  note makeFrame_run [OF m [unfolded r] this]
  then have "captured_frame f" using assms by (auto simp: captured_frame_def streaming_camera_def)
  moreover have "fake_readFrame CAPTURE_TIMEOUT_MS c = (Inr f, b)"
    using assms sample_fake_ok m r
    by (simp add: fake_readFrame_def run_simps streaming_camera_def fake_config_ok_def CAPTURE_TIMEOUT_MS_def)
  then have "readFrame sample_app_library answer (Cam_fake c) = (Inr (as_captured (sort_key fst) f), Cam_fake b)"
    by (simp add: readFrame_def on_camera_def on_fake_def run_simps sample_app_library_def)
  ultimately show ?thesis by blast
qed

definition holding_app :: "Application \<Rightarrow> FakeCapturedFrame \<Rightarrow> Application \<Rightarrow> bool" where
  "holding_app b f d \<longleftrightarrow> app_step sample_app_library b d \<and> captured_frame f \<and> ap_config d = sample_vision \<and>
     ap_env d = sample_environment \<and> m_latest_frame (ap_frame_store d) = Some (as_captured (sort_key fst) f) \<and>
     \<not> ap_stop_requested d \<and> ap_encoder d = Enc_wait default_FrameIdentity \<and>
     ap_preview_cache d = EncodedPreviewCache_clear EncodedPreviewCache_new"

lemma sample_captures:
  assumes "streaming_app a b"
  shows "\<exists>f d. holding_app b f d"
proof -
  obtain c where c: "ap_adapter b = Some (Cam_fake c)" "streaming_camera c" using assms by (auto simp: streaming_app_def)
  from sample_reads [OF c(2), of "Read_error []"] obtain f c' where
    r: "readFrame sample_app_library (Read_error []) (Cam_fake c) = (Inr (as_captured (sort_key fst) f), c')" and f: "captured_frame f"
    by blast
  have "holding_app b f (capture_read sample_app_library (Read_error []) b)"
    using assms c(1) r f app_step.capture_read [of b sample_app_library "Read_error []"]
    by (simp add: holding_app_def streaming_app_def capture_read_def on_adapter_def zoomS_def publishFrame_def)
  then show ?thesis by blast
qed

text \<open>Its colour preview.\<close>

definition encoding_app :: "Application \<Rightarrow> FakeCapturedFrame \<Rightarrow> Application \<Rightarrow> bool" where
  "encoding_app d f e \<longleftrightarrow> app_step sample_app_library d e \<and> captured_frame f \<and> ap_config e = sample_vision \<and>
     ap_env e = sample_environment \<and> sl_preview (m_color_preview (ap_preview_cache e)) = None \<and>
     ap_encoder e = Enc_preview Preview_COLOR (fs_identity (fk_snapshot f)) (as_captured (sort_key fst) f)"

lemma sample_waits:
  assumes "holding_app b f d"
  shows "\<exists>e. encoding_app d f e"
proof -
  obtain n where "fk_snapshot f = fake_snapshot (vc_fake sample_vision) 1 n" using assms by (auto simp: holding_app_def captured_frame_def)
  then have "capture_generation (fs_identity (fk_snapshot f)) = 1" by (simp add: fake_snapshot_def Let_def)
  then have "has_newer_frame default_FrameIdentity (ap_frame_store d)"
    using assms by (simp add: holding_app_def has_newer_frame_def as_captured_def frame_store_isNewerIdentity_def default_FrameIdentity_def)
  then have "encoding_app d f (encoder_wait default_FrameIdentity d)"
    using assms app_step.encoder_wait [of d default_FrameIdentity sample_app_library]
    by (simp add: encoding_app_def holding_app_def encoder_wait_def as_captured_def invalidateGeneration_def stale_generation_def
        EncodedPreviewCache_clear_def empty_slot_def)
  then show ?thesis by blast
qed

definition showing_app :: "Application \<Rightarrow> Application \<Rightarrow> bool" where
  "showing_app e g \<longleftrightarrow> app_step sample_app_library e g \<and> ap_config g = sample_vision \<and>
     (\<exists>p. fresh_preview Preview_COLOR g = Some p \<and> ep_jpeg p = [1])"

lemma sample_encodes:
  assumes "encoding_app d f e"
  shows "\<exists>g. showing_app e g"
proof -
  have f: "frame_wf f" and s: "\<exists>n. fk_snapshot f = fake_snapshot (vc_fake sample_vision) 1 n"
    using assms by (simp_all add: encoding_app_def captured_frame_def)
  obtain v where v: "fake_getColorFrameView f = Some v" using s by (auto simp: fake_getColorFrameView_def fake_snapshot_def Let_def)
  have "\<not> jpeg_rejected v JPEG_QUALITY"
    by (rule fake_views_encodable(1) [OF f disjI1 [OF v]])
       (use s sample_fake_ok in \<open>auto simp: fake_snapshot_def Let_def fake_config_ok_def JPEG_QUALITY_def\<close>)
  then have j: "encodeRgbJpeg (al_compress sample_app_library) v JPEG_QUALITY = Inr [1]"
    by (simp add: encodeRgbJpeg_def sample_app_library_def)
  have "0 < pv_max_frame_age_ms (vc_provider sample_vision)"
    using sample_vision(2) by (simp add: config_ok_def provider_ok_def)
  then have "showing_app e (encoder_preview sample_app_library Preview_COLOR (fs_identity (fk_snapshot f))
      (as_captured (sort_key fst) f) e)"
    using assms v j app_step.encoder_preview [of e Preview_COLOR "fs_identity (fk_snapshot f)" "as_captured (sort_key fst) f" sample_app_library]
    by (simp add: showing_app_def encoding_app_def encoder_preview_def as_captured_def publishPreview_def fresh_preview_def
        acquireFreshPreview_def Let_def sample_environment_def)
  then show ?thesis by blast
qed

lemma sample_run:
  "\<exists>a b f d e g. started_app a \<and> streaming_app a b \<and> holding_app b f d \<and> encoding_app d f e \<and> showing_app e g"
proof -
  obtain a where a: "started_app a" using sample_started ..
  moreover obtain b where b: "streaming_app a b" using sample_streams [OF a] ..
  moreover obtain f d where d: "holding_app b f d" using sample_captures [OF b] by blast
  moreover obtain e where e: "encoding_app d f e" using sample_waits [OF d] ..
  moreover obtain g where "showing_app e g" using sample_encodes [OF e] ..
  ultimately show ?thesis by blast
qed

end
