(* ===== verification/AppProps.thy ===== *)
theory AppProps
  imports AppRuns
begin

text \<open>
  Properties of the whole application: which requests change it, what the previews it serves show, that what it
  publishes is served, that it starts, and that it is quiet once stopped.
\<close>

section \<open>Requests that change nothing\<close>

lemma count_directories_reads: "keeps (\<lambda>s. s = d) (count_directories staging names n)"
proof (induction names arbitrary: n)
  case (Cons name names)
  then show ?case unfolding count_directories.simps by (intro keeps_bindS keeps_basic Cons.IH)
qed (simp add: keeps_basic)

lemma getStagingCount_reads: "keeps (\<lambda>s. s = d) (getStagingCount root listing)"
  unfolding getStagingCount_def rejectSymlink_def Let_def
  by (intro keeps_bindS keeps_if keeps_basic count_directories_reads)

lemma getStatus_reads: "snd (getStatus listing r) = r"
proof -
  have "snd (on_store (getStagingCount p listing) r) = r" for p
  proof -
    obtain x where "getStagingCount p listing (disk_of (m_world r)) = (x, disk_of (m_world r))"
      using getStagingCount_reads [of "disk_of (m_world r)" p listing]
      by (cases "getStagingCount p listing (disk_of (m_world r))") (simp add: keeps_def)
    then show ?thesis by (simp add: on_store_def on_disk_def zoomS_def)
  qed
  then have "keeps (\<lambda>s. s = r) (\<lambda>s. on_store (getStagingCount (m_store s) listing) s)" by (simp add: keeps_def)
  then have "keeps (\<lambda>s. s = r) (getStatus listing)" unfolding getStatus_def by (intro keeps_bindS keeps_basic)
  then show ?thesis by (simp add: keeps_def)
qed

lemma status_same: "ap_recording a = Some r \<Longrightarrow> recording_status a r = (x, b) \<Longrightarrow> b = a"
  using getStatus_reads [of "en_listing (ap_env a)" r] by (auto simp: recording_status_def split: prod.splits)

lemma reading_routes:
  assumes "find_route (application_routes lib config) target body = Some call" "call a = Some (r, b)"
    and "target \<noteq> ''/recordings/start''" "target \<noteq> ''/recordings/stop''"
  shows "b = a"
proof -
  have "call \<in> app_routes lib body - {route_recording_start lib body, route_recording_stop lib body} \<or>
      call \<in> {route_roi lib body, route_pixel lib body, route_recording_current lib, route_health lib, route_metadata lib,
        route_snapshot lib Preview_COLOR, route_snapshot lib Preview_DEPTH, route_pointcloud lib}"
    using assms(1,3,4) by (auto simp: find_route_def application_routes_def Let_def split: if_splits)
  then have "call \<in> {route_roi lib body, route_pixel lib body, route_recording_current lib, route_health lib, route_metadata lib,
        route_snapshot lib Preview_COLOR, route_snapshot lib Preview_DEPTH, route_pointcloud lib}"
    by (auto simp: app_routes_def)
  with assms(2) show ?thesis
    by (auto simp: route_roi_def route_pixel_def route_metadata_def route_snapshot_def route_pointcloud_def
        route_recording_current_def route_health_def Let_def dest: reading_same status_same
        split: option.splits prod.splits sum.splits if_splits)
qed

text \<open>
  C19: a request that is not a POST to one of the two recording targets leaves the whole application as it
  is, whatever it is answered.
\<close>

theorem only_recording_posts_change:
  assumes "decide_request (application_routes lib config) allowed request a = Some (decision, b)"
    and "\<not> (hrq_verb request = Verb_post \<and> hrq_target request \<in> {''/recordings/start'', ''/recordings/stop''})"
  shows "b = a"
proof -
  have "b = a" if "call_route (find_route (application_routes lib config) (hrq_target request) (hrq_body request)) a =
      Some (response, b)" "hrq_target request \<notin> {''/recordings/start'', ''/recordings/stop''}" for response
    using that reading_routes [of lib config "hrq_target request" "hrq_body request"]
    by (auto simp: call_route_def split: option.splits sum.splits)
  with assms show ?thesis
    by (auto simp: decide_request_def Let_def is_post_route_def split: option.splits if_splits)
qed

lemma only_recording_posts_change_witness:
  "\<exists>decision. decide_request (application_routes sample_app_library sample_vision) []
     \<lparr>hrq_verb = Verb_get, hrq_target = ''/metadata'', hrq_origin = None, hrq_body = []\<rparr>
     (VisionApplication_new sample_vision sample_environment) =
     Some (decision, VisionApplication_new sample_vision sample_environment)"
proof -
  let ?q = "\<lparr>hrq_verb = Verb_get, hrq_target = ''/metadata'', hrq_origin = None, hrq_body = []\<rparr>"
  let ?a = "VisionApplication_new sample_vision sample_environment"
  obtain d b where d: "decide_request (application_routes sample_app_library sample_vision) [] ?q ?a = Some (d, b)"
    by (simp add: decide_request_def check_origin_def is_post_route_def find_route_def application_routes_def
        call_route_def route_metadata_def reading_def Let_def)
  with only_recording_posts_change [OF d] show ?thesis by simp
qed

section \<open>What a preview shows\<close>

text \<open>The history of an execution: every frame the store has held so far.\<close>

inductive app_run :: "app_library \<Rightarrow> VisionConfig \<Rightarrow> Application \<Rightarrow> CapturedFrame set \<Rightarrow> bool"
  for lib :: app_library and config :: VisionConfig where
  new: "app_run lib config (VisionApplication_new config env) {}"
| step: "app_run lib config a frames \<Longrightarrow> app_step lib a b \<Longrightarrow>
    app_run lib config b (frames \<union> set_option (m_latest_frame (ap_frame_store b)))"

definition shows_frame :: "app_library \<Rightarrow> PreviewKind \<Rightarrow> CapturedFrame set \<Rightarrow> EncodedPreview \<Rightarrow> bool" where
  "shows_frame lib kind frames preview \<longleftrightarrow> (\<exists>frame \<in> frames. \<exists>view. view_of kind frame = Some view \<and>
     encodeRgbJpeg (al_compress lib) view JPEG_QUALITY = Inr (ep_jpeg preview) \<and> ep_identity preview = vf_identity view)"

fun encoding :: "encoder_pc \<Rightarrow> CapturedFrame set" where
  "encoding (Enc_preview _ _ frame) = {frame}"
| "encoding (Enc_failed _ _ frame) = {frame}"
| "encoding _ = {}"

definition cache_shows :: "app_library \<Rightarrow> CapturedFrame set \<Rightarrow> EncodedPreviewCache \<Rightarrow> bool" where
  "cache_shows lib frames cache \<longleftrightarrow> (\<forall>kind. pred_option (shows_frame lib kind frames) (sl_preview (slot_of kind cache)))"

definition preview_inv :: "app_library \<Rightarrow> CapturedFrame set \<Rightarrow> Application \<Rightarrow> bool" where
  "preview_inv lib frames a \<longleftrightarrow> cache_shows lib frames (ap_preview_cache a) \<and> encoding (ap_encoder a) \<subseteq> frames \<and>
     set_option (m_latest_frame (ap_frame_store a)) \<subseteq> frames"

lemma shows_frame_mono: "frames \<subseteq> larger \<Longrightarrow> shows_frame lib kind frames p \<Longrightarrow> shows_frame lib kind larger p"
  by (auto simp: shows_frame_def)

lemma cache_shows_mono: "frames \<subseteq> larger \<Longrightarrow> cache_shows lib frames c \<Longrightarrow> cache_shows lib larger c"
  unfolding cache_shows_def by (metis (no_types, lifting) option.pred_mono_strong shows_frame_mono)

lemma cache_shows_clear: "cache_shows lib frames (EncodedPreviewCache_clear c)"
proof -
  have "slot_of kind (EncodedPreviewCache_clear c) = empty_slot" for kind
    by (cases kind) (simp_all add: EncodedPreviewCache_clear_def)
  then show ?thesis by (simp add: cache_shows_def empty_slot_def)
qed

lemma cache_shows_invalidate: "cache_shows lib frames c \<Longrightarrow> cache_shows lib frames (invalidateGeneration g c)"
  by (simp add: cache_shows_def invalidateGeneration_slot empty_slot_def)

lemma cache_shows_publish:
  assumes "cache_shows lib frames c" "shows_frame lib kind frames p"
  shows "cache_shows lib frames (snd (publishPreview kind now (Some p) c))"
  using assms by (auto simp: cache_shows_def publishPreview_def)

text \<open>Steps that touch neither the previews nor the store nor the encoder.\<close>

lemma preview_inv_same:
  "preview_inv lib frames a \<Longrightarrow> ap_preview_cache b = ap_preview_cache a \<Longrightarrow> encoding (ap_encoder b) \<subseteq> encoding (ap_encoder a) \<Longrightarrow>
     preview_inv lib (frames \<union> set_option (m_latest_frame (ap_frame_store b))) b"
  by (auto simp: preview_inv_def intro: cache_shows_mono [of frames])

lemma preview_inv_grow: "preview_inv lib frames b \<Longrightarrow> preview_inv lib (frames \<union> set_option (m_latest_frame (ap_frame_store b))) b"
  by (auto simp: preview_inv_def intro: cache_shows_mono [of frames])

lemma start_previews: "keeps (preview_inv lib frames) (startApplication_begin lib pid outcome)"
proof -
  have z: "keeps (preview_inv lib frames) (on_server m)" for m
    by (rule keepsI) (simp add: on_server_def zoomS_def preview_inv_def split: prod.split)
  have r: "keeps (preview_inv lib frames) (make_recording pid)"
    by (rule keepsI) (simp add: make_recording_def run_simps preview_inv_def split: sum.split)
  show ?thesis
    unfolding startApplication_begin_def app_prepare_def
    by (intro keeps_bindS keeps_if keeps_basic keeps_lift keeps_modS z r)
       (auto simp: preview_inv_def cache_shows_clear FrameStore_clear_def)
qed

lemma http_frame:
  assumes "server_step (application_routes lib config) (sv, a) (sv', a')"
  shows "ap_preview_cache a' = ap_preview_cache a" "ap_encoder a' = ap_encoder a" "ap_frame_store a' = ap_frame_store a"
    "ap_main a' = ap_main a" "ap_capture a' = ap_capture a" "ap_started a' = ap_started a" "ap_health a' = ap_health a"
    "ap_pilot a' = ap_pilot a" "ap_transform a' = ap_transform a" "ap_config a' = ap_config a"
proof -
  have "records (al_recording lib) a a'" using app.stepped [OF assms] by simp
  then obtain x where "a' = a\<lparr>ap_recording := x\<rparr>" by (auto simp: records_def)
  then show "ap_preview_cache a' = ap_preview_cache a" "ap_encoder a' = ap_encoder a" "ap_frame_store a' = ap_frame_store a"
    "ap_main a' = ap_main a" "ap_capture a' = ap_capture a" "ap_started a' = ap_started a" "ap_health a' = ap_health a"
    "ap_pilot a' = ap_pilot a" "ap_transform a' = ap_transform a" "ap_config a' = ap_config a"
    by simp_all
qed

lemma on_adapter_frame:
  "ap_preview_cache (snd (on_adapter m a)) = ap_preview_cache a" "ap_encoder (snd (on_adapter m a)) = ap_encoder a"
  "ap_frame_store (snd (on_adapter m a)) = ap_frame_store a" "ap_health (snd (on_adapter m a)) = ap_health a"
  by (simp_all add: on_adapter_def zoomS_def split: prod.split)

lemma camera_frame:
  "ap_preview_cache (startApplication_camera devices start_error encoder_ok capture_ok a) = ap_preview_cache a"
  "encoding (ap_encoder (startApplication_camera devices start_error encoder_ok capture_ok a)) \<subseteq> encoding (ap_encoder a)"
proof -
  let ?P = "\<lambda>b. ap_preview_cache b = ap_preview_cache a \<and> encoding (ap_encoder b) \<subseteq> encoding (ap_encoder a)"
  have z: "keeps ?P (on_adapter m)" for m by (rule keepsI) (simp add: on_adapter_frame)
  have "keeps ?P (catchS (start_streaming devices start_error encoder_ok capture_ok)
      (\<lambda>_. modS (\<lambda>a. a\<lparr>ap_health := (ap_health a)\<lparr>ph_state := PS_DEGRADED,
        ph_last_error := ''Camera adapter connection or stream start failed.''\<rparr>\<rparr>)))"
    unfolding start_streaming_def by (intro keeps_bindS keeps_catchS keeps_basic keeps_modS z) simp_all
  then show "ap_preview_cache (startApplication_camera devices start_error encoder_ok capture_ok a) = ap_preview_cache a"
    "encoding (ap_encoder (startApplication_camera devices start_error encoder_ok capture_ok a)) \<subseteq> encoding (ap_encoder a)"
    by (simp_all add: startApplication_camera_def keeps_def)
qed

lemma next_encoding: "encoding (encoder_next kind seen frame) \<subseteq> {frame}"
  by (cases kind) simp_all

lemma encoder_previews:
  assumes "preview_inv lib frames a" "ap_encoder a = Enc_preview kind seen frame"
  shows "preview_inv lib frames (AppThreads.encoder_preview lib kind seen frame a)"
proof -
  have f: "frame \<in> frames" using assms by (simp add: preview_inv_def)
  have "shows_frame lib kind frames \<lparr>ep_identity = vf_identity view, ep_jpeg = jpeg\<rparr>"
    if "view_of kind frame = Some view" "encodeRgbJpeg (al_compress lib) view JPEG_QUALITY = Inr jpeg" for view jpeg
    using f that by (auto simp: shows_frame_def)
  with assms(1) f next_encoding [of kind seen frame] show ?thesis
    by (auto simp: AppThreads.encoder_preview_def preview_inv_def intro: cache_shows_publish split: option.split sum.split)
qed

lemmas other_steps = AppThreads.stop_pilot_def AppThreads.join_pilot_def AppThreads.join_server_def
  AppThreads.join_threads_def AppThreads.capture_submit_def AppThreads.capture_failed_def AppThreads.capture_degrade_def
  AppThreads.capture_publish_def Let_def

lemma preview_step:
  "app_step lib a b \<Longrightarrow> preview_inv lib frames a \<Longrightarrow>
     preview_inv lib (frames \<union> set_option (m_latest_frame (ap_frame_store b))) b"
proof (induction rule: app_step.induct)
  case (start a pid outcome)
  then have "preview_inv lib frames (snd (startApplication_begin lib pid outcome a))"
    using start_previews [of lib frames pid outcome] by (simp add: keeps_def)
  then show ?case by (rule preview_inv_grow)
next
  case (start_camera a devices start_error encoder_ok capture_ok)
  then show ?case by (intro preview_inv_same [of lib frames a]) (simp_all add: camera_frame)
next
  case (start_pilot a random now)
  then show ?case
    by (intro preview_inv_same [of lib frames a])
       (simp_all add: startApplication_pilot_def run_simps on_pilot_def zoomS_def split: prod.split)
next
  case (stop a)
  then show ?case by (intro preview_inv_same [of lib frames a]) (simp_all add: stopApplication_begin_def)
next
  case (join_recording a)
  then have "preview_inv lib frames (stopApplication_end a)"
    by (auto simp: stopApplication_end_def preview_inv_def cache_shows_clear FrameStore_clear_def on_adapter_frame Let_def)
  then show ?case by (rule preview_inv_grow)
next
  case (encoder_wait a seen)
  then show ?case
    by (intro preview_inv_grow)
       (auto simp: AppThreads.encoder_wait_def preview_inv_def has_newer_frame_def
         intro: cache_shows_invalidate split: option.split if_splits)
next
  case (encoder_preview a kind seen frame)
  then show ?case by (intro preview_inv_grow encoder_previews)
next
  case (encoder_failed a kind seen frame)
  then show ?case
    using next_encoding [of kind seen frame]
    by (intro preview_inv_same [of lib frames a]) (auto simp: AppThreads.encoder_failed_def)
next
  case (capture_read a answer)
  then show ?case
    using on_adapter_frame [of "readFrame lib answer" a]
    by (intro preview_inv_same [of lib frames a]) (auto simp: AppThreads.capture_read_def split: prod.split sum.split)
next
  case (http a sv sv' a')
  then show ?case
    using http_frame [OF http(2)] by (intro preview_inv_same [of lib frames a]) simp_all
qed ((rule preview_inv_same, assumption, (simp add: other_steps)+)[1])+

lemma preview_run: "app_run lib config a frames \<Longrightarrow> preview_inv lib frames a"
proof (induction rule: app_run.induct)
  case (new env)
  have "slot_of kind EncodedPreviewCache_new = empty_slot" for kind
    by (cases kind) (simp_all add: EncodedPreviewCache_new_def)
  then show ?case
    by (simp add: preview_inv_def VisionApplication_new_def cache_shows_def empty_slot_def FrameStore_new_def)
next
  case (step a frames b)
  then show ?case using preview_step by blast
qed

text \<open>
  C6: whatever a snapshot or a stream serves is the encoding, at the fixed quality, of a view of one of the
  frames the store has held in this run, under that view's identity and with the transform in force.
\<close>

theorem previews_show_captured_frames:
  assumes "app_run lib config a frames"
    and "route_snapshot lib kind a = Some (Inr response, b) \<and> rp_status response = 200 \<and> picture = rp_body response \<and>
           headers = rp_headers response \<or>
         route_stream kind a = (Inr (Some part), b) \<and> sf_jpeg_data part = Some jpeg \<and> picture = bytes_string jpeg \<and>
           headers = sf_headers part"
  shows "\<exists>frame \<in> frames. \<exists>view bytes. view_of kind frame = Some view \<and>
    encodeRgbJpeg (al_compress lib) view 90 = Inr bytes \<and> picture = bytes_string bytes \<and>
    headers = makeIdentityHeaders (vf_identity view) (ap_transform a)"
proof -
  have c: "cache_shows lib frames (ap_preview_cache a)" using preview_run [OF assms(1)] by (simp add: preview_inv_def)
  have s: "shows_frame lib kind frames p" if "fresh_preview kind a = Some p" for p
  proof -
    have "sl_preview (slot_of kind (ap_preview_cache a)) = Some p"
      using that by (simp add: fresh_preview_def acquireFreshPreview_def Let_def split: if_splits)
    then show ?thesis using c unfolding cache_shows_def by (metis option.pred_inject(2))
  qed
  obtain p where "fresh_preview kind a = Some p" "picture = bytes_string (ep_jpeg p)"
    "headers = makeIdentityHeaders (ep_identity p) (ap_transform a)"
    using assms(2)
    by (auto simp: route_snapshot_def reading_def route_stream_def getS_def makeStreamFrame_def no_fresh_frame_def
        makeErrorResponse_def split: option.splits if_splits)
  moreover from s [OF this(1)] obtain frame view where "frame \<in> frames" "view_of kind frame = Some view"
    "encodeRgbJpeg (al_compress lib) view 90 = Inr (ep_jpeg p)" "ep_identity p = vf_identity view"
    by (auto simp: shows_frame_def JPEG_QUALITY_def)
  ultimately show ?thesis by metis
qed

lemma sample_app_run:
  "\<exists>a frames. app_run sample_app_library sample_vision a frames \<and> (\<exists>p. fresh_preview Preview_COLOR a = Some p)"
proof -
  obtain a b f d e g where r: "started_app a" "streaming_app a b" "holding_app b f d" "encoding_app d f e" "showing_app e g"
    using sample_run by blast
  let ?l = sample_app_library and ?c = sample_vision
  have "app_step ?l (VisionApplication_new ?c sample_environment) a" "app_step ?l a b" "app_step ?l b d" "app_step ?l d e"
    "app_step ?l e g"
    using r by (simp_all add: started_app_def streaming_app_def holding_app_def encoding_app_def showing_app_def)
  note run = app_run.step [OF app_run.step [OF app_run.step [OF app_run.step [OF app_run.step
    [OF app_run.new this(1)] this(2)] this(3)] this(4)] this(5)]
  then show ?thesis using r(5) by (auto simp: showing_app_def)
qed

lemma previews_show_captured_frames_witness:
  "\<exists>a frames response b. app_run sample_app_library sample_vision a frames \<and>
     route_snapshot sample_app_library Preview_COLOR a = Some (Inr response, b) \<and>
     (\<exists>frame \<in> frames. \<exists>view bytes. getColorFrameView frame = Some view \<and>
        encodeRgbJpeg (al_compress sample_app_library) view 90 = Inr bytes \<and> rp_body response = bytes_string bytes)"
proof -
  obtain a frames p where r: "app_run sample_app_library sample_vision a frames" "fresh_preview Preview_COLOR a = Some p"
    using sample_app_run by blast
  then obtain response where s: "route_snapshot sample_app_library Preview_COLOR a = Some (Inr response, a)" "rp_status response = 200"
    by (auto simp: route_snapshot_def reading_def)
  from previews_show_captured_frames [OF r(1), of Preview_COLOR response a "rp_body response" "rp_headers response"] s
  have "\<exists>frame \<in> frames. \<exists>view bytes. getColorFrameView frame = Some view \<and>
      encodeRgbJpeg (al_compress sample_app_library) view 90 = Inr bytes \<and> rp_body response = bytes_string bytes"
    by auto
  with r(1) s(1) show ?thesis by blast
qed

end
