(* ===== verification/AppLifecycle.thy ===== *)
theory AppLifecycle
  imports AppProps
begin

text \<open>
  The lifecycle of the application: an accepted configuration starts, the state READY is only entered by a start,
  and after a stop nothing runs and nothing is held.
\<close>

section \<open>Start\<close>



section \<open>The state READY\<close>



section \<open>After a stop\<close>

definition server_closed :: "ProviderHttpServer \<Rightarrow> bool" where
  "server_closed sv \<longleftrightarrow> hs_sessions sv = Map.empty \<and> \<not> hs_accept_pending sv \<and> \<not> hs_stop_posted sv \<and> \<not> hs_started sv"

definition pilot_ended :: "Application \<Rightarrow> bool" where
  "pilot_ended a \<longleftrightarrow> pred_option (\<lambda>p. \<not> pi_started p) (ap_pilot a)"

definition server_ended :: "Application \<Rightarrow> bool" where
  "server_ended a \<longleftrightarrow> pilot_ended a \<and> pred_option server_closed (ap_server a)"

definition threads_ended :: "Application \<Rightarrow> bool" where
  "threads_ended a \<longleftrightarrow> server_ended a \<and> ap_capture a = Cap_none \<and> ap_encoder a = Enc_none"

definition quiet :: "Application \<Rightarrow> bool" where
  "quiet a \<longleftrightarrow> threads_ended a \<and> recording_joinable a \<and> m_latest_frame (ap_frame_store a) = None \<and>
     acquirePreview Preview_COLOR (ap_preview_cache a) = None \<and> acquirePreview Preview_DEPTH (ap_preview_cache a) = None \<and>
     \<not> ph_listening (ap_health a)"

definition stop_phase :: "Application \<Rightarrow> bool" where
  "stop_phase a \<longleftrightarrow> (case ap_main a of
     Main_idle \<Rightarrow> \<not> ap_started a \<longrightarrow> quiet a
   | Join_server \<Rightarrow> \<not> ap_started a \<and> pilot_ended a \<and> pred_option (\<lambda>sv. \<not> hs_started sv) (ap_server a)
   | Join_threads \<Rightarrow> \<not> ap_started a \<and> server_ended a
   | Join_recording \<Rightarrow> \<not> ap_started a \<and> threads_ended a
   | Start_camera \<Rightarrow> ap_started a | Start_pilot \<Rightarrow> ap_started a
   | _ \<Rightarrow> \<not> ap_started a)"

text \<open>A closed server takes no step.\<close>

lemma closed_step:
  assumes "server_step routes (sv, w) (sv', w')" "server_closed sv"
  shows "sv' = sv \<and> w' = w"
proof -
  have "open_session sv = (\<lambda>_. False)" using assms(2) by (auto simp: server_closed_def open_session_def)
  with assms show ?thesis
    by (cases rule: server_step.cases) (auto simp: server_closed_def pending_op_def stopServer_begin_def)
qed

lemma ended_worker: "pilot_reachable lib config p \<Longrightarrow> \<not> pi_started p \<Longrightarrow> \<not> worker_step lib p p'"
  using ended_no_step not_started_ended [OF pilot_reachable_inv] by blast

lemma clear_previews [simp]:
  "acquirePreview kind (EncodedPreviewCache_clear c) = None" "m_latest_frame (FrameStore_clear s) = None"
  by (cases kind; simp add: acquirePreview_def EncodedPreviewCache_clear_def empty_slot_def)
     (simp add: FrameStore_clear_def)

text \<open>The failing ends of \<^verbatim>\<open>startApplication\<close> leave a quiet application.\<close>

abbreviation still_quiet :: "Application \<Rightarrow> bool" where
  "still_quiet a \<equiv> quiet a \<and> ap_main a = Main_idle \<and> \<not> ap_started a"

lemmas quiet_defs = quiet_def threads_ended_def server_ended_def pilot_ended_def recording_joinable_def

lemma make_recording_quiet: "keeps still_quiet (make_recording pid)"
proof (rule keepsI)
  fix a assume a: "still_quiet a"
  show "still_quiet (snd (make_recording pid a))"
  proof (cases "RecordingManager_new (manager_config (ap_config a) pid) (en_world (ap_env a))")
    case (Inl e)
    with a show ?thesis by (simp add: make_recording_def run_simps)
  next
    case (Inr r)
    then have "m_worker r = None" by (auto simp: RecordingManager_new_def result_simps)
    with a Inr show ?thesis by (auto simp: make_recording_def run_simps quiet_defs)
  qed
qed

lemma failed_listener: "startServer outcome (make_server config) = (Inl e, sv) \<Longrightarrow> server_closed sv"
  by (auto simp: startServer_def run_simps make_server_def ProviderHttpServer_new_def Let_def server_closed_def split: if_splits)

lemma listen_phase:
  assumes "still_quiet a"
  shows "stop_phase (snd (bindS (modS (\<lambda>a. a\<lparr>ap_server := Some (make_server (ap_config a))\<rparr>)) (\<lambda>_.
    bindS (on_server (startServer outcome)) (\<lambda>_. modS (\<lambda>a. a\<lparr>ap_health := (ap_health a)\<lparr>ph_listening := True\<rparr>,
      ap_started := True, ap_main := Start_camera\<rparr>))) a))"
proof (cases "startServer outcome (make_server (ap_config a))")
  case (Pair r sv)
  then show ?thesis
    using assms failed_listener [of outcome "ap_config a" _ sv]
    by (cases r) (simp_all add: run_simps on_server_def zoomS_def stop_phase_def quiet_defs)
qed

lemma start_phase:
  assumes "stop_phase a" "ap_main a = Main_idle"
  shows "stop_phase (snd (startApplication_begin lib pid outcome a))"
proof (cases "ap_started a")
  case True
  with assms show ?thesis by (simp add: startApplication_begin_def run_simps)
next
  case False
  then have q: "still_quiet a" using assms by (simp add: stop_phase_def)
  have lift: "stop_phase (snd (bindS m f b))"
    if "keeps still_quiet m" "\<And>x c. still_quiet c \<Longrightarrow> stop_phase (snd (f x c))" "still_quiet b" for m f b
  proof (cases "m b")
    case (Pair r c)
    then have "still_quiet c" using that(1,3) by (rule keepsD [rotated 2])
    with Pair that(2) show ?thesis by (cases r) (simp_all add: bindS_def stop_phase_def)
  qed
  have "stop_phase (snd (app_prepare lib pid outcome a))"
    unfolding app_prepare_def
    by (intro lift listen_phase q keeps_lift make_recording_quiet keeps_modS) (simp_all add: quiet_defs default_ProviderHealthSnapshot_def)
  with False show ?thesis by (simp add: startApplication_begin_def run_simps)
qed

lemma camera_phase: "ap_started a \<Longrightarrow> stop_phase (startApplication_camera devices start_error encoder_ok capture_ok a)"
proof -
  assume "ap_started a"
  have z: "keeps ap_started (on_adapter m)" for m by (rule keepsI) (simp add: on_adapter_def zoomS_def split: prod.split)
  have "keeps ap_started (catchS (start_streaming devices start_error encoder_ok capture_ok)
      (\<lambda>_. modS (\<lambda>a. a\<lparr>ap_health := (ap_health a)\<lparr>ph_state := PS_DEGRADED,
        ph_last_error := ''Camera adapter connection or stream start failed.''\<rparr>\<rparr>)))"
    unfolding start_streaming_def by (intro keeps_bindS keeps_catchS keeps_basic keeps_modS z) simp_all
  with \<open>ap_started a\<close> show ?thesis by (simp add: startApplication_camera_def stop_phase_def keeps_def)
qed

lemma adapter_phase:
  "threads_ended (snd (on_adapter m a)) = threads_ended a" "recording_joinable (snd (on_adapter m a)) = recording_joinable a"
  "ap_started (snd (on_adapter m a)) = ap_started a"
  by (simp_all add: on_adapter_def zoomS_def quiet_defs split: prod.split)

lemma end_phase: "threads_ended a \<Longrightarrow> recording_joinable a \<Longrightarrow> \<not> ap_started a \<Longrightarrow> stop_phase (stopApplication_end a)"
  using adapter_phase [of "bindS stopStream (\<lambda>_. disconnectCamera)" a]
  by (auto simp: stopApplication_end_def stop_phase_def quiet_defs Let_def)

text \<open>Threads that have ended take no step, so a step that is taken finds its thread running.\<close>

lemma phase_same:
  "stop_phase a \<Longrightarrow> ap_main b = ap_main a \<Longrightarrow> ap_started b = ap_started a \<Longrightarrow> (threads_ended a \<Longrightarrow> threads_ended b) \<Longrightarrow>
     (server_ended a \<Longrightarrow> server_ended b) \<Longrightarrow> (pilot_ended a \<Longrightarrow> pilot_ended b) \<Longrightarrow> (quiet a \<Longrightarrow> quiet b) \<Longrightarrow>
     (pred_option (\<lambda>sv. \<not> hs_started sv) (ap_server a) \<Longrightarrow> pred_option (\<lambda>sv. \<not> hs_started sv) (ap_server b)) \<Longrightarrow> stop_phase b"
  by (auto simp: stop_phase_def split: main_pc.splits)

lemma http_phase:
  assumes "stop_phase a" "ap_server a = Some sv" "server_step (application_routes lib (ap_config a)) (sv, a) (sv', a')"
  shows "stop_phase (a'\<lparr>ap_server := Some sv'\<rparr>)"
proof (cases "server_closed sv")
  case True
  with closed_step [OF assms(3)] assms(1,2) show ?thesis by (auto simp: stop_phase_def quiet_defs split: main_pc.splits)
next
  case False
  note fr = http_frame [OF assms(3)]
  have "\<not> server_ended a" using False assms(2) by (simp add: server_ended_def)
  moreover have "hs_started sv' \<longrightarrow> hs_started sv" using limits_step [OF assms(3)] by simp
  ultimately show ?thesis using fr assms(2)
    by (intro phase_same [OF assms(1)]) (auto simp: quiet_defs)
qed

lemma phase_step: "app_step lib a b \<Longrightarrow> components_ok lib config a \<Longrightarrow> stop_phase a \<Longrightarrow> stop_phase b"
proof (induction rule: app_step.induct)
  case (start a pid outcome)
  then show ?case by (simp add: start_phase)
next
  case (start_camera a devices start_error encoder_ok capture_ok)
  then show ?case by (intro camera_phase) (simp add: stop_phase_def)
next
  case (start_pilot a random now)
  then show ?case
    by (simp add: startApplication_pilot_def run_simps on_pilot_def zoomS_def stop_phase_def split: prod.split)
next
  case (stop a)
  then show ?case by (simp add: stopApplication_begin_def stop_phase_def)
next
  case (stop_pilot a)
  then show ?case by (simp add: stop_phase_def AppThreads.stop_pilot_def)
next
  case (join_pilot a)
  then show ?case
    by (cases "ap_pilot a"; cases "ap_server a")
       (simp_all add: stop_phase_def AppThreads.join_pilot_def pilot_ended_def stop_finish_def stopServer_begin_def)
next
  case (join_server a)
  then show ?case
    by (cases "ap_server a")
       (simp_all add: stop_phase_def AppThreads.join_server_def server_ended_def pilot_ended_def server_joinable_def
         server_closed_def stopServer_finish_def)
next
  case (join_threads a)
  then show ?case by (simp add: stop_phase_def AppThreads.join_threads_def threads_ended_def server_ended_def pilot_ended_def)
next
  case (join_recording a)
  then show ?case by (intro end_phase) (simp_all add: stop_phase_def)
next
  case (capture_publish a)
  then show ?case
    by (intro phase_same [OF capture_publish(3)])
       (cases "ap_pilot a"; simp add: AppThreads.capture_publish_def quiet_defs updateProviderState_def)+
next
  case (http a sv sv' a')
  then show ?case using http_phase by blast
next
  case (pilot a p p')
  then have "pi_started p" using ended_worker [of "al_pilot lib" config p p'] by (auto simp: components_ok_def)
  with pilot show ?case by (intro phase_same [OF pilot(4)]) (simp_all add: quiet_defs)
next
  case (recording a r r')
  then show ?case
    by (intro phase_same [OF recording(4)]) (auto simp: quiet_defs elim!: manager_thread.cases)
next
  case (encoder_wait a seen)
  then show ?case
    by (intro phase_same [OF encoder_wait(3)])
       (auto simp: AppThreads.encoder_wait_def quiet_defs split: option.splits)
next
  case (encoder_preview a kind seen frame)
  then show ?case
    by (intro phase_same [OF encoder_preview(3)])
       (auto simp: AppThreads.encoder_preview_def quiet_defs split: option.splits sum.splits)
next
  case (capture_read a answer)
  then show ?case
    by (intro phase_same [OF capture_read(3)])
       (auto simp: AppThreads.capture_read_def quiet_defs on_adapter_def zoomS_def split: option.splits sum.splits prod.splits)
next
  case (capture_submit a frame owns_lock)
  then show ?case
    by (intro phase_same [OF capture_submit(3)]) (simp_all add: AppThreads.capture_submit_def quiet_defs)
next
  case (encoder_failed a kind seen frame)
  then show ?case
    by (intro phase_same [OF encoder_failed(4)]) (simp_all add: AppThreads.encoder_failed_def quiet_defs)
next
  case (capture_failed a)
  then show ?case
    by (intro phase_same [OF capture_failed(3)]) (simp_all add: AppThreads.capture_failed_def quiet_defs)
next
  case (capture_degrade a)
  then show ?case
    by (intro phase_same [OF capture_degrade(4)]) (simp_all add: AppThreads.capture_degrade_def quiet_defs Let_def)
next
  case (environment a env)
  then show ?case by (intro phase_same [OF environment(2)]) (simp_all add: quiet_defs)
qed

lemma phase_reachable: "app_reachable lib config a \<Longrightarrow> stop_phase a"
proof (induction rule: app_reachable.induct)
  case (new env)
  then show ?case
    by (simp add: stop_phase_def VisionApplication_new_def quiet_defs FrameStore_new_def EncodedPreviewCache_new_def
        acquirePreview_def empty_slot_def default_ProviderHealthSnapshot_def)
next
  case (step a b)
  then show ?case using phase_step components_reachable by blast
qed

text \<open>
  C12: whenever the main thread is outside of start and stop and the application is not started, whether before the
  first start, after a refused start or after a stop, no thread of it runs: no capture, no encoder, no recording worker that
  has not returned, no started Pilot client, no session and no pending accept; and neither a frame nor a preview is held.
\<close>

theorem stopped_application_is_quiet:
  assumes "app_reachable lib config a" and "ap_main a = Main_idle" and "\<not> ap_started a"
  shows "ap_capture a = Cap_none \<and> ap_encoder a = Enc_none \<and> recording_joinable a \<and>
    pred_option (\<lambda>p. \<not> pi_started p \<and> \<not> running (pi_pc p)) (ap_pilot a) \<and>
    pred_option (\<lambda>sv. hs_sessions sv = Map.empty \<and> \<not> hs_accept_pending sv) (ap_server a) \<and>
    acquireLatestFrame (ap_frame_store a) = None \<and>
    (\<forall>kind. acquirePreview kind (ap_preview_cache a) = None) \<and> \<not> ph_listening (ap_health a)"
proof -
  have q: "quiet a" using phase_reachable [OF assms(1)] assms(2,3) by (simp add: stop_phase_def)
  moreover have "acquirePreview kind (ap_preview_cache a) = None" for kind
    using q by (cases kind) (simp_all add: quiet_def)
  moreover have "pred_option (pilot_reachable (al_pilot lib) config) (ap_pilot a)"
    using components_reachable [OF assms(1)] by (simp add: components_ok_def)
  then have "pred_option (\<lambda>p. \<not> pi_started p \<and> \<not> running (pi_pc p)) (ap_pilot a)"
    using q not_started_ended [OF pilot_reachable_inv]
    by (cases "ap_pilot a") (auto simp: quiet_def threads_ended_def server_ended_def pilot_ended_def)
  ultimately show ?thesis
    by (cases "ap_server a")
       (simp_all add: quiet_def threads_ended_def server_ended_def server_closed_def acquireLatestFrame_def)
qed

text \<open>A start that is refused because its port is taken.\<close>

lemma sample_refused_start:
  "\<exists>b. app_reachable sample_app_library sample_vision b \<and> ap_server b \<noteq> None \<and> ap_main b = Main_idle \<and> \<not> ap_started b"
proof -
  let ?a = "VisionApplication_new sample_vision sample_environment"
  let ?o = "listening\<lparr>lo_bind := False\<rparr>"
  have c: "ap_config ?a = sample_vision" "\<not> ap_started ?a" "ap_main ?a = Main_idle" by (simp_all add: VisionApplication_new_def)
  have t: "buildCameraMountTransform (pb_cosine (al_pilot sample_app_library)) (pb_sine (al_pilot sample_app_library))
      (vc_calibration (ap_config ?a)) = Inr \<lparr>ct_calibration_id = ''c1'', ct_sensor_frame = ''cam'', ct_mount_frame = ''base'',
        ct_matrix4x4 = forward_matrix\<rparr>"
    using sample_transform by (simp add: c sample_vision(4) sample_app_library_def)
  obtain camera where a: "make_adapter sample_vision = Inr camera" using configured_adapter [OF sample_vision(2)] ..
  obtain r where r: "RecordingManager_new (manager_config sample_vision 1) sample_world = Inr r"
    using configured_recording [OF sample_vision(2)] ..
  let ?b = "snd (startApplication_begin sample_app_library 1 ?o ?a)"
  have b: "ap_main ?b = Main_idle \<and> \<not> ap_started ?b \<and> ap_server ?b \<noteq> None"
    using t a r c
    by (simp add: startApplication_begin_def app_prepare_def make_recording_def run_simps on_server_def zoomS_def startServer_def
        listening_def make_server_def ProviderHttpServer_new_def Let_def VisionApplication_new_def sample_environment_def)
  have "app_reachable sample_app_library sample_vision ?b"
    by (rule app_reachable.step [OF app_reachable.new app_step.start [OF c(3)]])
  with b show ?thesis by blast
qed

lemma stopped_application_is_quiet_witness:
  "\<exists>b. app_reachable sample_app_library sample_vision b \<and> ap_server b \<noteq> None \<and> ap_capture b = Cap_none \<and>
     \<not> ph_listening (ap_health b)"
  using sample_refused_start stopped_application_is_quiet by blast

end
