(* ===== verification/AppServing.thy ===== *)
theory AppServing
  imports AppLifecycle FakeCameraProps
begin

text \<open>
  What the components guarantee to each other inside the application, what the application promises to the
  outside through the Pilot, and the arithmetic of the region queries it admits.
\<close>

section \<open>Components\<close>



section \<open>Endpoints\<close>

text \<open>A request with this method and this path reaches a route, or a stream that exists.\<close>

definition served :: "'w ProviderHttpRoutes \<Rightarrow> string \<Rightarrow> string \<Rightarrow> bool" where
  "served routes verb path \<longleftrightarrow>
     (if path = ''/stream/color.mjpg'' then verb = ''GET'' \<and> stream_getter routes SK_COLOR \<noteq> None
      else if path = ''/stream/depth.mjpg'' then verb = ''GET'' \<and> stream_getter routes SK_DEPTH \<noteq> None
      else verb = (if is_post_route path then ''POST'' else ''GET'') \<and> (\<forall>body. find_route routes path body \<noteq> None))"

definition published_as :: "PilotEndpointDescriptor \<Rightarrow> string \<times> string" where
  "published_as d = (ds_endpoint d, if ds_is_stream d then ''GET'' else sv_method (ds_service d))"

definition verb_of :: "string \<Rightarrow> string" where
  "verb_of path = (if is_post_route path then ''POST'' else ''GET'')"

lemma catalog_published:
  assumes "buildCatalog cosine sine config = Inr catalog"
  shows "mset (map published_as (ec_descriptors catalog)) =
    mset (map (\<lambda>path. (makeEndpoint (pv_advertised_base_url (vc_provider config)) path, verb_of path)) (metadata_endpoints config))"
proof -
  let ?meta = "buildVisionStaticMetadata cosine sine config"
  let ?color = "isColorEnabled config" and ?rec = "rg_enabled (vc_recording config)"
  from assms obtain ds where ds: "base_endpoints ?meta config @ (if ?color then color_endpoints ?meta config else []) @
      (if ?rec then recording_endpoints ?meta config else []) = map Inr ds"
    and cat: "ec_descriptors catalog = sort_key ds_descriptor_id ds"
    by (auto simp: buildCatalog_def Let_def result_simps mapE_id_Inr)
  obtain m where m: "?meta = Inr m" using ds by (cases ?meta; cases ds) (auto simp: endpoint_defs)
  have "map (\<lambda>r. case r of Inr d \<Rightarrow> published_as d) (base_endpoints ?meta config @ (if ?color then color_endpoints ?meta config else []) @
      (if ?rec then recording_endpoints ?meta config else [])) =
    map (\<lambda>path. (makeEndpoint (pv_advertised_base_url (vc_provider config)) path, verb_of path)) (metadata_endpoints config)"
    by (simp add: m endpoint_defs published_as_def verb_of_def is_post_route_def metadata_endpoints_def app_isColorEnabled_def
        isColorEnabled_def)
  then have "map published_as ds =
      map (\<lambda>path. (makeEndpoint (pv_advertised_base_url (vc_provider config)) path, verb_of path)) (metadata_endpoints config)"
    unfolding ds by (simp add: comp_def)
  then show ?thesis unfolding cat by (metis mset_map mset_sort)
qed

lemma metadata_served: "path \<in> set (metadata_endpoints config) \<Longrightarrow> served (application_routes lib config) (verb_of path) path"
  by (auto simp: metadata_endpoints_def served_def verb_of_def is_post_route_def find_route_def application_routes_def
      stream_getter_def Let_def split: if_splits)

text \<open>
  C29: the endpoint URLs and methods a client publishes to the Pilot are, each exactly once, those of the
  metadata route under the advertised base URL, and every one of them is served by the application's routes.
\<close>

theorem published_endpoints_served:
  assumes "buildCatalog cosine sine config = Inr catalog"
  shows "mset (map published_as (ec_descriptors catalog)) =
      mset (map (\<lambda>path. (makeEndpoint (pv_advertised_base_url (vc_provider config)) path, verb_of path)) (metadata_endpoints config)) \<and>
    (\<forall>path \<in> set (metadata_endpoints config). served (application_routes lib config) (verb_of path) path)"
  using catalog_published [OF assms] metadata_served by blast

lemma published_endpoints_served_witness:
  "\<exists>catalog. buildCatalog sample_cosine sample_sine sample_vision = Inr catalog \<and>
     length (ec_descriptors catalog) = length (metadata_endpoints sample_vision)"
proof -
  obtain catalog where c: "buildCatalog sample_cosine sample_sine sample_vision = Inr catalog"
    using buildCatalog_ok [OF sample_transform [folded sample_vision(4)]] ..
  from published_endpoints_served [OF this, of sample_app_library] have
    "size (mset (map published_as (ec_descriptors catalog))) =
       size (mset (map (\<lambda>path. (makeEndpoint (pv_advertised_base_url (vc_provider sample_vision)) path, verb_of path))
         (metadata_endpoints sample_vision)))"
    by argo
  with c show ?thesis by simp
qed

section \<open>Region queries\<close>

text \<open>
  A region request that the route admits makes no overflowing sum or product on a frame of an accepted
  profile, the requested area fits the frame's, and the query of the fake camera's frame then succeeds.
\<close>

theorem admitted_regions_do_not_overflow:
  assumes "parseRoiRequest parse body = Inr request"
    and "isRoiRequestValid request (fs_depth_profile (fk_snapshot f))"
    and "frame_wf f" and "fk_width f \<le> 4096" and "fk_height f \<le> 4096"
  shows "int32_ok (rr_x request + rr_width request) \<and> int32_ok (rr_y request + rr_height request) \<and>
    int32_ok (rr_width request * rr_height request) \<and>
    is_ok (fake_queryDepthInRoi srt f (rr_x request) (rr_y request) (rr_width request) (rr_height request))"
proof -
  let ?w = "rr_width request" and ?h = "rr_height request"
  have v: "0 \<le> rr_x request" "0 \<le> rr_y request" "0 < ?w" "0 < ?h" "rr_x request < fk_width f" "rr_y request < fk_height f"
    "?w * ?h \<le> fk_width f * fk_height f"
    using assms(2) by (auto simp: isRoiRequestValid_def)
  have "fk_width f * fk_height f \<le> 4096 * 4096" by (rule mult_mono) (use assms(3-5) in \<open>simp_all add: frame_wf_def\<close>)
  then have a: "?w * ?h \<le> 16777216" using v(7) by simp
  have "?w * 1 \<le> ?w * ?h" "1 * ?h \<le> ?w * ?h" using v(3,4) by (simp_all add: mult_left_mono mult_right_mono)
  then have "?w \<le> 16777216" "?h \<le> 16777216" using a by simp_all
  moreover have "is_ok (fake_queryDepthInRoi srt f (rr_x request) (rr_y request) ?w ?h)"
    using queryDepthInRoi_eq [OF assms(3) v(3,4)] by simp
  moreover have "int32_ok (?w * ?h)"
  proof -
    define area where "area = ?w * ?h"
    have "0 < area" using v(3,4) by (simp add: area_def)
    then show ?thesis using a unfolding area_def [symmetric] by (simp add: int32_ok_def)
  qed
  ultimately show ?thesis using v assms(4,5) by (simp add: int32_ok_def)
qed

definition roi_body :: json where
  "roi_body = JObject [(''x'', JInt64 1), (''y'', JInt64 0), (''width'', JInt64 1), (''height'', JUint64 2)]"

lemma admitted_regions_do_not_overflow_witness:
  "is_ok (fake_queryDepthInRoi sort_depths tiny_frame 1 0 1 2)"
proof -
  have "parseRoiRequest (\<lambda>_. Some roi_body) [] = Inr \<lparr>rr_x = 1, rr_y = 0, rr_width = 1, rr_height = 2\<rparr>"
    by (simp add: parseRoiRequest_def parse_body_def json_parse_def roi_body_def member_int_def jat_def to_number_int_def
        int32_ok_def jas_object_def)
  from admitted_regions_do_not_overflow [OF this, of tiny_frame sort_depths] show ?thesis
    by (simp add: tiny_frame_facts isRoiRequestValid_def)
qed

section \<open>Malformed recording requests\<close>

text \<open>
  A body that is no JSON text, or lacks a member, is answered 409 \<open>recording_conflict\<close> and not 400: the library's
  exceptions are not \<^verbatim>\<open>std::invalid_argument\<close>.
\<close>

lemma malformed_recording_request_conflicts:
  assumes "ap_recording a = Some r" "al_parse lib body = None"
  shows "route_recording_start lib body a = Some (Inr (makeErrorResponse (al_serialize lib) 409 ''recording_conflict''
      ''Recording request conflicts.'' False), a)"
    and "route_recording_stop lib body a = Some (Inr (makeErrorResponse (al_serialize lib) 409 ''recording_conflict''
      ''Recording cannot stop.'' False), a)"
  using assms
  by (simp_all add: route_recording_start_def route_recording_stop_def parseRecordingStartRequest_def
      parseRecordingStopRequest_def parse_body_def json_parse_def start_refused_def stop_refused_def)

end
