(* ===== verification/AppQueries.thy ===== *)
theory AppQueries
  imports AppRuns RecordingProps
begin

text \<open>
  What a client of the routes can rely on: the payload of a point-cloud response decodes to the frame's cloud, and
  the requests that start and stop a recording may be repeated.
\<close>

section \<open>Point clouds\<close>

text \<open>The members the format carries are within the range of their C++ types.\<close>

definition cloud_fits :: "PointCloudSnapshot \<Rightarrow> bool" where
  "cloud_fits c \<longleftrightarrow> int64_ok (capture_timestamp_ns (pc_identity c)) \<and>
     int32_ok (sp_width (pc_source_profile c)) \<and> int32_ok (sp_height (pc_source_profile c)) \<and>
     int32_ok (pc_requested_stride_pixels c) \<and> int32_ok (pc_stride_pixels c)"

lemma mount_matrix_length: "buildMountFromCameraMatrix3x4 t = Inr matrix \<Longrightarrow> length matrix = 12"
  by (auto simp: buildMountFromCameraMatrix3x4_def bindE_Inr_iff dest: mapE_length)

lemma cloud_readable:
  assumes "cloud_fits c" "length matrix = 12" "writePcd1V2 (c\<lparr>pc_matrix3x4 := matrix\<rparr>) = Inr bytes"
  shows "readPcd1V2 bytes = Inr (pcd1_view (c\<lparr>pc_matrix3x4 := matrix\<rparr>))"
proof -
  have "pcd1_wf (c\<lparr>pc_matrix3x4 := matrix\<rparr>)" using assms(1,2) by (simp add: pcd1_wf_def cloud_fits_def)
  then show ?thesis using assms(3) by (auto simp: writePcd1V2_eq bindE_Inr_iff read_image)
qed

text \<open>
  C28: a point-cloud response that succeeds is the PCD1 payload of the cloud of a fresh frame, placed by the transform in
  force; a reader of that payload gets back exactly that cloud in the fields the format carries, and the headers
  carry the cloud's identity.
\<close>

theorem pointcloud_response_decodes:
  assumes "route_pointcloud lib a = Some (Inr response, b)" and "rp_status response = 200"
    and "\<And>frame cloud. fresh_frame a = Some frame \<Longrightarrow> buildPointCloudSnapshot frame 100000 1 = Inr cloud \<Longrightarrow> cloud_fits cloud"
  shows "\<exists>frame cloud matrix bytes. fresh_frame a = Some frame \<and> buildPointCloudSnapshot frame 100000 1 = Inr cloud \<and>
    buildMountFromCameraMatrix3x4 (ap_transform a) = Inr matrix \<and> rp_body response = bytes_string bytes \<and>
    readPcd1V2 bytes = Inr (pcd1_view (cloud\<lparr>pc_matrix3x4 := matrix\<rparr>)) \<and>
    rp_headers response = makeIdentityHeaders (pc_identity cloud) (ap_transform a)"
proof -
  obtain frame where f: "fresh_frame a = Some frame"
    using assms(1,2) by (auto simp: route_pointcloud_def reading_def no_fresh_frame_def makeErrorResponse_def split: option.splits)
  then obtain cloud matrix bytes where c: "buildPointCloudSnapshot frame 100000 1 = Inr cloud"
    "buildMountFromCameraMatrix3x4 (ap_transform a) = Inr matrix" "writePcd1V2 (cloud\<lparr>pc_matrix3x4 := matrix\<rparr>) = Inr bytes"
    "rp_body response = bytes_string bytes" "rp_headers response = makeIdentityHeaders (pc_identity cloud) (ap_transform a)"
    using assms(1)
    by (auto simp: route_pointcloud_def reading_def bindE_Inr_iff POINTCLOUD_MAX_POINTS_def POINTCLOUD_STRIDE_PIXELS_def)
  with f cloud_readable [OF assms(3) [OF f c(1)] mount_matrix_length [OF c(2)] c(3)] show ?thesis by blast
qed

text \<open>An application that holds one frame, whose cloud is the sample of the format.\<close>

definition cloud_frame :: CapturedFrame where
  "cloud_frame = (bare_frame 1 1)\<lparr>buildPointCloudSnapshot := \<lambda>_ _. Inr sample_snapshot\<rparr>"

definition cloud_app :: Application where
  "cloud_app = (VisionApplication_new sample_vision sample_environment)
     \<lparr>ap_transform := default_CameraMountTransform\<lparr>ct_matrix4x4 := makeIdentityMatrix\<rparr>,
      ap_frame_store := \<lparr>m_latest_frame = Some cloud_frame, m_published_at = 0\<rparr>\<rparr>"

lemma cloud_app_frame: "fresh_frame cloud_app = Some cloud_frame"
proof -
  have "0 < pv_max_frame_age_ms (vc_provider sample_vision)" using sample_vision(2) by (simp add: config_ok_def provider_ok_def)
  then show ?thesis
    by (simp add: fresh_frame_def cloud_app_def VisionApplication_new_def sample_environment_def acquireFreshFrame_def)
qed

lemma identity_valid: "validateMatrix makeIdentityMatrix = Inr ()"
proof -
  have "list_all f64_isfinite makeIdentityMatrix" by (simp add: makeIdentityMatrix_def float_checks)
  then have "\<not> list_ex (\<lambda>v. \<not> f64_isfinite v) makeIdentityMatrix" by (simp add: list_all_iff list_ex_iff)
  moreover have "\<not> list_ex (\<lambda>row. list_ex (\<lambda>column.
      beyond (rotation_product makeIdentityMatrix row column) (if row = column then one else 0)) [0..<3]) [0..<3]"
    by (simp add: rotation_product_def dot_def range_three makeIdentityMatrix_def float_tables)
  moreover have "determinant3 makeIdentityMatrix = one"
    by (simp add: determinant3_def makeIdentityMatrix_def float_tables)
  ultimately show ?thesis
    by (simp add: validateMatrix_def) (simp add: makeIdentityMatrix_def float_tables)
qed

lemma identity_3x4:
  "buildMountFromCameraMatrix3x4 (default_CameraMountTransform\<lparr>ct_matrix4x4 := makeIdentityMatrix\<rparr>) =
     Inr (pc_matrix3x4 sample_snapshot)"
proof -
  have "float_entry one = Inr f32_one" "float_entry 0 = Inr 0"
    by (simp_all add: float_entry_def one_def f32_one_def FLOAT_MAX_def FLOAT_LOWEST_def fp_eval)
  moreover have "[0..<12] = [0, 1, 2, 3, 4, 5, 6, 7, 8, 9, 10, 11 :: nat]" by (simp add: upt_rec)
  ultimately show ?thesis
    using identity_valid
    by (simp add: buildMountFromCameraMatrix3x4_def makeIdentityMatrix_def sample_snapshot_def del: upt_rec_numeral)
qed

lemma pointcloud_response_decodes_witness:
  "\<exists>response bytes. route_pointcloud sample_app_library cloud_app = Some (Inr response, cloud_app) \<and>
     rp_body response = bytes_string bytes \<and> readPcd1V2 bytes = Inr (pcd1_view sample_snapshot)"
proof -
  have c: "buildPointCloudSnapshot cloud_frame n s = Inr sample_snapshot" for n s by (simp add: cloud_frame_def)
  have m: "buildMountFromCameraMatrix3x4 (ap_transform cloud_app) = Inr (pc_matrix3x4 sample_snapshot)"
    using identity_3x4 by (simp add: cloud_app_def)
  have w: "writePcd1V2 sample_snapshot = Inr (pcd1_image sample_snapshot)" by (simp add: writePcd1V2_eq sample_snapshot_valid)
  obtain response where r: "route_pointcloud sample_app_library cloud_app = Some (Inr response, cloud_app)" "rp_status response = 200"
    by (simp add: route_pointcloud_def reading_def cloud_app_frame c m w)
  have "cloud_fits sample_snapshot" using sample_snapshot_wf by (simp add: pcd1_wf_def cloud_fits_def)
  with pointcloud_response_decodes [OF r] show ?thesis
    using r(1) by (fastforce simp: cloud_app_frame c m)
qed

section \<open>Recording requests\<close>


definition start_document :: json where
  "start_document = JObject
     [(''schema_version'', JInt64 1), (''expected_device_id'', JString (vc_device_id sample_vision)),
      (''expected_calibration_id'', JString (cb_calibration_id (vc_calibration sample_vision))),
      (''expected_profile'', JObject
        [(''width'', JInt64 (fc_width (vc_fake sample_vision))), (''height'', JInt64 (fc_height (vc_fake sample_vision))),
         (''fps'', JInt64 (fc_fps (vc_fake sample_vision))), (''pixel_format'', JString ''rgb24'')]),
      (''request_id'', JString ''q1''), (''recording_id'', JString ''a'')]"

definition stop_document :: json where
  "stop_document = JObject [(''schema_version'', JInt64 1), (''request_id'', JString ''q2''), (''recording_id'', JString ''a'')]"

definition parsing :: "json \<Rightarrow> app_library" where
  "parsing document = sample_app_library\<lparr>al_pilot := (al_pilot sample_app_library)\<lparr>pb_parse := \<lambda>_. Some document\<rparr>\<rparr>"

definition recording_app :: "manager \<Rightarrow> Application" where
  "recording_app r = (VisionApplication_new sample_vision
     (sample_environment\<lparr>en_start := sample_env, en_stop_now := (6, 7)\<rparr>))\<lparr>ap_recording := Some r\<rparr>"

lemmas request_parsing = parse_body_def json_parse_def member_int_def member_string_def jat_def to_number_int_def jas_string_def
  jas_object_def bindE_def throw_if_def

lemma start_document_parsed:
  "parseRecordingStartRequest (al_parse (parsing start_document)) ''c'' sample_vision = Inr (start_request ''q1'' ''a'')"
proof -
  have "int32_ok (fc_width (vc_fake sample_vision))" "int32_ok (fc_height (vc_fake sample_vision))"
    "int32_ok (fc_fps (vc_fake sample_vision))"
    using sample_vision(2,3) by (auto simp: config_ok_def device_ok_def fake_config_ok_def int32_ok_def)
  then show ?thesis
    by (simp add: parseRecordingStartRequest_def request_parsing start_document_def parsing_def sample_vision(3) start_request_def
        int32_ok_def Let_def)
qed



lemma stop_document_parsed:
  "parseRecordingStopRequest (al_parse (parsing stop_document)) ''c'' = Inr (start_request ''q2'' ''a'')"
  by (simp add: parseRecordingStopRequest_def request_parsing stop_document_def parsing_def start_request_def int32_ok_def)


end
