(* ===== verification/RecordingLifecycle.thy ===== *)
theory RecordingLifecycle
  imports RecordingProps
begin

text \<open>
  The lifecycle of a recording as an abstract machine that the recording manager refines, and the termination of the
  worker once it is told to stop.
\<close>

section \<open>What the operations do to the lifecycle\<close>

lemma start_recording_rests:
  assumes "start_recording lib env rq c s = (r, t)" "queue_ok s" "no_worker s"
  shows "r = Inr SRES_STARTED \<and> m_state t = RS_RECORDING \<or> (\<exists>e. r = Inl e) \<and> no_worker t"
proof (cases r)
  case (Inl e)
  from start_recording_fails [of lib env rq c, unfolded fails_with_def, rule_format, OF assms(3) assms(1) [unfolded Inl]] Inl
  show ?thesis by simp
next
  case (Inr x)
  with start_recording_Inr [of lib env rq c s x t] assms show ?thesis by simp
qed

lemma start_after_join_shape:
  assumes run: "start_after_join lib env rq c s = (r, t)" and s: "queue_ok s" "no_worker s"
  shows "r = Inr SRES_STARTED \<and> m_state t = RS_RECORDING \<or>
    r \<noteq> Inr SRES_STARTED \<and> no_worker t \<and> (m_state t = m_state s \<or> m_state t \<in> {RS_FINALIZED, RS_FAULTED})"
proof -
  obtain r1 t1 where f: "on_store (findPersistedArtifact (m_store s) (rq_recording_id rq)) s = (r1, t1)" by fastforce
  then obtain w where t1: "t1 = s\<lparr>m_world := w\<rparr>" using on_store_world by blast
  obtain r2 t2 where g: "start_recording lib env rq c (t1\<lparr>m_state := RS_PREPARING\<rparr>) = (r2, t2)" by fastforce
  have g': "r2 = Inr SRES_STARTED \<and> m_state t2 = RS_RECORDING \<or> (\<exists>e. r2 = Inl e) \<and> no_worker t2"
    by (rule start_recording_rests [OF g]) (use s in \<open>simp_all add: t1\<close>)
  show ?thesis
    using run f s g g' t1
    by (cases r1; cases "projr r1")
       (auto simp: start_after_join_def run_simps catchS_def restorePersistedArtifactLocked_def split: if_splits)
qed

lemma start_shape:
  assumes run: "startOrReplay lib env rq s = Some (r, t)" and q: "queue_ok s"
  shows "t = s \<and> r \<noteq> Inr SRES_STARTED \<or>
    \<not> running s \<and> \<not> recording_active (m_state s) \<and>
      (r = Inr SRES_STARTED \<and> m_state t = RS_RECORDING \<or>
       r \<noteq> Inr SRES_STARTED \<and> \<not> running t \<and> (m_state t = m_state s \<or> m_state t \<in> {RS_FINALIZED, RS_FAULTED}))"
proof (cases "serializeRecordingStartRequest (lib_serialize lib) rq")
  case (Inl e)
  with run show ?thesis by (auto simp: startOrReplay_def)
next
  case (Inr c)
  consider "t = s" "r \<noteq> Inr SRES_STARTED"
    | u where "start_after_join lib env rq c u = (r, t)" "no_worker u" "queue_ok u" "m_state u = m_state s"
        "\<not> running s" "\<not> recording_active (m_state s)"
    using run Inr q by (auto simp: startOrReplay_def running_def split: if_splits option.splits worker_pc.splits)
  then show ?thesis
  proof cases
    case 1
    then show ?thesis by simp
  next
    case (2 u)
    then show ?thesis using start_after_join_shape [OF 2(1) 2(3) 2(2)] by (auto simp: running_def)
  qed
qed

text \<open>A stop request leaves everything as it is, or restores a persisted recording, or begins a finalization.\<close>

definition stop_outcome :: "manager \<Rightarrow> manager \<Rightarrow> bool" where
  "stop_outcome s t \<longleftrightarrow> m_worker t = m_worker s \<and>
     (m_queue t = m_queue s \<and> m_state t = m_state s \<and> m_stop_requested t = m_stop_requested s \<or>
      \<not> live s \<and> m_queue t = ring_reset (m_queue s) \<and> m_state t \<in> {RS_FINALIZED, RS_FAULTED} \<and> m_stop_requested t \<or>
      m_state s = RS_RECORDING \<and> m_queue t = m_queue s \<and> m_state t \<in> {RS_FINALIZING, RS_FAULTED} \<and> m_stop_requested t)"

lemma stop_outcome_refl [simp]: "stop_outcome s s"
  by (simp add: stop_outcome_def)

lemma begin_outcome:
  "m_state s = RS_RECORDING \<Longrightarrow> beginFinalizationLocked reason ev i c now now' s = (r, t) \<Longrightarrow> stop_outcome s t"
  using begin_shape [of reason ev i c now now' s r t] by (cases r) (auto simp: stop_outcome_def)

lemma stop_on_persisted_outcome:
  assumes "stop_on_persisted rq c a s = (r, t)"
  shows "t = s \<or> \<not> live s \<and> stop_outcome s t \<and> r = Inr (Some STOP_REPLAYED)"
  using stop_on_persisted_shape [OF assms]
proof (elim disjE conjE)
  assume n: "m_state s \<noteq> RS_RECORDING" "m_state s \<noteq> RS_FINALIZING" and r: "r = Inr (Some STOP_REPLAYED)"
    and t: "t = (restorePersistedArtifactLocked a rq [] s)\<lparr>m_stop_request_id := rq_request_id rq,
          m_stop_canonical := c, m_stop_reason := SR_REQUESTED\<rparr>"
  have "m_worker t = m_worker s" "m_queue t = ring_reset (m_queue s)" "m_state t \<in> {RS_FINALIZED, RS_FAULTED}" "m_stop_requested t"
    by (simp_all add: t restorePersistedArtifactLocked_def)
  with n r show ?thesis by (simp add: stop_outcome_def live_def)
qed simp

lemma shutdown_outcome: "stop_outcome s (finalize_request now now' s)"
proof (cases "m_state s = RS_RECORDING")
  case True
  obtain r t where b: "beginFinalizationLocked SR_APPLICATION_SHUTDOWN
      (serializeInternalStopEvidence (m_recording_id s) SR_APPLICATION_SHUTDOWN) [] [] now now' s = (r, t)" by fastforce
  with begin_shape [OF b] True show ?thesis by (cases r) (auto simp: finalize_request_def stop_outcome_def)
qed (simp add: finalize_request_def stop_outcome_def)

lemma stop_request_outcome:
  assumes run: "finalizeOrReplay now now' rq s = (r, t)"
  shows "stop_outcome s t"
proof (cases "isRecordingRequestIdValid (rq_request_id rq) \<and> isRecordingIdValid (rq_recording_id rq) \<and>
    \<not> same_stop_request rq s")
  case False
  then have "t = s"
    using run repeat_stop_state [of "stop_request_text rq" s]
    by (auto simp: finalizeOrReplay_def bindS_def throw_ifS_apply getS_def split: if_splits)
  then show ?thesis by (simp add: stop_outcome_def)
next
  case True
  let ?c = "stop_request_text rq"
  obtain r1 t1 where f: "on_store (findPersistedArtifact (m_store s) (rq_recording_id rq)) s = (r1, t1)" by fastforce
  then obtain w where t1: "t1 = s\<lparr>m_world := w\<rparr>" using on_store_world by blast
  let ?k = "case projr r1 of None \<Rightarrow> retS None | Some artifact \<Rightarrow> stop_on_persisted rq ?c artifact"
  obtain r2 t2 where k: "?k t1 = (r2, t2)" by fastforce
  have t2: "t2 = t1 \<or> \<not> live t1 \<and> stop_outcome t1 t2 \<and> r2 = Inr (Some STOP_REPLAYED)"
    using k stop_on_persisted_outcome by (auto simp: retS_def split: option.splits)
  have o1: "stop_outcome s u = stop_outcome t1 u" for u by (simp add: stop_outcome_def t1 live_def)
  have "t = t1 \<or> t = t2 \<or> (\<exists>r3. m_state t2 = RS_RECORDING \<and> r2 = Inr None \<and>
      beginFinalizationLocked SR_REQUESTED ?c (rq_request_id rq) ?c now now' t2 = (r3, t))"
  proof (cases r1)
    case (Inl e)
    then have "t = t1" using run True f by (simp add: finalizeOrReplay_def bindS_def throw_ifS_apply getS_def)
    then show ?thesis by simp
  next
    case (Inr persisted)
    have eq: "finalizeOrReplay now now' rq s = bindS (case persisted of None \<Rightarrow> retS None
              | Some artifact \<Rightarrow> stop_on_persisted rq ?c artifact) (\<lambda>replayed.
       case replayed of Some result \<Rightarrow> retS result | None \<Rightarrow> accept_stop now now' rq ?c) t1"
      using True f Inr by (subst finalizeOrReplay_def) (simp add: bindS_def [of _ _ s] throw_ifS_apply getS_def)
    show ?thesis
    proof (cases "r2 = Inr None \<and> m_state t2 = RS_RECORDING \<and> rq_recording_id rq = m_recording_id t2")
      case False
      then have "t = t2"
        using run k Inr unfolding eq
        by (cases r2) (auto simp: bindS_def retS_def getS_def accept_stop_def throw_ifS_apply split: option.splits if_splits)
      then show ?thesis by simp
    next
      case True
      then show ?thesis
        using run k Inr unfolding eq by (auto simp: accept_stop_def run_simps split: prod.splits sum.splits)
    qed
  qed
  then have "stop_outcome t1 t"
  proof (elim disjE exE conjE)
    fix r3 assume "m_state t2 = RS_RECORDING" "r2 = Inr None"
      and b: "beginFinalizationLocked SR_REQUESTED ?c (rq_request_id rq) ?c now now' t2 = (r3, t)"
    then show ?thesis using t2 begin_outcome [OF _ b] by auto
  next
    assume "t = t2"
    then show ?thesis using t2 by (elim disjE conjE) simp_all
  qed simp
  then show ?thesis by (simp add: o1)
qed

section \<open>What the worker does\<close>

definition worker_ended_faulted :: "manager \<Rightarrow> bool" where
  "worker_ended_faulted t \<longleftrightarrow> m_state t = RS_FAULTED \<and> m_worker t = Some W_returned \<and> m_stop_requested t"

lemma fault_ended: "worker_ended_faulted (worker_fault s)"
  by (simp add: worker_ended_faulted_def worker_fault_def)

lemma guarded_cases: "worker_ended_faulted (guarded m s) \<or> m s = (Inr (), guarded m s)"
  by (cases "m s") (auto simp: guarded_def fault_ended split: sum.split)

text \<open>The steps that the worker takes at most until it returns: three for each frame in the queue, and the finalization.\<close>

definition recording_work :: "manager \<Rightarrow> nat" where
  "recording_work s = (case m_worker s of
     Some W_loop \<Rightarrow> 3 * rg_count (m_queue s) + 2 | Some (W_commit _) \<Rightarrow> 3 * rg_count (m_queue s) + 3
   | Some (W_frame _) \<Rightarrow> 3 * rg_count (m_queue s) + 4 | Some W_finalize \<Rightarrow> 1 | _ \<Rightarrow> 0)"

definition dequeued :: "manager \<Rightarrow> manager" where
  "dequeued s = (if rg_count (m_queue s) = 0 \<and> m_stop_requested s then s\<lparr>m_worker := Some W_finalize\<rparr>
     else (case ring_get (m_queue s) of (frame, q) \<Rightarrow> s\<lparr>m_worker := Some (W_frame (the frame)), m_queue := q\<rparr>))"

lemma dequeued_fields:
  "m_state (dequeued s) = m_state s" "m_stop_requested (dequeued s) = m_stop_requested s" "running (dequeued s)"
  by (simp_all add: dequeued_def running_def split: prod.split)

lemma dequeued_work:
  assumes "queue_ok s" "m_worker s = Some W_loop" "m_stop_requested s"
  shows "recording_work (dequeued s) < recording_work s"
proof (cases "rg_count (m_queue s) = 0")
  case True
  with assms show ?thesis by (simp add: dequeued_def recording_work_def)
next
  case False
  obtain x q where g: "ring_get (m_queue s) = (x, q)" by fastforce
  note get = ring_get_items [OF assms(1) False g]
  have "rg_count (m_queue s) = Suc (rg_count q)"
    using get(2) ring.depth_items [OF assms(1)] ring.depth_items [OF get(1)] by simp
  with assms(2) False g show ?thesis by (simp add: dequeued_def recording_work_def)
qed

lemma dequeue_outcome:
  assumes "worker_dequeue now now1 now2 s = (Inr (), t)"
  shows "t = dequeued s \<or> \<not> m_stop_requested s \<and> (\<exists>u. t = dequeued u \<and> m_state u = RS_FINALIZING)"
proof (cases "\<not> m_stop_requested s \<and> now \<ge> m_duration_deadline s")
  case False
  then show ?thesis using assms by (auto simp: worker_dequeue_def run_simps dequeued_def)
next
  case True
  obtain r u where b: "beginFinalizationLocked SR_MAX_DURATION
      (serializeInternalStopEvidence (m_recording_id s) SR_MAX_DURATION) [] [] now1 now2 s = (r, u)" by fastforce
  with True assms have "r = Inr ()" "t = dequeued u"
    by (cases r; auto simp: worker_dequeue_def run_simps dequeued_def)+
  then show ?thesis using begin_shape [OF b] True by auto
qed

text \<open>Told to stop, the worker gets closer to its end with each of its steps.\<close>

lemma worker_works:
  assumes "manager_thread lib s t" "queue_ok s" "m_stop_requested s"
  shows "recording_work t < recording_work s \<and> m_stop_requested t \<or> (\<exists>w. t = s\<lparr>m_world := w\<rparr>)"
proof -
  have fault: "recording_work t < recording_work s \<and> m_stop_requested t" if "worker_ended_faulted t" "running s"
    using that by (auto simp: worker_ended_faulted_def recording_work_def running_def split: option.splits worker_pc.splits)
  show ?thesis using assms(1)
  proof (cases rule: manager_thread.cases)
    case (fate os space codes)
    then show ?thesis by blast
  next
    case (dequeue now now1 now2)
    have "running s" using dequeue by (simp add: running_def)
    from guarded_cases [of "worker_dequeue now now1 now2" s] show ?thesis
    proof
      assume "worker_dequeue now now1 now2 s = (Inr (), guarded (worker_dequeue now now1 now2) s)"
      from dequeue_outcome [OF this] assms(3) have "t = dequeued s" using dequeue by simp
      then show ?thesis using dequeued_work [OF assms(2) _ assms(3)] dequeue assms(3) by (simp add: dequeued_fields)
    qed (use fault \<open>running s\<close> dequeue in simp)
  next
    case (written frame now)
    have "running s" using written by (simp add: running_def)
    from guarded_cases [of "worker_write lib now frame" s] show ?thesis
    proof
      assume w: "worker_write lib now frame s = (Inr (), guarded (worker_write lib now frame) s)"
      then have "m_worker t = Some (W_commit (id_of frame))" "m_queue t = m_queue s" "m_stop_requested t = m_stop_requested s"
        by (rule worker_write_Inr, simp add: written)+
      then show ?thesis using written assms(3) by (simp add: recording_work_def)
    qed (use fault \<open>running s\<close> written in simp)
  next
    case (commit identity)
    then show ?thesis using assms(3) by (simp add: worker_commit_def recording_work_def)
  next
    case (finalize clock)
    have "running s" using finalize by (simp add: running_def)
    from guarded_cases [of "finalizeArtifacts lib clock" s] show ?thesis
    proof
      assume f: "finalizeArtifacts lib clock s = (Inr (), guarded (finalizeArtifacts lib clock) s)"
      have "keeps m_stop_requested (finalizeArtifacts lib clock)"
        unfolding finalizeArtifacts_def requireFinalizeWithinDeadline_def
        by (intro keeps_intros keeps_on_store)
           (auto simp: keeps_def liftS_def on_writer_def on_sidecar_def zoomS_def split: prod.split)
      from keepsD [OF this assms(3) f] finalizeArtifacts_Inr [OF f] finalize show ?thesis
        by (simp add: recording_work_def)
    qed (use fault \<open>running s\<close> finalize in simp)
  qed
qed

lemma worker_can_work:
  assumes "running s" "m_stop_requested s"
  shows "\<exists>t. manager_thread lib s t \<and> \<not> (\<exists>w. t = s\<lparr>m_world := w\<rparr>)"
proof -
  have n: "m_worker t \<noteq> m_worker s \<Longrightarrow> \<not> (\<exists>w. t = s\<lparr>m_world := w\<rparr>)" for t by auto
  obtain pc where pc: "m_worker s = Some pc" "pc \<noteq> W_returned" using assms(1) by (auto simp: running_def)
  have g: "m_worker (guarded m s) \<noteq> m_worker s" if "\<And>u. m s = (Inr (), u) \<Longrightarrow> m_worker u \<noteq> m_worker s" for m
    using guarded_cases [of m s] that [of "guarded m s"] pc by (auto simp: worker_ended_faulted_def)
  show ?thesis
  proof (cases pc)
    case W_loop
    have "m_worker (guarded (worker_dequeue 0 0 0) s) \<noteq> m_worker s"
      by (rule g) (use assms(2) pc W_loop in \<open>auto dest!: dequeue_outcome simp: dequeued_def split: prod.splits if_splits\<close>)
    moreover have "manager_thread lib s (guarded (worker_dequeue 0 0 0) s)"
      using pc W_loop assms(2) by (intro manager_thread.dequeue [of s 0]) (simp_all add: wait_ended_def)
    ultimately show ?thesis using n by blast
  next
    case (W_frame frame)
    have "m_worker (guarded (worker_write lib 0 frame) s) \<noteq> m_worker s"
      by (rule g, erule worker_write_Inr) (use pc W_frame in simp)
    moreover have "manager_thread lib s (guarded (worker_write lib 0 frame) s)"
      using pc W_frame by (intro manager_thread.written) simp
    ultimately show ?thesis using n by blast
  next
    case (W_commit identity)
    then show ?thesis
      using pc manager_thread.commit [of s identity lib] n [of "worker_commit identity s"] by (auto simp: worker_commit_def)
  next
    case W_finalize
    have "m_worker (guarded (finalizeArtifacts lib clock) s) \<noteq> m_worker s" for clock
      by (rule g) (use pc W_finalize in \<open>auto dest: finalizeArtifacts_Inr\<close>)
    moreover have "manager_thread lib s (guarded (finalizeArtifacts lib clock) s)" for clock
      using pc W_finalize by (intro manager_thread.finalize) simp
    ultimately show ?thesis using n by blast
  qed (use pc in simp)
qed

section \<open>Termination of the worker\<close>

text \<open>Nothing that any thread does gives a worker that was told to stop more to do.\<close>

lemma reset_empty: "rg_count (ring_reset q) = 0"
  by (simp add: ring_reset_def)

lemma outcome_work:
  assumes "stop_outcome s t" "m_stop_requested s" "m_state s \<noteq> RS_RECORDING"
  shows "m_stop_requested t \<and> recording_work t \<le> recording_work s"
  using assms by (auto simp: stop_outcome_def recording_work_def reset_empty split: option.splits worker_pc.splits)

lemma status_outcome:
  assumes "getStatus listing s = (r, t)"
  shows "stop_outcome s t"
proof -
  obtain r1 t1 where f: "on_store (getStagingCount (m_store s) listing) s = (r1, t1)" by fastforce
  then obtain w where "t1 = s\<lparr>m_world := w\<rparr>" using on_store_world by blast
  moreover have "t = t1" using assms f by (cases r1) (simp_all add: getStatus_def run_simps)
  ultimately show ?thesis by (simp add: stop_outcome_def)
qed

lemma thread_step_of:
  assumes "recording_step lib (s, adm) (t, adm')"
  shows "(\<exists>env rq r. startOrReplay lib env rq s = Some (r, t) \<and> adm' = (if r = Inr SRES_STARTED then [] else adm)) \<or>
    (\<exists>own f acc. trySubmitFrame own f s = (acc, t) \<and> adm' = (if acc then adm @ [the f] else adm)) \<or>
    stop_outcome s t \<and> adm' = adm \<or> manager_thread lib s t \<and> adm' = adm"
  using assms
proof (cases rule: recording_step.cases)
  case (step_submit own f acc)
  then show ?thesis by blast
next
  case (step_shutdown now now')
  then show ?thesis using shutdown_outcome by simp
next
  case (step_environment os space codes)
  then show ?thesis using manager_thread.fate by simp
qed (auto dest: status_outcome stop_request_outcome intro: manager_thread.intros)

lemma work_cong: "m_worker t = m_worker s \<Longrightarrow> m_queue t = m_queue s \<Longrightarrow> recording_work t = recording_work s"
  by (simp add: recording_work_def split: option.splits worker_pc.splits)

lemma submit_fields:
  assumes "trySubmitFrame own f s = (acc, t)"
  shows "m_stop_requested t = m_stop_requested s" "m_worker t = m_worker s" "m_state t = m_state s"
    "acc \<Longrightarrow> m_state s = RS_RECORDING" "m_state s \<noteq> RS_RECORDING \<Longrightarrow> m_queue t = m_queue s"
  using assms by (auto simp: trySubmitFrame_def split: option.splits if_splits prod.splits)

lemma told_worker_works:
  assumes "manager_inv s adm" "m_stop_requested s" "running s" "recording_step lib (s, adm) (t, adm')"
  shows "m_stop_requested t \<and> recording_work t \<le> recording_work s"
proof -
  have s: "m_state s \<noteq> RS_RECORDING" "queue_ok s" using assms(1,2) by (auto simp: manager_inv_def)
  from thread_step_of [OF assms(4)] show ?thesis
  proof (elim disjE exE conjE)
    fix env rq r assume "startOrReplay lib env rq s = Some (r, t)"
    from start_shape [OF this s(2)] assms(2,3) show ?thesis by auto
  next
    fix own f acc assume "trySubmitFrame own f s = (acc, t)"
    from submit_fields [OF this] s(1) assms(2) work_cong [of t s] show ?thesis by simp
  next
    assume "stop_outcome s t"
    then show ?thesis by (rule outcome_work [OF _ assms(2) s(1)])
  next
    assume "manager_thread lib s t"
    from worker_works [OF this s(2) assms(2)] show ?thesis
    proof (elim disjE exE conjE)
      fix w assume t: "t = s\<lparr>m_world := w\<rparr>"
      have "recording_work t = recording_work s" by (rule work_cong) (simp_all add: t)
      then show ?thesis using assms(2) by (simp add: t)
    qed simp
  qed
qed



section \<open>The lifecycle of a recording\<close>

text \<open>
  The machine a client of the manager may rely on. \<open>Recording\<close> and \<open>Finalizing\<close> carry the frames admitted;
  \<open>Condemned\<close> is the state after a stop whose evidence was not written: it is reported as a fault while the worker still runs.
\<close>

datatype lifecycle = Idle | Recording "CapturedFrame list" | Finalizing "CapturedFrame list" | Condemned | Finalized | Faulted

inductive lifecycle_step :: "lifecycle \<Rightarrow> lifecycle \<Rightarrow> bool" where
  begin_recording: "p \<in> {Idle, Finalized, Faulted} \<Longrightarrow> lifecycle_step p (Recording [])"
| refuse_recording: "p \<in> {Idle, Finalized, Faulted} \<Longrightarrow> lifecycle_step p Faulted"
| recall_recording: "p \<in> {Idle, Finalized, Faulted} \<Longrightarrow> lifecycle_step p Finalized"
| admit: "lifecycle_step (Recording frames) (Recording (frames @ [frame]))"
| stop_recording: "lifecycle_step (Recording frames) (Finalizing frames)"
| lose_evidence: "lifecycle_step (Recording frames) Condemned"
| fault: "p \<notin> {Idle, Finalized, Faulted} \<Longrightarrow> lifecycle_step p Faulted"
| complete: "ordered frames \<Longrightarrow> lifecycle_step (Finalizing frames) Finalized"
| complete_late: "lifecycle_step Condemned Finalized"
| stay: "lifecycle_step p p"

definition lifecycle_of :: "manager \<times> CapturedFrame list \<Rightarrow> lifecycle" where
  "lifecycle_of = (\<lambda>(s, adm). case m_state s of
     RS_RECORDING \<Rightarrow> Recording adm | RS_FINALIZING \<Rightarrow> Finalizing adm
   | st \<Rightarrow> if running s then Condemned else if st = RS_FINALIZED then Finalized else if st = RS_FAULTED then Faulted else Idle)"

lemma lifecycle_running:
  "manager_inv s adm \<Longrightarrow> running s \<Longrightarrow> lifecycle_of (s, adm) \<notin> {Idle, Finalized, Faulted}"
  by (auto simp: lifecycle_of_def split: RecordingState.split)

lemma lifecycle_rests:
  "manager_inv s adm \<Longrightarrow> \<not> running s \<Longrightarrow> lifecycle_of (s, adm) \<in> {Idle, Finalized, Faulted}"
  by (auto simp: lifecycle_of_def manager_inv_def live_def split: RecordingState.split)

lemma lifecycle_same:
  "m_state t = m_state s \<Longrightarrow> running t = running s \<Longrightarrow> lifecycle_step (lifecycle_of (s, adm)) (lifecycle_of (t, adm))"
  by (simp add: lifecycle_of_def lifecycle_step.stay)

lemma lifecycle_fault:
  assumes "manager_inv s adm" "running s" "worker_ended_faulted t"
  shows "lifecycle_step (lifecycle_of (s, adm)) (lifecycle_of (t, adm))"
proof -
  have "lifecycle_of (t, adm) = Faulted" using assms(3) by (simp add: lifecycle_of_def worker_ended_faulted_def running_def)
  then show ?thesis using lifecycle_step.fault [OF lifecycle_running [OF assms(1,2)]] by simp
qed

lemma lifecycle_start:
  assumes inv: "manager_inv s adm" and run: "startOrReplay lib env rq s = Some (r, t)"
  shows "lifecycle_step (lifecycle_of (s, adm)) (lifecycle_of (t, if r = Inr SRES_STARTED then [] else adm))"
proof -
  have q: "queue_ok s" using inv by (simp add: manager_inv_def)
  from start_shape [OF run q] show ?thesis
  proof (elim disjE conjE)
    assume "t = s" "r \<noteq> Inr SRES_STARTED"
    then show ?thesis by (simp add: lifecycle_step.stay)
  next
    assume "\<not> running s" "r = Inr SRES_STARTED" "m_state t = RS_RECORDING"
    then show ?thesis using lifecycle_step.begin_recording [OF lifecycle_rests [OF inv]] by (simp add: lifecycle_of_def)
  next
    assume "\<not> running s" "r \<noteq> Inr SRES_STARTED" "\<not> running t" "m_state t = m_state s"
    then show ?thesis by (simp add: lifecycle_same)
  next
    assume n: "\<not> running s" "r \<noteq> Inr SRES_STARTED" "\<not> running t" "m_state t \<in> {RS_FINALIZED, RS_FAULTED}"
    note rests = lifecycle_rests [OF inv n(1)]
    have "lifecycle_of (t, adm) \<in> {Finalized, Faulted}" using n(3,4) by (auto simp: lifecycle_of_def)
    then show ?thesis
      using lifecycle_step.recall_recording [OF rests] lifecycle_step.refuse_recording [OF rests] n(2) by auto
  qed
qed

lemma lifecycle_outcome:
  assumes inv: "manager_inv s adm" and out: "stop_outcome s t"
  shows "lifecycle_step (lifecycle_of (s, adm)) (lifecycle_of (t, adm))"
proof -
  have w: "running t = running s" using out by (simp add: stop_outcome_def running_def)
  from out [unfolded stop_outcome_def] show ?thesis
  proof (elim conjE disjE)
    assume "m_state t = m_state s"
    then show ?thesis using w by (rule lifecycle_same)
  next
    assume n: "\<not> live s" "m_state t \<in> {RS_FINALIZED, RS_FAULTED}"
    show ?thesis
    proof (cases "running s")
      case True
      then have "lifecycle_of (t, adm) = Condemned" "lifecycle_of (s, adm) = Condemned"
        using n w by (auto simp: lifecycle_of_def live_def split: RecordingState.split)
      then show ?thesis by (simp add: lifecycle_step.stay)
    next
      case False
      note rests = lifecycle_rests [OF inv False]
      have "lifecycle_of (t, adm) \<in> {Finalized, Faulted}" using n(2) False w by (auto simp: lifecycle_of_def)
      then show ?thesis
        using lifecycle_step.recall_recording [OF rests] lifecycle_step.refuse_recording [OF rests] by auto
    qed
  next
    assume n: "m_state s = RS_RECORDING" "m_state t \<in> {RS_FINALIZING, RS_FAULTED}"
    then have "running t" using inv w by (simp add: manager_inv_def live_def)
    with n show ?thesis
      using lifecycle_step.stop_recording lifecycle_step.lose_evidence by (auto simp: lifecycle_of_def)
  qed
qed

lemma lifecycle_finalized:
  assumes reach: "reachable lib s adm" and w: "m_worker s = Some W_finalize" and t: "m_state t = RS_FINALIZED" "m_worker t = Some W_returned"
  shows "lifecycle_step (lifecycle_of (s, adm)) (lifecycle_of (t, adm))"
proof -
  have inv: "manager_inv s adm" by (rule reachable_inv [OF reach])
  have t': "lifecycle_of (t, adm) = Finalized" using t by (simp add: lifecycle_of_def running_def)
  show ?thesis
  proof (cases "live s")
    case True
    then have "lifecycle_of (s, adm) = Finalizing adm" using inv w by (simp add: manager_inv_def lifecycle_of_def)
    moreover have "ordered adm"
      using drained_recorded [OF reach True w] by (simp add: recorded_def w committed_def counters_ok_def)
    ultimately show ?thesis using t' by (simp add: lifecycle_step.complete)
  next
    case False
    then have "lifecycle_of (s, adm) = Condemned"
      using w by (auto simp: lifecycle_of_def live_def running_def split: RecordingState.split)
    then show ?thesis using t' by (simp add: lifecycle_step.complete_late)
  qed
qed

lemma lifecycle_thread:
  assumes reach: "reachable lib s adm" and step: "manager_thread lib s t"
  shows "lifecycle_step (lifecycle_of (s, adm)) (lifecycle_of (t, adm))"
proof -
  have inv: "manager_inv s adm" by (rule reachable_inv [OF reach])
  from step show ?thesis
  proof (cases rule: manager_thread.cases)
    case (fate os space codes)
    then show ?thesis by (simp add: lifecycle_same running_def)
  next
    case (dequeue now now1 now2)
    then have run: "running s" by (simp add: running_def)
    from guarded_cases [of "worker_dequeue now now1 now2" s] show ?thesis
    proof
      assume "worker_dequeue now now1 now2 s = (Inr (), guarded (worker_dequeue now now1 now2) s)"
      from dequeue_outcome [OF this [folded dequeue(1)]] show ?thesis
      proof (elim disjE exE conjE)
        assume "t = dequeued s"
        then show ?thesis using run by (simp add: lifecycle_same dequeued_fields)
      next
        fix u assume "\<not> m_stop_requested s" "t = dequeued u" "m_state u = RS_FINALIZING"
        moreover from this(1) have "m_state s = RS_RECORDING" using inv run by (auto simp: manager_inv_def live_def)
        ultimately show ?thesis by (simp add: lifecycle_of_def dequeued_fields lifecycle_step.stop_recording)
      qed
    qed (use lifecycle_fault [OF inv run] dequeue in simp)
  next
    case (written frame now)
    then have run: "running s" by (simp add: running_def)
    from guarded_cases [of "worker_write lib now frame" s] show ?thesis
    proof
      assume w: "worker_write lib now frame s = (Inr (), guarded (worker_write lib now frame) s)"
      then have "m_worker t = Some (W_commit (id_of frame))" "m_state t = m_state s"
        by (rule worker_write_Inr, simp add: written)+
      then show ?thesis using run by (simp add: lifecycle_same running_def)
    qed (use lifecycle_fault [OF inv run] written in simp)
  next
    case (commit identity)
    then show ?thesis by (simp add: lifecycle_same worker_commit_def running_def)
  next
    case (finalize clock)
    then have run: "running s" by (simp add: running_def)
    from guarded_cases [of "finalizeArtifacts lib clock" s] show ?thesis
    proof
      assume "finalizeArtifacts lib clock s = (Inr (), guarded (finalizeArtifacts lib clock) s)"
      then show ?thesis using lifecycle_finalized [OF reach finalize(2)] finalizeArtifacts_Inr finalize(1) by blast
    qed (use lifecycle_fault [OF inv run] finalize in simp)
  qed
qed

lemma lifecycle_simulation:
  assumes reach: "reachable lib s adm" and step: "recording_step lib (s, adm) (t, adm')"
  shows "lifecycle_step (lifecycle_of (s, adm)) (lifecycle_of (t, adm'))"
proof -
  have inv: "manager_inv s adm" by (rule reachable_inv [OF reach])
  from thread_step_of [OF step] show ?thesis
  proof (elim disjE exE conjE)
    fix env rq r assume "startOrReplay lib env rq s = Some (r, t)" "adm' = (if r = Inr SRES_STARTED then [] else adm)"
    then show ?thesis using lifecycle_start [OF inv] by simp
  next
    fix own f acc assume f: "trySubmitFrame own f s = (acc, t)" "adm' = (if acc then adm @ [the f] else adm)"
    note t = submit_fields [OF f(1)]
    show ?thesis
    proof (cases acc)
      case True
      then show ?thesis using t f(2) by (simp add: lifecycle_of_def lifecycle_step.admit)
    next
      case False
      then show ?thesis using t f(2) by (simp add: lifecycle_same running_def)
    qed
  qed (simp_all add: lifecycle_outcome [OF inv] lifecycle_thread [OF reach])
qed

text \<open>
  C3: the recording manager refines the lifecycle. From the empty state on, each step of any of its threads is a step
  of the abstract machine: a recording begins only where none is open, frames are admitted one at a time and only
  while it is open, nothing but a stop or a fault leaves that state, and a recording that was closed for finalization
  ends as finalized only with its frames in the order of their identities.
\<close>

theorem recording_refines_lifecycle:
  assumes "reachable lib s adm"
  shows "lifecycle_step\<^sup>*\<^sup>* Idle (lifecycle_of (s, adm)) \<and>
    (\<forall>t adm'. recording_step lib (s, adm) (t, adm') \<longrightarrow>
       lifecycle_step (lifecycle_of (s, adm)) (lifecycle_of (t, adm')))"
  using assms
proof (induction rule: reachable.induct)
  case (reach_init config w s)
  then have "m_state s = RS_IDLE \<and> m_worker s = None" unfolding RecordingManager_new_def bindE_Inr_iff by auto
  then have idle: "lifecycle_of (s, []) = Idle" by (simp add: lifecycle_of_def running_def)
  have reach: "reachable lib s []" using reach_init by (rule reachable.reach_init)
  have "lifecycle_step Idle (lifecycle_of (t, adm'))" if "recording_step lib (s, []) (t, adm')" for t adm'
    using lifecycle_simulation [OF reach that] by (simp only: idle)
  then show ?case by (simp add: idle)
next
  case (reach_step s adm t adm')
  have "reachable lib t adm'" using reach_step(1,2) by (rule reachable.reach_step)
  then show ?case using reach_step(2,3) lifecycle_simulation by (meson rtranclp.rtrancl_into_rtrancl)
qed

lemma recording_refines_lifecycle_witness: "lifecycle_step\<^sup>*\<^sup>* Idle (Finalizing [sample_frame])"
proof -
  have "lifecycle_of (run_draining, [sample_frame]) = Finalizing [sample_frame]"
    by (simp add: lifecycle_of_def run_draining_val)
  with recording_refines_lifecycle [OF run_reachable(2)] show ?thesis by simp
qed

end
