(* ===== verification/AppStop.thy ===== *)
theory AppStop
  imports AppLifecycle RecordingLifecycle
begin

text \<open>
  The termination of \<^verbatim>\<open>stopApplication\<close>: the joins it waits for come to their end, whatever the threads
  that are left do first. Calls into other code are taken to return, as everywhere in the model: a stop cannot end while the
  handler of a request blocks for ever (\<^verbatim>\<open>RecordingProps\<close> shows the one way for that).
\<close>

section \<open>The work that is left\<close>

definition stopping :: "main_pc \<Rightarrow> bool" where
  "stopping m \<longleftrightarrow> m \<in> {Stop_pilot, Join_pilot, Join_server, Join_threads, Join_recording}"

fun stop_phases_left :: "main_pc \<Rightarrow> nat" where
  "stop_phases_left Stop_pilot = 5" | "stop_phases_left Join_pilot = 4" | "stop_phases_left Join_server = 3"
| "stop_phases_left Join_threads = 2" | "stop_phases_left Join_recording = 1" | "stop_phases_left _ = 0"

definition pilot_work :: "Application \<Rightarrow> nat" where
  "pilot_work a = (case ap_pilot a of None \<Rightarrow> 0 | Some p \<Rightarrow> steps_left (pi_pc p))"

definition server_work :: "Application \<Rightarrow> nat" where
  "server_work a = (case ap_server a of None \<Rightarrow> 0
     | Some sv \<Rightarrow> if hs_stop_posted sv then 2 else if hs_accept_pending sv then 1 else 0)"

fun capture_work :: "capture_pc \<Rightarrow> nat" where
  "capture_work Cap_loop = 1" | "capture_work (Cap_submit _) = 2" | "capture_work Cap_failed = 2"
| "capture_work Cap_publish = 2" | "capture_work Cap_degrade = 3" | "capture_work _ = 0"

fun encoder_work :: "encoder_pc \<Rightarrow> nat" where
  "encoder_work (Enc_wait _) = 1"
| "encoder_work (Enc_failed kind _ _) = (if kind = Preview_DEPTH then 2 else 4)"
| "encoder_work (Enc_preview kind _ _) = (if kind = Preview_DEPTH then 3 else 5)"
| "encoder_work _ = 0"

definition threads_work :: "Application \<Rightarrow> nat" where
  "threads_work a = capture_work (ap_capture a) + encoder_work (ap_encoder a)"

definition manager_work :: "Application \<Rightarrow> nat" where
  "manager_work a = (case ap_recording a of None \<Rightarrow> 0 | Some r \<Rightarrow> recording_work r)"

text \<open>The phase of the stop first, then what the phase waits for.\<close>

definition stop_work :: "Application \<Rightarrow> nat \<times> nat" where
  "stop_work a = (stop_phases_left (ap_main a), case ap_main a of
     Join_pilot \<Rightarrow> pilot_work a | Join_server \<Rightarrow> server_work a | Join_threads \<Rightarrow> threads_work a
   | Join_recording \<Rightarrow> manager_work a | _ \<Rightarrow> 0)"

definition stop_order :: "((nat \<times> nat) \<times> (nat \<times> nat)) set" where
  "stop_order = less_than <*lex*> less_than"

lemma stop_order_wf: "wf stop_order"
  by (simp add: stop_order_def wf_lex_prod)

section \<open>What holds while the application stops\<close>

definition listener_ok :: "ProviderHttpServer \<Rightarrow> bool" where
  "listener_ok sv \<longleftrightarrow> (hs_accept_pending sv \<longrightarrow> hs_started sv \<or> hs_stop_posted sv \<or> \<not> hs_acceptor_open sv)"

definition told_to_stop :: "manager \<Rightarrow> bool" where
  "told_to_stop r \<longleftrightarrow> (RecordingFacts.running r \<longrightarrow> m_stop_requested r)"

definition app_stop_inv :: "Application \<Rightarrow> bool" where
  "app_stop_inv a \<longleftrightarrow> (stopping (ap_main a) \<longrightarrow> ap_stop_requested a) \<and> pred_option listener_ok (ap_server a) \<and>
     (ap_main a = Join_recording \<longrightarrow> pred_option told_to_stop (ap_recording a))"

lemma listener_step: "server_step routes (sv, w) (sv', w') \<Longrightarrow> listener_ok sv \<Longrightarrow> listener_ok sv'"
  using fixed_step [of routes "(sv, w)" "(sv', w')"]
  by (auto simp: listener_move_def fixed_defs listener_ok_def stopServer_begin_def split: if_splits)

lemma server_work_step:
  "server_step routes (sv, w) (sv', w') \<Longrightarrow> \<not> hs_started sv \<Longrightarrow> ap_server a = Some sv \<Longrightarrow> ap_server b = Some sv' \<Longrightarrow>
     server_work b \<le> server_work a"
  using fixed_step [of routes "(sv, w)" "(sv', w')"]
  by (auto simp: listener_move_def fixed_defs server_work_def stopServer_begin_def split: if_splits)

lemma told_work:
  assumes "manager_thread lib r r'" "reachable lib r adm" "told_to_stop r"
  shows "told_to_stop r' \<and> recording_work r' \<le> recording_work r"
proof (cases "RecordingFacts.running r")
  case True
  have "queue_ok r" using reachable_inv [OF assms(2)] by (simp add: manager_inv_def)
  from worker_works [OF assms(1) this] True assms(3)
  consider "recording_work r' < recording_work r" "m_stop_requested r'" | w where "r' = r\<lparr>m_world := w\<rparr>"
    by (auto simp: told_to_stop_def)
  then show ?thesis
  proof cases
    case (2 w)
    have "recording_work r' = recording_work r" by (rule work_cong) (simp_all add: 2)
    then show ?thesis using assms(3) by (simp add: 2 told_to_stop_def RecordingFacts.running_def)
  qed (simp add: told_to_stop_def)
next
  case False
  from assms(1) show ?thesis
  proof (cases rule: manager_thread.cases)
    case (fate os space codes)
    have "recording_work r' = recording_work r" by (rule work_cong) (simp_all add: fate)
    then show ?thesis using assms(3) by (simp add: fate told_to_stop_def RecordingFacts.running_def)
  qed (use False in \<open>simp_all add: RecordingFacts.running_def\<close>)
qed

lemma shutdown_told:
  assumes "reachable lib r adm"
  shows "told_to_stop (finalize_request now now' r)"
proof -
  have inv: "manager_inv r adm" by (rule reachable_inv [OF assms])
  show ?thesis
  proof (cases "m_state r = RS_RECORDING")
    case True
    obtain x t where b: "beginFinalizationLocked SR_APPLICATION_SHUTDOWN
        (serializeInternalStopEvidence (m_recording_id r) SR_APPLICATION_SHUTDOWN) [] [] now now' r = (x, t)" by fastforce
    with begin_shape [OF b] True show ?thesis by (cases x) (simp_all add: finalize_request_def told_to_stop_def)
  next
    case False
    then show ?thesis using inv by (auto simp: finalize_request_def told_to_stop_def manager_inv_def live_def)
  qed
qed

lemma http_stop_frame:
  assumes "server_step (application_routes lib config) (sv, a) (sv', a')"
  shows "ap_stop_requested a' = ap_stop_requested a"
proof -
  have "records (al_recording lib) a a'" using app.stepped [OF assms] by simp
  then obtain x where "a' = a\<lparr>ap_recording := x\<rparr>" by (auto simp: records_def)
  then show ?thesis by simp
qed

text \<open>The invariant holds from the start on.\<close>

abbreviation at_rest :: "Application \<Rightarrow> bool" where
  "at_rest a \<equiv> \<not> stopping (ap_main a) \<and> pred_option listener_ok (ap_server a)"

lemma rest_inv: "at_rest a \<Longrightarrow> app_stop_inv a"
  by (auto simp: app_stop_inv_def stopping_def)

lemma listening_rest:
  "keeps at_rest (bindS (modS (\<lambda>a. a\<lparr>ap_server := Some (make_server (ap_config a))\<rparr>)) (\<lambda>_. bindS (on_server (startServer outcome)) (\<lambda>_.
     modS (\<lambda>a. a\<lparr>ap_health := (ap_health a)\<lparr>ph_listening := True\<rparr>, ap_started := True, ap_main := Start_camera\<rparr>))))"
proof (rule keepsI)
  fix a assume a: "at_rest a"
  obtain r sv where s: "startServer outcome (make_server (ap_config a)) = (r, sv)" by fastforce
  then have "listener_ok sv"
    by (auto simp: startServer_def run_simps make_server_def ProviderHttpServer_new_def Let_def listener_ok_def split: if_splits)
  with a s show "at_rest (snd (bindS (modS (\<lambda>a. a\<lparr>ap_server := Some (make_server (ap_config a))\<rparr>)) (\<lambda>_.
      bindS (on_server (startServer outcome)) (\<lambda>_. modS (\<lambda>a. a\<lparr>ap_health := (ap_health a)\<lparr>ph_listening := True\<rparr>,
        ap_started := True, ap_main := Start_camera\<rparr>))) a))"
    by (simp add: run_simps on_server_def zoomS_def stopping_def split: sum.split)
qed

lemma start_rest: "keeps at_rest (startApplication_begin lib pid outcome)"
proof -
  have "keeps at_rest (make_recording pid)"
    by (rule keepsI) (simp add: make_recording_def run_simps split: sum.split)
  then show ?thesis
    unfolding startApplication_begin_def app_prepare_def
    by (intro keeps_bindS keeps_if keeps_basic keeps_lift keeps_modS listening_rest) simp_all
qed

lemma adapter_stop_frame:
  "ap_server (snd (on_adapter m a)) = ap_server a" "ap_stop_requested (snd (on_adapter m a)) = ap_stop_requested a"
  "ap_recording (snd (on_adapter m a)) = ap_recording a" "ap_pilot (snd (on_adapter m a)) = ap_pilot a"
  "ap_main (snd (on_adapter m a)) = ap_main a"
  by (simp_all add: on_adapter_def zoomS_def split: prod.split)

lemma camera_rest:
  assumes "pred_option listener_ok (ap_server a)"
  shows "at_rest (startApplication_camera devices start_error encoder_ok capture_ok a)"
proof -
  let ?P = "\<lambda>a. pred_option listener_ok (ap_server a)"
  have z: "keeps ?P (on_adapter m)" for m by (rule keepsI) (simp add: adapter_stop_frame)
  have "keeps ?P (catchS (start_streaming devices start_error encoder_ok capture_ok)
      (\<lambda>_. modS (\<lambda>a. a\<lparr>ap_health := (ap_health a)\<lparr>ph_state := PS_DEGRADED,
        ph_last_error := ''Camera adapter connection or stream start failed.''\<rparr>\<rparr>)))"
    unfolding start_streaming_def by (intro keeps_bindS keeps_catchS keeps_basic keeps_modS z) simp_all
  with assms show ?thesis by (simp add: startApplication_camera_def stopping_def keeps_def)
qed

lemmas thread_steps = AppThreads.encoder_wait_def AppThreads.encoder_preview_def AppThreads.encoder_failed_def
  AppThreads.capture_read_def AppThreads.capture_submit_def AppThreads.capture_failed_def AppThreads.capture_degrade_def
  AppThreads.capture_publish_def Let_def

lemma joined_closed:
  assumes "stop_phase a" "ap_main a = Join_recording" "ap_server a = Some sv"
  shows "server_closed sv" "ap_capture a = Cap_none" "ap_encoder a = Enc_none"
  using assms by (simp_all add: stop_phase_def threads_ended_def server_ended_def)

lemma app_stop_inv_step: "app_step lib a b \<Longrightarrow> components_ok lib config a \<Longrightarrow> stop_phase a \<Longrightarrow> app_stop_inv a \<Longrightarrow> app_stop_inv b"
proof (induction rule: app_step.induct)
  case (start a pid outcome)
  then show ?case
    using start_rest [of lib pid outcome] by (intro rest_inv) (simp add: keeps_def app_stop_inv_def stopping_def)
next
  case (start_camera a devices start_error encoder_ok capture_ok)
  then show ?case using camera_rest by (intro rest_inv) (simp add: app_stop_inv_def)
next
  case (start_pilot a random now)
  then show ?case
    by (intro rest_inv) (simp add: startApplication_pilot_def run_simps on_pilot_def zoomS_def stopping_def app_stop_inv_def split: prod.split)
next
  case (stop a)
  then show ?case by (simp add: stopApplication_begin_def app_stop_inv_def stopping_def)
next
  case (stop_pilot a)
  then show ?case by (simp add: AppThreads.stop_pilot_def app_stop_inv_def stopping_def)
next
  case (join_pilot a)
  then show ?case
    by (cases "ap_server a") (auto simp: AppThreads.join_pilot_def app_stop_inv_def stopping_def listener_ok_def stopServer_begin_def)
next
  case (join_server a)
  then show ?case
    by (cases "ap_server a") (simp_all add: AppThreads.join_server_def app_stop_inv_def stopping_def listener_ok_def stopServer_finish_def)
next
  case (join_threads a)
  then show ?case
    by (cases "ap_recording a")
       (auto simp: AppThreads.join_threads_def app_stop_inv_def stopping_def components_ok_def shutdown_told)
next
  case (join_recording a)
  then show ?case
    by (intro rest_inv) (simp add: stopApplication_end_def Let_def adapter_stop_frame stopping_def app_stop_inv_def)
next
  case (http a sv sv' a')
  note fr = http_frame [OF http(2)] http_stop_frame [OF http(2)]
  show ?case
  proof (cases "ap_main a = Join_recording")
    case True
    then have "sv' = sv \<and> a' = a" using closed_step [OF http(2)] joined_closed(1) [OF http(4)] http(1) by blast
    then show ?thesis using http by (simp add: app_stop_inv_def)
  next
    case False
    then show ?thesis using http(1,5) listener_step [OF http(2)] fr by (simp add: app_stop_inv_def)
  qed
next
  case (recording a r r')
  then show ?case using told_work by (auto simp: app_stop_inv_def components_ok_def)
next
  case (capture_submit a frame owns_lock)
  then have "ap_main a \<noteq> Join_recording" by (auto simp: stop_phase_def threads_ended_def)
  then show ?case using capture_submit by (simp add: app_stop_inv_def AppThreads.capture_submit_def)
next
  case (capture_read a answer)
  then show ?case
    using adapter_stop_frame [of "readFrame lib answer" a]
    by (auto simp: AppThreads.capture_read_def app_stop_inv_def split: prod.split sum.split)
qed (auto simp: app_stop_inv_def thread_steps split: option.split sum.split)

lemma app_stop_inv_reachable: "app_reachable lib config a \<Longrightarrow> app_stop_inv a"
proof (induction rule: app_reachable.induct)
  case (new env)
  then show ?case by (simp add: app_stop_inv_def VisionApplication_new_def stopping_def)
next
  case (step a b)
  then show ?case using app_stop_inv_step components_reachable phase_reachable by blast
qed

section \<open>No step gives the phase more to wait for\<close>

lemma stop_ends: "ap_main (stopApplication_end a) = Main_idle" "ap_started (stopApplication_end a) = ap_started a"
  by (simp_all add: stopApplication_end_def Let_def adapter_phase)

definition phase_move :: "Application \<Rightarrow> Application \<Rightarrow> bool" where
  "phase_move a b \<longleftrightarrow> ap_main b = ap_main a \<or> stop_phases_left (ap_main b) < stop_phases_left (ap_main a) \<and>
     (stopping (ap_main b) \<or> ap_main b = Main_idle \<and> ap_started b = ap_started a)"

lemma phase_of_step: "app_step lib a b \<Longrightarrow> stopping (ap_main a) \<Longrightarrow> phase_move a b"
proof (induction rule: app_step.induct)
  case (http a sv sv' a')
  then show ?case using http_frame [OF http(2)] by (simp add: phase_move_def)
next
  case (capture_read a answer)
  then show ?case using adapter_stop_frame [of "readFrame lib answer" a]
    by (auto simp: phase_move_def AppThreads.capture_read_def split: prod.split sum.split)
next
  case (join_recording a)
  then show ?case by (simp add: phase_move_def stop_ends)
qed (auto simp: phase_move_def stopping_def thread_steps other_steps split: option.split sum.split)

lemma pilot_phase_work:
  "app_step lib a b \<Longrightarrow> ap_main a = Join_pilot \<Longrightarrow> ap_main b = Join_pilot \<Longrightarrow> components_ok lib config a \<Longrightarrow>
     pilot_work b \<le> pilot_work a"
proof (induction rule: app_step.induct)
  case (http a sv sv' a')
  then show ?case using http_frame [OF http(2)] by (simp add: pilot_work_def)
next
  case (capture_read a answer)
  then show ?case using adapter_stop_frame [of "readFrame lib answer" a]
    by (auto simp: AppThreads.capture_read_def pilot_work_def split: prod.split sum.split)
next
  case (capture_publish a)
  then show ?case
    by (cases "ap_pilot a") (simp_all add: AppThreads.capture_publish_def pilot_work_def updateProviderState_def)
next
  case (pilot a p p')
  then have p: "pilot_reachable (al_pilot lib) config p" "pi_started p \<longrightarrow> pi_stop_requested p" by (simp_all add: components_ok_def)
  then have "pi_stop_requested p" using ended_worker [OF p(1)] pilot(2) by blast
  from stopping_step [OF pilot(2) this] pilot(1) show ?case by (simp add: pilot_work_def)
qed (auto simp: pilot_work_def thread_steps other_steps split: option.split sum.split)

lemma server_phase_work:
  "app_step lib a b \<Longrightarrow> ap_main a = Join_server \<Longrightarrow> ap_main b = Join_server \<Longrightarrow> stop_phase a \<Longrightarrow>
     server_work b \<le> server_work a"
proof (induction rule: app_step.induct)
  case (http a sv sv' a')
  then have "\<not> hs_started sv" by (simp add: stop_phase_def)
  then show ?case using http by (auto intro: server_work_step)
next
  case (capture_read a answer)
  then show ?case using adapter_stop_frame [of "readFrame lib answer" a]
    by (auto simp: AppThreads.capture_read_def server_work_def split: prod.split sum.split)
qed (auto simp: server_work_def thread_steps other_steps split: option.split sum.split)

text \<open>Told to stop, the capture and the encoder thread come closer to their ends with each of their steps.\<close>

lemma encoder_next_work: "encoder_work (encoder_next kind seen frame) = (if kind = Preview_COLOR then 3 else 1)"
  by (cases kind) simp_all

lemma threads_phase_work:
  "app_step lib a b \<Longrightarrow> ap_main a = Join_threads \<Longrightarrow> ap_main b = Join_threads \<Longrightarrow> ap_stop_requested a \<Longrightarrow>
     threads_work b \<le> threads_work a"
proof (induction rule: app_step.induct)
  case (http a sv sv' a')
  then show ?case using http_frame [OF http(2)] by (simp add: threads_work_def)
next
  case (encoder_preview a kind seen frame)
  then show ?case
    by (cases kind) (auto simp: AppThreads.encoder_preview_def threads_work_def split: option.split sum.split)
next
  case (encoder_failed a kind seen frame)
  then show ?case by (cases kind) (simp_all add: AppThreads.encoder_failed_def threads_work_def)
qed (auto simp: threads_work_def AppThreads.encoder_wait_def AppThreads.capture_read_def AppThreads.capture_submit_def
       AppThreads.capture_failed_def AppThreads.capture_degrade_def AppThreads.capture_publish_def Let_def other_steps)

lemma manager_phase_work:
  "app_step lib a b \<Longrightarrow> ap_main a = Join_recording \<Longrightarrow> ap_main b = Join_recording \<Longrightarrow> components_ok lib config a \<Longrightarrow>
     stop_phase a \<Longrightarrow> app_stop_inv a \<Longrightarrow> manager_work b \<le> manager_work a"
proof (induction rule: app_step.induct)
  case (http a sv sv' a')
  then have "sv' = sv \<and> a' = a" using closed_step [OF http(2)] joined_closed(1) [OF http(6)] by blast
  then show ?case by (simp add: manager_work_def)
next
  case (recording a r r')
  then show ?case using told_work by (fastforce simp: manager_work_def app_stop_inv_def components_ok_def)
next
  case (capture_submit a frame owns_lock)
  then show ?case by (auto simp: stop_phase_def threads_ended_def)
next
  case (capture_read a answer)
  then show ?case by (auto simp: stop_phase_def threads_ended_def)
qed (auto simp: manager_work_def thread_steps other_steps stop_ends split: option.split sum.split)

text \<open>Everything that the proofs below need of a reachable application.\<close>

definition stop_ready :: "app_library \<Rightarrow> VisionConfig \<Rightarrow> Application \<Rightarrow> bool" where
  "stop_ready lib config a \<longleftrightarrow> components_ok lib config a \<and> stop_phase a \<and> app_stop_inv a"

lemma stop_ready_reachable: "app_reachable lib config a \<Longrightarrow> stop_ready lib config a"
  by (simp add: stop_ready_def components_reachable phase_reachable app_stop_inv_reachable)

lemma work_step:
  assumes step: "app_step lib a b" and ready: "stop_ready lib config a" and st: "stopping (ap_main a)"
  shows "stop_work b = stop_work a \<or> (stop_work b, stop_work a) \<in> stop_order"
proof (cases "ap_main b = ap_main a")
  case False
  with phase_of_step [OF step st] show ?thesis by (simp add: phase_move_def stop_work_def stop_order_def)
next
  case True
  then show ?thesis
    using st ready pilot_phase_work [OF step] server_phase_work [OF step] threads_phase_work [OF step] manager_phase_work [OF step]
    by (cases "ap_main a") (fastforce simp: stopping_def stop_work_def stop_order_def stop_ready_def app_stop_inv_def)+
qed

section \<open>Every phase of a stop goes on\<close>

lemma moves_by: "app_step lib a b \<Longrightarrow> ap_main b = ap_main a \<Longrightarrow> threads_work b < threads_work a \<Longrightarrow>
    \<exists>b. app_step lib a b \<and> ap_main b = ap_main a \<and> threads_work b < threads_work a"
  by blast

lemma capture_moves:
  assumes "capture_work (ap_capture a) > 0" "ap_stop_requested a" "mutex_free a"
  shows "\<exists>b. app_step lib a b \<and> ap_main b = ap_main a \<and> threads_work b < threads_work a"
proof (cases "ap_capture a")
  case Cap_loop
  show ?thesis
    by (rule moves_by [OF app_step.capture_read [OF Cap_loop, of lib "Read_error []"]])
       (use assms(2) Cap_loop in \<open>simp_all add: AppThreads.capture_read_def threads_work_def\<close>)
next
  case (Cap_submit frame)
  show ?thesis
    by (rule moves_by [OF app_step.capture_submit [OF Cap_submit, of lib True]])
       (use Cap_submit in \<open>simp_all add: AppThreads.capture_submit_def threads_work_def\<close>)
next
  case Cap_failed
  show ?thesis
    by (rule moves_by [OF app_step.capture_failed [OF Cap_failed]])
       (use assms(2) Cap_failed in \<open>simp_all add: AppThreads.capture_failed_def threads_work_def\<close>)
next
  case Cap_degrade
  show ?thesis
    by (rule moves_by [OF app_step.capture_degrade [OF Cap_degrade assms(3)]])
       (use Cap_degrade in \<open>simp_all add: AppThreads.capture_degrade_def threads_work_def Let_def\<close>)
next
  case Cap_publish
  show ?thesis
    by (rule moves_by [OF app_step.capture_publish [OF Cap_publish]])
       (use Cap_publish in \<open>simp_all add: AppThreads.capture_publish_def threads_work_def\<close>)
qed (use assms in simp_all)

lemma encoder_moves:
  assumes "encoder_work (ap_encoder a) > 0" "ap_stop_requested a" "mutex_free a"
  shows "\<exists>b. app_step lib a b \<and> ap_main b = ap_main a \<and> threads_work b < threads_work a"
proof (cases "ap_encoder a")
  case (Enc_wait seen)
  show ?thesis
    by (rule moves_by [OF app_step.encoder_wait [OF Enc_wait]])
       (use assms(2) Enc_wait in \<open>simp_all add: AppThreads.encoder_wait_def threads_work_def\<close>)
next
  case (Enc_preview kind seen frame)
  show ?thesis
    by (rule moves_by [OF app_step.encoder_preview [OF Enc_preview]]; cases kind)
       (use Enc_preview in \<open>auto simp: AppThreads.encoder_preview_def threads_work_def split: option.split sum.split\<close>)
next
  case (Enc_failed kind seen frame)
  show ?thesis
    by (rule moves_by [OF app_step.encoder_failed [OF Enc_failed assms(3)]]; cases kind)
       (use Enc_failed in \<open>simp_all add: AppThreads.encoder_failed_def threads_work_def\<close>)
qed (use assms in simp_all)

lemma server_moves:
  assumes sv: "ap_server a = Some sv" "server_inv sv" "listener_ok sv" "\<not> hs_started sv" and work: "server_work a > 0"
  shows "\<exists>b. app_step lib a b \<and> ap_main b = ap_main a \<and> server_work b < server_work a"
proof -
  have go: ?thesis if "server_step (application_routes lib (ap_config a)) (sv, a) (sv', a)"
      "server_work (a\<lparr>ap_server := Some sv'\<rparr>) < server_work a" for sv'
    using app_step.http [OF sv(1) that(1)] that(2) by (intro exI [of _ "a\<lparr>ap_server := Some sv'\<rparr>"]) simp
  show ?thesis
  proof (cases "hs_stop_posted sv")
    case True
    have "finite {i. open_session sv i}"
      using sv(2) finite_sets by (simp add: server_inv_def open_set_def)
    then obtain ids where ids: "set ids = {i. open_session sv i}" "distinct ids" using finite_distinct_list by blast
    have "\<not> hs_stop_posted (stopOnIoThread ids sv)"
      using fixed_stop [of ids sv] by (simp add: fixed_defs)
    then show ?thesis
      by (intro go [OF server_step.stop_io [OF True ids]]) (simp add: server_work_def sv(1) True)
  next
    case False
    then have pending: "hs_accept_pending sv" using work by (simp add: server_work_def sv(1) split: if_splits)
    then have "\<not> hs_acceptor_open sv" using sv(3,4) False by (simp add: listener_ok_def)
    then have "server_work (a\<lparr>ap_server := Some (acceptNext True sv)\<rparr>) < server_work a"
      using False pending by (simp add: server_work_def sv(1) acceptNext_def)
    then show ?thesis by (rule go [OF server_step.accept [OF pending]])
  qed
qed

lemma pilot_moves:
  assumes p: "ap_pilot a = Some p" "pilot_reachable (al_pilot lib) config p" "pi_started p \<longrightarrow> pi_stop_requested p" "config_ok config"
    and n: "\<not> pilot_joinable a"
  shows "\<exists>b. app_step lib a b \<and> ap_main b = ap_main a \<and> pilot_work b < pilot_work a"
proof -
  have "pi_started p" "\<not> joinable_ended p" using n by (simp_all add: pilot_joinable_def p(1))
  moreover have "pi_pc p \<noteq> Worker_crashed" using safe_reachable [OF p(2,4)] by (simp add: safe_def)
  ultimately have "PilotClientFacts.running (pi_pc p)" "pi_stop_requested p"
    using p(3) by (simp_all add: joinable_ended_def PilotClientFacts.running_def)
  from worker_progress [OF this] obtain p' where s: "worker_step (al_pilot lib) p p'" by blast
  from app_step.pilot [OF p(1) s] stopping_step [OF s \<open>pi_stop_requested p\<close>] p(1) show ?thesis
    by (intro exI [of _ "a\<lparr>ap_pilot := Some p'\<rparr>"]) (simp add: pilot_work_def)
qed

lemma manager_moves:
  assumes r: "ap_recording a = Some r" "reachable (al_recording lib) r adm" "told_to_stop r" and n: "\<not> recording_joinable a"
  shows "\<exists>b. app_step lib a b \<and> ap_main b = ap_main a \<and> manager_work b < manager_work a"
proof -
  have run: "RecordingFacts.running r" using n by (simp add: recording_joinable_def RecordingFacts.running_def r(1))
  then have stop: "m_stop_requested r" using r(3) by (simp add: told_to_stop_def)
  obtain r' where t: "manager_thread (al_recording lib) r r'" "\<not> (\<exists>w. r' = r\<lparr>m_world := w\<rparr>)"
    using worker_can_work [OF run stop] by blast
  have "queue_ok r" using reachable_inv [OF r(2)] by (simp add: manager_inv_def)
  then have "recording_work r' < recording_work r" using worker_works [OF t(1) _ stop] t(2) by blast
  then show ?thesis
    using app_step.recording [OF r(1) t(1)] r(1)
    by (intro exI [of _ "a\<lparr>ap_recording := Some r'\<rparr>"]) (simp add: manager_work_def)
qed

section \<open>The stop ends\<close>

lemma next_phase: "stop_phases_left (ap_main b) < stop_phases_left (ap_main a) \<Longrightarrow> (stop_work b, stop_work a) \<in> stop_order"
  by (simp add: stop_work_def stop_order_def)

lemma same_phase:
  "ap_main b = ap_main a \<Longrightarrow> ap_main a = Join_pilot \<Longrightarrow> pilot_work b < pilot_work a \<Longrightarrow> (stop_work b, stop_work a) \<in> stop_order"
  "ap_main b = ap_main a \<Longrightarrow> ap_main a = Join_server \<Longrightarrow> server_work b < server_work a \<Longrightarrow> (stop_work b, stop_work a) \<in> stop_order"
  "ap_main b = ap_main a \<Longrightarrow> ap_main a = Join_threads \<Longrightarrow> threads_work b < threads_work a \<Longrightarrow> (stop_work b, stop_work a) \<in> stop_order"
  "ap_main b = ap_main a \<Longrightarrow> ap_main a = Join_recording \<Longrightarrow> manager_work b < manager_work a \<Longrightarrow> (stop_work b, stop_work a) \<in> stop_order"
  by (simp_all add: stop_work_def stop_order_def)

lemma stop_goes_on:
  assumes ready: "stop_ready lib config a" and ok: "config_ok config" and st: "stopping (ap_main a)"
  shows "\<exists>b. app_step lib a b \<and> (stop_work b, stop_work a) \<in> stop_order"
proof -
  have c: "components_ok lib config a" and ph: "stop_phase a" and inv: "app_stop_inv a" using ready by (simp_all add: stop_ready_def)
  have stop: "ap_stop_requested a" using inv st by (simp add: app_stop_inv_def)
  consider "ap_main a = Stop_pilot" | "ap_main a = Join_pilot" | "ap_main a = Join_server" | "ap_main a = Join_threads"
    | "ap_main a = Join_recording"
    using st by (auto simp: stopping_def)
  then show ?thesis
  proof cases
    case 1
    then show ?thesis using app_step.stop_pilot [OF 1, of lib] 1
        by (intro exI [of _ "AppThreads.stop_pilot a"] conjI next_phase) (simp_all add: AppThreads.stop_pilot_def)
  next
    case 2
    show ?thesis
    proof (cases "pilot_joinable a")
      case True
      then show ?thesis using app_step.join_pilot [OF 2, of lib] 2
        by (intro exI [of _ "AppThreads.join_pilot a"] conjI next_phase) (simp_all add: AppThreads.join_pilot_def)
    next
      case False
      then obtain p where p: "ap_pilot a = Some p" by (auto simp: pilot_joinable_def split: option.splits)
      then have "pilot_reachable (al_pilot lib) config p" "pi_started p \<longrightarrow> pi_stop_requested p"
        using c 2 by (simp_all add: components_ok_def)
      from pilot_moves [OF p this ok False] show ?thesis using same_phase(1) [OF _ 2] by blast
    qed
  next
    case 3
    show ?thesis
    proof (cases "server_joinable a")
      case True
      then show ?thesis using app_step.join_server [OF 3, of lib] 3
        by (intro exI [of _ "AppThreads.join_server a"] conjI next_phase) (simp_all add: AppThreads.join_server_def)
    next
      case False
      then obtain sv where sv: "ap_server a = Some sv" and w: "server_work a > 0"
        by (auto simp: server_joinable_def server_work_def split: option.splits)
      then have "server_inv sv" "listener_ok sv" "\<not> hs_started sv"
        using c ph inv 3 by (simp_all add: components_ok_def stop_phase_def app_stop_inv_def)
      from server_moves [OF sv this w] show ?thesis using same_phase(2) [OF _ 3] by blast
    qed
  next
    case 4
    have free: "mutex_free a" by (simp add: mutex_free_def 4)
    show ?thesis
    proof (cases "threads_joinable a")
      case True
      then show ?thesis using app_step.join_threads [OF 4, of lib] 4
        by (intro exI [of _ "AppThreads.join_threads a"] conjI next_phase) (simp_all add: AppThreads.join_threads_def)
    next
      case False
      then have "capture_work (ap_capture a) > 0 \<or> encoder_work (ap_encoder a) > 0"
        by (cases "ap_capture a"; cases "ap_encoder a") (simp_all add: threads_joinable_def)
      then have "\<exists>b. app_step lib a b \<and> ap_main b = ap_main a \<and> threads_work b < threads_work a"
        using capture_moves [OF _ stop free] encoder_moves [OF _ stop free] by blast
      then show ?thesis using same_phase(3) [OF _ 4] by blast
    qed
  next
    case 5
    show ?thesis
    proof (cases "recording_joinable a")
      case True
      then show ?thesis using app_step.join_recording [OF 5, of lib] 5
        by (intro exI [of _ "stopApplication_end a"] conjI next_phase) (simp_all add: stop_ends)
    next
      case False
      then obtain r where r: "ap_recording a = Some r" by (auto simp: recording_joinable_def split: option.splits)
      then obtain adm where "reachable (al_recording lib) r adm" "told_to_stop r"
        using c inv 5 by (auto simp: components_ok_def app_stop_inv_def)
      from manager_moves [OF r this False] show ?thesis using same_phase(4) [OF _ 5] by blast
    qed
  qed
qed

text \<open>Steps while the application stops.\<close>

definition stop_step :: "app_library \<Rightarrow> Application \<Rightarrow> Application \<Rightarrow> bool" where
  "stop_step lib a b \<longleftrightarrow> stopping (ap_main a) \<and> app_step lib a b"

lemma stop_reaches_end:
  assumes "app_reachable lib config a" "config_ok config" "stopping (ap_main a)"
  shows "\<exists>b. (stop_step lib)\<^sup>*\<^sup>* a b \<and> ap_main b = Main_idle \<and> \<not> ap_started b \<and> quiet b"
  using stop_order_wf assms(1,3)
proof (induction "stop_work a" arbitrary: a rule: wf_induct_rule)
  case less
  have ready: "stop_ready lib config a" by (rule stop_ready_reachable [OF less.prems(1)])
  obtain b where b: "app_step lib a b" "(stop_work b, stop_work a) \<in> stop_order"
    using stop_goes_on [OF ready assms(2) less.prems(2)] by blast
  have r: "app_reachable lib config b" using less.prems(1) b(1) by (rule app_reachable.step)
  show ?case
  proof (cases "stopping (ap_main b)")
    case True
    from less.hyps [OF b(2) r True] show ?thesis
      using b(1) less.prems(2) by (meson stop_step_def converse_rtranclp_into_rtranclp)
  next
    case False
    have "\<not> ap_started a" using ready less.prems(2) by (auto simp: stop_ready_def stop_phase_def stopping_def)
    then have "ap_main b = Main_idle \<and> \<not> ap_started b"
      using phase_of_step [OF b(1) less.prems(2)] False less.prems(2) by (auto simp: phase_move_def)
    moreover from this have "quiet b" using phase_reachable [OF r] by (simp add: stop_phase_def)
    moreover have "stop_step lib a b" using b(1) less.prems(2) by (simp add: stop_step_def)
    ultimately show ?thesis by blast
  qed
qed


text \<open>An application with streaming camera and both threads is stopped.\<close>

lemma sample_stop:
  "\<exists>a. app_reachable sample_app_library sample_vision a \<and> ap_main a = Stop_pilot \<and> ap_capture a = Cap_loop"
proof -
  obtain a b where r: "started_app a" "streaming_app a b" using sample_run by blast
  have "app_reachable sample_app_library sample_vision a"
    using r(1) by (auto simp: started_app_def intro: app_reachable.step app_reachable.new)
  then have b: "app_reachable sample_app_library sample_vision b"
    using r(2) by (auto simp: streaming_app_def intro: app_reachable.step)
  have m: "ap_main b = Start_pilot" "ap_capture b = Cap_loop" using r(2) by (simp_all add: streaming_app_def)
  let ?c = "snd (startApplication_pilot sample_app_library (replicate 16 0) 0 b)"
  have c: "app_reachable sample_app_library sample_vision ?c"
    by (rule app_reachable.step [OF b app_step.start_pilot [OF m(1)]]) simp
  have "ap_started b" using phase_reachable [OF b] m(1) by (simp add: stop_phase_def)
  then have d: "ap_main ?c = Main_idle" "ap_started ?c" "ap_capture ?c = Cap_loop"
    using m(2) by (simp_all add: startApplication_pilot_def run_simps on_pilot_def zoomS_def split: prod.split)
  have "app_reachable sample_app_library sample_vision (stopApplication_begin ?c)"
    by (rule app_reachable.step [OF c app_step.stop [OF d(1)]])
  with d show ?thesis by (intro exI [of _ "stopApplication_begin ?c"]) (simp add: stopApplication_begin_def)
qed


end
