(* ===== verification/CommandLine.thy ===== *)
theory CommandLine
  imports AppStop
begin

text \<open>
  The process (\<^verbatim>\<open>src/app/main.cpp\<close>): its arguments and its configuration file, the life of the application
  between start and signal, and the exit. \<open>read_file\<close> is what reading a file gives (\<^const>\<open>None\<close> if it cannot be
  opened); a signal may arrive at any time while the process waits for one.
\<close>

definition newline :: string where "newline = [char_of (10 :: nat)]"

fun exn_what :: "cpp_exn \<Rightarrow> string" where
  "exn_what (Invalid_argument m) = m" | "exn_what (Runtime_error m) = m" | "exn_what (Out_of_range m) = m"
| "exn_what (System_error m) = m" | "exn_what (Recording_not_found m) = m"

definition usage_text :: string where
  "usage_text = ''usage: nodus-vision <config.json>'' @ newline"

text \<open>What the handler of \<^verbatim>\<open>main\<close> prints.\<close>

definition failure_text :: "cpp_exn \<Rightarrow> string" where
  "failure_text e = ''nodus-vision startup failed: '' @ exn_what e @ newline"

text \<open>
  Where \<^verbatim>\<open>main\<close> is: before the call of \<^verbatim>\<open>startApplication\<close>, inside it, waiting for a signal, in the handler of the signal,
  in the destructor of the application with the exit code and the text printed, and at its end. The application is
  gone or was never built where the last component is \<^const>\<open>None\<close>.
\<close>

datatype program =
    Starting Application
  | Launching Application
  | Waiting Application
  | Handling Application
  | Destroying int string Application
  | Exited int string "Application option"

fun application_of :: "program \<Rightarrow> Application option" where
  "application_of (Starting a) = Some a" | "application_of (Launching a) = Some a" | "application_of (Waiting a) = Some a"
| "application_of (Handling a) = Some a" | "application_of (Destroying _ _ a) = Some a" | "application_of (Exited _ _ a) = a"

fun with_application :: "Application \<Rightarrow> program \<Rightarrow> program" where
  "with_application b (Starting _) = Starting b" | "with_application b (Launching _) = Launching b"
| "with_application b (Waiting _) = Waiting b" | "with_application b (Handling _) = Handling b"
| "with_application b (Destroying code text _) = Destroying code text b" | "with_application b (Exited code text a) = Exited code text a"

text \<open>\<^verbatim>\<open>main\<close> up to the call of \<^verbatim>\<open>startApplication\<close>; \<open>argv\<close> includes the name of the program.\<close>

definition main_begin ::
  "(string \<Rightarrow> json option) \<Rightarrow> (string \<Rightarrow> string option) \<Rightarrow> environment \<Rightarrow> string list \<Rightarrow> program"
where
  "main_begin parse read_file env argv =
     (if length argv \<noteq> 2 then Exited 2 usage_text None
      else case read_file (argv ! 1) of
        None \<Rightarrow> Exited 1 (failure_text (Runtime_error ''Cannot open configuration file.'')) None
      | Some text \<Rightarrow> (case parseVisionConfig parse text of
            Inl e \<Rightarrow> Exited 1 (failure_text e) None
          | Inr config \<Rightarrow> Starting (VisionApplication_new config env)))"

text \<open>
  Steps of the other threads: those of \<^const>\<open>app_step\<close> that are not the main thread's. The main thread's steps change where it
  is, but for a start where nothing is started.
\<close>

definition background :: "app_library \<Rightarrow> Application \<Rightarrow> Application \<Rightarrow> bool" where
  "background lib a b \<longleftrightarrow> app_step lib a b \<and> ap_main b = ap_main a \<and> (ap_main a = Main_idle \<longrightarrow> ap_started a)"

text \<open>
  An exception leaves the \<^verbatim>\<open>try\<close> block through the destructor of the application, which calls \<^verbatim>\<open>stopApplication\<close>;
  so does the \<^verbatim>\<open>return 0\<close>. Setting up the signals may throw, too.
\<close>

inductive program_step :: "app_library \<Rightarrow> program \<Rightarrow> program \<Rightarrow> bool" for lib :: app_library where
  start: "startApplication_begin lib pid outcome a = (Inr (), b) \<Longrightarrow> program_step lib (Starting a) (Launching b)"
| start_fails: "startApplication_begin lib pid outcome a = (Inl e, b) \<Longrightarrow>
    program_step lib (Starting a) (Destroying 1 (failure_text e) (stopApplication_begin b))"
| camera: "ap_main a = Start_camera \<Longrightarrow>
    program_step lib (Launching a) (Launching (startApplication_camera devices start_error encoder_ok capture_ok a))"
| launched: "ap_main a = Start_pilot \<Longrightarrow> length random = 16 \<Longrightarrow> startApplication_pilot lib random now a = (Inr (), b) \<Longrightarrow>
    program_step lib (Launching a) (Waiting b)"
| launch_fails: "ap_main a = Start_pilot \<Longrightarrow> length random = 16 \<Longrightarrow> startApplication_pilot lib random now a = (Inl e, b) \<Longrightarrow>
    program_step lib (Launching a) (Destroying 1 (failure_text e) (stopApplication_begin b))"
| signals_fail: "program_step lib (Waiting a) (Destroying 1 (failure_text (System_error message)) (stopApplication_begin a))"
| signal: "program_step lib (Waiting a) (Handling (stopApplication_begin a))"
| handling: "stopping (ap_main a) \<Longrightarrow> app_step lib a b \<Longrightarrow> program_step lib (Handling a) (Handling b)"
| handled: "ap_main a = Main_idle \<Longrightarrow> program_step lib (Handling a) (Destroying 0 [] (stopApplication_begin a))"
| destroying: "stopping (ap_main a) \<Longrightarrow> app_step lib a b \<Longrightarrow> program_step lib (Destroying code text a) (Destroying code text b)"
| exit: "ap_main a = Main_idle \<Longrightarrow> program_step lib (Destroying code text a) (Exited code text (Some a))"
| other_thread: "application_of p = Some a \<Longrightarrow> background lib a b \<Longrightarrow> program_step lib p (with_application b p)"

inductive program_reachable ::
  "app_library \<Rightarrow> (string \<Rightarrow> json option) \<Rightarrow> (string \<Rightarrow> string option) \<Rightarrow> string list \<Rightarrow> program \<Rightarrow> bool"
  for lib :: app_library and parse :: "string \<Rightarrow> json option" and read_file :: "string \<Rightarrow> string option" and argv :: "string list"
where
  first: "program_reachable lib parse read_file argv (main_begin parse read_file env argv)"
| step: "program_reachable lib parse read_file argv p \<Longrightarrow> program_step lib p q \<Longrightarrow> program_reachable lib parse read_file argv q"

section \<open>The application of a process is an application\<close>

text \<open>The application is in a reachable state that fits the place of \<^verbatim>\<open>main\<close>.\<close>

fun placed :: "program \<Rightarrow> bool" where
  "placed (Starting a) \<longleftrightarrow> ap_main a = Main_idle \<and> \<not> ap_started a"
| "placed (Launching a) \<longleftrightarrow> ap_main a = Start_camera \<or> ap_main a = Start_pilot"
| "placed (Waiting a) \<longleftrightarrow> ap_main a = Main_idle"
| "placed (Handling a) \<longleftrightarrow> stopping (ap_main a) \<or> ap_main a = Main_idle \<and> \<not> ap_started a"
| "placed (Destroying code text a) \<longleftrightarrow>
     (stopping (ap_main a) \<or> ap_main a = Main_idle \<and> \<not> ap_started a) \<and> (code = 0 \<and> text = [] \<or> code = 1 \<and> (\<exists>e. text = failure_text e))"
| "placed (Exited code text a) \<longleftrightarrow> (case a of
     None \<Rightarrow> code = 2 \<and> text = usage_text \<or> code = 1 \<and> (\<exists>e. text = failure_text e)
   | Some b \<Rightarrow> ap_main b = Main_idle \<and> \<not> ap_started b \<and> (code = 0 \<and> text = [] \<or> code = 1 \<and> (\<exists>e. text = failure_text e)))"

definition program_inv :: "app_library \<Rightarrow> (string \<Rightarrow> json option) \<Rightarrow> program \<Rightarrow> bool" where
  "program_inv lib parse p \<longleftrightarrow> placed p \<and> pred_option (\<lambda>a. \<exists>text config.
     parseVisionConfig parse text = Inr config \<and> app_reachable lib config a) (application_of p)"

lemma destroyed: "ap_main a = Main_idle \<Longrightarrow> stopping (ap_main (stopApplication_begin a)) \<or>
    ap_main (stopApplication_begin a) = Main_idle \<and> \<not> ap_started (stopApplication_begin a)"
  by (simp add: stopApplication_begin_def stopping_def)

lemma start_main:
  assumes "startApplication_begin lib pid outcome a = (r, b)" "ap_main a = Main_idle" "\<not> ap_started a"
  shows "r = Inr () \<Longrightarrow> ap_main b = Start_camera" and "r = Inl e \<Longrightarrow> ap_main b = Main_idle"
proof -
  have run: "app_prepare lib pid outcome a = (r, b)" using assms(1,3) by (simp add: startApplication_begin_def run_simps)
  show "ap_main b = Start_camera" if "r = Inr ()"
    using run unfolding that app_prepare_def bindS_Inr_iff by (elim exE conjE) (auto simp: modS_def)
  let ?P = "\<lambda>a. ap_main a = Main_idle"
  have k: "keeps ?P (make_recording pid)" "keeps ?P (on_server m)" for m
    by (rule keepsI, simp add: make_recording_def on_server_def zoomS_def run_simps split: sum.split prod.split)+
  have "fails_with ?P (app_prepare lib pid outcome)"
    unfolding app_prepare_def
    by (intro fails_with_bindS keeps_lift keeps_modS k) (simp_all add: fails_with_def modS_def)
  then show "ap_main b = Main_idle" if "r = Inl e" using run assms(2) that unfolding fails_with_def by blast
qed

lemma pilot_main: "startApplication_pilot lib random now a = (r, b) \<Longrightarrow> ap_main b = Main_idle"
  by (auto simp: startApplication_pilot_def run_simps on_pilot_def zoomS_def split: prod.splits)

text \<open>Each step of \<^verbatim>\<open>main\<close> is one of the application, or none.\<close>

lemma program_app_step:
  assumes "program_step lib p q" "placed p" "application_of p = Some a" "application_of q = Some b"
  shows "\<exists>c. (c = a \<or> app_step lib a c) \<and> (b = c \<or> app_step lib c b)"
  using assms
proof (induction rule: program_step.induct)
  case (start pid outcome a' b')
  then show ?case using app_step.start [of a' lib pid outcome] by auto
next
  case (start_fails pid outcome a' e b')
  then have "ap_main b' = Main_idle" using start_main by auto
  then show ?case using app_step.start [of a' lib pid outcome] app_step.stop [of b' lib] start_fails by auto
next
  case (camera a' devices start_error encoder_ok capture_ok)
  then show ?case using app_step.start_camera [of a' lib] by auto
next
  case (launched a' random now b')
  then show ?case using app_step.start_pilot [of a' random lib now] by auto
next
  case (launch_fails a' random now e b')
  then show ?case using app_step.start_pilot [of a' random lib now] app_step.stop [of b' lib] pilot_main by auto
next
  case (other_thread p a' b')
  then show ?case by (cases p) (auto simp: background_def)
qed (auto intro: app_step.stop)

lemma placed_step:
  assumes "program_step lib p q" "placed p"
    and ended: "\<And>a b. application_of p = Some a \<Longrightarrow> stopping (ap_main a) \<Longrightarrow> app_step lib a b \<Longrightarrow>
      stopping (ap_main b) \<or> ap_main b = Main_idle \<and> \<not> ap_started b"
  shows "placed q"
  using assms
proof (induction rule: program_step.induct)
  case (start pid outcome a b)
  then show ?case using start_main(1) by auto
next
  case (start_fails pid outcome a e b)
  then show ?case using start_main(2) destroyed [of b] by auto
next
  case (launch_fails a random now e b)
  then show ?case using pilot_main destroyed [of b] by auto
next
  case (launched a random now b)
  then show ?case using pilot_main by auto
next
  case (signals_fail a message)
  then show ?case using destroyed [of a] by auto
next
  case (other_thread p a b)
  then show ?case by (cases p) (auto simp: background_def stopping_def)
qed (auto simp: startApplication_camera_def stopApplication_begin_def stopping_def)

lemma program_inv_step:
  assumes step: "program_step lib p q" and inv: "program_inv lib parse p"
  shows "program_inv lib parse q"
proof -
  have r: "\<exists>text config. parseVisionConfig parse text = Inr config \<and> app_reachable lib config a" if "application_of p = Some a" for a
    using inv that by (simp add: program_inv_def)
  have "stopping (ap_main b) \<or> ap_main b = Main_idle \<and> \<not> ap_started b"
    if a: "application_of p = Some a" "stopping (ap_main a)" "app_step lib a b" for a b
  proof -
    have "\<not> ap_started a" using r [OF a(1)] a(2) phase_reachable by (fastforce simp: stop_phase_def stopping_def)
    then show ?thesis using phase_of_step [OF a(3,2)] a(2) by (auto simp: phase_move_def)
  qed
  then have "placed q" using placed_step [OF step] inv by (simp add: program_inv_def)
  moreover have "\<exists>text config. parseVisionConfig parse text = Inr config \<and> app_reachable lib config b"
    if b: "application_of q = Some b" for b
  proof -
    obtain a where a: "application_of p = Some a" using step by (cases rule: program_step.cases) auto
    from r [OF this] obtain s config where c: "parseVisionConfig parse s = Inr config" "app_reachable lib config a" by blast
    have "placed p" using inv by (simp add: program_inv_def)
    from program_app_step [OF step this a b] obtain x where x: "x = a \<or> app_step lib a x" "b = x \<or> app_step lib x b" by blast
    have "app_reachable lib config x" using x(1) c(2) app_reachable.step by blast
    then have "app_reachable lib config b" using x(2) app_reachable.step by blast
    with c(1) show ?thesis by blast
  qed
  ultimately show ?thesis by (cases "application_of q") (simp_all add: program_inv_def)
qed

lemma program_inv_reachable: "program_reachable lib parse read_file argv p \<Longrightarrow> program_inv lib parse p"
proof (induction rule: program_reachable.induct)
  case (first env)
  have "app_reachable lib config (VisionApplication_new config env)" for config by (rule app_reachable.new)
  then show ?case
    by (auto simp: program_inv_def main_begin_def VisionApplication_new_def split: option.split sum.split)
next
  case (step p q)
  then show ?case using program_inv_step by blast
qed

section \<open>Exit\<close>

text \<open>
  C10: the process ends with 0 and prints nothing, with 1 after printing the message of an exception, or with 2 after printing its
  usage, and however it ends, its application has stopped: no thread, no session and no pending accept is left, nothing is held.
\<close>

theorem process_exits_quiet:
  assumes "program_reachable lib parse read_file argv (Exited code text app)"
  shows "(code = 0 \<and> text = [] \<and> app \<noteq> None \<or> code = 1 \<and> (\<exists>e. text = failure_text e) \<or>
      code = 2 \<and> text = usage_text \<and> app = None) \<and>
    pred_option (\<lambda>a. quiet a \<and> \<not> ap_started a) app"
proof -
  have inv: "program_inv lib parse (Exited code text app)" by (rule program_inv_reachable [OF assms])
  show ?thesis
  proof (cases app)
    case None
    with inv show ?thesis by (auto simp: program_inv_def)
  next
    case (Some a)
    with inv have a: "ap_main a = Main_idle" "\<not> ap_started a" and r: "\<exists>config. app_reachable lib config a"
      by (auto simp: program_inv_def)
    then have "quiet a" using phase_reachable by (fastforce simp: stop_phase_def)
    with Some inv a(2) show ?thesis by (auto simp: program_inv_def)
  qed
qed

text \<open>The exit code and the text that the place of \<^verbatim>\<open>main\<close> has settled.\<close>

fun settled_exit :: "program \<Rightarrow> (int \<times> string) option" where
  "settled_exit (Waiting _) = Some (0, [])" | "settled_exit (Handling _) = Some (0, [])"
| "settled_exit (Destroying code text _) = Some (code, text)" | "settled_exit _ = None"

lemma run_stop:
  assumes "(stop_step lib)\<^sup>*\<^sup>* a b"
  shows "(program_step lib)\<^sup>*\<^sup>* (Handling a) (Handling b)" and
    "(program_step lib)\<^sup>*\<^sup>* (Destroying code text a) (Destroying code text b)"
  using assms
  by (induction rule: rtranclp_induct)
     (auto simp: stop_step_def intro: rtranclp.rtrancl_into_rtrancl program_step.handling program_step.destroying)

lemma stop_completes:
  assumes "app_reachable lib config a" "config_ok config" "stopping (ap_main a) \<or> ap_main a = Main_idle \<and> \<not> ap_started a"
  shows "\<exists>b. (stop_step lib)\<^sup>*\<^sup>* a b \<and> ap_main b = Main_idle \<and> \<not> ap_started b \<and> quiet b"
proof (cases "stopping (ap_main a)")
  case True
  then show ?thesis using stop_reaches_end assms(1,2) by blast
next
  case False
  then show ?thesis using assms(3) phase_reachable [OF assms(1)] by (intro exI [of _ a]) (simp add: stop_phase_def)
qed

lemma handling_exits:
  assumes "app_reachable lib config a" "config_ok config" "placed (Handling a)"
  shows "\<exists>b. (program_step lib)\<^sup>*\<^sup>* (Handling a) (Exited 0 [] (Some b)) \<and> quiet b"
proof -
  obtain b where b: "(stop_step lib)\<^sup>*\<^sup>* a b" "ap_main b = Main_idle" "\<not> ap_started b" "quiet b"
    using stop_completes [OF assms(1,2)] assms(3) by auto
  have "stopApplication_begin b = b" using b(3) by (simp add: stopApplication_begin_def)
  then have "program_step lib (Handling b) (Destroying 0 [] b)" "program_step lib (Destroying 0 [] b) (Exited 0 [] (Some b))"
    using program_step.handled [OF b(2)] program_step.exit [OF b(2)] by simp_all
  then show ?thesis using run_stop(1) [OF b(1)] b(4) by (meson rtranclp.rtrancl_into_rtrancl)
qed

lemma destroying_exits:
  assumes "app_reachable lib config a" "config_ok config" "placed (Destroying code text a)"
  shows "\<exists>b. (program_step lib)\<^sup>*\<^sup>* (Destroying code text a) (Exited code text (Some b)) \<and> quiet b"
proof -
  obtain b where b: "(stop_step lib)\<^sup>*\<^sup>* a b" "ap_main b = Main_idle" "quiet b"
    using stop_completes [OF assms(1,2)] assms(3) by auto
  then show ?thesis using run_stop(2) [OF b(1)] program_step.exit [OF b(2)] by (meson rtranclp.rtrancl_into_rtrancl)
qed


section \<open>A process\<close>

abbreviation sample_parse :: "string \<Rightarrow> json option" where
  "sample_parse \<equiv> \<lambda>_. Some (sample_document sample_fake_device)"

abbreviation sample_process :: "program \<Rightarrow> bool" where
  "sample_process p \<equiv> program_reachable sample_app_library sample_parse (\<lambda>_. Some []) [''nodus-vision'', ''config.json''] p"

lemma sample_begins: "sample_process (Starting (VisionApplication_new sample_vision sample_environment))"
proof -
  have "main_begin sample_parse (\<lambda>_. Some []) sample_environment [''nodus-vision'', ''config.json''] =
      Starting (VisionApplication_new sample_vision sample_environment)"
    by (simp add: main_begin_def sample_vision(1))
  then show ?thesis using program_reachable.first [of sample_app_library sample_parse "\<lambda>_. Some []"] by metis
qed

lemma sample_mount:
  "buildCameraMountTransform (pb_cosine (al_pilot sample_app_library)) (pb_sine (al_pilot sample_app_library))
     (vc_calibration sample_vision) = Inr \<lparr>ct_calibration_id = ''c1'', ct_sensor_frame = ''cam'',
       ct_mount_frame = ''base'', ct_matrix4x4 = forward_matrix\<rparr>"
  using sample_transform by (simp add: sample_vision(4) sample_app_library_def)

lemma sample_client_starts:
  "fst (startClient (al_pilot sample_app_library) st None (replicate 16 0) now (PilotIntegrationClient_new sample_vision)) = Inr ()"
proof (cases "pl_enabled (vc_pilot sample_vision)")
  case True
  obtain cat where c: "buildCatalog (pb_cosine (al_pilot sample_app_library)) (pb_sine (al_pilot sample_app_library)) sample_vision = Inr cat"
    using buildCatalog_ok [OF sample_mount] ..
  show ?thesis
    using startClient_ok [of "PilotIntegrationClient_new sample_vision" "replicate 16 0" "al_pilot sample_app_library" cat st now]
      True sample_vision(2) c by (auto simp: PilotIntegrationClient_new_def)
next
  case False
  then show ?thesis by (simp add: startClient_def PilotIntegrationClient_new_def act_simps)
qed

lemma sample_process_waits: "\<exists>a. sample_process (Waiting a)"
proof -
  let ?new = "VisionApplication_new sample_vision sample_environment"
  have n: "ap_config ?new = sample_vision" "\<not> ap_started ?new" by (simp_all add: VisionApplication_new_def)
  obtain a where a: "startApplication_begin sample_app_library 1 listening ?new = (Inr (), a)" "ap_main a = Start_camera"
      "ap_config a = sample_vision"
    using prepare_run [of ?new sample_app_library _ 1 listening] n sample_vision(2) sample_mount by (auto simp: sample_listens)
  have 1: "sample_process (Launching a)" by (rule program_reachable.step [OF sample_begins program_step.start [OF a(1)]])
  let ?b = "startApplication_camera [] None True True a"
  have 2: "sample_process (Launching ?b)" by (rule program_reachable.step [OF 1 program_step.camera [OF a(2)]])
  let ?P = "\<lambda>a. ap_config a = sample_vision"
  have z: "keeps ?P (on_adapter m)" for m by (rule keepsI) (simp add: on_adapter_def zoomS_def split: prod.split)
  have "keeps ?P (catchS (start_streaming [] None True True) (\<lambda>_. modS (\<lambda>a. a\<lparr>ap_health := (ap_health a)\<lparr>ph_state := PS_DEGRADED,
      ph_last_error := ''Camera adapter connection or stream start failed.''\<rparr>\<rparr>)))"
    unfolding start_streaming_def by (intro keeps_bindS keeps_catchS keeps_basic keeps_modS z) simp_all
  then have b: "ap_config ?b = sample_vision" "ap_main ?b = Start_pilot" using a(3) by (simp_all add: startApplication_camera_def keeps_def)
  obtain t where "startClient (al_pilot sample_app_library) (ph_state (ap_health ?b)) None (replicate 16 0) 0
      (PilotIntegrationClient_new sample_vision) = (Inr (), t)"
    using sample_client_starts [of "ph_state (ap_health ?b)" 0] by (metis prod.collapse)
  then obtain c where "startApplication_pilot sample_app_library (replicate 16 0) 0 ?b = (Inr (), c)"
    using b by (simp add: startApplication_pilot_def run_simps on_pilot_def zoomS_def)
  from program_reachable.step [OF 2 program_step.launched [OF b(2) _ this]] show ?thesis by auto
qed


text \<open>The same process after its signal.\<close>

lemma process_run: "(program_step lib)\<^sup>*\<^sup>* p q \<Longrightarrow> program_reachable lib parse read_file argv p \<Longrightarrow>
    program_reachable lib parse read_file argv q"
  by (induction rule: rtranclp_induct) (auto intro: program_reachable.step)

lemma sample_exits: "\<exists>b. sample_process (Exited 0 [] (Some b))"
proof -
  obtain a where "sample_process (Waiting a)" using sample_process_waits by blast
  then have h: "sample_process (Handling (stopApplication_begin a))"
    by (rule program_reachable.step) (rule program_step.signal)
  from program_inv_reachable [OF h] obtain s config where c: "parseVisionConfig sample_parse s = Inr config"
      "app_reachable sample_app_library config (stopApplication_begin a)" "placed (Handling (stopApplication_begin a))"
    by (auto simp: program_inv_def)
  have "config_ok config" using post_parseVisionConfig c(1) by (rule postED)
  from handling_exits [OF c(2) this c(3)] process_run [OF _ h] show ?thesis by blast
qed

lemma process_exits_quiet_witness: "\<exists>a. sample_process (Exited 0 [] (Some a)) \<and> quiet a \<and> \<not> ph_listening (ap_health a)"
proof -
  obtain a where a: "sample_process (Exited 0 [] (Some a))" using sample_exits by blast
  from process_exits_quiet [OF a] a show ?thesis by (auto simp: quiet_def)
qed

end
