(* ===== verification/Spec2Isabelle.thy ===== *)
theory Spec2Isabelle
  imports FrameStore PcdFormat RecordingProps FakeCameraProps IntelD435 VisionConfigProps PilotClientRuns AppServing AppQueries
    CommandLine
begin

text \<open>
  Verification of nodus-vision: a camera server that captures RGBD frames, serves them over HTTP, records the
  colour stream to disk and keeps itself registered with a supervising service, the Pilot.

  \<^bold>\<open>The program.\<close> \<^verbatim>\<open>main\<close> (\<^verbatim>\<open>app/main.cpp\<close>) reads the configuration file, starts the application and stops it on a signal.
  \<^verbatim>\<open>VisionApplication\<close> (\<^verbatim>\<open>src/runtime\<close>) is built from an accepted
  configuration (\<^verbatim>\<open>src/config\<close>) and owns a camera adapter (\<^verbatim>\<open>src/adapters\<close>), the latest-frame store
  (\<^verbatim>\<open>src/core\<close>), the cache of encoded previews and the HTTP server (\<^verbatim>\<open>src/provider/http\<close>), the recording manager
  (\<^verbatim>\<open>src/recording\<close>) and the Pilot client (\<^verbatim>\<open>src/pilot\<close>). The capture thread publishes frames to the store and offers
  them to the recording; the encoder thread turns the newest frame into previews and wakes the streams; the
  routes of the server read the store, the cache and the recording; the Pilot client publishes the routes'
  endpoints; \<^verbatim>\<open>src/geometry\<close> gives every response the transform from the camera to its mount.

  \<^bold>\<open>How the code is modelled.\<close>
  \<^item> A struct or class is a record of its members, an enum a datatype, an \<^verbatim>\<open>int\<close> or \<^verbatim>\<open>std::int64_t\<close> an \<open>int\<close>
    with the range predicates \<open>int32_ok\<close> and \<open>int64_ok\<close>, an unsigned type a word, a \<^verbatim>\<open>float\<close> or
    \<^verbatim>\<open>double\<close> its bit pattern with the executable IEEE-754 arithmetic of \<^verbatim>\<open>Ieee\<close>, a clock reading an argument.
  \<^item> A function that may throw returns \<open>cpp_exn + 'a\<close> (\<^verbatim>\<open>Prelude\<close>); one that also changes an object is an
    action that returns the outcome and the state left behind, also by a throw (\<^verbatim>\<open>Effects\<close>).
    \<^verbatim>\<open>ResultLogic\<close> holds postconditions of such functions.
  \<^item> A thread is a program counter from one blocking call or unlocked access to the next; a body that holds a
    mutex, or a handler of a single-threaded \<^verbatim>\<open>io_context\<close>, is one step. The step relations interleave them in every order.
    A call that does not return is the value \<^const>\<open>None\<close>, and a handler that makes it is not enabled. The other handlers
    of that \<^verbatim>\<open>io_context\<close> then still are, which only adds behaviours to the properties about all of them. Nothing is bounded by fuel: the loops of the code are
    structural recursions, recursions with a measure, or steps of a relation.
  \<^item> Code outside the repository is a parameter: the JSON text layer, SHA-256, FFmpeg, libjpeg, librealsense, the
    sine and cosine, the sort, the network. What it answers is an argument of the step that asks; where a property needs
    something of it, that is a hypothesis of the property.

  \<^bold>\<open>Theories and code.\<close>
  \<^item> \<^verbatim>\<open>Contracts\<close>: \<^verbatim>\<open>camera_contracts\<close>, \<^verbatim>\<open>provider_health\<close>, the captured frame; the order of frame identities.
  \<^item> \<^verbatim>\<open>FrameStore\<close>: \<^verbatim>\<open>frame_store.cpp\<close>, \<^verbatim>\<open>encoded_preview_cache.cpp\<close>; both are instances of the locale
    \<open>latest_slot\<close>. However publications interleave, the newest frame wins.
  \<^item> \<^verbatim>\<open>ByteCodec\<close>, \<^verbatim>\<open>Pcd1\<close>, \<^verbatim>\<open>PcdFormat\<close>: \<^verbatim>\<open>pcd1.cpp\<close>. Writer and reader are inverse to each other, the reader
    is total; its primitives are instances of \<open>byte_codec\<close>.
  \<^item> \<^verbatim>\<open>CameraAdapter\<close> with \<^verbatim>\<open>FakeCamera\<close>, \<^verbatim>\<open>FakeCameraFacts\<close>, \<^verbatim>\<open>FakeCameraProps\<close> and \<^verbatim>\<open>IntelD435\<close>: the two
    adapters and the queries of their frames. Both are instances of \<open>identity_source\<close>, so the store accepts every frame.
  \<^item> \<^verbatim>\<open>FileSystem\<close>, \<^verbatim>\<open>RecordingContracts\<close>, \<^verbatim>\<open>RecordingStore\<close>, \<^verbatim>\<open>RecordingStoreFacts\<close>, \<^verbatim>\<open>RecordingManifest\<close>,
    \<^verbatim>\<open>ColorVideoWriter\<close>, \<^verbatim>\<open>RingQueue\<close>, \<^verbatim>\<open>RecordingManager\<close>, \<^verbatim>\<open>RecordingFacts\<close>, \<^verbatim>\<open>RecordingRuns\<close>,
    \<^verbatim>\<open>RecordingProps\<close>, \<^verbatim>\<open>RecordingLifecycle\<close>: the files of \<^verbatim>\<open>src/recording\<close> of the same names. The queue is an instance of
    \<open>bounded_fifo\<close>. A finalized recording is complete and in order, files are confined and activated at once, requests may be repeated,
    and a failed stop has the two defects listed as findings. The manager refines an abstract lifecycle, and its worker
    terminates once it is told to stop: the measure is three steps for each queued frame and at most four more.
  \<^item> \<^verbatim>\<open>Json\<close>, \<^verbatim>\<open>VisionConfig\<close>, \<^verbatim>\<open>VisionConfigFacts\<close>, \<^verbatim>\<open>VisionConfigProps\<close>: \<^verbatim>\<open>vision_config.cpp\<close>. What an
    accepted document guarantees, which exceptions a refused one raises.
  \<^item> \<^verbatim>\<open>Geometry\<close>, \<^verbatim>\<open>GeometryFacts\<close>: \<^verbatim>\<open>camera_mount_transform.cpp\<close>.
  \<^item> \<^verbatim>\<open>PilotCodec\<close>, \<^verbatim>\<open>PilotCodecFacts\<close>, \<^verbatim>\<open>VisionCatalog\<close>, \<^verbatim>\<open>PilotTransport\<close>, \<^verbatim>\<open>PilotClient\<close>,
    \<^verbatim>\<open>PilotClientFacts\<close>, \<^verbatim>\<open>PilotClientProps\<close>, \<^verbatim>\<open>PilotClientRuns\<close>: the files of \<^verbatim>\<open>src/pilot\<close>. A request completes
    once; a configured client starts, never crashes, numbers its writes without a gap, and ends after a stop.
  \<^item> \<^verbatim>\<open>QuerySerializer\<close>: \<^verbatim>\<open>query_serializer.cpp\<close> and \<^verbatim>\<open>jpeg_encoder.cpp\<close>.
  \<^item> \<^verbatim>\<open>HttpServer\<close> (requests, routing, fields), \<^verbatim>\<open>HttpSessions\<close> (sessions, listener, steps), \<^verbatim>\<open>HttpFacts\<close> (the
    invariant), \<^verbatim>\<open>HttpProps\<close> (its consequences): \<^verbatim>\<open>provider_http_server.cpp\<close>. What the server needs of its owner's
    routes is the locale \<open>served_routes\<close>, and \<open>calm_streams\<close> for stream callbacks that do not throw.
  \<^item> \<^verbatim>\<open>AppRequests\<close> (parsing and JSON bodies), \<^verbatim>\<open>Application\<close> (state and routes), \<^verbatim>\<open>AppThreads\<close> (start, stop,
    threads, steps): \<^verbatim>\<open>vision_application.cpp\<close>. \<^verbatim>\<open>AppFacts\<close> instantiates \<open>calm_streams\<close> with the application's
    routes and shows that every component of a reachable application is in a reachable state of its own model;
    \<^verbatim>\<open>AppRuns\<close> is a concrete run; \<^verbatim>\<open>AppProps\<close>, \<^verbatim>\<open>AppLifecycle\<close>, \<^verbatim>\<open>AppServing\<close> and \<^verbatim>\<open>AppQueries\<close>
    hold the properties of the whole: requests do not change it but for recording, previews show captured frames, a
    configured application starts, a stopped one is quiet, what is published is served, a point-cloud response decodes,
    recording requests may be repeated. \<^verbatim>\<open>AppStop\<close>: a stop terminates; its phases and what each waits for
    decrease in a well-founded order.
  \<^item> \<^verbatim>\<open>CommandLine\<close>: \<^verbatim>\<open>app/main.cpp\<close>. However the process ends, its exit code and text fit and its application
    has stopped; a signal ends it.

  \<^bold>\<open>Not modelled.\<close> Destructors that only free memory or call a modelled stop operation again (those of the application
  and of the video writer are modelled), the exhaustion of memory, a signal before the process waits for one, and the sleeps of the capture
  loop. The end of
  a wait with a time limit is a step that may happen at any time, so no property bounds a real duration, except where the code
  compares clock readings itself. Beast's parsing of a request and its framing fields belong to the library.
\<close>

end
